(* ===== verification/Prelude.thy ===== *)
theory Prelude
  imports Complex_Main "HOL-Library.AList"
begin

text \<open>
  Shared vocabulary of the development: the parts of the Go language and of its standard
  library that the modelled code uses (ASCII case mapping and folding of
  \<^verbatim>\<open>strings\<close>, \<^verbatim>\<open>strings.TrimSpace\<close>, the decimal conversions of
  \<^verbatim>\<open>strconv\<close>, big-endian integers), the errors of the database driver, association
  lists as Go maps and as tables keyed by a primary key, and the generic lemmas the component
  theories share.

  Go strings are byte strings; a \<^typ>\<open>string\<close> is a list of bytes. Case mapping is modelled
  on ASCII letters, bytes outside them are left alone: every string the code folds is an
  address, a comet address, a handle or a fixed keyword.
\<close>

named_theorems store_defs
  \<open>definitions of the operations of the authorization stores\<close>

named_theorems project_defs
  \<open>definitions of the authorization projection\<close>

named_theorems lookup_simps
  \<open>what a lookup returns after an update, for every table of the model\<close>

section \<open>Go strings\<close>

definition lower_char :: "char \<Rightarrow> char" where
  "lower_char c = (let n = (of_char c :: int) in
     if 65 \<le> n \<and> n \<le> 90 then char_of (n + 32) else c)"

definition ToLower :: "string \<Rightarrow> string" where
  "ToLower s = map lower_char s"

definition EqualFold :: "string \<Rightarrow> string \<Rightarrow> bool" where
  "EqualFold s t \<longleftrightarrow> ToLower s = ToLower t"

definition is_space :: "char \<Rightarrow> bool" where
  "is_space c \<longleftrightarrow> (of_char c :: int) \<in> {9, 10, 11, 12, 13, 32}"

definition TrimSpace :: "string \<Rightarrow> string" where
  "TrimSpace s = rev (dropWhile is_space (rev (dropWhile is_space s)))"

fun HasSuffix :: "string \<Rightarrow> string \<Rightarrow> bool" where
  "HasSuffix s suf = (length suf \<le> length s \<and> drop (length s - length suf) s = suf)"

text \<open>\<^verbatim>\<open>strconv.ParseInt(s, 10, 64)\<close>, \<^const>\<open>None\<close> for an error.\<close>

definition is_digit :: "char \<Rightarrow> bool" where
  "is_digit c \<longleftrightarrow> 48 \<le> (of_char c :: int) \<and> (of_char c :: int) \<le> 57"

definition decimal :: "string \<Rightarrow> int" where
  "decimal ds = foldl (\<lambda>n c. 10 * n + (of_char c - 48)) 0 ds"

definition ParseInt64 :: "string \<Rightarrow> int option" where
  "ParseInt64 s =
     (let neg = (s \<noteq> [] \<and> hd s = CHR ''-'');
          ds = (if s \<noteq> [] \<and> (hd s = CHR ''-'' \<or> hd s = CHR ''+'') then tl s else s);
          n = decimal ds
      in if ds = [] \<or> \<not> list_all is_digit ds then None
         else if neg then (if n \<le> 2 ^ 63 then Some (- n) else None)
         else (if n < 2 ^ 63 then Some n else None))"

text \<open>\<^verbatim>\<open>strconv.FormatInt(i, 10)\<close>.\<close>

fun dec_digits :: "int \<Rightarrow> string \<Rightarrow> string" where
  "dec_digits n acc = (if n < 10 then char_of (48 + n) # acc
     else dec_digits (n div 10) (char_of (48 + n mod 10) # acc))"

declare dec_digits.simps [simp del]

definition FormatInt :: "int \<Rightarrow> string" where
  "FormatInt i = (if i < 0 then CHR ''-'' # dec_digits (- i) [] else dec_digits i [])"

text \<open>\<^verbatim>\<open>binary.BigEndian.PutUint64\<close> of an int64: its 64 bits, most significant byte first.\<close>

definition be_uint64 :: "int \<Rightarrow> string" where
  "be_uint64 x = map (\<lambda>i. char_of ((x mod 2 ^ 64) div 256 ^ i mod 256)) [7, 6, 5, 4, 3, 2, 1, 0]"

lemma length_be_uint64 [simp]: "length (be_uint64 x) = 8"
  by (simp add: be_uint64_def)

lemma lower_char_idem [simp]: "lower_char (lower_char c) = lower_char c"
proof (cases "65 \<le> (of_char c :: int) \<and> (of_char c :: int) \<le> 90")
  case True
  then have "(of_char (char_of (of_char c + 32 :: int)) :: int) = of_char c + 32"
    by (simp add: of_char_of)
  with True show ?thesis by (simp add: lower_char_def Let_def)
next
  case False
  then have "lower_char c = c" by (auto simp: lower_char_def Let_def)
  then show ?thesis by simp
qed

lemma ToLower_idem [simp]: "ToLower (ToLower s) = ToLower s"
  by (simp add: ToLower_def)

lemma ToLower_Nil [simp]: "ToLower [] = []"
  by (simp add: ToLower_def)

lemma ToLower_eq_Nil [simp]: "ToLower s = [] \<longleftrightarrow> s = []" "[] = ToLower s \<longleftrightarrow> s = []"
  by (auto simp: ToLower_def)

lemma EqualFold_refl [simp]: "EqualFold s s"
  by (simp add: EqualFold_def)

lemma EqualFold_sym: "EqualFold s t \<longleftrightarrow> EqualFold t s"
  by (auto simp: EqualFold_def)

lemma EqualFold_trans: "EqualFold s t \<Longrightarrow> EqualFold t u \<Longrightarrow> EqualFold s u"
  by (auto simp: EqualFold_def)

lemma EqualFold_ToLower [simp]: "EqualFold (ToLower s) t = EqualFold s t"
  "EqualFold s (ToLower t) = EqualFold s t"
  by (simp_all add: EqualFold_def)

section \<open>Database errors\<close>

text \<open>A failed statement, and \<^verbatim>\<open>pgx.ErrNoRows\<close> for a query that finds no row.\<close>

datatype pg_error = PgError nat

text \<open>The error of an insert that breaks a primary key or unique constraint.\<close>

definition unique_violation :: pg_error where "unique_violation = PgError 23505"

datatype query_error = ErrNoRows | QueryFailed pg_error

section \<open>Tables and Go maps as association lists\<close>

text \<open>
  A Go map and a table with a primary key are association lists read by \<^const>\<open>map_of\<close> and
  written by \<^const>\<open>AList.update\<close>: an entry per key. A range over a Go map visits the
  entries in an unspecified order, so nothing below depends on the order of the list.
\<close>

type_synonym ('k, 'v) table = "('k \<times> 'v) list"

text \<open>\<^verbatim>\<open>insert ... on conflict do nothing\<close>.\<close>

definition insert_new :: "'k \<Rightarrow> 'v \<Rightarrow> ('k, 'v) table \<Rightarrow> ('k, 'v) table" where
  "insert_new k v t = (case map_of t k of None \<Rightarrow> AList.update k v t | Some _ \<Rightarrow> t)"

text \<open>\<^verbatim>\<open>update ... where key\<close>: no effect on an absent key.\<close>

definition update_existing :: "'k \<Rightarrow> ('v \<Rightarrow> 'v) \<Rightarrow> ('k, 'v) table \<Rightarrow> ('k, 'v) table" where
  "update_existing k f t = (case map_of t k of None \<Rightarrow> t | Some v \<Rightarrow> AList.update k (f v) t)"

lemma map_of_table_update [simp, lookup_simps]:
  "map_of (AList.update k v t) = (map_of t)(k \<mapsto> v)"
  by (simp add: update_conv fun_eq_iff)

lemma map_of_insert_new [lookup_simps]:
  "map_of (insert_new k v t) = (if map_of t k = None then (map_of t)(k \<mapsto> v) else map_of t)"
  by (auto simp: insert_new_def split: option.splits)

lemma map_of_update_existing [lookup_simps]:
  "map_of (update_existing k f t) = (map_of t)(k := map_option f (map_of t k))"
  by (auto simp: update_existing_def fun_eq_iff split: option.splits)

definition keyed :: "('k, 'v) table \<Rightarrow> bool" where
  "keyed t \<longleftrightarrow> distinct (map fst t)"

lemma keyed_Nil [simp]: "keyed []"
  by (simp add: keyed_def)

lemma keyed_update [simp, intro]: "keyed t \<Longrightarrow> keyed (AList.update k v t)"
  by (simp add: keyed_def distinct_update)

lemma keyed_insert_new [simp, intro]: "keyed t \<Longrightarrow> keyed (insert_new k v t)"
  by (auto simp: insert_new_def split: option.splits)

lemma keyed_update_existing [simp, intro]: "keyed t \<Longrightarrow> keyed (update_existing k f t)"
  by (auto simp: update_existing_def split: option.splits)

lemma keyed_lookup: "keyed t \<Longrightarrow> (k, v) \<in> set t \<longleftrightarrow> map_of t k = Some v"
  by (auto simp: keyed_def map_of_eq_Some_iff)

lemma keyed_ex: "keyed t \<Longrightarrow> (\<exists>e\<in>set t. P (fst e) (snd e)) \<longleftrightarrow> (\<exists>k v. map_of t k = Some v \<and> P k v)"
  by (force simp: keyed_lookup [symmetric])

lemma ex_first_key: "(\<exists>e\<in>set t. fst (fst e) = a) \<longleftrightarrow> (\<exists>b. (a, b) \<in> dom (map_of t))"
  by (force simp: dom_map_of_conv_image_fst image_iff)

section \<open>Steps that may fail\<close>

definition and_then :: "'e + 'a \<Rightarrow> ('a \<Rightarrow> 'e + 'b) \<Rightarrow> 'e + 'b" where
  "and_then r f = (case r of Inl e \<Rightarrow> Inl e | Inr x \<Rightarrow> f x)"

fun for_each :: "('a \<Rightarrow> 's \<Rightarrow> 'e + 's) \<Rightarrow> 'a list \<Rightarrow> 's \<Rightarrow> 'e + 's" where
  "for_each f [] s = Inr s"
| "for_each f (x # xs) s = and_then (f x s) (for_each f xs)"

definition of_option :: "'e \<Rightarrow> 'a option \<Rightarrow> 'e + 'a" where
  "of_option e x = (case x of None \<Rightarrow> Inl e | Some y \<Rightarrow> Inr y)"

lemma and_then_Inr: "and_then r f = Inr y \<longleftrightarrow> (\<exists>x. r = Inr x \<and> f x = Inr y)"
  by (auto simp: and_then_def split: sum.split)

lemma of_option_Inr: "of_option e x = Inr y \<longleftrightarrow> x = Some y"
  by (auto simp: of_option_def split: option.split)

lemma for_each_induct:
  assumes "for_each f xs s = Inr s'" "P [] s"
    and "\<And>x dn t t'. P dn t \<Longrightarrow> f x t = Inr t' \<Longrightarrow> P (dn @ [x]) t'"
  shows "P xs s'"
proof -
  have "for_each f ys t = Inr s' \<Longrightarrow> P dn t \<Longrightarrow> P (dn @ ys) s'" for dn ys t
  proof (induction ys arbitrary: dn t)
    case (Cons y ys)
    then obtain t' where "f y t = Inr t'" "for_each f ys t' = Inr s'" by (auto simp: and_then_Inr)
    with Cons.IH [of t' "dn @ [y]"] assms(3) [OF Cons.prems(2)] show ?case by simp
  qed simp
  from this [OF assms(1,2)] show ?thesis by simp
qed

end
