(* ===== verification/Auth_Queries.thy ===== *)
theory Auth_Queries
  imports Prelude
begin

text \<open>
  The \<^verbatim>\<open>core_auth_*\<close> tables and the queries over them that sqlc generates into
  \<^verbatim>\<open>pkg/core/db/reads.sql.go\<close> and \<^verbatim>\<open>pkg/core/db/writes.sql.go\<close>. A table with a
  primary key is an association list, a nullable column an option. Which statements the
  Postgres server fails is a parameter of the model, the field \<open>pg_fault\<close>: a failing
  statement returns its error and leaves the tables alone. A query that returns no row
  returns \<^verbatim>\<open>pgx.ErrNoRows\<close>.
\<close>

section \<open>Tables\<close>

datatype auth_stmt =
    S_GetAuthUser int
  | S_GetAuthUserIDByWallet string
  | S_AuthWalletExists string
  | S_AuthActiveWalletExists string
  | S_AuthHandleExists string
  | S_GetAuthGrant string int
  | S_GetAuthDeveloperApp string
  | S_GetAuthEntity string int
  | S_IsCidClaimedByUser string int
  | S_CidIsClaimed string
  | S_InsertAuthCid string int
  | S_InsertAuthUser int
  | S_SetAuthUserHandle int
  | S_SetAuthUserDeactivated int
  | S_UpsertAuthGrant string int
  | S_UpsertAuthDeveloperApp string
  | S_SetAuthDeveloperAppDeleted string
  | S_InsertAuthEntity string int
  | S_SetAuthEntityDeleted string int

record CoreAuthUser =
  db_wallet :: string
  db_handle_lc :: "string option"
  db_is_deactivated :: bool

record CoreAuthGrant =
  db_is_approved :: "bool option"
  db_is_revoked :: bool

record CoreAuthDeveloperApp =
  db_app_user_id :: int
  db_app_is_deleted :: bool

record CoreAuthEntity =
  db_owner_user_id :: int
  db_ent_is_deleted :: bool

record auth_db =
  core_auth_users :: "(int, CoreAuthUser) table"
  core_auth_grants :: "(string \<times> int, CoreAuthGrant) table"
  core_auth_developer_apps :: "(string, CoreAuthDeveloperApp) table"
  core_auth_entities :: "(string \<times> int, CoreAuthEntity) table"
  core_auth_cids :: "(string \<times> int, string) table"
  pg_fault :: "auth_stmt \<Rightarrow> pg_error option"

definition empty_auth_db :: auth_db where
  "empty_auth_db = \<lparr>core_auth_users = [], core_auth_grants = [], core_auth_developer_apps = [],
     core_auth_entities = [], core_auth_cids = [], pg_fault = (\<lambda>_. None)\<rparr>"

section \<open>Running a statement\<close>

text \<open>
  A \<^verbatim>\<open>:one\<close> query over a primary key, a query that always returns one row, and an
  \<^verbatim>\<open>:exec\<close> statement.
\<close>

definition query_row :: "auth_db \<Rightarrow> auth_stmt \<Rightarrow> 'a option \<Rightarrow> query_error + 'a" where
  "query_row q stmt r = (case pg_fault q stmt of
     Some e \<Rightarrow> Inl (QueryFailed e)
   | None \<Rightarrow> (case r of None \<Rightarrow> Inl ErrNoRows | Some x \<Rightarrow> Inr x))"

definition query_val :: "auth_db \<Rightarrow> auth_stmt \<Rightarrow> 'a \<Rightarrow> pg_error + 'a" where
  "query_val q stmt r = (case pg_fault q stmt of Some e \<Rightarrow> Inl e | None \<Rightarrow> Inr r)"

definition exec_stmt :: "auth_db \<Rightarrow> auth_stmt \<Rightarrow> auth_db \<Rightarrow> pg_error option \<times> auth_db" where
  "exec_stmt q stmt q' = (case pg_fault q stmt of Some e \<Rightarrow> (Some e, q) | None \<Rightarrow> (None, q'))"

section \<open>Reads\<close>

definition GetAuthUser :: "auth_db \<Rightarrow> int \<Rightarrow> query_error + CoreAuthUser" where
  "GetAuthUser q userID = query_row q (S_GetAuthUser userID) (map_of (core_auth_users q) userID)"

definition GetAuthUserIDByWallet :: "auth_db \<Rightarrow> string \<Rightarrow> query_error + int" where
  "GetAuthUserIDByWallet q wallet = query_row q (S_GetAuthUserIDByWallet wallet)
     (let ids = map fst (filter (\<lambda>(u, r). db_wallet r = wallet \<and> \<not> db_is_deactivated r)
                  (core_auth_users q))
      in if ids = [] then None else Some (min_list ids))"

definition AuthWalletExists :: "auth_db \<Rightarrow> string \<Rightarrow> pg_error + bool" where
  "AuthWalletExists q wallet = query_val q (S_AuthWalletExists wallet)
     (\<exists>e\<in>set (core_auth_users q). db_wallet (snd e) = wallet)"

definition AuthActiveWalletExists :: "auth_db \<Rightarrow> string \<Rightarrow> pg_error + bool" where
  "AuthActiveWalletExists q wallet = query_val q (S_AuthActiveWalletExists wallet)
     (\<exists>e\<in>set (core_auth_users q). db_wallet (snd e) = wallet \<and> \<not> db_is_deactivated (snd e))"

text \<open>A null handle equals no argument.\<close>

definition AuthHandleExists :: "auth_db \<Rightarrow> string \<Rightarrow> pg_error + bool" where
  "AuthHandleExists q handleLc = query_val q (S_AuthHandleExists handleLc)
     (\<exists>e\<in>set (core_auth_users q). db_handle_lc (snd e) = Some handleLc)"

definition GetAuthGrant :: "auth_db \<Rightarrow> string \<Rightarrow> int \<Rightarrow> query_error + CoreAuthGrant" where
  "GetAuthGrant q grantee userID = query_row q (S_GetAuthGrant grantee userID)
     (map_of (core_auth_grants q) (grantee, userID))"

definition GetAuthDeveloperApp :: "auth_db \<Rightarrow> string \<Rightarrow> query_error + CoreAuthDeveloperApp" where
  "GetAuthDeveloperApp q address = query_row q (S_GetAuthDeveloperApp address)
     (map_of (core_auth_developer_apps q) address)"

definition GetAuthEntity :: "auth_db \<Rightarrow> string \<Rightarrow> int \<Rightarrow> query_error + CoreAuthEntity" where
  "GetAuthEntity q entityType entityID = query_row q (S_GetAuthEntity entityType entityID)
     (map_of (core_auth_entities q) (entityType, entityID))"

definition q_IsCidClaimedByUser :: "auth_db \<Rightarrow> string \<Rightarrow> int \<Rightarrow> pg_error + bool" where
  "q_IsCidClaimedByUser q cid userID = query_val q (S_IsCidClaimedByUser cid userID)
     (map_of (core_auth_cids q) (cid, userID) \<noteq> None)"

definition q_CidIsClaimed :: "auth_db \<Rightarrow> string \<Rightarrow> pg_error + bool" where
  "q_CidIsClaimed q cid = query_val q (S_CidIsClaimed cid)
     (\<exists>e\<in>set (core_auth_cids q). fst (fst e) = cid)"

section \<open>Writes\<close>

definition InsertAuthCid :: "auth_db \<Rightarrow> string \<Rightarrow> int \<Rightarrow> string \<Rightarrow> pg_error option \<times> auth_db" where
  "InsertAuthCid q cid userID txHash = exec_stmt q (S_InsertAuthCid cid userID)
     (q\<lparr>core_auth_cids := insert_new (cid, userID) txHash (core_auth_cids q)\<rparr>)"

definition InsertAuthUser ::
  "auth_db \<Rightarrow> int \<Rightarrow> string \<Rightarrow> string option \<Rightarrow> bool \<Rightarrow> pg_error option \<times> auth_db" where
  "InsertAuthUser q userID wallet handleLc deactivated = exec_stmt q (S_InsertAuthUser userID)
     (q\<lparr>core_auth_users := insert_new userID
          \<lparr>db_wallet = wallet, db_handle_lc = handleLc, db_is_deactivated = deactivated\<rparr>
          (core_auth_users q)\<rparr>)"

definition SetAuthUserHandle ::
  "auth_db \<Rightarrow> int \<Rightarrow> string option \<Rightarrow> pg_error option \<times> auth_db" where
  "SetAuthUserHandle q userID handleLc = exec_stmt q (S_SetAuthUserHandle userID)
     (q\<lparr>core_auth_users := update_existing userID (\<lambda>r. r\<lparr>db_handle_lc := handleLc\<rparr>)
          (core_auth_users q)\<rparr>)"

definition SetAuthUserDeactivated ::
  "auth_db \<Rightarrow> int \<Rightarrow> bool \<Rightarrow> pg_error option \<times> auth_db" where
  "SetAuthUserDeactivated q userID d = exec_stmt q (S_SetAuthUserDeactivated userID)
     (q\<lparr>core_auth_users := update_existing userID (\<lambda>r. r\<lparr>db_is_deactivated := d\<rparr>)
          (core_auth_users q)\<rparr>)"

definition UpsertAuthGrant ::
  "auth_db \<Rightarrow> string \<Rightarrow> int \<Rightarrow> bool option \<Rightarrow> bool \<Rightarrow> pg_error option \<times> auth_db" where
  "UpsertAuthGrant q grantee userID approved revoked = exec_stmt q (S_UpsertAuthGrant grantee userID)
     (q\<lparr>core_auth_grants := AList.update (grantee, userID)
          \<lparr>db_is_approved = approved, db_is_revoked = revoked\<rparr> (core_auth_grants q)\<rparr>)"

definition UpsertAuthDeveloperApp ::
  "auth_db \<Rightarrow> string \<Rightarrow> int \<Rightarrow> pg_error option \<times> auth_db" where
  "UpsertAuthDeveloperApp q address userID = exec_stmt q (S_UpsertAuthDeveloperApp address)
     (q\<lparr>core_auth_developer_apps := AList.update address
          \<lparr>db_app_user_id = userID, db_app_is_deleted = False\<rparr> (core_auth_developer_apps q)\<rparr>)"

definition SetAuthDeveloperAppDeleted :: "auth_db \<Rightarrow> string \<Rightarrow> pg_error option \<times> auth_db" where
  "SetAuthDeveloperAppDeleted q address = exec_stmt q (S_SetAuthDeveloperAppDeleted address)
     (q\<lparr>core_auth_developer_apps := update_existing address (\<lambda>r. r\<lparr>db_app_is_deleted := True\<rparr>)
          (core_auth_developer_apps q)\<rparr>)"

definition InsertAuthEntity ::
  "auth_db \<Rightarrow> string \<Rightarrow> int \<Rightarrow> int \<Rightarrow> bool \<Rightarrow> pg_error option \<times> auth_db" where
  "InsertAuthEntity q entityType entityID ownerID deleted =
     exec_stmt q (S_InsertAuthEntity entityType entityID)
     (q\<lparr>core_auth_entities := insert_new (entityType, entityID)
          \<lparr>db_owner_user_id = ownerID, db_ent_is_deleted = deleted\<rparr> (core_auth_entities q)\<rparr>)"

definition SetAuthEntityDeleted :: "auth_db \<Rightarrow> string \<Rightarrow> int \<Rightarrow> pg_error option \<times> auth_db" where
  "SetAuthEntityDeleted q entityType entityID =
     exec_stmt q (S_SetAuthEntityDeleted entityType entityID)
     (q\<lparr>core_auth_entities := update_existing (entityType, entityID)
          (\<lambda>r. r\<lparr>db_ent_is_deleted := True\<rparr>) (core_auth_entities q)\<rparr>)"

lemmas query_defs = query_row_def query_val_def exec_stmt_def
  GetAuthUser_def GetAuthUserIDByWallet_def AuthWalletExists_def AuthActiveWalletExists_def
  AuthHandleExists_def GetAuthGrant_def GetAuthDeveloperApp_def GetAuthEntity_def
  q_IsCidClaimedByUser_def q_CidIsClaimed_def InsertAuthCid_def InsertAuthUser_def
  SetAuthUserHandle_def SetAuthUserDeactivated_def UpsertAuthGrant_def UpsertAuthDeveloperApp_def
  SetAuthDeveloperAppDeleted_def InsertAuthEntity_def SetAuthEntityDeleted_def

end
