(* ===== verification/Auth_Store.thy ===== *)
theory Auth_Store
  imports Auth_Queries
begin

text \<open>
  The \<^verbatim>\<open>authStore\<close> interface of \<^verbatim>\<open>pkg/core/server/auth_state.go\<close> and its two
  implementations: \<^verbatim>\<open>dbAuthStore\<close> (\<^verbatim>\<open>auth_store_db.go\<close>), bound to the block's
  database transaction, and \<^verbatim>\<open>overlayAuthStore\<close> (\<^verbatim>\<open>auth_store_overlay.go\<close>), the
  copy-on-write layer a proposal is validated against.

  A Go interface value is a record of its methods over a state type. A getter returns the
  row, its absence, or a store failure; a mutation returns the failure, if any, and the new
  state.
\<close>

section \<open>Rows and interface\<close>

record authUserRow =
  Wallet :: string
  HandleLC :: string
  Deactivated :: bool

record authGrantRow =
  Approved :: "bool option"
  Revoked :: bool

record authAppRow =
  AppOwnerID :: int
  AppDeleted :: bool

record authEntityRow =
  EntOwnerID :: int
  EntDeleted :: bool

type_synonym 's auth_write = "pg_error option \<times> 's"

record 's authStore =
  GetUser :: "'s \<Rightarrow> int \<Rightarrow> pg_error + authUserRow option"
  GetUserIDByWallet :: "'s \<Rightarrow> string \<Rightarrow> pg_error + int option"
  WalletExists :: "'s \<Rightarrow> string \<Rightarrow> pg_error + bool"
  ActiveWalletExists :: "'s \<Rightarrow> string \<Rightarrow> pg_error + bool"
  HandleExists :: "'s \<Rightarrow> string \<Rightarrow> pg_error + bool"
  GetGrant :: "'s \<Rightarrow> string \<Rightarrow> int \<Rightarrow> pg_error + authGrantRow option"
  GetApp :: "'s \<Rightarrow> string \<Rightarrow> pg_error + authAppRow option"
  GetEntity :: "'s \<Rightarrow> string \<Rightarrow> int \<Rightarrow> pg_error + authEntityRow option"
  IsCidClaimedByUser :: "'s \<Rightarrow> string \<Rightarrow> int \<Rightarrow> pg_error + bool"
  CidIsClaimed :: "'s \<Rightarrow> string \<Rightarrow> pg_error + bool"
  InsertUser :: "'s \<Rightarrow> int \<Rightarrow> string \<Rightarrow> string \<Rightarrow> bool \<Rightarrow> 's auth_write"
  SetUserHandle :: "'s \<Rightarrow> int \<Rightarrow> string \<Rightarrow> 's auth_write"
  SetUserDeactivated :: "'s \<Rightarrow> int \<Rightarrow> bool \<Rightarrow> 's auth_write"
  UpsertGrant :: "'s \<Rightarrow> string \<Rightarrow> int \<Rightarrow> bool option \<Rightarrow> bool \<Rightarrow> 's auth_write"
  UpsertApp :: "'s \<Rightarrow> string \<Rightarrow> int \<Rightarrow> 's auth_write"
  SetAppDeleted :: "'s \<Rightarrow> string \<Rightarrow> 's auth_write"
  InsertEntity :: "'s \<Rightarrow> string \<Rightarrow> int \<Rightarrow> int \<Rightarrow> bool \<Rightarrow> 's auth_write"
  SetEntityDeleted :: "'s \<Rightarrow> string \<Rightarrow> int \<Rightarrow> 's auth_write"
  InsertCid :: "'s \<Rightarrow> string \<Rightarrow> int \<Rightarrow> string \<Rightarrow> 's auth_write"

section \<open>The durable store\<close>

text \<open>\<^verbatim>\<open>pgx.ErrNoRows\<close> is absence; every other error is a store failure.\<close>

definition absent_if_no_rows :: "('a \<Rightarrow> 'b) \<Rightarrow> query_error + 'a \<Rightarrow> pg_error + 'b option" where
  "absent_if_no_rows f r = (case r of
     Inl ErrNoRows \<Rightarrow> Inr None
   | Inl (QueryFailed e) \<Rightarrow> Inl e
   | Inr x \<Rightarrow> Inr (Some (f x)))"

text \<open>The Go string of a nullable text column: the empty string for null.\<close>

definition text_string :: "string option \<Rightarrow> string" where
  "text_string t = (case t of None \<Rightarrow> [] | Some s \<Rightarrow> s)"

definition user_of_row :: "CoreAuthUser \<Rightarrow> authUserRow" where
  "user_of_row r = \<lparr>Wallet = db_wallet r, HandleLC = text_string (db_handle_lc r),
     Deactivated = db_is_deactivated r\<rparr>"

definition grant_of_row :: "CoreAuthGrant \<Rightarrow> authGrantRow" where
  "grant_of_row r = \<lparr>Approved = db_is_approved r, Revoked = db_is_revoked r\<rparr>"

definition app_of_row :: "CoreAuthDeveloperApp \<Rightarrow> authAppRow" where
  "app_of_row r = \<lparr>AppOwnerID = db_app_user_id r, AppDeleted = db_app_is_deleted r\<rparr>"

definition entity_of_row :: "CoreAuthEntity \<Rightarrow> authEntityRow" where
  "entity_of_row r = \<lparr>EntOwnerID = db_owner_user_id r, EntDeleted = db_ent_is_deleted r\<rparr>"

definition db_GetUser :: "auth_db \<Rightarrow> int \<Rightarrow> pg_error + authUserRow option" where
  "db_GetUser q userID = absent_if_no_rows user_of_row (GetAuthUser q userID)"

definition db_GetUserIDByWallet :: "auth_db \<Rightarrow> string \<Rightarrow> pg_error + int option" where
  "db_GetUserIDByWallet q wallet = absent_if_no_rows (\<lambda>i. i) (GetAuthUserIDByWallet q wallet)"

definition db_GetGrant :: "auth_db \<Rightarrow> string \<Rightarrow> int \<Rightarrow> pg_error + authGrantRow option" where
  "db_GetGrant q grantee userID = absent_if_no_rows grant_of_row (GetAuthGrant q grantee userID)"

definition db_GetApp :: "auth_db \<Rightarrow> string \<Rightarrow> pg_error + authAppRow option" where
  "db_GetApp q address = absent_if_no_rows app_of_row (GetAuthDeveloperApp q address)"

definition db_GetEntity :: "auth_db \<Rightarrow> string \<Rightarrow> int \<Rightarrow> pg_error + authEntityRow option" where
  "db_GetEntity q entityType entityID =
     absent_if_no_rows entity_of_row (GetAuthEntity q entityType entityID)"

definition db_InsertUser ::
  "auth_db \<Rightarrow> int \<Rightarrow> string \<Rightarrow> string \<Rightarrow> bool \<Rightarrow> auth_db auth_write" where
  "db_InsertUser q userID wallet handleLC deactivated =
     InsertAuthUser q userID wallet (if handleLC \<noteq> [] then Some handleLC else None) deactivated"

definition db_SetUserHandle :: "auth_db \<Rightarrow> int \<Rightarrow> string \<Rightarrow> auth_db auth_write" where
  "db_SetUserHandle q userID handleLC = SetAuthUserHandle q userID (Some handleLC)"

definition dbAuthStore :: "auth_db authStore" where
  "dbAuthStore = \<lparr>
     GetUser = db_GetUser,
     GetUserIDByWallet = db_GetUserIDByWallet,
     WalletExists = AuthWalletExists,
     ActiveWalletExists = AuthActiveWalletExists,
     HandleExists = AuthHandleExists,
     GetGrant = db_GetGrant,
     GetApp = db_GetApp,
     GetEntity = db_GetEntity,
     IsCidClaimedByUser = q_IsCidClaimedByUser,
     CidIsClaimed = q_CidIsClaimed,
     InsertUser = db_InsertUser,
     SetUserHandle = db_SetUserHandle,
     SetUserDeactivated = SetAuthUserDeactivated,
     UpsertGrant = UpsertAuthGrant,
     UpsertApp = UpsertAuthDeveloperApp,
     SetAppDeleted = SetAuthDeveloperAppDeleted,
     InsertEntity = InsertAuthEntity,
     SetEntityDeleted = SetAuthEntityDeleted,
     InsertCid = InsertAuthCid\<rparr>"

section \<open>The overlay store\<close>

record 'b overlay =
  ov_base :: 'b
  ov_users :: "(int, authUserRow) table"
  ov_grants :: "(string \<times> int, authGrantRow) table"
  ov_apps :: "(string, authAppRow) table"
  ov_entities :: "(string \<times> int, authEntityRow) table"
  ov_cids :: "(string \<times> int, unit) table"

definition newOverlayAuthStore :: "'b \<Rightarrow> 'b overlay" where
  "newOverlayAuthStore base = \<lparr>ov_base = base, ov_users = [], ov_grants = [], ov_apps = [],
     ov_entities = [], ov_cids = []\<rparr>"

definition ov_GetUser :: "'b authStore \<Rightarrow> 'b overlay \<Rightarrow> int \<Rightarrow> pg_error + authUserRow option" where
  "ov_GetUser b ov userID = (case map_of (ov_users ov) userID of
     Some u \<Rightarrow> Inr (Some u) | None \<Rightarrow> GetUser b (ov_base ov) userID)"

definition ov_GetUserIDByWallet :: "'b authStore \<Rightarrow> 'b overlay \<Rightarrow> string \<Rightarrow> pg_error + int option" where
  "ov_GetUserIDByWallet b ov wallet =
     (case fold (\<lambda>(uid, u) found.
              if Wallet u = wallet \<and> \<not> Deactivated u \<and>
                 (case found of None \<Rightarrow> True | Some i \<Rightarrow> uid < i)
              then Some uid else found) (ov_users ov) None of
        Some i \<Rightarrow> Inr (Some i)
      | None \<Rightarrow> GetUserIDByWallet b (ov_base ov) wallet)"

definition ov_WalletExists :: "'b authStore \<Rightarrow> 'b overlay \<Rightarrow> string \<Rightarrow> pg_error + bool" where
  "ov_WalletExists b ov wallet =
     (if \<exists>e\<in>set (ov_users ov). Wallet (snd e) = wallet then Inr True
      else WalletExists b (ov_base ov) wallet)"

definition ov_ActiveWalletExists :: "'b authStore \<Rightarrow> 'b overlay \<Rightarrow> string \<Rightarrow> pg_error + bool" where
  "ov_ActiveWalletExists b ov wallet =
     (if \<exists>e\<in>set (ov_users ov). Wallet (snd e) = wallet \<and> \<not> Deactivated (snd e) then Inr True
      else if \<exists>e\<in>set (ov_users ov). Wallet (snd e) = wallet then Inr False
      else ActiveWalletExists b (ov_base ov) wallet)"

definition ov_HandleExists :: "'b authStore \<Rightarrow> 'b overlay \<Rightarrow> string \<Rightarrow> pg_error + bool" where
  "ov_HandleExists b ov handleLC =
     (if \<exists>e\<in>set (ov_users ov). HandleLC (snd e) = handleLC then Inr True
      else HandleExists b (ov_base ov) handleLC)"

definition ov_GetGrant ::
  "'b authStore \<Rightarrow> 'b overlay \<Rightarrow> string \<Rightarrow> int \<Rightarrow> pg_error + authGrantRow option" where
  "ov_GetGrant b ov grantee userID = (case map_of (ov_grants ov) (grantee, userID) of
     Some g \<Rightarrow> Inr (Some g) | None \<Rightarrow> GetGrant b (ov_base ov) grantee userID)"

definition ov_GetApp :: "'b authStore \<Rightarrow> 'b overlay \<Rightarrow> string \<Rightarrow> pg_error + authAppRow option" where
  "ov_GetApp b ov address = (case map_of (ov_apps ov) address of
     Some a \<Rightarrow> Inr (Some a) | None \<Rightarrow> GetApp b (ov_base ov) address)"

definition ov_GetEntity ::
  "'b authStore \<Rightarrow> 'b overlay \<Rightarrow> string \<Rightarrow> int \<Rightarrow> pg_error + authEntityRow option" where
  "ov_GetEntity b ov entityType entityID = (case map_of (ov_entities ov) (entityType, entityID) of
     Some e \<Rightarrow> Inr (Some e) | None \<Rightarrow> GetEntity b (ov_base ov) entityType entityID)"

definition ov_IsCidClaimedByUser ::
  "'b authStore \<Rightarrow> 'b overlay \<Rightarrow> string \<Rightarrow> int \<Rightarrow> pg_error + bool" where
  "ov_IsCidClaimedByUser b ov cid userID = (case map_of (ov_cids ov) (cid, userID) of
     Some _ \<Rightarrow> Inr True | None \<Rightarrow> IsCidClaimedByUser b (ov_base ov) cid userID)"

definition ov_CidIsClaimed :: "'b authStore \<Rightarrow> 'b overlay \<Rightarrow> string \<Rightarrow> pg_error + bool" where
  "ov_CidIsClaimed b ov cid =
     (if \<exists>e\<in>set (ov_cids ov). fst (fst e) = cid then Inr True
      else CidIsClaimed b (ov_base ov) cid)"

definition ov_InsertCid :: "'b overlay \<Rightarrow> string \<Rightarrow> int \<Rightarrow> string \<Rightarrow> 'b overlay auth_write" where
  "ov_InsertCid ov cid uploaderUserID txHash =
     (None, ov\<lparr>ov_cids := AList.update (cid, uploaderUserID) () (ov_cids ov)\<rparr>)"

definition ov_InsertUser ::
  "'b overlay \<Rightarrow> int \<Rightarrow> string \<Rightarrow> string \<Rightarrow> bool \<Rightarrow> 'b overlay auth_write" where
  "ov_InsertUser ov userID wallet handleLC deactivated =
     (None, case map_of (ov_users ov) userID of
        None \<Rightarrow> ov\<lparr>ov_users := AList.update userID
                  \<lparr>Wallet = wallet, HandleLC = handleLC, Deactivated = deactivated\<rparr> (ov_users ov)\<rparr>
      | Some _ \<Rightarrow> ov)"

text \<open>The row, when there is one, and the overlay that holds it.\<close>

definition materializeUser ::
  "'b authStore \<Rightarrow> 'b overlay \<Rightarrow> int \<Rightarrow> (pg_error + authUserRow option) \<times> 'b overlay" where
  "materializeUser b ov userID = (case map_of (ov_users ov) userID of
     Some u \<Rightarrow> (Inr (Some u), ov)
   | None \<Rightarrow> (case GetUser b (ov_base ov) userID of
       Inl e \<Rightarrow> (Inl e, ov)
     | Inr None \<Rightarrow> (Inr None, ov)
     | Inr (Some u) \<Rightarrow> (Inr (Some u), ov\<lparr>ov_users := AList.update userID u (ov_users ov)\<rparr>)))"

definition ov_SetUserHandle ::
  "'b authStore \<Rightarrow> 'b overlay \<Rightarrow> int \<Rightarrow> string \<Rightarrow> 'b overlay auth_write" where
  "ov_SetUserHandle b ov userID handleLC = (case materializeUser b ov userID of
     (Inl e, ov1) \<Rightarrow> (Some e, ov1)
   | (Inr None, ov1) \<Rightarrow> (None, ov1)
   | (Inr (Some u), ov1) \<Rightarrow>
       (None, ov1\<lparr>ov_users := AList.update userID (u\<lparr>HandleLC := handleLC\<rparr>) (ov_users ov1)\<rparr>))"

definition ov_SetUserDeactivated ::
  "'b authStore \<Rightarrow> 'b overlay \<Rightarrow> int \<Rightarrow> bool \<Rightarrow> 'b overlay auth_write" where
  "ov_SetUserDeactivated b ov userID deactivated = (case materializeUser b ov userID of
     (Inl e, ov1) \<Rightarrow> (Some e, ov1)
   | (Inr None, ov1) \<Rightarrow> (None, ov1)
   | (Inr (Some u), ov1) \<Rightarrow>
       (None, ov1\<lparr>ov_users := AList.update userID (u\<lparr>Deactivated := deactivated\<rparr>) (ov_users ov1)\<rparr>))"

definition ov_UpsertGrant ::
  "'b overlay \<Rightarrow> string \<Rightarrow> int \<Rightarrow> bool option \<Rightarrow> bool \<Rightarrow> 'b overlay auth_write" where
  "ov_UpsertGrant ov grantee userID approved revoked =
     (None, ov\<lparr>ov_grants := AList.update (grantee, userID)
        \<lparr>Approved = approved, Revoked = revoked\<rparr> (ov_grants ov)\<rparr>)"

definition ov_UpsertApp :: "'b overlay \<Rightarrow> string \<Rightarrow> int \<Rightarrow> 'b overlay auth_write" where
  "ov_UpsertApp ov address ownerID =
     (None, ov\<lparr>ov_apps := AList.update address \<lparr>AppOwnerID = ownerID, AppDeleted = False\<rparr>
        (ov_apps ov)\<rparr>)"

definition ov_SetAppDeleted :: "'b authStore \<Rightarrow> 'b overlay \<Rightarrow> string \<Rightarrow> 'b overlay auth_write" where
  "ov_SetAppDeleted b ov address =
     (case (case map_of (ov_apps ov) address of
              Some a \<Rightarrow> Inr (Some a) | None \<Rightarrow> GetApp b (ov_base ov) address) of
        Inl e \<Rightarrow> (Some e, ov)
      | Inr None \<Rightarrow> (None, ov)
      | Inr (Some a) \<Rightarrow>
          (None, ov\<lparr>ov_apps := AList.update address (a\<lparr>AppDeleted := True\<rparr>) (ov_apps ov)\<rparr>))"

definition ov_InsertEntity ::
  "'b overlay \<Rightarrow> string \<Rightarrow> int \<Rightarrow> int \<Rightarrow> bool \<Rightarrow> 'b overlay auth_write" where
  "ov_InsertEntity ov entityType entityID ownerID deleted =
     (None, case map_of (ov_entities ov) (entityType, entityID) of
        None \<Rightarrow> ov\<lparr>ov_entities := AList.update (entityType, entityID)
                  \<lparr>EntOwnerID = ownerID, EntDeleted = deleted\<rparr> (ov_entities ov)\<rparr>
      | Some _ \<Rightarrow> ov)"

definition ov_SetEntityDeleted ::
  "'b authStore \<Rightarrow> 'b overlay \<Rightarrow> string \<Rightarrow> int \<Rightarrow> 'b overlay auth_write" where
  "ov_SetEntityDeleted b ov entityType entityID =
     (case (case map_of (ov_entities ov) (entityType, entityID) of
              Some x \<Rightarrow> Inr (Some x) | None \<Rightarrow> GetEntity b (ov_base ov) entityType entityID) of
        Inl e \<Rightarrow> (Some e, ov)
      | Inr None \<Rightarrow> (None, ov)
      | Inr (Some x) \<Rightarrow>
          (None, ov\<lparr>ov_entities := AList.update (entityType, entityID) (x\<lparr>EntDeleted := True\<rparr>)
             (ov_entities ov)\<rparr>))"

definition overlayAuthStore :: "'b authStore \<Rightarrow> 'b overlay authStore" where
  "overlayAuthStore b = \<lparr>
     GetUser = ov_GetUser b,
     GetUserIDByWallet = ov_GetUserIDByWallet b,
     WalletExists = ov_WalletExists b,
     ActiveWalletExists = ov_ActiveWalletExists b,
     HandleExists = ov_HandleExists b,
     GetGrant = ov_GetGrant b,
     GetApp = ov_GetApp b,
     GetEntity = ov_GetEntity b,
     IsCidClaimedByUser = ov_IsCidClaimedByUser b,
     CidIsClaimed = ov_CidIsClaimed b,
     InsertUser = ov_InsertUser,
     SetUserHandle = ov_SetUserHandle b,
     SetUserDeactivated = ov_SetUserDeactivated b,
     UpsertGrant = ov_UpsertGrant,
     UpsertApp = ov_UpsertApp,
     SetAppDeleted = ov_SetAppDeleted b,
     InsertEntity = ov_InsertEntity,
     SetEntityDeleted = ov_SetEntityDeleted b,
     InsertCid = ov_InsertCid\<rparr>"

lemmas [store_defs] = dbAuthStore_def db_GetUser_def db_GetUserIDByWallet_def db_GetGrant_def
  db_GetApp_def db_GetEntity_def db_InsertUser_def db_SetUserHandle_def absent_if_no_rows_def
  query_defs

lemmas overlay_defs = overlayAuthStore_def ov_GetUser_def ov_GetUserIDByWallet_def
  ov_WalletExists_def ov_ActiveWalletExists_def ov_HandleExists_def ov_GetGrant_def ov_GetApp_def
  ov_GetEntity_def ov_IsCidClaimedByUser_def ov_CidIsClaimed_def ov_InsertUser_def
  ov_SetUserHandle_def ov_SetUserDeactivated_def materializeUser_def ov_UpsertGrant_def
  ov_UpsertApp_def ov_SetAppDeleted_def ov_InsertEntity_def ov_SetEntityDeleted_def
  ov_InsertCid_def

lemmas row_defs = user_of_row_def grant_of_row_def app_of_row_def entity_of_row_def text_string_def

end
