(* ===== verification/Auth_Contract.thy ===== *)
theory Auth_Contract
  imports Auth_Store
begin

text \<open>
  What the authorization stores promise. The abstract state \<open>auth_view\<close> is five finite
  maps; \<open>viewAuthStore\<close> is the interface over it. The locale \<open>auth_store\<close> says that a
  store implements that interface through a view function: every read is exact and every
  mutation commutes with the view. The handle scan and the wallet-to-user lookup are exact
  only in the states the extension \<open>auth_store_scans\<close> calls fresh, because the overlay's
  versions of the two consult a base row even where an overlay row shadows it. The durable
  store satisfies both unconditionally.
\<close>

section \<open>Abstract state\<close>

record auth_view =
  v_users :: "int \<Rightarrow> authUserRow option"
  v_grants :: "string \<times> int \<Rightarrow> authGrantRow option"
  v_apps :: "string \<Rightarrow> authAppRow option"
  v_entities :: "string \<times> int \<Rightarrow> authEntityRow option"
  v_cids :: "(string \<times> int) set"

definition wallet_used :: "auth_view \<Rightarrow> string \<Rightarrow> bool" where
  "wallet_used v w \<longleftrightarrow> (\<exists>u r. v_users v u = Some r \<and> Wallet r = w)"

definition wallet_active :: "auth_view \<Rightarrow> string \<Rightarrow> bool" where
  "wallet_active v w \<longleftrightarrow> (\<exists>u r. v_users v u = Some r \<and> Wallet r = w \<and> \<not> Deactivated r)"

definition handle_used :: "auth_view \<Rightarrow> string \<Rightarrow> bool" where
  "handle_used v h \<longleftrightarrow> (\<exists>u r. v_users v u = Some r \<and> HandleLC r = h)"

definition active_ids :: "auth_view \<Rightarrow> string \<Rightarrow> int set" where
  "active_ids v w = {u. \<exists>r. v_users v u = Some r \<and> Wallet r = w \<and> \<not> Deactivated r}"

definition cid_claimed :: "auth_view \<Rightarrow> string \<Rightarrow> bool" where
  "cid_claimed v c \<longleftrightarrow> (\<exists>u. (c, u) \<in> v_cids v)"

definition unique_wallets :: "auth_view \<Rightarrow> bool" where
  "unique_wallets v \<longleftrightarrow> (\<forall>u u' r r'. v_users v u = Some r \<longrightarrow> v_users v u' = Some r' \<longrightarrow>
     Wallet r = Wallet r' \<longrightarrow> u = u')"

definition viewAuthStore :: "auth_view authStore" where
  "viewAuthStore = \<lparr>
     GetUser = (\<lambda>v u. Inr (v_users v u)),
     GetUserIDByWallet = (\<lambda>v w. Inr (if active_ids v w = {} then None else Some (Min (active_ids v w)))),
     WalletExists = (\<lambda>v w. Inr (wallet_used v w)),
     ActiveWalletExists = (\<lambda>v w. Inr (wallet_active v w)),
     HandleExists = (\<lambda>v h. Inr (handle_used v h)),
     GetGrant = (\<lambda>v g u. Inr (v_grants v (g, u))),
     GetApp = (\<lambda>v a. Inr (v_apps v a)),
     GetEntity = (\<lambda>v t i. Inr (v_entities v (t, i))),
     IsCidClaimedByUser = (\<lambda>v c u. Inr ((c, u) \<in> v_cids v)),
     CidIsClaimed = (\<lambda>v c. Inr (cid_claimed v c)),
     InsertUser = (\<lambda>v u w h d. (None, case v_users v u of
        None \<Rightarrow> v\<lparr>v_users := (v_users v)(u \<mapsto> \<lparr>Wallet = w, HandleLC = h, Deactivated = d\<rparr>)\<rparr>
      | Some _ \<Rightarrow> v)),
     SetUserHandle = (\<lambda>v u h. (None,
        v\<lparr>v_users := (v_users v)(u := map_option (\<lambda>r. r\<lparr>HandleLC := h\<rparr>) (v_users v u))\<rparr>)),
     SetUserDeactivated = (\<lambda>v u d. (None,
        v\<lparr>v_users := (v_users v)(u := map_option (\<lambda>r. r\<lparr>Deactivated := d\<rparr>) (v_users v u))\<rparr>)),
     UpsertGrant = (\<lambda>v g u a r. (None,
        v\<lparr>v_grants := (v_grants v)((g, u) \<mapsto> \<lparr>Approved = a, Revoked = r\<rparr>)\<rparr>)),
     UpsertApp = (\<lambda>v a u. (None,
        v\<lparr>v_apps := (v_apps v)(a \<mapsto> \<lparr>AppOwnerID = u, AppDeleted = False\<rparr>)\<rparr>)),
     SetAppDeleted = (\<lambda>v a. (None,
        v\<lparr>v_apps := (v_apps v)(a := map_option (\<lambda>r. r\<lparr>AppDeleted := True\<rparr>) (v_apps v a))\<rparr>)),
     InsertEntity = (\<lambda>v t i u d. (None, case v_entities v (t, i) of
        None \<Rightarrow> v\<lparr>v_entities := (v_entities v)((t, i) \<mapsto> \<lparr>EntOwnerID = u, EntDeleted = d\<rparr>)\<rparr>
      | Some _ \<Rightarrow> v)),
     SetEntityDeleted = (\<lambda>v t i. (None,
        v\<lparr>v_entities := (v_entities v)((t, i) :=
           map_option (\<lambda>r. r\<lparr>EntDeleted := True\<rparr>) (v_entities v (t, i)))\<rparr>)),
     InsertCid = (\<lambda>v c u h. (None, v\<lparr>v_cids := insert (c, u) (v_cids v)\<rparr>))\<rparr>"

text \<open>A step of a store and a step of the view agree: same verdict, related states.\<close>

definition sim :: "('s \<Rightarrow> bool) \<Rightarrow> ('s \<Rightarrow> auth_view) \<Rightarrow> 'e option \<times> 's \<Rightarrow> 'e option \<times> auth_view \<Rightarrow> bool"
where
  "sim ok view x y \<longleftrightarrow> fst x = fst y \<and> ok (snd x) \<and> view (snd x) = snd y"

lemma simI: "e = e' \<Longrightarrow> ok s \<Longrightarrow> view s = v \<Longrightarrow> sim ok view (e, s) (e', v)"
  by (simp add: sim_def)

section \<open>The contract\<close>

locale auth_store =
  fixes ops :: "'s authStore" and view :: "'s \<Rightarrow> auth_view" and ok :: "'s \<Rightarrow> bool"
  assumes get_user: "ok s \<Longrightarrow> GetUser ops s u = GetUser viewAuthStore (view s) u"
    and get_grant: "ok s \<Longrightarrow> GetGrant ops s g u = GetGrant viewAuthStore (view s) g u"
    and get_app: "ok s \<Longrightarrow> GetApp ops s ad = GetApp viewAuthStore (view s) ad"
    and get_entity: "ok s \<Longrightarrow> GetEntity ops s t i = GetEntity viewAuthStore (view s) t i"
    and wallet_exists: "ok s \<Longrightarrow> WalletExists ops s w = WalletExists viewAuthStore (view s) w"
    and active_wallet_exists:
      "ok s \<Longrightarrow> ActiveWalletExists ops s w = ActiveWalletExists viewAuthStore (view s) w"
    and is_cid_claimed_by_user:
      "ok s \<Longrightarrow> IsCidClaimedByUser ops s c u = IsCidClaimedByUser viewAuthStore (view s) c u"
    and cid_is_claimed: "ok s \<Longrightarrow> CidIsClaimed ops s c = CidIsClaimed viewAuthStore (view s) c"
    and insert_user: "ok s \<Longrightarrow> v_users (view s) u = None \<Longrightarrow> \<not> wallet_used (view s) w \<Longrightarrow>
      sim ok view (InsertUser ops s u w h d) (InsertUser viewAuthStore (view s) u w h d)"
    and set_user_handle: "ok s \<Longrightarrow>
      sim ok view (SetUserHandle ops s u h) (SetUserHandle viewAuthStore (view s) u h)"
    and set_user_deactivated: "ok s \<Longrightarrow>
      sim ok view (SetUserDeactivated ops s u d) (SetUserDeactivated viewAuthStore (view s) u d)"
    and upsert_grant: "ok s \<Longrightarrow>
      sim ok view (UpsertGrant ops s g u a r) (UpsertGrant viewAuthStore (view s) g u a r)"
    and upsert_app: "ok s \<Longrightarrow>
      sim ok view (UpsertApp ops s ad u) (UpsertApp viewAuthStore (view s) ad u)"
    and set_app_deleted: "ok s \<Longrightarrow>
      sim ok view (SetAppDeleted ops s ad) (SetAppDeleted viewAuthStore (view s) ad)"
    and insert_entity: "ok s \<Longrightarrow> v_entities (view s) (t, i) = None \<Longrightarrow>
      sim ok view (InsertEntity ops s t i u d) (InsertEntity viewAuthStore (view s) t i u d)"
    and set_entity_deleted: "ok s \<Longrightarrow>
      sim ok view (SetEntityDeleted ops s t i) (SetEntityDeleted viewAuthStore (view s) t i)"
    and insert_cid: "ok s \<Longrightarrow>
      sim ok view (InsertCid ops s c u tx) (InsertCid viewAuthStore (view s) c u tx)"

locale auth_store_scans = auth_store +
  fixes fresh :: "'a \<Rightarrow> bool"
  assumes handle_exists: "ok s \<Longrightarrow> fresh s \<Longrightarrow> h \<noteq> [] \<Longrightarrow>
      HandleExists ops s h = HandleExists viewAuthStore (view s) h"
    and get_user_id_by_wallet: "ok s \<Longrightarrow> fresh s \<Longrightarrow>
      GetUserIDByWallet ops s w = GetUserIDByWallet viewAuthStore (view s) w"
    and fresh_insert_user: "ok s \<Longrightarrow> fresh s \<Longrightarrow> v_users (view s) u = None \<Longrightarrow>
      fresh (snd (InsertUser ops s u w h d))"
    and fresh_upsert_grant: "fresh s \<Longrightarrow> fresh (snd (UpsertGrant ops s g u a r))"
    and fresh_upsert_app: "fresh s \<Longrightarrow> fresh (snd (UpsertApp ops s ad u))"
    and fresh_set_app_deleted: "fresh s \<Longrightarrow> fresh (snd (SetAppDeleted ops s ad))"
    and fresh_insert_entity: "fresh s \<Longrightarrow> fresh (snd (InsertEntity ops s t i u d))"
    and fresh_set_entity_deleted: "fresh s \<Longrightarrow> fresh (snd (SetEntityDeleted ops s t i))"
    and fresh_insert_cid: "fresh s \<Longrightarrow> fresh (snd (InsertCid ops s c u tx))"

text \<open>A durable store also replays a migrated user whose wallet is already in use.\<close>

locale durable_auth_store = auth_store_scans +
  assumes always_fresh: "fresh s"
    and insert_user_any: "ok s \<Longrightarrow>
      sim ok view (InsertUser ops s u w h d) (InsertUser viewAuthStore (view s) u w h d)"

section \<open>The durable store satisfies it\<close>

definition db_view :: "auth_db \<Rightarrow> auth_view" where
  "db_view q = \<lparr>
     v_users = (\<lambda>u. map_option user_of_row (map_of (core_auth_users q) u)),
     v_grants = (\<lambda>k. map_option grant_of_row (map_of (core_auth_grants q) k)),
     v_apps = (\<lambda>a. map_option app_of_row (map_of (core_auth_developer_apps q) a)),
     v_entities = (\<lambda>k. map_option entity_of_row (map_of (core_auth_entities q) k)),
     v_cids = dom (map_of (core_auth_cids q))\<rparr>"

definition db_wf :: "auth_db \<Rightarrow> bool" where
  "db_wf q \<longleftrightarrow> keyed (core_auth_users q) \<and> (\<forall>stmt. pg_fault q stmt = None)"

lemma db_wf_empty: "db_wf empty_auth_db"
  by (simp add: db_wf_def empty_auth_db_def)

lemma db_view_sels [simp]:
  "v_users (db_view q) u = map_option user_of_row (map_of (core_auth_users q) u)"
  "v_grants (db_view q) k = map_option grant_of_row (map_of (core_auth_grants q) k)"
  "v_apps (db_view q) a = map_option app_of_row (map_of (core_auth_developer_apps q) a)"
  "v_entities (db_view q) e = map_option entity_of_row (map_of (core_auth_entities q) e)"
  "v_cids (db_view q) = dom (map_of (core_auth_cids q))"
  by (simp_all add: db_view_def)

lemma user_of_row_sels [simp]:
  "Wallet (user_of_row r) = db_wallet r"
  "HandleLC (user_of_row r) = text_string (db_handle_lc r)"
  "Deactivated (user_of_row r) = db_is_deactivated r"
  by (simp_all add: user_of_row_def)

lemma db_user_scan:
  assumes "keyed (core_auth_users q)"
  shows "(\<exists>e\<in>set (core_auth_users q). P (user_of_row (snd e))) \<longleftrightarrow>
    (\<exists>u r. v_users (db_view q) u = Some r \<and> P r)"
  using keyed_ex [OF assms, of "\<lambda>_ r. P (user_of_row r)"] by auto

lemma db_wallet_scans:
  assumes "keyed (core_auth_users q)"
  shows "(\<exists>e\<in>set (core_auth_users q). db_wallet (snd e) = w) = wallet_used (db_view q) w"
    and "(\<exists>e\<in>set (core_auth_users q). db_wallet (snd e) = w \<and> \<not> db_is_deactivated (snd e)) =
      wallet_active (db_view q) w"
    and "h \<noteq> [] \<Longrightarrow>
      (\<exists>e\<in>set (core_auth_users q). db_handle_lc (snd e) = Some h) = handle_used (db_view q) h"
proof -
  have h: "h \<noteq> [] \<Longrightarrow> db_handle_lc r = Some h \<longleftrightarrow> HandleLC (user_of_row r) = h" for r
    by (auto simp: row_defs split: option.splits)
  show "(\<exists>e\<in>set (core_auth_users q). db_wallet (snd e) = w) = wallet_used (db_view q) w"
    using db_user_scan [OF assms, of "\<lambda>r. Wallet r = w"]
    by (simp add: wallet_used_def user_of_row_def)
  show "(\<exists>e\<in>set (core_auth_users q). db_wallet (snd e) = w \<and> \<not> db_is_deactivated (snd e)) =
      wallet_active (db_view q) w"
    using db_user_scan [OF assms, of "\<lambda>r. Wallet r = w \<and> \<not> Deactivated r"]
    by (simp add: wallet_active_def user_of_row_def)
  show "h \<noteq> [] \<Longrightarrow>
      (\<exists>e\<in>set (core_auth_users q). db_handle_lc (snd e) = Some h) = handle_used (db_view q) h"
    using db_user_scan [OF assms, of "\<lambda>r. HandleLC r = h"] by (simp add: h handle_used_def)
qed

lemma db_active_ids:
  assumes "keyed (core_auth_users q)"
  shows "fst ` {e \<in> set (core_auth_users q). db_wallet (snd e) = w \<and> \<not> db_is_deactivated (snd e)} =
    active_ids (db_view q) w"
  by (auto simp: active_ids_def keyed_lookup [OF assms] image_iff Bex_def)

lemma db_GetUserIDByWallet_exact:
  assumes "db_wf q"
  shows "GetUserIDByWallet dbAuthStore q w = GetUserIDByWallet viewAuthStore (db_view q) w"
proof -
  define ids where "ids = map fst (filter (\<lambda>(u, r). db_wallet r = w \<and> \<not> db_is_deactivated r)
      (core_auth_users q))"
  have "set ids = active_ids (db_view q) w"
    using assms by (simp add: ids_def case_prod_unfold db_active_ids [symmetric] db_wf_def)
  moreover from this have "ids = [] \<longleftrightarrow> active_ids (db_view q) w = {}" by auto
  moreover have "ids \<noteq> [] \<Longrightarrow> min_list ids = Min (set ids)" by (rule min_list_Min)
  ultimately show ?thesis using assms
    by (simp add: dbAuthStore_def db_GetUserIDByWallet_def absent_if_no_rows_def GetAuthUserIDByWallet_def
        query_row_def db_wf_def viewAuthStore_def Let_def ids_def [symmetric])
qed

lemma query_exact:
  assumes "\<forall>stmt. pg_fault q stmt = None"
  shows "absent_if_no_rows f (query_row q stmt r) = Inr (map_option f r)"
    and "query_val q stmt x = Inr x"
    and "exec_stmt q stmt q' = (None, q')"
  using assms by (auto simp: absent_if_no_rows_def query_row_def query_val_def exec_stmt_def
      split: option.splits)

lemma db_reads:
  assumes "db_wf q"
  shows "GetUser dbAuthStore q u = GetUser viewAuthStore (db_view q) u"
    and "GetGrant dbAuthStore q g u = GetGrant viewAuthStore (db_view q) g u"
    and "GetApp dbAuthStore q ad = GetApp viewAuthStore (db_view q) ad"
    and "GetEntity dbAuthStore q t i = GetEntity viewAuthStore (db_view q) t i"
    and "WalletExists dbAuthStore q w = WalletExists viewAuthStore (db_view q) w"
    and "ActiveWalletExists dbAuthStore q w = ActiveWalletExists viewAuthStore (db_view q) w"
    and "h \<noteq> [] \<Longrightarrow> HandleExists dbAuthStore q h = HandleExists viewAuthStore (db_view q) h"
    and "IsCidClaimedByUser dbAuthStore q c u = IsCidClaimedByUser viewAuthStore (db_view q) c u"
    and "CidIsClaimed dbAuthStore q c = CidIsClaimed viewAuthStore (db_view q) c"
  using assms
  by (simp_all add: dbAuthStore_def viewAuthStore_def db_GetUser_def db_GetGrant_def db_GetApp_def
      db_GetEntity_def GetAuthUser_def GetAuthGrant_def GetAuthDeveloperApp_def GetAuthEntity_def
      AuthWalletExists_def AuthActiveWalletExists_def AuthHandleExists_def q_IsCidClaimedByUser_def
      q_CidIsClaimed_def query_exact db_wf_def db_wallet_scans cid_claimed_def ex_first_key domIff)

lemma db_writes:
  assumes "db_wf q"
  shows "sim db_wf db_view (InsertUser dbAuthStore q u w h d) (InsertUser viewAuthStore (db_view q) u w h d)"
    and "sim db_wf db_view (SetUserHandle dbAuthStore q u h) (SetUserHandle viewAuthStore (db_view q) u h)"
    and "sim db_wf db_view (SetUserDeactivated dbAuthStore q u d)
      (SetUserDeactivated viewAuthStore (db_view q) u d)"
    and "sim db_wf db_view (UpsertGrant dbAuthStore q g u a r) (UpsertGrant viewAuthStore (db_view q) g u a r)"
    and "sim db_wf db_view (UpsertApp dbAuthStore q ad u) (UpsertApp viewAuthStore (db_view q) ad u)"
    and "sim db_wf db_view (SetAppDeleted dbAuthStore q ad) (SetAppDeleted viewAuthStore (db_view q) ad)"
    and "sim db_wf db_view (InsertEntity dbAuthStore q t i u d)
      (InsertEntity viewAuthStore (db_view q) t i u d)"
    and "sim db_wf db_view (SetEntityDeleted dbAuthStore q t i)
      (SetEntityDeleted viewAuthStore (db_view q) t i)"
    and "sim db_wf db_view (InsertCid dbAuthStore q c u tx) (InsertCid viewAuthStore (db_view q) c u tx)"
  using assms
  by (auto simp: dbAuthStore_def viewAuthStore_def db_InsertUser_def db_SetUserHandle_def
      InsertAuthUser_def SetAuthUserHandle_def SetAuthUserDeactivated_def UpsertAuthGrant_def
      UpsertAuthDeveloperApp_def SetAuthDeveloperAppDeleted_def InsertAuthEntity_def
      SetAuthEntityDeleted_def InsertAuthCid_def query_exact db_wf_def sim_def
      lookup_simps row_defs fun_eq_iff option.map_comp comp_def
      split: option.splits if_splits intro!: auth_view.equality)

interpretation db: durable_auth_store dbAuthStore db_view db_wf "\<lambda>_. True"
  by (unfold_locales; (rule db_reads db_GetUserIDByWallet_exact db_writes TrueI; assumption))

end
