(* ===== verification/Upgrades.thy ===== *)
theory Upgrades
  imports Prelude
begin

text \<open>
  The height-gated ruleset engine, \<^verbatim>\<open>pkg/core/config/upgrades.go\<close>: the activation table
  of a network, the rules it resolves to at a height, and the schedules baked into the binary.
\<close>

section \<open>Schedules and rules\<close>

record UpgradeSchedule =
  AttestationDomainHeight :: int
  AuthEnforcementHeight :: int
  ContentAuthEnforcementHeight :: int
  ContentAuthStrictHeight :: int
  LegacyRegistrationClosedHeight :: int

record Rules =
  AttestationDomainEnforced :: bool
  AuthEnforced :: bool
  ContentAuthEnforced :: bool
  ContentAuthStrict :: bool
  LegacyRegistrationClosed :: bool

definition no_rules :: Rules where
  "no_rules = \<lparr>AttestationDomainEnforced = False, AuthEnforced = False,
     ContentAuthEnforced = False, ContentAuthStrict = False, LegacyRegistrationClosed = False\<rparr>"

definition activeAt :: "int \<Rightarrow> int \<Rightarrow> bool" where
  "activeAt activation height \<longleftrightarrow> activation \<noteq> 0 \<and> height \<ge> activation"

text \<open>A nil schedule is \<^const>\<open>None\<close>.\<close>

definition RulesetAt :: "UpgradeSchedule option \<Rightarrow> int \<Rightarrow> Rules" where
  "RulesetAt u height = (case u of
     None \<Rightarrow> no_rules
   | Some s \<Rightarrow> \<lparr>
       AttestationDomainEnforced = activeAt (AttestationDomainHeight s) height,
       AuthEnforced = activeAt (AuthEnforcementHeight s) height,
       ContentAuthEnforced = activeAt (ContentAuthEnforcementHeight s) height,
       ContentAuthStrict = activeAt (ContentAuthStrictHeight s) height,
       LegacyRegistrationClosed = activeAt (LegacyRegistrationClosedHeight s) height\<rparr>)"

definition empty_schedule :: UpgradeSchedule where
  "empty_schedule = \<lparr>AttestationDomainHeight = 0, AuthEnforcementHeight = 0,
     ContentAuthEnforcementHeight = 0, ContentAuthStrictHeight = 0,
     LegacyRegistrationClosedHeight = 0\<rparr>"

definition dev_schedule :: UpgradeSchedule where
  "dev_schedule = \<lparr>AttestationDomainHeight = 1, AuthEnforcementHeight = 1,
     ContentAuthEnforcementHeight = 1, ContentAuthStrictHeight = 1,
     LegacyRegistrationClosedHeight = 1\<rparr>"

definition upgradeSchedules :: "(string, UpgradeSchedule) table" where
  "upgradeSchedules = [
     (''openaudio-devnet'', dev_schedule),
     (''audius-devnet'', dev_schedule),
     (''audius-testnet-alpha'', empty_schedule),
     (''audius-mainnet-alpha-beta'',
        empty_schedule\<lparr>LegacyRegistrationClosedHeight := 35005210\<rparr>),
     (''audius-mainnet-beta'',
        empty_schedule\<lparr>AuthEnforcementHeight := 1, ContentAuthEnforcementHeight := 1,
          LegacyRegistrationClosedHeight := 1\<rparr>)]"

definition ScheduleForChainID :: "string \<Rightarrow> UpgradeSchedule option" where
  "ScheduleForChainID chainID = (case map_of upgradeSchedules chainID of
     Some s \<Rightarrow> Some s | None \<Rightarrow> Some empty_schedule)"

section \<open>Rules only ever switch on\<close>

text \<open>The rules of one height contain the rules of another.\<close>

definition rules_le :: "Rules \<Rightarrow> Rules \<Rightarrow> bool" where
  "rules_le r r' \<longleftrightarrow>
     (AttestationDomainEnforced r \<longrightarrow> AttestationDomainEnforced r') \<and>
     (AuthEnforced r \<longrightarrow> AuthEnforced r') \<and>
     (ContentAuthEnforced r \<longrightarrow> ContentAuthEnforced r') \<and>
     (ContentAuthStrict r \<longrightarrow> ContentAuthStrict r') \<and>
     (LegacyRegistrationClosed r \<longrightarrow> LegacyRegistrationClosed r')"

lemma activeAt_mono: "activeAt a h \<Longrightarrow> h \<le> h' \<Longrightarrow> activeAt a h'"
  by (auto simp: activeAt_def)

lemma RulesetAt_rules_le: "h \<le> h' \<Longrightarrow> rules_le (RulesetAt u h) (RulesetAt u h')"
  by (auto simp: rules_le_def RulesetAt_def no_rules_def intro: activeAt_mono split: option.splits)

text \<open>
  On every chain the binary knows, a strict height is only ever scheduled together with the
  enforcement it strengthens and never before it.
\<close>

definition schedule_ordered :: "UpgradeSchedule \<Rightarrow> bool" where
  "schedule_ordered s \<longleftrightarrow> (ContentAuthStrictHeight s = 0 \<or>
     (ContentAuthEnforcementHeight s \<noteq> 0 \<and>
      ContentAuthEnforcementHeight s \<le> ContentAuthStrictHeight s)) \<and>
     (ContentAuthEnforcementHeight s = 0 \<or>
     (AuthEnforcementHeight s \<noteq> 0 \<and>
      AuthEnforcementHeight s \<le> ContentAuthEnforcementHeight s))"

lemma ScheduleForChainID_cases:
  "ScheduleForChainID c \<in> Some ` ({empty_schedule} \<union> set (map snd upgradeSchedules))"
  by (cases "map_of upgradeSchedules c")
    (auto simp: ScheduleForChainID_def dest!: map_of_SomeD intro!: image_eqI)

lemma schedules_ordered:
  assumes "ScheduleForChainID c = Some s"
  shows "schedule_ordered s"
proof -
  from assms ScheduleForChainID_cases [of c]
  have "s \<in> {empty_schedule} \<union> set (map snd upgradeSchedules)" by auto
  then show ?thesis
    by (auto simp: upgradeSchedules_def schedule_ordered_def empty_schedule_def dev_schedule_def)
qed

lemma strict_implies_enforced:
  assumes "ContentAuthStrict (RulesetAt (ScheduleForChainID c) h)"
  shows "ContentAuthEnforced (RulesetAt (ScheduleForChainID c) h)"
    and "AuthEnforced (RulesetAt (ScheduleForChainID c) h)"
proof -
  obtain s where s: "ScheduleForChainID c = Some s"
    by (cases "map_of upgradeSchedules c") (auto simp: ScheduleForChainID_def)
  with schedules_ordered have "schedule_ordered s" by blast
  with assms s show "ContentAuthEnforced (RulesetAt (ScheduleForChainID c) h)"
    "AuthEnforced (RulesetAt (ScheduleForChainID c) h)"
    by (auto simp: RulesetAt_def activeAt_def schedule_ordered_def)
qed

end
