(* ===== verification/Auth_Projection.thy ===== *)
theory Auth_Projection
  imports Auth_Contract Upgrades
begin

text \<open>
  The authorization projection, \<^verbatim>\<open>pkg/core/server/auth_state.go\<close> and
  \<^verbatim>\<open>content_auth_state.go\<close>: the one transition function that FinalizeBlock runs against
  the durable store and proposal validation runs against the overlay. Every operation takes
  the store's interface, so the two run the same definition here too.

  The JSON decoder \<^verbatim>\<open>json.Unmarshal\<close> into \<^verbatim>\<open>map[string]any\<close> is the parameter
  \<open>unmarshal\<close>. A decoded number is a float64, a rational here. Converting one to int64
  truncates towards zero; out of range Go leaves the result to the implementation, and the
  definition takes that of amd64, the least int64.
\<close>

section \<open>Transactions\<close>

datatype json = JNull | JBool bool | JNum rat | JStr string | JArr "json list"
  | JObj "(string \<times> json) list"

type_synonym meta = "(string, json) table"

record authTx =
  UserID :: int
  EntityType :: string
  EntityID :: int
  Action :: string
  Signer :: string
  Migration :: bool
  tx_meta :: meta

text \<open>The fields of \<^verbatim>\<open>v1.ManageEntityLegacy\<close>.\<close>

record ManageEntityLegacy =
  me_UserId :: int
  me_EntityType :: string
  me_EntityId :: int
  me_Action :: string
  me_Metadata :: string
  me_Signature :: string
  me_Signer :: string
  me_Nonce :: string

definition parseAuthMetadata :: "(string \<Rightarrow> meta option) \<Rightarrow> string \<Rightarrow> meta" where
  "parseAuthMetadata unmarshal raw = (if raw = [] then [] else
     case unmarshal raw of
       None \<Rightarrow> []
     | Some m \<Rightarrow> (case map_of m ''data'' of Some (JObj d) \<Rightarrow> d | _ \<Rightarrow> m))"

definition authTxFromManageEntity :: "(string \<Rightarrow> meta option) \<Rightarrow> ManageEntityLegacy \<Rightarrow> authTx" where
  "authTxFromManageEntity unmarshal em = \<lparr>UserID = me_UserId em, EntityType = me_EntityType em,
     EntityID = me_EntityId em, Action = me_Action em, Signer = me_Signer em, Migration = False,
     tx_meta = parseAuthMetadata unmarshal (me_Metadata em)\<rparr>"

definition authTxFromManageEntityMigration ::
  "(string \<Rightarrow> meta option) \<Rightarrow> ManageEntityLegacy \<Rightarrow> authTx" where
  "authTxFromManageEntityMigration unmarshal em = \<lparr>UserID = me_UserId em,
     EntityType = me_EntityType em, EntityID = me_EntityId em, Action = me_Action em,
     Signer = me_Signer em, Migration = True,
     tx_meta = parseAuthMetadata unmarshal (me_Metadata em)\<rparr>"

definition metaString :: "authTx \<Rightarrow> string \<Rightarrow> string" where
  "metaString t k = (case map_of (tx_meta t) k of Some (JStr s) \<Rightarrow> s | _ \<Rightarrow> [])"

definition int64_of_float :: "rat \<Rightarrow> int" where
  "int64_of_float x = (let n = (if 0 \<le> x then \<lfloor>x\<rfloor> else \<lceil>x\<rceil>)
     in if - (2 ^ 63) \<le> n \<and> n < 2 ^ 63 then n else - (2 ^ 63))"

definition metaInt64 :: "authTx \<Rightarrow> string \<Rightarrow> int option" where
  "metaInt64 t k = (case map_of (tx_meta t) k of Some (JNum n) \<Rightarrow> Some (int64_of_float n) | _ \<Rightarrow> None)"

definition metaBool :: "authTx \<Rightarrow> string \<Rightarrow> bool option" where
  "metaBool t k = (case map_of (tx_meta t) k of Some (JBool b) \<Rightarrow> Some b | _ \<Rightarrow> None)"

definition metaBoolOr :: "authTx \<Rightarrow> string \<Rightarrow> bool \<Rightarrow> bool" where
  "metaBoolOr t k def = (case metaBool t k of Some b \<Rightarrow> b | None \<Rightarrow> def)"

section \<open>Verdicts\<close>

text \<open>One constructor per message of \<^verbatim>\<open>authValidationErrorf\<close>.\<close>

datatype auth_reason =
    UserDoesNotExist int
  | NoSigner int
  | SignerNotAuthorized string int
  | SignerNoLongerValid string
  | GrantNotApproved string int
  | UserAlreadyExists int
  | UserCreateNoSigner int
  | WalletInUse string
  | AppCannotCreateUser string
  | HandleTaken string
  | IdBelowOffset string int int
  | OwnerMismatch int
  | EntityAlreadyExists string int
  | EntityDoesNotExist string int
  | EntityNotOwned string int int
  | GranteeAddressRequired
  | GranteeUnknown string
  | ActiveGrantExists string int
  | NoActiveGrant string int
  | NotAuthorizedToRevoke string string int
  | GrantorRequired
  | GrantNotFound string int
  | GrantAlreadyRevoked
  | GrantAlreadyApproved
  | AppAddressRequired
  | AppAlreadyExists string
  | AddressIsUserWallet string
  | AppDoesNotExist string
  | AppNotOwned string int
  | CidNotUploadedForUser string string int
  | CidNotAttested string string
  | AttestationHasNoUser

datatype auth_error = AuthValidation auth_reason | StoreFailure pg_error

definition isAuthValidationError :: "auth_error \<Rightarrow> bool" where
  "isAuthValidationError e = (case e of AuthValidation _ \<Rightarrow> True | StoreFailure _ \<Rightarrow> False)"

type_synonym 's outcome = "auth_error option \<times> 's"

text \<open>
  \<^verbatim>\<open>if err != nil { return err }\<close> after a read in a check, after a read in an operation,
  after a check, and after a mutation.
\<close>

definition chk_read :: "pg_error + 'a \<Rightarrow> ('a \<Rightarrow> auth_error option) \<Rightarrow> auth_error option" where
  "chk_read r k = (case r of Inl e \<Rightarrow> Some (StoreFailure e) | Inr x \<Rightarrow> k x)"

definition try_read :: "pg_error + 'a \<Rightarrow> 's \<Rightarrow> ('a \<Rightarrow> 's outcome) \<Rightarrow> 's outcome" where
  "try_read r st k = (case r of Inl e \<Rightarrow> (Some (StoreFailure e), st) | Inr x \<Rightarrow> k x)"

definition try_check :: "auth_error option \<Rightarrow> 's \<Rightarrow> 's outcome \<Rightarrow> 's outcome" where
  "try_check c st k = (case c of Some e \<Rightarrow> (Some e, st) | None \<Rightarrow> k)"

definition try_write :: "'s auth_write \<Rightarrow> ('s \<Rightarrow> 's outcome) \<Rightarrow> 's outcome" where
  "try_write w k = (case w of (Some e, st) \<Rightarrow> (Some (StoreFailure e), st) | (None, st) \<Rightarrow> k st)"

definition ret_write :: "'s auth_write \<Rightarrow> 's outcome" where
  "ret_write w = (map_option StoreFailure (fst w), snd w)"

definition reject :: "'s \<Rightarrow> auth_reason \<Rightarrow> 's outcome" where
  "reject st r = (Some (AuthValidation r), st)"

lemmas seq_defs = chk_read_def try_read_def try_check_def try_write_def ret_write_def reject_def

section \<open>The signer check\<close>

definition validateAuthSigner :: "'s authStore \<Rightarrow> 's \<Rightarrow> int \<Rightarrow> string \<Rightarrow> auth_error option" where
  "validateAuthSigner ops st userID signer =
     chk_read (GetUser ops st userID) (\<lambda>mu. case mu of
       None \<Rightarrow> Some (AuthValidation (UserDoesNotExist userID))
     | Some u \<Rightarrow>
         if Wallet u = [] then Some (AuthValidation (UserDoesNotExist userID))
         else if EqualFold (Wallet u) signer then None
         else (let grantee = ToLower signer in
           if grantee = [] then Some (AuthValidation (NoSigner userID))
           else chk_read (GetGrant ops st grantee userID) (\<lambda>mg. case mg of
             None \<Rightarrow> Some (AuthValidation (SignerNotAuthorized signer userID))
           | Some g \<Rightarrow>
               if Revoked g then Some (AuthValidation (SignerNotAuthorized signer userID))
               else chk_read (GetApp ops st grantee) (\<lambda>ma.
                 let isApp = (case ma of Some app \<Rightarrow> \<not> AppDeleted app | None \<Rightarrow> False)
                 in chk_read (ActiveWalletExists ops st grantee) (\<lambda>isUser.
                   if \<not> isApp \<and> \<not> isUser then Some (AuthValidation (SignerNoLongerValid signer))
                   else if \<not> isApp \<and> Approved g \<noteq> Some True
                   then Some (AuthValidation (GrantNotApproved signer userID))
                   else None)))))"

section \<open>Entity types and actions\<close>

definition canonicalAuthEntityType :: "string \<Rightarrow> string option" where
  "canonicalAuthEntityType s = find (EqualFold s)
     [''User'', ''Track'', ''Playlist'', ''Grant'', ''DeveloperApp'']"

definition canonicalAuthAction :: "string \<Rightarrow> string option" where
  "canonicalAuthAction s = find (EqualFold s)
     [''Create'', ''Update'', ''Delete'', ''Approve'', ''Reject'']"

section \<open>Users\<close>

definition projectUserCreate :: "'s authStore \<Rightarrow> 's \<Rightarrow> authTx \<Rightarrow> 's outcome" where
  "projectUserCreate ops st tx =
     try_read (GetUser ops st (UserID tx)) st (\<lambda>mu.
       if mu \<noteq> None then reject st (UserAlreadyExists (UserID tx))
       else (let wallet = ToLower (Signer tx) in
         if wallet = [] then reject st (UserCreateNoSigner (UserID tx))
         else (let handleLC = ToLower (metaString tx ''handle'');
                   insert_it = ret_write (InsertUser ops st (UserID tx) wallet handleLC
                     (metaBoolOr tx ''is_deactivated'' False))
           in if Migration tx then insert_it
              else try_read (WalletExists ops st wallet) st (\<lambda>used.
                if used then reject st (WalletInUse wallet)
                else try_read (GetApp ops st wallet) st (\<lambda>ma.
                  if (case ma of Some app \<Rightarrow> \<not> AppDeleted app | None \<Rightarrow> False)
                  then reject st (AppCannotCreateUser wallet)
                  else if handleLC \<noteq> []
                  then try_read (HandleExists ops st handleLC) st (\<lambda>taken.
                         if taken then reject st (HandleTaken handleLC) else insert_it)
                  else insert_it)))))"

definition projectUserUpdate :: "'s authStore \<Rightarrow> 's \<Rightarrow> authTx \<Rightarrow> 's outcome" where
  "projectUserUpdate ops st tx =
     try_check (validateAuthSigner ops st (UserID tx) (Signer tx)) st
       (try_write (let handle = metaString tx ''handle'' in
          if handle \<noteq> [] then SetUserHandle ops st (UserID tx) (ToLower handle) else (None, st))
        (\<lambda>st1. case map_of (tx_meta tx) ''is_deactivated'' of
            Some (JBool d) \<Rightarrow> ret_write (SetUserDeactivated ops st1 (UserID tx) d)
          | _ \<Rightarrow> (None, st1)))"

section \<open>Tracks and playlists\<close>

definition authPlaylistIDOffset :: int where "authPlaylistIDOffset = 400000"

definition authTrackIDOffset :: int where "authTrackIDOffset = 2000000"

definition projectEntityCreate :: "'s authStore \<Rightarrow> 's \<Rightarrow> authTx \<Rightarrow> string \<Rightarrow> 's outcome" where
  "projectEntityCreate ops st tx entityType =
     (let offset = (if entityType = ''Track'' then authTrackIDOffset else authPlaylistIDOffset) in
      if \<not> Migration tx \<and> EntityID tx < offset
      then reject st (IdBelowOffset entityType (EntityID tx) offset)
      else if entityType = ''Track'' \<and> metaInt64 tx ''owner_id'' \<noteq> Some (UserID tx)
      then reject st (OwnerMismatch (EntityID tx))
      else try_check (validateAuthSigner ops st (UserID tx) (Signer tx)) st
        (try_read (GetEntity ops st entityType (EntityID tx)) st (\<lambda>me.
           if me \<noteq> None then reject st (EntityAlreadyExists entityType (EntityID tx))
           else ret_write (InsertEntity ops st entityType (EntityID tx) (UserID tx)
                  (Migration tx \<and> metaBoolOr tx ''is_delete'' False)))))"

definition projectEntityDelete :: "'s authStore \<Rightarrow> 's \<Rightarrow> authTx \<Rightarrow> string \<Rightarrow> 's outcome" where
  "projectEntityDelete ops st tx entityType =
     try_check (validateAuthSigner ops st (UserID tx) (Signer tx)) st
       (try_read (GetEntity ops st entityType (EntityID tx)) st (\<lambda>me. case me of
          None \<Rightarrow> reject st (EntityDoesNotExist entityType (EntityID tx))
        | Some existing \<Rightarrow>
            if EntOwnerID existing \<noteq> UserID tx
            then reject st (EntityNotOwned entityType (EntityID tx) (UserID tx))
            else ret_write (SetEntityDeleted ops st entityType (EntityID tx))))"

section \<open>Grants\<close>

definition projectMigratedGrantCreate ::
  "'s authStore \<Rightarrow> 's \<Rightarrow> authTx \<Rightarrow> string \<Rightarrow> bool \<Rightarrow> 's outcome" where
  "projectMigratedGrantCreate ops st tx grantee isApp =
     ret_write (UpsertGrant ops st grantee (UserID tx)
       (case metaBool tx ''is_approved'' of
          Some v \<Rightarrow> Some v
        | None \<Rightarrow> if isApp then Some True else None)
       (metaBoolOr tx ''is_revoked'' False))"

definition projectGrantCreate :: "'s authStore \<Rightarrow> 's \<Rightarrow> authTx \<Rightarrow> 's outcome" where
  "projectGrantCreate ops st tx =
     (let grantee = ToLower (metaString tx ''grantee_address'') in
      if grantee = [] then reject st GranteeAddressRequired
      else try_check (validateAuthSigner ops st (UserID tx) (Signer tx)) st
        (try_read (GetApp ops st grantee) st (\<lambda>ma.
           let isApp = (case ma of Some app \<Rightarrow> \<not> AppDeleted app | None \<Rightarrow> False) in
           if Migration tx then projectMigratedGrantCreate ops st tx grantee isApp
           else try_read (WalletExists ops st grantee) st (\<lambda>isUser.
             if \<not> isApp \<and> \<not> isUser then reject st (GranteeUnknown grantee)
             else try_read (GetGrant ops st grantee (UserID tx)) st (\<lambda>mg.
               if (case mg of Some g \<Rightarrow> \<not> Revoked g | None \<Rightarrow> False)
               then reject st (ActiveGrantExists grantee (UserID tx))
               else ret_write (UpsertGrant ops st grantee (UserID tx)
                      (if isApp then Some True else None) False))))))"

definition projectGrantDelete :: "'s authStore \<Rightarrow> 's \<Rightarrow> authTx \<Rightarrow> 's outcome" where
  "projectGrantDelete ops st tx =
     (let grantee = ToLower (metaString tx ''grantee_address'') in
      if grantee = [] then reject st GranteeAddressRequired
      else try_read (GetGrant ops st grantee (UserID tx)) st (\<lambda>mg.
        case mg of
          None \<Rightarrow> reject st (NoActiveGrant grantee (UserID tx))
        | Some existing \<Rightarrow>
          if Revoked existing then reject st (NoActiveGrant grantee (UserID tx))
          else (let revoke = ret_write (UpsertGrant ops st grantee (UserID tx) (Approved existing) True)
            in case validateAuthSigner ops st (UserID tx) (Signer tx) of
                 None \<Rightarrow> revoke
               | Some sigErr \<Rightarrow>
                   if \<not> isAuthValidationError sigErr then (Some sigErr, st)
                   else try_read (GetUserIDByWallet ops st grantee) st (\<lambda>mid.
                     let denied = reject st (NotAuthorizedToRevoke (Signer tx) grantee (UserID tx))
                     in case mid of
                          None \<Rightarrow> denied
                        | Some granteeUserID \<Rightarrow>
                            (case validateAuthSigner ops st granteeUserID (Signer tx) of
                               None \<Rightarrow> revoke
                             | Some granteeErr \<Rightarrow>
                                 if \<not> isAuthValidationError granteeErr then (Some granteeErr, st)
                                 else denied)))))"

definition projectGrantApproveReject :: "'s authStore \<Rightarrow> 's \<Rightarrow> authTx \<Rightarrow> bool \<Rightarrow> 's outcome" where
  "projectGrantApproveReject ops st tx approve =
     (let grantee = ToLower (metaString tx ''grantee_address'') in
      if grantee = [] then reject st GranteeAddressRequired
      else try_check (validateAuthSigner ops st (UserID tx) (Signer tx)) st
        (case metaInt64 tx ''grantor_user_id'' of
           None \<Rightarrow> reject st GrantorRequired
         | Some grantor \<Rightarrow>
             try_read (GetGrant ops st grantee grantor) st (\<lambda>mg. case mg of
               None \<Rightarrow> reject st (GrantNotFound grantee grantor)
             | Some existing \<Rightarrow>
                 if Revoked existing then reject st GrantAlreadyRevoked
                 else if Approved existing = Some True then reject st GrantAlreadyApproved
                 else ret_write (UpsertGrant ops st grantee grantor (Some approve) (\<not> approve)))))"

section \<open>Developer apps\<close>

definition projectAppCreate :: "'s authStore \<Rightarrow> 's \<Rightarrow> authTx \<Rightarrow> 's outcome" where
  "projectAppCreate ops st tx =
     try_check (validateAuthSigner ops st (UserID tx) (Signer tx)) st
       (let address = ToLower (metaString tx ''address'') in
        if address = [] then reject st AppAddressRequired
        else try_read (GetApp ops st address) st (\<lambda>ma.
          if (case ma of Some app \<Rightarrow> \<not> AppDeleted app | None \<Rightarrow> False)
          then reject st (AppAlreadyExists address)
          else try_read (WalletExists ops st address) st (\<lambda>walletUsed.
            if walletUsed then reject st (AddressIsUserWallet address)
            else try_write (UpsertApp ops st address (UserID tx)) (\<lambda>st1.
              if Migration tx \<and> metaBoolOr tx ''is_delete'' False
              then ret_write (SetAppDeleted ops st1 address)
              else (None, st1)))))"

definition projectAppDelete :: "'s authStore \<Rightarrow> 's \<Rightarrow> authTx \<Rightarrow> 's outcome" where
  "projectAppDelete ops st tx =
     try_check (validateAuthSigner ops st (UserID tx) (Signer tx)) st
       (let address = ToLower (metaString tx ''address'') in
        if address = [] then reject st AppAddressRequired
        else try_read (GetApp ops st address) st (\<lambda>ma. case ma of
          None \<Rightarrow> reject st (AppDoesNotExist address)
        | Some existing \<Rightarrow>
            if AppDeleted existing then reject st (AppDoesNotExist address)
            else if AppOwnerID existing \<noteq> UserID tx then reject st (AppNotOwned address (UserID tx))
            else ret_write (SetAppDeleted ops st address)))"

section \<open>Content claims\<close>

definition trackCidMetadataKeys :: "string list" where
  "trackCidMetadataKeys = [''track_cid'', ''preview_cid'', ''orig_file_cid'']"

text \<open>The loops over cids that insert a claim for each one, stopping at the first failure.\<close>

fun insert_cids :: "'s authStore \<Rightarrow> 's \<Rightarrow> int \<Rightarrow> string \<Rightarrow> string list \<Rightarrow> 's outcome" where
  "insert_cids ops st userID txHash [] = (None, st)"
| "insert_cids ops st userID txHash (cid # cids) =
     (if cid = [] then insert_cids ops st userID txHash cids
      else try_write (InsertCid ops st cid userID txHash)
        (\<lambda>st1. insert_cids ops st1 userID txHash cids))"

record ContentAttestation =
  ca_UserId :: int
  ca_Cids :: "string list"
  ca_ValidatorAddress :: string
  ca_ValidatorSignature :: string

definition projectContentAttestationCids ::
  "'s authStore \<Rightarrow> 's \<Rightarrow> ContentAttestation option \<Rightarrow> string \<Rightarrow> 's outcome" where
  "projectContentAttestationCids ops st ca txHash = (case ca of
     None \<Rightarrow> (None, st)
   | Some a \<Rightarrow> if ca_UserId a = 0 then reject st AttestationHasNoUser
       else insert_cids ops st (ca_UserId a) txHash (ca_Cids a))"

definition projectMigratedTrackCids :: "'s authStore \<Rightarrow> 's \<Rightarrow> authTx \<Rightarrow> 's outcome" where
  "projectMigratedTrackCids ops st tx =
     (if \<not> Migration tx \<or> EntityType tx \<noteq> ''Track'' then (None, st)
      else if ToLower (Signer tx) = [] then (None, st)
      else insert_cids ops st (UserID tx) [] (map (metaString tx) trackCidMetadataKeys))"

fun check_cids :: "'s authStore \<Rightarrow> 's \<Rightarrow> authTx \<Rightarrow> Rules \<Rightarrow> string list \<Rightarrow> auth_error option" where
  "check_cids ops st tx rules [] = None"
| "check_cids ops st tx rules (key # keys) =
     (let cid = metaString tx key in
      if cid = [] then check_cids ops st tx rules keys
      else chk_read (IsCidClaimedByUser ops st cid (UserID tx)) (\<lambda>claimed.
        if claimed then check_cids ops st tx rules keys
        else chk_read (CidIsClaimed ops st cid) (\<lambda>known.
          if known then Some (AuthValidation (CidNotUploadedForUser key cid (UserID tx)))
          else if ContentAuthStrict rules then Some (AuthValidation (CidNotAttested key cid))
          else check_cids ops st tx rules keys)))"

definition validateTrackContentAuth :: "'s authStore \<Rightarrow> 's \<Rightarrow> authTx \<Rightarrow> Rules \<Rightarrow> auth_error option" where
  "validateTrackContentAuth ops st tx rules =
     (if Migration tx \<or> EntityType tx \<noteq> ''Track'' then None
      else if Action tx \<noteq> ''Create'' \<and> Action tx \<noteq> ''Update'' then None
      else check_cids ops st tx rules trackCidMetadataKeys)"

fun assert_cids :: "'s authStore \<Rightarrow> 's \<Rightarrow> int \<Rightarrow> string list \<Rightarrow> 's outcome" where
  "assert_cids ops st userID [] = (None, st)"
| "assert_cids ops st userID (cid # cids) =
     (if cid = [] then assert_cids ops st userID cids
      else try_read (CidIsClaimed ops st cid) st (\<lambda>known.
        if known then assert_cids ops st userID cids
        else try_write (InsertCid ops st cid userID []) (\<lambda>st1. assert_cids ops st1 userID cids)))"

definition projectAssertedTrackCids :: "'s authStore \<Rightarrow> 's \<Rightarrow> authTx \<Rightarrow> Rules \<Rightarrow> 's outcome" where
  "projectAssertedTrackCids ops st tx rules =
     (if Migration tx \<or> \<not> ContentAuthEnforced rules \<or> ContentAuthStrict rules \<or>
         EntityType tx \<noteq> ''Track''
      then (None, st)
      else assert_cids ops st (UserID tx) (map (metaString tx) trackCidMetadataKeys))"

section \<open>The projection\<close>

text \<open>\<^verbatim>\<open>if err := f(); err != nil { return err }\<close> for an operation.\<close>

definition then_do :: "'s outcome \<Rightarrow> ('s \<Rightarrow> 's outcome) \<Rightarrow> 's outcome" where
  "then_do r k = (case r of (Some e, st) \<Rightarrow> (Some e, st) | (None, st) \<Rightarrow> k st)"

definition applyAuthProjection :: "'s authStore \<Rightarrow> 's \<Rightarrow> authTx \<Rightarrow> Rules \<Rightarrow> 's outcome" where
  "applyAuthProjection ops st tx rules =
     (case canonicalAuthEntityType (EntityType tx) of None \<Rightarrow> (None, st) | Some entityType \<Rightarrow>
      case canonicalAuthAction (Action tx) of None \<Rightarrow> (None, st) | Some action \<Rightarrow>
        if entityType = ''User'' \<and> action = ''Create'' then projectUserCreate ops st tx
        else if entityType = ''User'' \<and> action = ''Update'' then projectUserUpdate ops st tx
        else if (entityType = ''Track'' \<or> entityType = ''Playlist'') \<and> action = ''Create''
        then then_do (projectEntityCreate ops st tx entityType)
               (\<lambda>st1. then_do (projectMigratedTrackCids ops st1 tx)
                 (\<lambda>st2. projectAssertedTrackCids ops st2 tx rules))
        else if entityType = ''Track'' \<and> action = ''Update''
        then (if Migration tx \<or> \<not> ContentAuthEnforced rules \<or> ContentAuthStrict rules then (None, st)
              else try_check (validateAuthSigner ops st (UserID tx) (Signer tx)) st
                (projectAssertedTrackCids ops st tx rules))
        else if (entityType = ''Track'' \<or> entityType = ''Playlist'') \<and> action = ''Delete''
        then projectEntityDelete ops st tx entityType
        else if entityType = ''Grant'' \<and> action = ''Create'' then projectGrantCreate ops st tx
        else if entityType = ''Grant'' \<and> action = ''Delete'' then projectGrantDelete ops st tx
        else if entityType = ''Grant'' \<and> (action = ''Approve'' \<or> action = ''Reject'')
        then projectGrantApproveReject ops st tx (action = ''Approve'')
        else if entityType = ''DeveloperApp'' \<and> action = ''Create'' then projectAppCreate ops st tx
        else if entityType = ''DeveloperApp'' \<and> action = ''Delete'' then projectAppDelete ops st tx
        else (None, st))"

text \<open>Skipped with a reason, applied, or a store failure.\<close>

definition ProjectMigrationAuthState ::
  "(string \<Rightarrow> meta option) \<Rightarrow> auth_db \<Rightarrow> ManageEntityLegacy \<Rightarrow>
   (bool \<times> auth_reason option \<times> pg_error option) \<times> auth_db" where
  "ProjectMigrationAuthState unmarshal q me =
     (let (err, q') = applyAuthProjection dbAuthStore q (authTxFromManageEntityMigration unmarshal me) no_rules
      in (case err of
            None \<Rightarrow> (False, None, None)
          | Some (AuthValidation r) \<Rightarrow> (True, Some r, None)
          | Some (StoreFailure e) \<Rightarrow> (False, None, Some e), q'))"

lemmas [project_defs] = projectUserCreate_def projectUserUpdate_def projectEntityCreate_def
  projectEntityDelete_def projectMigratedGrantCreate_def projectGrantCreate_def
  projectGrantDelete_def projectGrantApproveReject_def projectAppCreate_def projectAppDelete_def

end
