(* ===== verification/Auth_Overlay.thy ===== *)
theory Auth_Overlay
  imports Auth_Contract
begin

text \<open>
  The proposal overlay over the durable store implements the authorization contract: its view
  is the base view overridden by the overlay's rows. It needs unique wallets, the caveat of the
  comment on \<^verbatim>\<open>overlayAuthStore\<close>, and it is fresh while no overlay row differs from the
  base row it shadows.
\<close>

definition ov_view :: "auth_db overlay \<Rightarrow> auth_view" where
  "ov_view ov = (let v = db_view (ov_base ov) in \<lparr>
     v_users = v_users v ++ map_of (ov_users ov),
     v_grants = v_grants v ++ map_of (ov_grants ov),
     v_apps = v_apps v ++ map_of (ov_apps ov),
     v_entities = v_entities v ++ map_of (ov_entities ov),
     v_cids = v_cids v \<union> dom (map_of (ov_cids ov))\<rparr>)"

definition ov_wf :: "auth_db overlay \<Rightarrow> bool" where
  "ov_wf ov \<longleftrightarrow> db_wf (ov_base ov) \<and> keyed (ov_users ov) \<and> unique_wallets (ov_view ov) \<and>
     (\<forall>u r r'. map_of (ov_users ov) u = Some r \<longrightarrow> v_users (db_view (ov_base ov)) u = Some r' \<longrightarrow>
        Wallet r = Wallet r')"

definition ov_fresh :: "auth_db overlay \<Rightarrow> bool" where
  "ov_fresh ov \<longleftrightarrow>
     (\<forall>u r r'. map_of (ov_users ov) u = Some r \<longrightarrow> v_users (db_view (ov_base ov)) u = Some r' \<longrightarrow> r = r')"

lemma ov_view_sels [simp]:
  "v_users (ov_view ov) = v_users (db_view (ov_base ov)) ++ map_of (ov_users ov)"
  "v_grants (ov_view ov) = v_grants (db_view (ov_base ov)) ++ map_of (ov_grants ov)"
  "v_apps (ov_view ov) = v_apps (db_view (ov_base ov)) ++ map_of (ov_apps ov)"
  "v_entities (ov_view ov) = v_entities (db_view (ov_base ov)) ++ map_of (ov_entities ov)"
  "v_cids (ov_view ov) = v_cids (db_view (ov_base ov)) \<union> dom (map_of (ov_cids ov))"
  by (simp_all add: ov_view_def Let_def)

lemma ov_view_new [simp]: "ov_view (newOverlayAuthStore q) = db_view q"
  by (simp add: ov_view_def newOverlayAuthStore_def Let_def)

lemma ov_wf_new: "db_wf q \<Longrightarrow> unique_wallets (db_view q) \<Longrightarrow> ov_wf (newOverlayAuthStore q)"
  unfolding ov_wf_def ov_view_new by (simp add: newOverlayAuthStore_def)

lemma ov_fresh_new: "ov_fresh (newOverlayAuthStore q)"
  by (simp add: ov_fresh_def newOverlayAuthStore_def)

section \<open>Reads\<close>

lemma ov_point_reads:
  assumes "ov_wf ov"
  shows "GetUser (overlayAuthStore dbAuthStore) ov u = GetUser viewAuthStore (ov_view ov) u"
    and "GetGrant (overlayAuthStore dbAuthStore) ov g u = GetGrant viewAuthStore (ov_view ov) g u"
    and "GetApp (overlayAuthStore dbAuthStore) ov a = GetApp viewAuthStore (ov_view ov) a"
    and "GetEntity (overlayAuthStore dbAuthStore) ov t i = GetEntity viewAuthStore (ov_view ov) t i"
    and "IsCidClaimedByUser (overlayAuthStore dbAuthStore) ov c u =
      IsCidClaimedByUser viewAuthStore (ov_view ov) c u"
    and "CidIsClaimed (overlayAuthStore dbAuthStore) ov c = CidIsClaimed viewAuthStore (ov_view ov) c"
proof -
  from assms have q: "db_wf (ov_base ov)" by (simp add: ov_wf_def)
  note base = db.get_user [OF q] db.get_grant [OF q] db.get_app [OF q] db.get_entity [OF q]
    db.is_cid_claimed_by_user [OF q] db.cid_is_claimed [OF q]
  show "GetUser (overlayAuthStore dbAuthStore) ov u = GetUser viewAuthStore (ov_view ov) u"
    "GetGrant (overlayAuthStore dbAuthStore) ov g u = GetGrant viewAuthStore (ov_view ov) g u"
    "GetApp (overlayAuthStore dbAuthStore) ov a = GetApp viewAuthStore (ov_view ov) a"
    "GetEntity (overlayAuthStore dbAuthStore) ov t i = GetEntity viewAuthStore (ov_view ov) t i"
    "IsCidClaimedByUser (overlayAuthStore dbAuthStore) ov c u =
      IsCidClaimedByUser viewAuthStore (ov_view ov) c u"
    "CidIsClaimed (overlayAuthStore dbAuthStore) ov c = CidIsClaimed viewAuthStore (ov_view ov) c"
    unfolding overlay_defs
    by (auto simp: base viewAuthStore_def map_add_def cid_claimed_def ex_first_key
        split: option.splits)
qed

text \<open>
  An overlay row owns its wallet: under unique wallets no base row of another user has it, and
  a base row of the same user is shadowed.
\<close>

lemma ov_user_scan:
  assumes "ov_wf ov"
  shows "(\<exists>e\<in>set (ov_users ov). P (snd e)) \<longleftrightarrow> (\<exists>u r. map_of (ov_users ov) u = Some r \<and> P r)"
  using assms keyed_ex [of "ov_users ov" "\<lambda>_. P"] by (simp add: ov_wf_def)

lemma ov_wallet_owner:
  assumes "ov_wf ov" "map_of (ov_users ov) u = Some r" "v_users (ov_view ov) u' = Some r'"
    "Wallet r' = Wallet r"
  shows "u' = u" and "r' = r"
proof -
  from assms(2) have "v_users (ov_view ov) u = Some r" by simp
  with assms show "u' = u" unfolding ov_wf_def unique_wallets_def by metis
  with assms show "r' = r" by simp
qed

lemma ov_unshadowed:
  assumes "ov_wf ov" "\<nexists>u r. map_of (ov_users ov) u = Some r \<and> Wallet r = w" "Wallet r = w"
  shows "v_users (ov_view ov) u = Some r \<longleftrightarrow> v_users (db_view (ov_base ov)) u = Some r"
proof (cases "map_of (ov_users ov) u")
  case (Some r0)
  with assms(2) have "Wallet r0 \<noteq> w" by blast
  moreover have "v_users (db_view (ov_base ov)) u = Some r \<Longrightarrow> Wallet r0 = Wallet r"
    using assms(1) Some unfolding ov_wf_def by blast
  ultimately show ?thesis using Some assms(3) by (auto simp del: db_view_sels)
qed (simp add: map_add_def)

lemma ov_wallet_scans:
  assumes "ov_wf ov"
  shows "WalletExists (overlayAuthStore dbAuthStore) ov w = WalletExists viewAuthStore (ov_view ov) w"
    and "ActiveWalletExists (overlayAuthStore dbAuthStore) ov w =
      ActiveWalletExists viewAuthStore (ov_view ov) w"
proof -
  from assms have q: "db_wf (ov_base ov)" by (simp add: ov_wf_def)
  have "(\<exists>u r. v_users (ov_view ov) u = Some r \<and> Wallet r = w \<and> P r) \<longleftrightarrow>
      (if \<exists>u r. map_of (ov_users ov) u = Some r \<and> Wallet r = w
       then \<exists>u r. map_of (ov_users ov) u = Some r \<and> Wallet r = w \<and> P r
       else \<exists>u r. v_users (db_view (ov_base ov)) u = Some r \<and> Wallet r = w \<and> P r)" for P
  proof (cases "\<exists>u r. map_of (ov_users ov) u = Some r \<and> Wallet r = w")
    case True
    then obtain u r where *: "map_of (ov_users ov) u = Some r" "Wallet r = w" by blast
    then have r: "v_users (ov_view ov) u = Some r" by simp
    have own: "u' = u \<and> r' = r" if "v_users (ov_view ov) u' = Some r'" "Wallet r' = w" for u' r'
      using ov_wallet_owner [OF assms *(1) that(1)] that(2) *(2) by simp
    have "(\<exists>u r. v_users (ov_view ov) u = Some r \<and> Wallet r = w \<and> P r) \<longleftrightarrow> P r"
      by (rule iffI, (elim exE conjE, drule (1) own, simp), intro exI [of _ u] exI [of _ r])
        (simp add: * r del: ov_view_sels)
    moreover have own': "u' = u \<and> r' = r" if "map_of (ov_users ov) u' = Some r'" "Wallet r' = w"
      for u' r' using own [of u' r'] that by simp
    have "(\<exists>u r. map_of (ov_users ov) u = Some r \<and> Wallet r = w \<and> P r) \<longleftrightarrow> P r"
      by (rule iffI, (elim exE conjE, drule (1) own', simp), intro exI [of _ u] exI [of _ r])
        (simp add: *)
    ultimately show ?thesis using True by (simp only: if_True)
  next
    case False
    then show ?thesis using ov_unshadowed [OF assms False] by (simp only: if_False) blast
  qed
  note scan = this [of "\<lambda>_. True", unfolded if_bool_eq_conj]
    this [of "\<lambda>r. \<not> Deactivated r", unfolded if_bool_eq_conj]
  show "WalletExists (overlayAuthStore dbAuthStore) ov w = WalletExists viewAuthStore (ov_view ov) w"
    using scan(1) unfolding overlay_defs
    by (simp add: ov_user_scan [OF assms, where P = "\<lambda>r. Wallet r = w"] db.wallet_exists [OF q]
        viewAuthStore_def wallet_used_def del: ov_view_sels db_view_sels) blast
  show "ActiveWalletExists (overlayAuthStore dbAuthStore) ov w =
      ActiveWalletExists viewAuthStore (ov_view ov) w"
    using scan(2) unfolding overlay_defs
    by (simp add: ov_user_scan [OF assms, where P = "\<lambda>r. Wallet r = w"]
        ov_user_scan [OF assms, where P = "\<lambda>r. Wallet r = w \<and> \<not> Deactivated r"]
        db.active_wallet_exists [OF q] viewAuthStore_def wallet_active_def
        del: ov_view_sels db_view_sels) blast
qed

lemma ov_fresh_base:
  assumes "ov_fresh ov"
  shows "v_users (db_view (ov_base ov)) u = Some r \<Longrightarrow> v_users (ov_view ov) u = Some r"
  using assms by (cases "map_of (ov_users ov) u") (auto simp: ov_fresh_def map_add_def)

lemma ov_HandleExists_exact:
  assumes "ov_wf ov" "ov_fresh ov" "h \<noteq> []"
  shows "HandleExists (overlayAuthStore dbAuthStore) ov h = HandleExists viewAuthStore (ov_view ov) h"
proof -
  have "(\<exists>u r. v_users (ov_view ov) u = Some r \<and> HandleLC r = h) \<longleftrightarrow>
      (\<exists>u r. map_of (ov_users ov) u = Some r \<and> HandleLC r = h) \<or>
      (\<exists>u r. v_users (db_view (ov_base ov)) u = Some r \<and> HandleLC r = h)"
    using ov_fresh_base [OF assms(2)]
    by (fastforce simp: map_add_Some_iff simp del: db_view_sels)
  moreover from assms have "HandleExists dbAuthStore (ov_base ov) h =
      Inr (\<exists>u r. v_users (db_view (ov_base ov)) u = Some r \<and> HandleLC r = h)"
    by (simp add: db.handle_exists ov_wf_def viewAuthStore_def handle_used_def del: db_view_sels)
  ultimately show ?thesis unfolding overlay_defs
    by (simp add: ov_user_scan [OF assms(1), where P = "\<lambda>r. HandleLC r = h"] viewAuthStore_def
        handle_used_def del: ov_view_sels db_view_sels) blast
qed

section \<open>The wallet lookup\<close>

text \<open>The loop of \<^verbatim>\<open>GetUserIDByWallet\<close> finds the least active id among the overlay's rows.\<close>

abbreviation ov_scan_step :: "string \<Rightarrow> int \<times> authUserRow \<Rightarrow> int option \<Rightarrow> int option" where
  "ov_scan_step wallet \<equiv> \<lambda>(uid, u) found.
     if Wallet u = wallet \<and> \<not> Deactivated u \<and> (case found of None \<Rightarrow> True | Some i \<Rightarrow> uid < i)
     then Some uid else found"

lemma ov_scan_None:
  "fold (ov_scan_step w) xs acc = None \<longleftrightarrow>
     acc = None \<and> (\<forall>e\<in>set xs. \<not> (Wallet (snd e) = w \<and> \<not> Deactivated (snd e)))"
  by (induction xs arbitrary: acc) (auto split: option.splits if_splits)

lemma ov_scan_Some:
  "fold (ov_scan_step w) xs acc = Some i \<Longrightarrow>
     acc = Some i \<or> (\<exists>e\<in>set xs. fst e = i \<and> Wallet (snd e) = w \<and> \<not> Deactivated (snd e))"
  by (induction xs arbitrary: acc) (fastforce split: if_splits)+

lemma ov_GetUserIDByWallet_exact:
  assumes "ov_wf ov" "ov_fresh ov"
  shows "GetUserIDByWallet (overlayAuthStore dbAuthStore) ov w =
    GetUserIDByWallet viewAuthStore (ov_view ov) w"
proof (cases "fold (ov_scan_step w) (ov_users ov) None")
  case None
  then have none: "\<nexists>u r. map_of (ov_users ov) u = Some r \<and> Wallet r = w \<and> \<not> Deactivated r"
    using ov_user_scan [OF assms(1), of "\<lambda>r. Wallet r = w \<and> \<not> Deactivated r"]
    by (auto simp: ov_scan_None)
  have "active_ids (ov_view ov) w = active_ids (db_view (ov_base ov)) w"
    using none ov_fresh_base [OF assms(2)]
    by (fastforce simp: active_ids_def map_add_Some_iff simp del: db_view_sels)
  with None assms(1) show ?thesis unfolding overlay_defs
    by (simp add: db.get_user_id_by_wallet ov_wf_def viewAuthStore_def)
next
  case (Some i)
  then obtain r where r: "map_of (ov_users ov) i = Some r" "Wallet r = w" "\<not> Deactivated r"
    using ov_scan_Some [OF Some] assms(1) by (auto simp: ov_wf_def keyed_lookup)
  then have "v_users (ov_view ov) i = Some r" by simp
  with r have "active_ids (ov_view ov) w = {i}"
    by (auto simp: active_ids_def simp del: ov_view_sels dest: ov_wallet_owner(1) [OF assms(1) r(1)])
  with Some show ?thesis unfolding overlay_defs by (simp add: viewAuthStore_def)
qed

section \<open>Mutations\<close>

lemma map_add_upd_left: "m ++ m'(k \<mapsto> v) = (m ++ m')(k \<mapsto> v)"
  by (simp add: map_add_def fun_eq_iff)

text \<open>Overriding one row with one of the same wallet, or adding one of an unused wallet.\<close>

lemma unique_wallets_upd:
  assumes "unique_wallets v" "(\<exists>r0. v_users v u = Some r0 \<and> Wallet r0 = Wallet r) \<or> \<not> wallet_used v (Wallet r)"
  shows "unique_wallets (v\<lparr>v_users := (v_users v)(u \<mapsto> r)\<rparr>)"
  using assms unfolding unique_wallets_def wallet_used_def
  by (auto split: if_splits) metis+

definition ov_put_user :: "int \<Rightarrow> authUserRow \<Rightarrow> auth_db overlay \<Rightarrow> auth_db overlay" where
  "ov_put_user u r ov = ov\<lparr>ov_users := AList.update u r (ov_users ov)\<rparr>"

lemma ov_view_put_user:
  "ov_view (ov_put_user u r ov) = (ov_view ov)\<lparr>v_users := (v_users (ov_view ov))(u \<mapsto> r)\<rparr>"
  by (simp add: ov_view_def ov_put_user_def Let_def map_add_upd_left)

lemma ov_wf_put_user:
  assumes "ov_wf ov" "(\<exists>r0. v_users (ov_view ov) u = Some r0 \<and> Wallet r0 = Wallet r) \<or>
      v_users (ov_view ov) u = None \<and> \<not> wallet_used (ov_view ov) (Wallet r)"
  shows "ov_wf (ov_put_user u r ov)"
proof -
  have "unique_wallets (ov_view (ov_put_user u r ov))"
    using assms unique_wallets_upd [of "ov_view ov" u r] unfolding ov_view_put_user ov_wf_def by blast
  moreover have "Wallet r = Wallet r'" if "v_users (db_view (ov_base ov)) u = Some r'" for r'
    using assms that unfolding ov_wf_def
    by (cases "map_of (ov_users ov) u") (auto simp: map_add_def simp del: db_view_sels)
  ultimately show ?thesis using assms(1)
    by (auto simp: ov_wf_def ov_put_user_def simp del: db_view_sels)
qed

lemma materializeUser_put:
  assumes "ov_wf ov"
  shows "materializeUser dbAuthStore ov u = (case v_users (ov_view ov) u of
     None \<Rightarrow> (Inr None, ov)
   | Some r \<Rightarrow> (Inr (Some r), if map_of (ov_users ov) u = None then ov_put_user u r ov else ov))"
  using assms db.get_user [of "ov_base ov" u]
  by (auto simp: materializeUser_def ov_put_user_def map_add_def viewAuthStore_def ov_wf_def
      simp del: db_view_sels split: option.splits)

lemma ov_put_user_twice:
  "(ov_put_user u r ov)\<lparr>ov_users := AList.update u r' (ov_users (ov_put_user u r ov))\<rparr> =
   ov_put_user u r' ov"
  by (simp add: ov_put_user_def)

lemma ov_set_user:
  assumes "ov_wf ov"
  shows "ov_SetUserHandle dbAuthStore ov u h = (None, case v_users (ov_view ov) u of
       None \<Rightarrow> ov | Some r \<Rightarrow> ov_put_user u (r\<lparr>HandleLC := h\<rparr>) ov)"
    and "ov_SetUserDeactivated dbAuthStore ov u d = (None, case v_users (ov_view ov) u of
       None \<Rightarrow> ov | Some r \<Rightarrow> ov_put_user u (r\<lparr>Deactivated := d\<rparr>) ov)"
  by (auto simp: ov_SetUserHandle_def ov_SetUserDeactivated_def materializeUser_put [OF assms]
      ov_put_user_twice ov_put_user_def [of _ _ ov] simp del: ov_view_sels split: option.splits)

lemma ov_user_writes:
  assumes "ov_wf ov"
  shows "v_users (ov_view ov) u = None \<Longrightarrow> \<not> wallet_used (ov_view ov) w \<Longrightarrow>
      sim ov_wf ov_view (InsertUser (overlayAuthStore dbAuthStore) ov u w h d)
        (InsertUser viewAuthStore (ov_view ov) u w h d)"
    and "sim ov_wf ov_view (SetUserHandle (overlayAuthStore dbAuthStore) ov u h)
        (SetUserHandle viewAuthStore (ov_view ov) u h)"
    and "sim ov_wf ov_view (SetUserDeactivated (overlayAuthStore dbAuthStore) ov u d)
        (SetUserDeactivated viewAuthStore (ov_view ov) u d)"
proof -
  assume a: "v_users (ov_view ov) u = None" "\<not> wallet_used (ov_view ov) w"
  then have "ov_InsertUser ov u w h d =
      (None, ov_put_user u \<lparr>Wallet = w, HandleLC = h, Deactivated = d\<rparr> ov)"
    by (simp add: ov_InsertUser_def ov_put_user_def)
  with a ov_wf_put_user [OF assms, of u "\<lparr>Wallet = w, HandleLC = h, Deactivated = d\<rparr>"]
  show "sim ov_wf ov_view (InsertUser (overlayAuthStore dbAuthStore) ov u w h d)
        (InsertUser viewAuthStore (ov_view ov) u w h d)"
    by (simp add: overlayAuthStore_def viewAuthStore_def sim_def ov_view_put_user
        del: ov_view_sels db_view_sels)
next
  show "sim ov_wf ov_view (SetUserHandle (overlayAuthStore dbAuthStore) ov u h)
        (SetUserHandle viewAuthStore (ov_view ov) u h)"
    and "sim ov_wf ov_view (SetUserDeactivated (overlayAuthStore dbAuthStore) ov u d)
        (SetUserDeactivated viewAuthStore (ov_view ov) u d)"
    using assms ov_wf_put_user [OF assms, of u]
    by (auto simp: overlayAuthStore_def ov_set_user viewAuthStore_def sim_def ov_view_put_user
        fun_upd_idem simp del: ov_view_sels db_view_sels split: option.splits)
qed

text \<open>The other mutations leave the users alone, so well-formedness is carried over.\<close>

lemma ov_wf_frame:
  "ov_wf ov \<Longrightarrow> ov_base ov' = ov_base ov \<Longrightarrow> ov_users ov' = ov_users ov \<Longrightarrow> ov_wf ov'"
  by (simp add: ov_wf_def unique_wallets_def)

lemma ov_fresh_frame:
  "ov_fresh ov \<Longrightarrow> ov_base ov' = ov_base ov \<Longrightarrow> ov_users ov' = ov_users ov \<Longrightarrow> ov_fresh ov'"
  by (simp add: ov_fresh_def)

lemma ov_other_writes:
  assumes "ov_wf ov"
  shows "sim ov_wf ov_view (UpsertGrant (overlayAuthStore dbAuthStore) ov g u a r)
      (UpsertGrant viewAuthStore (ov_view ov) g u a r)"
    and "sim ov_wf ov_view (UpsertApp (overlayAuthStore dbAuthStore) ov ad u)
      (UpsertApp viewAuthStore (ov_view ov) ad u)"
    and "sim ov_wf ov_view (SetAppDeleted (overlayAuthStore dbAuthStore) ov ad)
      (SetAppDeleted viewAuthStore (ov_view ov) ad)"
    and "v_entities (ov_view ov) (t, i) = None \<Longrightarrow>
      sim ov_wf ov_view (InsertEntity (overlayAuthStore dbAuthStore) ov t i u d)
        (InsertEntity viewAuthStore (ov_view ov) t i u d)"
    and "sim ov_wf ov_view (SetEntityDeleted (overlayAuthStore dbAuthStore) ov t i)
      (SetEntityDeleted viewAuthStore (ov_view ov) t i)"
    and "sim ov_wf ov_view (InsertCid (overlayAuthStore dbAuthStore) ov c u tx)
      (InsertCid viewAuthStore (ov_view ov) c u tx)"
proof -
  from assms have q: "db_wf (ov_base ov)" by (simp add: ov_wf_def)
  note defs = overlayAuthStore_def viewAuthStore_def sim_def ov_view_def Let_def map_add_upd_left
  show "sim ov_wf ov_view (UpsertGrant (overlayAuthStore dbAuthStore) ov g u a r)
      (UpsertGrant viewAuthStore (ov_view ov) g u a r)"
    "sim ov_wf ov_view (UpsertApp (overlayAuthStore dbAuthStore) ov ad u)
      (UpsertApp viewAuthStore (ov_view ov) ad u)"
    "sim ov_wf ov_view (InsertCid (overlayAuthStore dbAuthStore) ov c u tx)
      (InsertCid viewAuthStore (ov_view ov) c u tx)"
    by (simp_all add: defs ov_UpsertGrant_def ov_UpsertApp_def ov_InsertCid_def
        ov_wf_frame [OF assms])
  show "v_entities (ov_view ov) (t, i) = None \<Longrightarrow>
      sim ov_wf ov_view (InsertEntity (overlayAuthStore dbAuthStore) ov t i u d)
        (InsertEntity viewAuthStore (ov_view ov) t i u d)"
    by (auto simp: defs ov_InsertEntity_def ov_wf_frame [OF assms] simp del: db_view_sels
        split: option.splits)
  show "sim ov_wf ov_view (SetAppDeleted (overlayAuthStore dbAuthStore) ov ad)
      (SetAppDeleted viewAuthStore (ov_view ov) ad)"
    "sim ov_wf ov_view (SetEntityDeleted (overlayAuthStore dbAuthStore) ov t i)
      (SetEntityDeleted viewAuthStore (ov_view ov) t i)"
    using assms db.get_app [OF q, of ad] db.get_entity [OF q, of t i]
    by (auto simp: defs ov_SetAppDeleted_def ov_SetEntityDeleted_def ov_wf_frame [OF assms]
        map_add_def fun_eq_iff simp del: db_view_sels split: option.splits)
qed

lemma ov_fresh_writes:
  assumes "ov_fresh ov"
  shows "v_users (ov_view ov) u = None \<Longrightarrow>
      ov_fresh (snd (InsertUser (overlayAuthStore dbAuthStore) ov u w h d))"
    and "ov_fresh (snd (UpsertGrant (overlayAuthStore dbAuthStore) ov g u a r))"
    and "ov_fresh (snd (UpsertApp (overlayAuthStore dbAuthStore) ov ad u))"
    and "ov_fresh (snd (SetAppDeleted (overlayAuthStore dbAuthStore) ov ad))"
    and "ov_fresh (snd (InsertEntity (overlayAuthStore dbAuthStore) ov t i u d))"
    and "ov_fresh (snd (SetEntityDeleted (overlayAuthStore dbAuthStore) ov t i))"
    and "ov_fresh (snd (InsertCid (overlayAuthStore dbAuthStore) ov c u tx))"
proof -
  show "v_users (ov_view ov) u = None \<Longrightarrow>
      ov_fresh (snd (InsertUser (overlayAuthStore dbAuthStore) ov u w h d))"
    using assms by (auto simp: overlayAuthStore_def ov_InsertUser_def ov_fresh_def)
qed (auto simp: overlayAuthStore_def ov_UpsertGrant_def ov_UpsertApp_def ov_SetAppDeleted_def
    ov_InsertEntity_def ov_SetEntityDeleted_def ov_InsertCid_def assms
    split: option.splits sum.splits intro!: ov_fresh_frame [OF assms])

interpretation ov: auth_store_scans "overlayAuthStore dbAuthStore" ov_view ov_wf ov_fresh
  by (unfold_locales; (rule ov_point_reads ov_wallet_scans ov_HandleExists_exact
      ov_GetUserIDByWallet_exact ov_user_writes ov_other_writes ov_fresh_writes; assumption))

end
