(* ===== verification/Auth_Simulation.thy ===== *)
theory Auth_Simulation
  imports Auth_Projection Auth_Overlay
begin

text \<open>
  Lemmas on the projection that hold for every store, and the simulation of a store's
  projection by the projection of its view, proved once inside the contract's locales and
  used through the interpretations for the durable store and the overlay.
\<close>

section \<open>Rejections leave every store alone\<close>

definition rejection_clean :: "'s \<Rightarrow> 's outcome \<Rightarrow> bool" where
  "rejection_clean st r \<longleftrightarrow> (\<forall>a. fst r = Some (AuthValidation a) \<longrightarrow> snd r = st)"

definition never_rejects :: "'s outcome \<Rightarrow> bool" where
  "never_rejects r \<longleftrightarrow> (\<forall>a. fst r \<noteq> Some (AuthValidation a))"

lemma clean_intros:
  "rejection_clean st (reject st a)"
  "rejection_clean st (x, st)"
  "rejection_clean st (ret_write w)"
  "(\<And>x. rejection_clean st (k x)) \<Longrightarrow> rejection_clean st (try_read r st k)"
  "rejection_clean st m \<Longrightarrow> rejection_clean st (try_check c st m)"
  "(\<And>st'. never_rejects (f st')) \<Longrightarrow> rejection_clean st (try_write w f)"
  "rejection_clean st m \<Longrightarrow> (\<And>st'. never_rejects (f st')) \<Longrightarrow> rejection_clean st (then_do m f)"
  by (auto simp: rejection_clean_def never_rejects_def seq_defs then_do_def
      split: sum.splits option.splits prod.splits)

lemma never_rejects_intros:
  "never_rejects (None, st)"
  "never_rejects (ret_write w)"
  "(\<And>x. never_rejects (k x)) \<Longrightarrow> never_rejects (try_read r st k)"
  "(\<And>st'. never_rejects (f st')) \<Longrightarrow> never_rejects (try_write w f)"
  "never_rejects m \<Longrightarrow> (\<And>st'. never_rejects (f st')) \<Longrightarrow> never_rejects (then_do m f)"
  by (auto simp: never_rejects_def seq_defs then_do_def split: sum.splits option.splits prod.splits)

lemma never_rejects_cids:
  "never_rejects (insert_cids ops st u h cs)"
  "never_rejects (assert_cids ops st u cs)"
  by (induction cs arbitrary: st) (auto intro!: never_rejects_intros)

lemma never_rejects_track_cids:
  "never_rejects (projectMigratedTrackCids ops st tx)"
  "never_rejects (projectAssertedTrackCids ops st tx rules)"
  by (auto simp: projectMigratedTrackCids_def projectAssertedTrackCids_def
      intro: never_rejects_intros never_rejects_cids)

lemma never_rejects_clean: "never_rejects m \<Longrightarrow> rejection_clean st m"
  by (simp add: rejection_clean_def never_rejects_def)

lemma project_clean:
  "rejection_clean st (projectUserCreate ops st tx)"
  "rejection_clean st (projectUserUpdate ops st tx)"
  "rejection_clean st (projectEntityCreate ops st tx t)"
  "rejection_clean st (projectEntityDelete ops st tx t)"
  "rejection_clean st (projectGrantCreate ops st tx)"
  "rejection_clean st (projectGrantDelete ops st tx)"
  "rejection_clean st (projectGrantApproveReject ops st tx b)"
  "rejection_clean st (projectAppCreate ops st tx)"
  "rejection_clean st (projectAppDelete ops st tx)"
  unfolding project_defs Let_def
  by (auto split: option.split json.split intro!: clean_intros never_rejects_intros)

lemma clean_branches:
  "rejection_clean st a \<Longrightarrow> rejection_clean st b \<Longrightarrow> rejection_clean st (if c then a else b)"
  "rejection_clean st a \<Longrightarrow> (\<And>x. rejection_clean st (f x)) \<Longrightarrow>
    rejection_clean st (case x of None \<Rightarrow> a | Some y \<Rightarrow> f y)"
  by (auto split: option.splits)

lemma applyAuthProjection_clean: "rejection_clean st (applyAuthProjection ops st tx rules)"
  unfolding applyAuthProjection_def
  by (intro clean_branches clean_intros project_clean never_rejects_intros
      never_rejects_track_cids never_rejects_clean [OF never_rejects_track_cids(2)])

section \<open>Simulation through the contract\<close>

lemma view_reads [simp]:
  "GetUser viewAuthStore v u = Inr (v_users v u)"
  "GetUserIDByWallet viewAuthStore v w =
     Inr (if active_ids v w = {} then None else Some (Min (active_ids v w)))"
  "WalletExists viewAuthStore v w = Inr (wallet_used v w)"
  "ActiveWalletExists viewAuthStore v w = Inr (wallet_active v w)"
  "HandleExists viewAuthStore v h = Inr (handle_used v h)"
  "GetGrant viewAuthStore v g u = Inr (v_grants v (g, u))"
  "GetApp viewAuthStore v a = Inr (v_apps v a)"
  "GetEntity viewAuthStore v t i = Inr (v_entities v (t, i))"
  "IsCidClaimedByUser viewAuthStore v c u = Inr ((c, u) \<in> v_cids v)"
  "CidIsClaimed viewAuthStore v c = Inr (cid_claimed v c)"
  by (simp_all add: viewAuthStore_def)

lemma seq_simps [simp]:
  "try_read (Inr x) st k = k x"
  "chk_read (Inr x) f = f x"
  "try_check None st m = m"
  "try_check (Some e) st m = (Some e, st)"
  "fst (reject st a) = Some (AuthValidation a)"
  "snd (reject st a) = st"
  by (simp_all add: seq_defs)

lemma sim_intros:
  "sim ok view w w' \<Longrightarrow> sim ok view (ret_write w) (ret_write w')"
  "ok s \<Longrightarrow> sim ok view (reject s a) (reject (view s) a)"
  "ok s \<Longrightarrow> sim ok view (e, s) (e, view s)"
  by (auto simp: sim_def seq_defs)

lemma sim_try_check:
  "ok s \<Longrightarrow> (c = None \<Longrightarrow> sim ok view m m') \<Longrightarrow> sim ok view (try_check c s m) (try_check c (view s) m')"
  by (auto simp: sim_def seq_defs split: option.splits)

lemma sim_try_write:
  "sim ok view w w' \<Longrightarrow> (\<And>s. ok s \<Longrightarrow> sim ok view (f s) (f' (view s))) \<Longrightarrow>
    sim ok view (try_write w f) (try_write w' f')"
  by (cases w; cases w') (auto simp: sim_def seq_defs split: option.splits)

lemma sim_then_do:
  "sim ok view m m' \<Longrightarrow> (\<And>s. ok s \<Longrightarrow> sim ok view (f s) (f' (view s))) \<Longrightarrow>
    sim ok view (then_do m f) (then_do m' f')"
  by (cases m; cases m') (auto simp: sim_def then_do_def split: option.splits)

lemma sim_branches:
  "(c \<Longrightarrow> sim ok view a a') \<Longrightarrow> (\<not> c \<Longrightarrow> sim ok view b b') \<Longrightarrow>
    sim ok view (if c then a else b) (if c then a' else b')"
  "(x = None \<Longrightarrow> sim ok view a a') \<Longrightarrow> (\<And>y. x = Some y \<Longrightarrow> sim ok view (f y) (f' y)) \<Longrightarrow>
    sim ok view (case x of None \<Rightarrow> a | Some y \<Rightarrow> f y) (case x of None \<Rightarrow> a' | Some y \<Rightarrow> f' y)"
  by (auto split: option.splits)

text \<open>The transactions whose verdict depends on the handle scan or on the wallet lookup.\<close>

definition needs_scan :: "authTx \<Rightarrow> bool" where
  "needs_scan tx \<longleftrightarrow>
     canonicalAuthEntityType (EntityType tx) = Some ''User'' \<and>
       canonicalAuthAction (Action tx) = Some ''Create'' \<and> metaString tx ''handle'' \<noteq> [] \<or>
     canonicalAuthEntityType (EntityType tx) = Some ''Grant'' \<and>
       canonicalAuthAction (Action tx) = Some ''Delete''"

definition is_user_update :: "authTx \<Rightarrow> bool" where
  "is_user_update tx \<longleftrightarrow> canonicalAuthEntityType (EntityType tx) = Some ''User'' \<and>
     canonicalAuthAction (Action tx) = Some ''Update''"

context auth_store
begin

lemmas reads = get_user get_grant get_app get_entity wallet_exists active_wallet_exists
  is_cid_claimed_by_user cid_is_claimed

lemma signer_view:
  "ok s \<Longrightarrow> validateAuthSigner ops s u sg = validateAuthSigner viewAuthStore (view s) u sg"
  by (simp add: validateAuthSigner_def Let_def reads split: option.split)

lemma content_auth_view:
  assumes "ok s"
  shows "check_cids ops s tx rules ks = check_cids viewAuthStore (view s) tx rules ks"
  by (induction ks) (simp_all add: Let_def reads assms)

lemma validateTrackContentAuth_view:
  "ok s \<Longrightarrow> validateTrackContentAuth ops s tx rules = validateTrackContentAuth viewAuthStore (view s) tx rules"
  by (simp add: validateTrackContentAuth_def content_auth_view)

lemma sim_UserUpdate:
  "ok s \<Longrightarrow> sim ok view (projectUserUpdate ops s tx) (projectUserUpdate viewAuthStore (view s) tx)"
  unfolding projectUserUpdate_def Let_def
  by (auto simp: signer_view split: option.split json.split
      intro!: sim_try_check sim_try_write sim_intros set_user_handle set_user_deactivated)

lemma sim_EntityCreate:
  "ok s \<Longrightarrow> sim ok view (projectEntityCreate ops s tx t) (projectEntityCreate viewAuthStore (view s) tx t)"
  unfolding projectEntityCreate_def Let_def
  by (auto simp: signer_view reads intro!: sim_try_check sim_intros insert_entity)

lemma sim_EntityDelete:
  "ok s \<Longrightarrow> sim ok view (projectEntityDelete ops s tx t) (projectEntityDelete viewAuthStore (view s) tx t)"
  unfolding projectEntityDelete_def
  by (auto simp: signer_view reads split: option.split intro!: sim_try_check sim_intros set_entity_deleted)

lemma sim_GrantCreate:
  "ok s \<Longrightarrow> sim ok view (projectGrantCreate ops s tx) (projectGrantCreate viewAuthStore (view s) tx)"
  unfolding projectGrantCreate_def projectMigratedGrantCreate_def Let_def
  by (auto simp: signer_view reads intro!: sim_try_check sim_intros upsert_grant)

lemma sim_GrantApproveReject:
  "ok s \<Longrightarrow> sim ok view (projectGrantApproveReject ops s tx b)
    (projectGrantApproveReject viewAuthStore (view s) tx b)"
  unfolding projectGrantApproveReject_def Let_def
  by (auto simp: signer_view reads split: option.split intro!: sim_try_check sim_intros upsert_grant)

lemma sim_AppCreate:
  "ok s \<Longrightarrow> sim ok view (projectAppCreate ops s tx) (projectAppCreate viewAuthStore (view s) tx)"
  unfolding projectAppCreate_def Let_def
  by (auto simp: signer_view reads
      intro!: sim_try_check sim_try_write sim_intros upsert_app set_app_deleted)

lemma sim_AppDelete:
  "ok s \<Longrightarrow> sim ok view (projectAppDelete ops s tx) (projectAppDelete viewAuthStore (view s) tx)"
  unfolding projectAppDelete_def Let_def
  by (auto simp: signer_view reads split: option.split intro!: sim_try_check sim_intros set_app_deleted)

lemma sim_insert_cids:
  "ok s \<Longrightarrow> sim ok view (insert_cids ops s u h cs) (insert_cids viewAuthStore (view s) u h cs)"
  by (induction cs arbitrary: s) (auto intro!: sim_try_write sim_intros insert_cid)

lemma sim_assert_cids:
  "ok s \<Longrightarrow> sim ok view (assert_cids ops s u cs) (assert_cids viewAuthStore (view s) u cs)"
  by (induction cs arbitrary: s) (auto simp: reads intro!: sim_try_write sim_intros insert_cid)

lemma sim_track_cids:
  "ok s \<Longrightarrow> sim ok view (projectMigratedTrackCids ops s tx) (projectMigratedTrackCids viewAuthStore (view s) tx)"
  "ok s \<Longrightarrow> sim ok view (projectAssertedTrackCids ops s tx rules)
    (projectAssertedTrackCids viewAuthStore (view s) tx rules)"
  by (auto simp: projectMigratedTrackCids_def projectAssertedTrackCids_def
      intro!: sim_intros sim_insert_cids sim_assert_cids)

text \<open>The projection apart from the two operations that scan.\<close>

lemma sim_apply:
  assumes "ok s"
    and "canonicalAuthEntityType (EntityType tx) = Some ''User'' \<Longrightarrow>
      canonicalAuthAction (Action tx) = Some ''Create'' \<Longrightarrow>
      sim ok view (projectUserCreate ops s tx) (projectUserCreate viewAuthStore (view s) tx)"
    and "canonicalAuthEntityType (EntityType tx) = Some ''Grant'' \<Longrightarrow>
      canonicalAuthAction (Action tx) = Some ''Delete'' \<Longrightarrow>
      sim ok view (projectGrantDelete ops s tx) (projectGrantDelete viewAuthStore (view s) tx)"
  shows "sim ok view (applyAuthProjection ops s tx rules) (applyAuthProjection viewAuthStore (view s) tx rules)"
  unfolding applyAuthProjection_def signer_view [OF assms(1)]
  by (intro sim_branches sim_intros sim_try_check sim_then_do sim_UserUpdate sim_EntityCreate
      sim_EntityDelete sim_GrantCreate sim_GrantApproveReject sim_AppCreate sim_AppDelete
      sim_track_cids assms) simp_all

end

context auth_store_scans
begin

lemma sim_UserCreate:
  assumes "ok s" "\<not> Migration tx" "fresh s \<or> metaString tx ''handle'' = []"
  shows "sim ok view (projectUserCreate ops s tx) (projectUserCreate viewAuthStore (view s) tx)"
  using assms unfolding projectUserCreate_def Let_def
  by (auto simp: reads handle_exists intro!: sim_intros insert_user)

lemma sim_GrantDelete:
  assumes "ok s" "fresh s"
  shows "sim ok view (projectGrantDelete ops s tx) (projectGrantDelete viewAuthStore (view s) tx)"
  using assms unfolding projectGrantDelete_def Let_def
  by (auto simp: signer_view reads get_user_id_by_wallet split: option.split
      intro!: sim_intros upsert_grant)

lemma sim_live:
  assumes "ok s" "\<not> Migration tx" "fresh s \<or> \<not> needs_scan tx"
  shows "sim ok view (applyAuthProjection ops s tx rules) (applyAuthProjection viewAuthStore (view s) tx rules)"
  using assms by (intro sim_apply sim_UserCreate sim_GrantDelete) (auto simp: needs_scan_def)

end

section \<open>Staying fresh\<close>

definition keeps :: "('s \<Rightarrow> bool) \<Rightarrow> 's outcome \<Rightarrow> bool" where
  "keeps I r \<longleftrightarrow> I (snd r)"

lemma keeps_intros:
  "I (snd w) \<Longrightarrow> keeps I (ret_write w)"
  "I st \<Longrightarrow> keeps I (reject st a)"
  "I st \<Longrightarrow> keeps I (e, st)"
  "I st \<Longrightarrow> (\<And>x. r = Inr x \<Longrightarrow> keeps I (k x)) \<Longrightarrow> keeps I (try_read r st k)"
  "I st \<Longrightarrow> (chk = None \<Longrightarrow> keeps I m) \<Longrightarrow> keeps I (try_check chk st m)"
  "I (snd w) \<Longrightarrow> (\<And>s. I s \<Longrightarrow> keeps I (f s)) \<Longrightarrow> keeps I (try_write w f)"
  "keeps I m \<Longrightarrow> (\<And>s. fst m = None \<Longrightarrow> I s \<Longrightarrow> keeps I (f s)) \<Longrightarrow> keeps I (then_do m f)"
  "(c \<Longrightarrow> keeps I m) \<Longrightarrow> (\<not> c \<Longrightarrow> keeps I m') \<Longrightarrow> keeps I (if c then m else m')"
  "(x = None \<Longrightarrow> keeps I m) \<Longrightarrow> (\<And>y. x = Some y \<Longrightarrow> keeps I (g y)) \<Longrightarrow>
    keeps I (case x of None \<Rightarrow> m | Some y \<Rightarrow> g y)"
  by (auto simp: keeps_def seq_defs then_do_def split: sum.splits option.splits prod.splits)

context auth_store_scans
begin

lemmas fresh_writes = fresh_upsert_grant fresh_upsert_app fresh_set_app_deleted
  fresh_insert_entity fresh_set_entity_deleted fresh_insert_cid

lemma fresh_cids:
  "fresh s \<Longrightarrow> keeps fresh (insert_cids ops s u h cs)"
  "fresh s \<Longrightarrow> keeps fresh (assert_cids ops s u cs)"
  by (induction cs arbitrary: s) (auto intro!: keeps_intros fresh_writes)

lemma fresh_UserCreate:
  "ok s \<Longrightarrow> fresh s \<Longrightarrow> keeps fresh (projectUserCreate ops s tx)"
  unfolding projectUserCreate_def Let_def
  by (intro keeps_intros fresh_insert_user) (auto simp: reads)

lemma fresh_project:
  assumes "fresh s"
  shows "keeps fresh (projectEntityCreate ops s tx t)" "keeps fresh (projectEntityDelete ops s tx t)"
    "keeps fresh (projectGrantCreate ops s tx)" "keeps fresh (projectGrantDelete ops s tx)"
    "keeps fresh (projectGrantApproveReject ops s tx b)" "keeps fresh (projectAppCreate ops s tx)"
    "keeps fresh (projectAppDelete ops s tx)" "keeps fresh (projectMigratedTrackCids ops s tx)"
    "keeps fresh (projectAssertedTrackCids ops s tx rules)"
  unfolding project_defs projectMigratedTrackCids_def projectAssertedTrackCids_def Let_def
  by (intro keeps_intros fresh_writes fresh_cids assms; assumption)+

lemma fresh_apply:
  assumes "ok s" "fresh s" "\<not> is_user_update tx"
  shows "fresh (snd (applyAuthProjection ops s tx rules))"
proof -
  have "keeps fresh (applyAuthProjection ops s tx rules)"
    using assms unfolding applyAuthProjection_def is_user_update_def
    by (intro keeps_intros fresh_project fresh_UserCreate) auto
  then show ?thesis by (simp add: keeps_def)
qed

end

context durable_auth_store
begin

lemma sim_UserCreate_any:
  "ok s \<Longrightarrow> sim ok view (projectUserCreate ops s tx) (projectUserCreate viewAuthStore (view s) tx)"
  unfolding projectUserCreate_def Let_def
  by (auto simp: reads handle_exists always_fresh intro!: sim_intros insert_user_any)

lemma sim_any:
  "ok s \<Longrightarrow> sim ok view (applyAuthProjection ops s tx rules) (applyAuthProjection viewAuthStore (view s) tx rules)"
  by (intro sim_apply sim_UserCreate_any sim_GrantDelete always_fresh) auto

end

end
