(* ===== verification/Auth_Safety.thy ===== *)
theory Auth_Safety
  imports Auth_Simulation
begin

text \<open>
  What the projection does to the abstract authorization state: who may change it, what never
  changes, and who holds the claims on content. The statements are about the view; the
  simulation of the previous theory carries them to the stores.
\<close>

lemma view_writes [simp]:
  "InsertUser viewAuthStore v u w h d = (None, case v_users v u of
     None \<Rightarrow> v\<lparr>v_users := (v_users v)(u \<mapsto> \<lparr>Wallet = w, HandleLC = h, Deactivated = d\<rparr>)\<rparr> | Some _ \<Rightarrow> v)"
  "SetUserHandle viewAuthStore v u h = (None,
     v\<lparr>v_users := (v_users v)(u := map_option (\<lambda>r. r\<lparr>HandleLC := h\<rparr>) (v_users v u))\<rparr>)"
  "SetUserDeactivated viewAuthStore v u d = (None,
     v\<lparr>v_users := (v_users v)(u := map_option (\<lambda>r. r\<lparr>Deactivated := d\<rparr>) (v_users v u))\<rparr>)"
  "UpsertGrant viewAuthStore v g u a r = (None,
     v\<lparr>v_grants := (v_grants v)((g, u) \<mapsto> \<lparr>Approved = a, Revoked = r\<rparr>)\<rparr>)"
  "UpsertApp viewAuthStore v ad u = (None,
     v\<lparr>v_apps := (v_apps v)(ad \<mapsto> \<lparr>AppOwnerID = u, AppDeleted = False\<rparr>)\<rparr>)"
  "SetAppDeleted viewAuthStore v ad = (None,
     v\<lparr>v_apps := (v_apps v)(ad := map_option (\<lambda>r. r\<lparr>AppDeleted := True\<rparr>) (v_apps v ad))\<rparr>)"
  "InsertEntity viewAuthStore v t i u d = (None, case v_entities v (t, i) of
     None \<Rightarrow> v\<lparr>v_entities := (v_entities v)((t, i) \<mapsto> \<lparr>EntOwnerID = u, EntDeleted = d\<rparr>)\<rparr> | Some _ \<Rightarrow> v)"
  "SetEntityDeleted viewAuthStore v t i = (None,
     v\<lparr>v_entities := (v_entities v)((t, i) := map_option (\<lambda>r. r\<lparr>EntDeleted := True\<rparr>) (v_entities v (t, i)))\<rparr>)"
  "InsertCid viewAuthStore v c u h = (None, v\<lparr>v_cids := insert (c, u) (v_cids v)\<rparr>)"
  by (simp_all add: viewAuthStore_def)

lemma write_simps [simp]:
  "try_write (None, st) f = f st"
  "ret_write (None, st) = (None, st)"
  by (simp_all add: seq_defs)

section \<open>Who is authorized\<close>

definition live_app :: "auth_view \<Rightarrow> string \<Rightarrow> bool" where
  "live_app v a \<longleftrightarrow> (\<exists>r. v_apps v a = Some r \<and> \<not> AppDeleted r)"

text \<open>
  The user's own wallet, or the holder of a grant from the user that is not revoked and that
  is either a live developer app or an active user whose grant is approved.
\<close>

definition authorized :: "auth_view \<Rightarrow> int \<Rightarrow> string \<Rightarrow> bool" where
  "authorized v userID signer \<longleftrightarrow> (\<exists>u. v_users v userID = Some u \<and> Wallet u \<noteq> [] \<and>
     (EqualFold (Wallet u) signer \<or>
      signer \<noteq> [] \<and> (\<exists>g. v_grants v (ToLower signer, userID) = Some g \<and> \<not> Revoked g \<and>
        (live_app v (ToLower signer) \<or>
         wallet_active v (ToLower signer) \<and> Approved g = Some True))))"

lemma validateAuthSigner_view:
  "validateAuthSigner viewAuthStore v u sg = None \<longleftrightarrow> authorized v u sg"
  by (auto simp: validateAuthSigner_def authorized_def live_app_def Let_def split: option.splits)

lemma validateAuthSigner_view_error:
  "validateAuthSigner viewAuthStore v u sg = Some e \<Longrightarrow> \<not> authorized v u sg \<and> isAuthValidationError e"
  using validateAuthSigner_view [of v u sg]
  by (auto simp: validateAuthSigner_def isAuthValidationError_def Let_def
      split: option.splits if_splits)

section \<open>What never changes\<close>

text \<open>
  Users are never removed and keep their wallet; tracks and playlists are never removed, keep
  their owner, and a deleted one stays deleted; claims are never withdrawn.
\<close>

definition view_le :: "auth_view \<Rightarrow> auth_view \<Rightarrow> bool" where
  "view_le v v' \<longleftrightarrow>
     (\<forall>u r. v_users v u = Some r \<longrightarrow> (\<exists>r'. v_users v' u = Some r' \<and> Wallet r' = Wallet r)) \<and>
     (\<forall>k e. v_entities v k = Some e \<longrightarrow> (\<exists>e'. v_entities v' k = Some e' \<and>
        EntOwnerID e' = EntOwnerID e \<and> (EntDeleted e \<longrightarrow> EntDeleted e'))) \<and>
     v_cids v \<subseteq> v_cids v'"

lemma view_le_refl [simp]: "view_le v v"
  by (auto simp: view_le_def)

lemma view_le_trans: "view_le a b \<Longrightarrow> view_le b c \<Longrightarrow> view_le a c"
  unfolding view_le_def by (intro conjI allI impI) (fastforce, fastforce, blast)

lemma view_le_writes:
  assumes "view_le v s"
  shows "view_le v (snd (InsertUser viewAuthStore s u w h d))"
    "view_le v (snd (SetUserHandle viewAuthStore s u h))"
    "view_le v (snd (SetUserDeactivated viewAuthStore s u d))"
    "view_le v (snd (UpsertGrant viewAuthStore s g u a r))"
    "view_le v (snd (UpsertApp viewAuthStore s ad u))"
    "view_le v (snd (SetAppDeleted viewAuthStore s ad))"
    "view_le v (snd (InsertEntity viewAuthStore s t i u d))"
    "view_le v (snd (SetEntityDeleted viewAuthStore s t i))"
    "view_le v (snd (InsertCid viewAuthStore s c u tx))"
  using assms by (fastforce simp: view_le_def split: option.splits)+

lemma view_le_cids:
  "view_le v s \<Longrightarrow> keeps (view_le v) (insert_cids viewAuthStore s u h cs)"
  "view_le v s \<Longrightarrow> keeps (view_le v) (assert_cids viewAuthStore s u cs)"
  by (induction cs arbitrary: s) (auto intro!: keeps_intros view_le_writes simp del: view_writes view_reads)

lemma view_le_track_cids:
  assumes "view_le v s"
  shows "keeps (view_le v) (projectMigratedTrackCids viewAuthStore s tx)"
    "keeps (view_le v) (projectAssertedTrackCids viewAuthStore s tx rules)"
  unfolding projectMigratedTrackCids_def projectAssertedTrackCids_def
  by (intro keeps_intros view_le_cids assms)+

lemma view_le_UserUpdate: "keeps (view_le v) (projectUserUpdate viewAuthStore v tx)"
  unfolding projectUserUpdate_def Let_def
  by (auto split: option.split json.split intro!: keeps_intros view_le_writes
      simp del: view_writes view_reads)

lemma view_le_project:
  "keeps (view_le v) (projectUserCreate viewAuthStore v tx)"
  "keeps (view_le v) (projectEntityCreate viewAuthStore v tx t)"
  "keeps (view_le v) (projectEntityDelete viewAuthStore v tx t)"
  "keeps (view_le v) (projectGrantCreate viewAuthStore v tx)"
  "keeps (view_le v) (projectGrantDelete viewAuthStore v tx)"
  "keeps (view_le v) (projectGrantApproveReject viewAuthStore v tx b)"
  "keeps (view_le v) (projectAppCreate viewAuthStore v tx)"
  "keeps (view_le v) (projectAppDelete viewAuthStore v tx)"
  unfolding project_defs Let_def by (intro keeps_intros view_le_writes view_le_refl; assumption)+

lemma view_le_apply: "view_le v (snd (applyAuthProjection viewAuthStore v tx rules))"
proof -
  have "keeps (view_le v) (applyAuthProjection viewAuthStore v tx rules)"
    unfolding applyAuthProjection_def
    by (intro keeps_intros view_le_project view_le_UserUpdate view_le_track_cids view_le_refl; assumption)
  then show ?thesis by (simp add: keeps_def)
qed

section \<open>Who may change the state\<close>

text \<open>
  A change is made by an authorized signer for the transaction's user; or it creates that
  user for the signer's own wallet; or it revokes a grant on behalf of the grantee.
\<close>

definition permitted :: "auth_view \<Rightarrow> authTx \<Rightarrow> auth_view \<Rightarrow> bool" where
  "permitted v tx v' \<longleftrightarrow> authorized v (UserID tx) (Signer tx) \<or>
     (\<exists>r. v_users v (UserID tx) = None \<and> Signer tx \<noteq> [] \<and> Wallet r = ToLower (Signer tx) \<and>
        v' = v\<lparr>v_users := (v_users v)(UserID tx \<mapsto> r)\<rparr>) \<or>
     (\<exists>grantee g granteeID. v_grants v (grantee, UserID tx) = Some g \<and> \<not> Revoked g \<and>
        granteeID \<in> active_ids v grantee \<and> authorized v granteeID (Signer tx) \<and>
        v' = v\<lparr>v_grants := (v_grants v)((grantee, UserID tx) \<mapsto> g\<lparr>Revoked := True\<rparr>)\<rparr>)"

definition changes_permitted :: "auth_view \<Rightarrow> authTx \<Rightarrow> auth_view \<Rightarrow> bool" where
  "changes_permitted v tx s \<longleftrightarrow> s \<noteq> v \<longrightarrow> permitted v tx s"

lemma changes_permitted_refl [simp]: "changes_permitted v tx v"
  by (simp add: changes_permitted_def)

lemma changes_authorized:
  "validateAuthSigner viewAuthStore v (UserID tx) (Signer tx) = None \<Longrightarrow> changes_permitted v tx s"
  by (simp add: changes_permitted_def permitted_def validateAuthSigner_view)

lemma changes_create:
  assumes "v_users v (UserID tx) = None" "Signer tx \<noteq> []"
  shows "changes_permitted v tx (v\<lparr>v_users := (v_users v)(UserID tx \<mapsto>
    \<lparr>Wallet = ToLower (Signer tx), HandleLC = h, Deactivated = d\<rparr>)\<rparr>)"
  unfolding changes_permitted_def permitted_def
  by (rule impI, rule disjI2, rule disjI1,
      rule exI [of _ "\<lparr>Wallet = ToLower (Signer tx), HandleLC = h, Deactivated = d\<rparr>"])
    (simp add: assms)

lemma changes_revoke:
  assumes "v_grants v (grantee, UserID tx) = Some g" "\<not> Revoked g"
    "granteeID \<in> active_ids v grantee" "authorized v granteeID (Signer tx)"
  shows "changes_permitted v tx (v\<lparr>v_grants := (v_grants v)((grantee, UserID tx) \<mapsto>
    \<lparr>Approved = Approved g, Revoked = True\<rparr>)\<rparr>)"
proof -
  have "\<lparr>Approved = Approved g, Revoked = True\<rparr> = g\<lparr>Revoked := True\<rparr>" by simp
  with assms show ?thesis unfolding changes_permitted_def permitted_def by metis
qed

lemma permitted_UserCreate: "keeps (changes_permitted v tx) (projectUserCreate viewAuthStore v tx)"
  unfolding projectUserCreate_def Let_def
  by (intro keeps_intros) (auto intro: changes_create)

lemma permitted_GrantDelete:
  assumes "\<And>w. finite (active_ids v w)"
  shows "keeps (changes_permitted v tx) (projectGrantDelete viewAuthStore v tx)"
proof -
  have "Min (active_ids v w) \<in> active_ids v w" if "active_ids v w \<noteq> {}" for w
    using that assms by simp
  then show ?thesis unfolding projectGrantDelete_def Let_def
    by (intro keeps_intros)
      (auto simp: validateAuthSigner_view split: if_splits intro: changes_authorized changes_revoke)
qed

lemma permitted_project:
  "keeps (changes_permitted v tx) (projectEntityCreate viewAuthStore v tx t)"
  "keeps (changes_permitted v tx) (projectEntityDelete viewAuthStore v tx t)"
  "keeps (changes_permitted v tx) (projectGrantCreate viewAuthStore v tx)"
  "keeps (changes_permitted v tx) (projectGrantApproveReject viewAuthStore v tx b)"
  "keeps (changes_permitted v tx) (projectAppCreate viewAuthStore v tx)"
  "keeps (changes_permitted v tx) (projectAppDelete viewAuthStore v tx)"
  unfolding project_defs Let_def
  by (intro keeps_intros changes_permitted_refl changes_authorized; assumption)+

lemma permitted_UserUpdate: "keeps (changes_permitted v tx) (projectUserUpdate viewAuthStore v tx)"
  unfolding projectUserUpdate_def
  by (intro keeps_intros changes_permitted_refl)
    (auto simp: keeps_def intro: changes_authorized)

lemma EntityCreate_authorized:
  "fst (projectEntityCreate viewAuthStore v tx t) = None \<Longrightarrow>
    validateAuthSigner viewAuthStore v (UserID tx) (Signer tx) = None"
  by (auto simp: projectEntityCreate_def Let_def seq_defs split: if_splits option.splits)

lemma keeps_if_authorized:
  "validateAuthSigner viewAuthStore v (UserID tx) (Signer tx) = None \<Longrightarrow> keeps (changes_permitted v tx) m"
  by (simp add: keeps_def changes_authorized)

lemma permitted_apply:
  assumes "\<And>w. finite (active_ids v w)"
  shows "changes_permitted v tx (snd (applyAuthProjection viewAuthStore v tx rules))"
proof -
  have "keeps (changes_permitted v tx) (applyAuthProjection viewAuthStore v tx rules)"
    unfolding applyAuthProjection_def
    by (intro keeps_intros permitted_UserCreate permitted_UserUpdate permitted_project
        permitted_GrantDelete assms changes_permitted_refl keeps_if_authorized;
        (assumption | rule EntityCreate_authorized)+)
  then show ?thesis by (simp add: keeps_def)
qed

section \<open>Wallets stay unique on the live chain\<close>

lemma unique_wallets_frame: "unique_wallets s \<Longrightarrow> v_users s' = v_users s \<Longrightarrow> unique_wallets s'"
  by (simp add: unique_wallets_def)

lemma unique_wallets_writes:
  assumes "unique_wallets s"
  shows "\<not> wallet_used s w \<Longrightarrow> unique_wallets (snd (InsertUser viewAuthStore s u w h d))"
    "unique_wallets (snd (SetUserHandle viewAuthStore s u h))"
    "unique_wallets (snd (SetUserDeactivated viewAuthStore s u d))"
    "unique_wallets (snd (UpsertGrant viewAuthStore s g u a r))"
    "unique_wallets (snd (UpsertApp viewAuthStore s ad u))"
    "unique_wallets (snd (SetAppDeleted viewAuthStore s ad))"
    "unique_wallets (snd (InsertEntity viewAuthStore s t i u d))"
    "unique_wallets (snd (SetEntityDeleted viewAuthStore s t i))"
    "unique_wallets (snd (InsertCid viewAuthStore s c u tx))"
proof -
  show "\<not> wallet_used s w \<Longrightarrow> unique_wallets (snd (InsertUser viewAuthStore s u w h d))"
    using assms unique_wallets_upd [of s u "\<lparr>Wallet = w, HandleLC = h, Deactivated = d\<rparr>"]
    by (simp split: option.split)
  show "unique_wallets (snd (SetUserHandle viewAuthStore s u h))"
    "unique_wallets (snd (SetUserDeactivated viewAuthStore s u d))"
    using assms unique_wallets_upd [of s u]
    by (cases "v_users s u"; simp add: fun_upd_idem)+
qed (auto intro!: unique_wallets_frame [OF assms] split: option.split)

lemma unique_wallets_cids:
  "unique_wallets s \<Longrightarrow> keeps unique_wallets (assert_cids viewAuthStore s u cs)"
  "unique_wallets s \<Longrightarrow> keeps unique_wallets (insert_cids viewAuthStore s u h cs)"
  by (induction cs arbitrary: s)
    (auto intro!: keeps_intros unique_wallets_writes simp del: view_writes view_reads)

lemma unique_wallets_UserCreate:
  "unique_wallets v \<Longrightarrow> \<not> Migration tx \<Longrightarrow> keeps unique_wallets (projectUserCreate viewAuthStore v tx)"
  unfolding projectUserCreate_def Let_def
  by (intro keeps_intros unique_wallets_writes) (auto simp del: view_writes)

lemma unique_wallets_UserUpdate:
  "unique_wallets v \<Longrightarrow> keeps unique_wallets (projectUserUpdate viewAuthStore v tx)"
  unfolding projectUserUpdate_def Let_def
  by (auto split: option.split json.split intro!: keeps_intros unique_wallets_writes
      simp del: view_writes view_reads)

lemma unique_wallets_project:
  assumes "unique_wallets v"
  shows "keeps unique_wallets (projectEntityCreate viewAuthStore v tx t)"
    "keeps unique_wallets (projectEntityDelete viewAuthStore v tx t)"
    "keeps unique_wallets (projectGrantCreate viewAuthStore v tx)"
    "keeps unique_wallets (projectGrantDelete viewAuthStore v tx)"
    "keeps unique_wallets (projectGrantApproveReject viewAuthStore v tx b)"
    "keeps unique_wallets (projectAppCreate viewAuthStore v tx)"
    "keeps unique_wallets (projectAppDelete viewAuthStore v tx)"
    "keeps unique_wallets (projectMigratedTrackCids viewAuthStore v tx)"
    "keeps unique_wallets (projectAssertedTrackCids viewAuthStore v tx rules)"
  unfolding project_defs projectMigratedTrackCids_def projectAssertedTrackCids_def Let_def
  by (intro keeps_intros unique_wallets_writes unique_wallets_cids assms; assumption)+

lemma unique_wallets_apply:
  assumes "unique_wallets v" "\<not> Migration tx"
  shows "unique_wallets (snd (applyAuthProjection viewAuthStore v tx rules))"
proof -
  have "keeps unique_wallets (applyAuthProjection viewAuthStore v tx rules)"
    unfolding applyAuthProjection_def
    by (intro keeps_intros unique_wallets_UserCreate unique_wallets_UserUpdate
        unique_wallets_project assms; assumption)
  then show ?thesis by (simp add: keeps_def)
qed

section \<open>Tracks and playlists change hands never and are deleted by their owner\<close>

definition entities_owned :: "auth_view \<Rightarrow> authTx \<Rightarrow> auth_view \<Rightarrow> bool" where
  "entities_owned v tx s \<longleftrightarrow> (\<forall>k. v_entities s k \<noteq> v_entities v k \<longrightarrow>
     snd k = EntityID tx \<and> authorized v (UserID tx) (Signer tx) \<and>
     (\<exists>e. v_entities s k = Some e \<and> EntOwnerID e = UserID tx) \<and>
     (\<forall>e. v_entities v k = Some e \<longrightarrow> EntOwnerID e = UserID tx))"

lemma entities_owned_frame:
  "entities_owned v tx s \<Longrightarrow> v_entities s' = v_entities s \<Longrightarrow> entities_owned v tx s'"
  by (simp add: entities_owned_def)

lemma entities_owned_refl [simp]: "entities_owned v tx v"
  by (simp add: entities_owned_def)

lemma entities_owned_other_writes:
  assumes "entities_owned v tx s"
  shows "entities_owned v tx (snd (InsertUser viewAuthStore s u w h d))"
    "entities_owned v tx (snd (SetUserHandle viewAuthStore s u h))"
    "entities_owned v tx (snd (SetUserDeactivated viewAuthStore s u d))"
    "entities_owned v tx (snd (UpsertGrant viewAuthStore s g u a r))"
    "entities_owned v tx (snd (UpsertApp viewAuthStore s ad u))"
    "entities_owned v tx (snd (SetAppDeleted viewAuthStore s ad))"
    "entities_owned v tx (snd (InsertCid viewAuthStore s c u h))"
  by (auto intro!: entities_owned_frame [OF assms] split: option.splits)

lemma entities_owned_cids:
  "entities_owned v tx s \<Longrightarrow> keeps (entities_owned v tx) (assert_cids viewAuthStore s u cs)"
  "entities_owned v tx s \<Longrightarrow> keeps (entities_owned v tx) (insert_cids viewAuthStore s u h cs)"
  by (induction cs arbitrary: s)
    (auto intro!: keeps_intros entities_owned_other_writes simp del: view_writes view_reads)

lemma entities_owned_UserUpdate: "keeps (entities_owned v tx) (projectUserUpdate viewAuthStore v tx)"
  unfolding projectUserUpdate_def Let_def
  by (auto split: option.split json.split intro!: keeps_intros entities_owned_other_writes
      simp del: view_writes view_reads)

lemma entities_owned_project:
  "keeps (entities_owned v tx) (projectUserCreate viewAuthStore v tx)"
  "keeps (entities_owned v tx) (projectGrantCreate viewAuthStore v tx)"
  "keeps (entities_owned v tx) (projectGrantDelete viewAuthStore v tx)"
  "keeps (entities_owned v tx) (projectGrantApproveReject viewAuthStore v tx b)"
  "keeps (entities_owned v tx) (projectAppCreate viewAuthStore v tx)"
  "keeps (entities_owned v tx) (projectAppDelete viewAuthStore v tx)"
  unfolding project_defs Let_def
  by (intro keeps_intros entities_owned_other_writes entities_owned_refl; assumption)+

lemma entities_owned_track_cids:
  assumes "entities_owned v tx s"
  shows "keeps (entities_owned v tx) (projectMigratedTrackCids viewAuthStore s tx)"
    "keeps (entities_owned v tx) (projectAssertedTrackCids viewAuthStore s tx rules)"
  unfolding projectMigratedTrackCids_def projectAssertedTrackCids_def
  by (intro keeps_intros entities_owned_cids assms)+

lemma entities_owned_entity_ops:
  "keeps (entities_owned v tx) (projectEntityCreate viewAuthStore v tx t)"
  "keeps (entities_owned v tx) (projectEntityDelete viewAuthStore v tx t)"
  unfolding project_defs Let_def
  by (intro keeps_intros; auto simp: validateAuthSigner_view entities_owned_def)+

lemma entities_owned_apply: "entities_owned v tx (snd (applyAuthProjection viewAuthStore v tx rules))"
proof -
  have "keeps (entities_owned v tx) (applyAuthProjection viewAuthStore v tx rules)"
    unfolding applyAuthProjection_def
    by (intro keeps_intros entities_owned_project entities_owned_UserUpdate
        entities_owned_entity_ops entities_owned_track_cids entities_owned_refl; assumption)
  then show ?thesis by (simp add: keeps_def)
qed

section \<open>Claims on content\<close>

text \<open>Every claim of \<open>s\<close> is a claim of \<open>v\<close>, or one by the writing user on a cid nobody held in \<open>v\<close>.\<close>

definition claims_fair :: "auth_view \<Rightarrow> int \<Rightarrow> auth_view \<Rightarrow> bool" where
  "claims_fair v u s \<longleftrightarrow> v_cids v \<subseteq> v_cids s \<and>
     (\<forall>c w. (c, w) \<in> v_cids s \<longrightarrow> (c, w) \<in> v_cids v \<or> w = u \<and> \<not> cid_claimed v c)"

lemma claims_fair_refl [simp]: "claims_fair v u v"
  by (simp add: claims_fair_def)

lemma claims_fair_frame: "claims_fair v u s \<Longrightarrow> v_cids s' = v_cids s \<Longrightarrow> claims_fair v u s'"
  by (simp add: claims_fair_def)

lemma claims_fair_insert:
  "claims_fair v u s \<Longrightarrow> \<not> cid_claimed s c \<Longrightarrow>
     claims_fair v u (snd (InsertCid viewAuthStore s c u h))"
  by (auto simp: claims_fair_def cid_claimed_def)

lemma claims_fair_assert:
  "claims_fair v u s \<Longrightarrow> keeps (claims_fair v u) (assert_cids viewAuthStore s u cs)"
proof (induction cs arbitrary: s)
  case (Cons c cs)
  then show ?case unfolding assert_cids.simps
    by (intro keeps_intros claims_fair_insert Cons) auto
qed (simp add: keeps_def)

lemma claims_fair_asserted:
  "claims_fair v (UserID tx) s \<Longrightarrow>
    keeps (claims_fair v (UserID tx)) (projectAssertedTrackCids viewAuthStore s tx rules)"
  unfolding projectAssertedTrackCids_def by (intro keeps_intros claims_fair_assert)

lemma claims_fair_migrated:
  "\<not> Migration tx \<Longrightarrow> projectMigratedTrackCids viewAuthStore s tx = (None, s)"
  by (simp add: projectMigratedTrackCids_def)

lemma claims_fair_other_writes:
  assumes "claims_fair v o1 s"
  shows "claims_fair v o1 (snd (InsertUser viewAuthStore s u w h d))"
    "claims_fair v o1 (snd (SetUserHandle viewAuthStore s u h))"
    "claims_fair v o1 (snd (SetUserDeactivated viewAuthStore s u d))"
    "claims_fair v o1 (snd (UpsertGrant viewAuthStore s g u a r))"
    "claims_fair v o1 (snd (UpsertApp viewAuthStore s ad u))"
    "claims_fair v o1 (snd (SetAppDeleted viewAuthStore s ad))"
    "claims_fair v o1 (snd (InsertEntity viewAuthStore s t i u d))"
    "claims_fair v o1 (snd (SetEntityDeleted viewAuthStore s t i))"
  by (auto intro!: claims_fair_frame [OF assms] split: option.splits)

lemma claims_fair_UserUpdate: "keeps (claims_fair v u) (projectUserUpdate viewAuthStore v tx)"
  unfolding projectUserUpdate_def Let_def
  by (auto split: option.split json.split intro!: keeps_intros claims_fair_other_writes
      simp del: view_writes view_reads)

lemma claims_fair_project:
  "keeps (claims_fair v u) (projectUserCreate viewAuthStore v tx)"
  "keeps (claims_fair v u) (projectEntityCreate viewAuthStore v tx t)"
  "keeps (claims_fair v u) (projectEntityDelete viewAuthStore v tx t)"
  "keeps (claims_fair v u) (projectGrantCreate viewAuthStore v tx)"
  "keeps (claims_fair v u) (projectGrantDelete viewAuthStore v tx)"
  "keeps (claims_fair v u) (projectGrantApproveReject viewAuthStore v tx b)"
  "keeps (claims_fair v u) (projectAppCreate viewAuthStore v tx)"
  "keeps (claims_fair v u) (projectAppDelete viewAuthStore v tx)"
  unfolding project_defs Let_def
  by (intro keeps_intros claims_fair_other_writes claims_fair_refl; assumption)+

lemma claims_fair_apply:
  assumes "\<not> Migration tx"
  shows "claims_fair v (UserID tx) (snd (applyAuthProjection viewAuthStore v tx rules))"
proof -
  have "keeps (claims_fair v (UserID tx)) (applyAuthProjection viewAuthStore v tx rules)"
    unfolding applyAuthProjection_def claims_fair_migrated [OF assms]
    by (intro keeps_intros claims_fair_project claims_fair_UserUpdate claims_fair_asserted
        claims_fair_refl; assumption)
  then show ?thesis by (simp add: keeps_def)
qed

text \<open>Asserting claims every named cid that nobody held.\<close>

lemma assert_cids_claims:
  "fst (assert_cids viewAuthStore v u cs) = None"
  "c \<in> set cs \<Longrightarrow> c \<noteq> [] \<Longrightarrow> (c, u) \<in> v_cids v \<or> \<not> cid_claimed v c \<Longrightarrow>
     (c, u) \<in> v_cids (snd (assert_cids viewAuthStore v u cs))"
proof (induction cs arbitrary: v)
  case (Cons d ds)
  have mono: "x \<in> v_cids v \<Longrightarrow> x \<in> v_cids (snd (assert_cids viewAuthStore v u ds))" for x v
    using view_le_cids(2) [of v v u ds] by (auto simp: keeps_def view_le_def)
  { case 1 show ?case using Cons.IH(1) by simp }
  { case 2
    have ins: "cid_claimed (v\<lparr>v_cids := insert (d, u) (v_cids v)\<rparr>) c \<longleftrightarrow> c = d \<or> cid_claimed v c"
      by (auto simp: cid_claimed_def)
    from 2 show ?case using Cons.IH(2) [of v] Cons.IH(2) [of "v\<lparr>v_cids := insert (d, u) (v_cids v)\<rparr>"]
      by (auto simp: ins intro: mono simp: cid_claimed_def) }
qed auto

text \<open>What the content check lets through.\<close>

lemma check_cids_passed:
  "check_cids viewAuthStore v tx rules ks = None \<Longrightarrow> k \<in> set ks \<Longrightarrow> metaString tx k \<noteq> [] \<Longrightarrow>
     (metaString tx k, UserID tx) \<in> v_cids v \<or>
     \<not> cid_claimed v (metaString tx k) \<and> \<not> ContentAuthStrict rules"
  by (induction ks) (auto simp: Let_def split: if_splits)

end
