(* ===== verification/Auth_Enforcement.thy ===== *)
theory Auth_Enforcement
  imports Auth_Safety
begin

text \<open>
  Height-gated enforcement of ManageEntity transactions, \<^verbatim>\<open>pkg/core/server/auth_enforcement.go\<close>,
  its finalize-time counterpart in \<^verbatim>\<open>manage_entity.go\<close>, and the theorems that tie the two
  together. The EIP-712 recovery \<^verbatim>\<open>RecoverPubkeyFromCoreTx\<close> is the parameter
  \<open>recover\<close>, \<^const>\<open>None\<close> for an error.
\<close>

section \<open>Proposal-time enforcement\<close>

datatype auth_rejection =
    SignerNotRecoverable
  | SignerMismatch string string
  | RuleRejection auth_reason

datatype enforcement_error = AuthRejectionError auth_rejection | EnforcementFailure pg_error

definition enforce :: "auth_error \<Rightarrow> enforcement_error" where
  "enforce e = (case e of
     AuthValidation r \<Rightarrow> AuthRejectionError (RuleRejection r)
   | StoreFailure f \<Rightarrow> EnforcementFailure f)"

definition validateManageEntityAuth ::
  "(ManageEntityLegacy \<Rightarrow> string option) \<Rightarrow> (string \<Rightarrow> meta option) \<Rightarrow> Rules \<Rightarrow>
   's authStore \<Rightarrow> 's \<Rightarrow> ManageEntityLegacy \<Rightarrow> enforcement_error option \<times> 's" where
  "validateManageEntityAuth recover unmarshal rules ops overlay em =
     (case recover em of
        None \<Rightarrow> (Some (AuthRejectionError SignerNotRecoverable), overlay)
      | Some recovered \<Rightarrow>
          if \<not> EqualFold recovered (me_Signer em)
          then (Some (AuthRejectionError (SignerMismatch (me_Signer em) recovered)), overlay)
          else (let tx = authTxFromManageEntity unmarshal em in
            case (if ContentAuthEnforced rules then validateTrackContentAuth ops overlay tx rules else None) of
              Some e \<Rightarrow> (Some (enforce e), overlay)
            | None \<Rightarrow> (let (err, st) = applyAuthProjection ops overlay tx rules
                in (map_option enforce err, st))))"

definition authRejected :: "enforcement_error \<Rightarrow> bool" where
  "authRejected e = (case e of AuthRejectionError _ \<Rightarrow> True | EnforcementFailure _ \<Rightarrow> False)"

section \<open>Sequences of transactions\<close>

definition projectManageEntityAuthState :: "auth_db \<Rightarrow> authTx \<Rightarrow> Rules \<Rightarrow> auth_db" where
  "projectManageEntityAuthState q tx rules = snd (applyAuthProjection dbAuthStore q tx rules)"

text \<open>
  The ManageEntity transactions of a block in order, each checked against the state the accepted ones
  before it left: the verdicts and the final state. With the overlay this is the part of
  \<^verbatim>\<open>validateBlockTxs\<close> that concerns them.
\<close>

fun validate_entities ::
  "(ManageEntityLegacy \<Rightarrow> string option) \<Rightarrow> (string \<Rightarrow> meta option) \<Rightarrow> Rules \<Rightarrow>
   's authStore \<Rightarrow> 's \<Rightarrow> ManageEntityLegacy list \<Rightarrow> enforcement_error option list \<times> 's" where
  "validate_entities recover unmarshal rules ops st [] = ([], st)"
| "validate_entities recover unmarshal rules ops st (em # ems) =
     (let (e, st1) = validateManageEntityAuth recover unmarshal rules ops st em;
          (es, st2) = validate_entities recover unmarshal rules ops st1 ems
      in (e # es, st2))"

text \<open>Finalization of the same transactions, which logs a verdict and goes on.\<close>

definition finalize_entities :: "(string \<Rightarrow> meta option) \<Rightarrow> Rules \<Rightarrow> ManageEntityLegacy list \<Rightarrow> auth_db \<Rightarrow> auth_db" where
  "finalize_entities unmarshal rules =
     fold (\<lambda>em q. projectManageEntityAuthState q (authTxFromManageEntity unmarshal em) rules)"

text \<open>No transaction that needs a scan comes after a user update.\<close>

fun scan_safe :: "bool \<Rightarrow> authTx list \<Rightarrow> bool" where
  "scan_safe updated [] = True"
| "scan_safe updated (tx # txs) =
     ((updated \<longrightarrow> \<not> needs_scan tx) \<and> scan_safe (updated \<or> is_user_update tx) txs)"

lemma step_agrees:
  assumes "db_wf q" "ov_wf ov" "ov_view ov = db_view q" "\<not> Migration tx"
    "ov_fresh ov \<or> \<not> needs_scan tx"
  shows "fst (applyAuthProjection (overlayAuthStore dbAuthStore) ov tx rules) =
      fst (applyAuthProjection dbAuthStore q tx rules)"
    "ov_view (snd (applyAuthProjection (overlayAuthStore dbAuthStore) ov tx rules)) =
      db_view (snd (applyAuthProjection dbAuthStore q tx rules))"
    "ov_wf (snd (applyAuthProjection (overlayAuthStore dbAuthStore) ov tx rules))"
    "db_wf (snd (applyAuthProjection dbAuthStore q tx rules))"
  using ov.sim_live [OF assms(2,4,5), of rules] db.sim_any [OF assms(1), of tx rules] assms(3)
  by (simp_all add: sim_def)

lemma entity_step_agrees:
  assumes "db_wf q" "ov_wf ov" "ov_view ov = db_view q" "tx = authTxFromManageEntity unmarshal em"
    "ov_fresh ov \<or> \<not> needs_scan tx"
    "validateManageEntityAuth recover unmarshal rules (overlayAuthStore dbAuthStore) ov em = (e, ov')"
    "validateManageEntityAuth recover unmarshal rules dbAuthStore q em = (e', q')"
  shows "e = e' \<and> db_wf q' \<and> ov_wf ov' \<and> ov_view ov' = db_view q' \<and>
    (ov_fresh ov \<longrightarrow> is_user_update tx \<or> ov_fresh ov') \<and>
    (e' = None \<longrightarrow> applyAuthProjection dbAuthStore q tx rules = (None, q'))"
proof -
  have content: "validateTrackContentAuth (overlayAuthStore dbAuthStore) ov tx rules = validateTrackContentAuth dbAuthStore q tx rules"
    using ov.validateTrackContentAuth_view [OF assms(2)] db.validateTrackContentAuth_view [OF assms(1)] assms(3) by simp
  have live: "\<not> Migration tx" by (simp add: assms(4) authTxFromManageEntity_def)
  note step = step_agrees [OF assms(1-3) live assms(5), of rules]
  note fresh = ov.fresh_apply [OF assms(2), of tx rules]
  show ?thesis
    using assms(1-3,6,7) step fresh content unfolding validateManageEntityAuth_def assms(4) [symmetric] Let_def
    by (auto split: option.splits if_splits prod.splits)
qed

lemma validate_entities_agrees:
  assumes "db_wf q" "ov_wf ov" "ov_view ov = db_view q" "scan_safe updated (map (authTxFromManageEntity unmarshal) ems)"
    "updated \<or> ov_fresh ov"
    "validate_entities recover unmarshal rules (overlayAuthStore dbAuthStore) ov ems = (es, ov')"
    "validate_entities recover unmarshal rules dbAuthStore q ems = (es', q')"
  shows "es = es' \<and> ov_view ov' = db_view q' \<and> (list_all (\<lambda>e. e = None) es' \<longrightarrow>
    q' = finalize_entities unmarshal rules ems q \<and>
    (\<forall>i<length ems. fst (applyAuthProjection dbAuthStore (finalize_entities unmarshal rules (take i ems) q)
       (authTxFromManageEntity unmarshal (ems ! i)) rules) = None))"
  using assms
proof (induction ems arbitrary: q ov updated es es' ov' q')
  case (Cons em ems)
  let ?tx = "authTxFromManageEntity unmarshal em"
  obtain e ov1 where ov1: "validateManageEntityAuth recover unmarshal rules (overlayAuthStore dbAuthStore) ov em = (e, ov1)"
    by fastforce
  obtain e' q1 where q1: "validateManageEntityAuth recover unmarshal rules dbAuthStore q em = (e', q1)" by fastforce
  obtain es1 ov2 where ov2: "validate_entities recover unmarshal rules (overlayAuthStore dbAuthStore) ov1 ems = (es1, ov2)"
    by fastforce
  obtain es1' q2 where q2: "validate_entities recover unmarshal rules dbAuthStore q1 ems = (es1', q2)" by fastforce
  have es: "es = e # es1" "ov' = ov2" "es' = e' # es1'" "q' = q2"
    using Cons.prems(6,7) ov1 q1 ov2 q2 by simp_all
  have "ov_fresh ov \<or> \<not> needs_scan ?tx" using Cons.prems(4,5) by auto
  from entity_step_agrees [OF Cons.prems(1-3) refl this ov1 q1]
  have step: "e = e'" "db_wf q1" "ov_wf ov1" "ov_view ov1 = db_view q1"
    "ov_fresh ov \<longrightarrow> is_user_update ?tx \<or> ov_fresh ov1" and acc: "e' = None \<Longrightarrow> applyAuthProjection dbAuthStore q ?tx rules = (None, q1)"
    by auto
  have "(updated \<or> is_user_update ?tx) \<or> ov_fresh ov1" using Cons.prems(5) step(5) by blast
  from Cons.IH [OF step(2-4) _ this ov2 q2] Cons.prems(4)
  have IH: "es1 = es1'" "ov_view ov2 = db_view q2" and IH2: "list_all (\<lambda>e. e = None) es1' \<Longrightarrow>
    q2 = finalize_entities unmarshal rules ems q1 \<and>
    (\<forall>i<length ems. fst (applyAuthProjection dbAuthStore (finalize_entities unmarshal rules (take i ems) q1)
       (authTxFromManageEntity unmarshal (ems ! i)) rules) = None)" by auto
  have fin: "finalize_entities unmarshal rules (em # xs) q = finalize_entities unmarshal rules xs q1" if "e' = None" for xs
    using acc [OF that] by (simp add: finalize_entities_def projectManageEntityAuthState_def)
  have "fst (applyAuthProjection dbAuthStore (finalize_entities unmarshal rules (take i (em # ems)) q)
      (authTxFromManageEntity unmarshal ((em # ems) ! i)) rules) = None"
    if "i < length (em # ems)" "e' = None" "list_all (\<lambda>e. e = None) es1'" for i
  proof (cases i)
    case 0
    then show ?thesis using acc [OF that(2)] by (simp add: finalize_entities_def)
  next
    case (Suc j)
    then show ?thesis using that IH2 fin by simp
  qed
  then show ?case using IH step(1) IH2 fin unfolding es by auto
qed (simp add: finalize_entities_def)

text \<open>
  C1: on durable tables whose statements do not fail and that hold no wallet twice, checking the
  ManageEntity transactions of a proposal against the overlay, signature, content and projection alike, gives each the
  verdict the same check gives on the durable tables themselves. When it accepts them all, finalization
  rejects none of them, and reaches the authorization state of the overlay. No user create with a
  handle or grant revocation may follow a user update in the proposal.
\<close>

theorem proposal_agrees:
  assumes "db_wf q" "unique_wallets (db_view q)" "scan_safe False (map (authTxFromManageEntity unmarshal) ems)"
    "validate_entities recover unmarshal rules (overlayAuthStore dbAuthStore) (newOverlayAuthStore q) ems = (verdicts, ov)"
  shows "fst (validate_entities recover unmarshal rules dbAuthStore q ems) = verdicts \<and>
    (list_all (\<lambda>e. e = None) verdicts \<longrightarrow>
      db_view (finalize_entities unmarshal rules ems q) = ov_view ov \<and>
      (\<forall>i<length ems. fst (applyAuthProjection dbAuthStore (finalize_entities unmarshal rules (take i ems) q)
         (authTxFromManageEntity unmarshal (ems ! i)) rules) = None))"
  using validate_entities_agrees [OF assms(1) ov_wf_new [OF assms(1,2)] _ assms(3) _ assms(4) surjective_pairing]
  by (simp add: ov_view_new ov_fresh_new)

text \<open>
  Two users, the second managing the first; the transactions of the examples: the second user
  deactivates itself, creates a track, and revokes the grant it holds.
\<close>

definition ex_db :: auth_db where
  "ex_db = empty_auth_db\<lparr>
     core_auth_users := [(1, \<lparr>db_wallet = ''0xa'', db_handle_lc = None, db_is_deactivated = False\<rparr>),
                         (2, \<lparr>db_wallet = ''0xb'', db_handle_lc = None, db_is_deactivated = False\<rparr>)],
     core_auth_grants := [((''0xb'', 1), \<lparr>db_is_approved = Some True, db_is_revoked = False\<rparr>)]\<rparr>"

definition ex_tx :: "int \<Rightarrow> string \<Rightarrow> int \<Rightarrow> string \<Rightarrow> string \<Rightarrow> meta \<Rightarrow> authTx" where
  "ex_tx u t i a s m = \<lparr>UserID = u, EntityType = t, EntityID = i, Action = a, Signer = s,
     Migration = False, tx_meta = m\<rparr>"

abbreviation ex_deactivate :: authTx where
  "ex_deactivate \<equiv> ex_tx 2 ''User'' 2 ''Update'' ''0xb'' [(''is_deactivated'', JBool True)]"

abbreviation ex_track :: authTx where
  "ex_track \<equiv> ex_tx 2 ''Track'' 2000001 ''Create'' ''0xb''
     [(''owner_id'', JNum 2), (''track_cid'', JStr ''cid1'')]"

abbreviation ex_revoke :: authTx where
  "ex_revoke \<equiv> ex_tx 1 ''Grant'' 0 ''Delete'' ''0xb'' [(''grantee_address'', JStr ''0xb'')]"

lemma ex_db_ok: "db_wf ex_db" "unique_wallets (db_view ex_db)"
  by (auto simp: db_wf_def keyed_def ex_db_def empty_auth_db_def unique_wallets_def row_defs
      split: if_splits)

text \<open>The same as signed messages: the metadata is one of three, the signature is as claimed.\<close>

definition ex_entity :: "int \<Rightarrow> string \<Rightarrow> int \<Rightarrow> string \<Rightarrow> string \<Rightarrow> string \<Rightarrow> ManageEntityLegacy" where
  "ex_entity u t i a s m = \<lparr>me_UserId = u, me_EntityType = t, me_EntityId = i, me_Action = a,
     me_Metadata = m, me_Signature = [], me_Signer = s, me_Nonce = []\<rparr>"

definition ex_json :: "string \<Rightarrow> meta option" where
  "ex_json raw = map_of [(''off'', [(''is_deactivated'', JBool True)]),
     (''track'', [(''owner_id'', JNum 2), (''track_cid'', JStr ''cid1'')]),
     (''revoke'', [(''grantee_address'', JStr ''0xb'')])] raw"

definition ex_proposal :: "ManageEntityLegacy list" where
  "ex_proposal = [ex_entity 1 ''Grant'' 0 ''Delete'' ''0xb'' ''revoke'', ex_entity 2 ''Track'' 2000001 ''Create'' ''0xb'' ''track'',
     ex_entity 2 ''User'' 2 ''Update'' ''0xb'' ''off'']"

definition window_rules :: Rules where
  "window_rules = no_rules\<lparr>AuthEnforced := True, ContentAuthEnforced := True\<rparr>"

theorem proposal_agrees_witness:
  "fst (validate_entities (\<lambda>em. Some (me_Signer em)) ex_json window_rules (overlayAuthStore dbAuthStore)
      (newOverlayAuthStore ex_db) ex_proposal) = [None, None, None] \<and>
   fst (validate_entities (\<lambda>em. Some (me_Signer em)) ex_json window_rules dbAuthStore ex_db ex_proposal) = [None, None, None] \<and>
   fst (applyAuthProjection dbAuthStore (finalize_entities ex_json window_rules (take 2 ex_proposal) ex_db)
      (authTxFromManageEntity ex_json (ex_proposal ! 2)) window_rules) = None"
proof -
  obtain vs ov where run: "validate_entities (\<lambda>em. Some (me_Signer em)) ex_json window_rules (overlayAuthStore dbAuthStore)
      (newOverlayAuthStore ex_db) ex_proposal = (vs, ov)" by fastforce
  have "fst (validate_entities (\<lambda>em. Some (me_Signer em)) ex_json window_rules (overlayAuthStore dbAuthStore)
      (newOverlayAuthStore ex_db) ex_proposal) = [None, None, None]" by code_simp
  with run have vs: "vs = [None, None, None]" by simp
  have "scan_safe False (map (authTxFromManageEntity ex_json) ex_proposal)" by code_simp
  moreover have "2 < length ex_proposal" by (simp add: ex_proposal_def)
  moreover have "list_all (\<lambda>e. e = None) vs" by (simp add: vs)
  ultimately show ?thesis using proposal_agrees [OF ex_db_ok _ run] run vs by (metis fst_conv)
qed

text \<open>
  The caveat is real. A proposal in which a user deactivates itself and
  then revokes a grant it holds validates cleanly, because the overlay's wallet lookup falls
  through to the shadowed base row, and finalizing it skips the revocation.
\<close>

theorem overlay_divergence:
  "fst (validate_entities (\<lambda>em. Some (me_Signer em)) ex_json no_rules (overlayAuthStore dbAuthStore) (newOverlayAuthStore ex_db)
      [ex_entity 2 ''User'' 2 ''Update'' ''0xb'' ''off'', ex_entity 1 ''Grant'' 0 ''Delete'' ''0xB'' ''revoke'']) = [None, None] \<and>
   fst (validate_entities (\<lambda>em. Some (me_Signer em)) ex_json no_rules dbAuthStore ex_db
      [ex_entity 2 ''User'' 2 ''Update'' ''0xb'' ''off'', ex_entity 1 ''Grant'' 0 ''Delete'' ''0xB'' ''revoke'']) =
      [None, Some (AuthRejectionError (RuleRejection (NotAuthorizedToRevoke ''0xB'' ''0xb'' 1)))]"
  by code_simp

section \<open>The durable state\<close>

lemma db_finite_ids: "finite (active_ids (db_view q) w)"
proof -
  have "active_ids (db_view q) w \<subseteq> dom (map_of (core_auth_users q))"
    by (auto simp: active_ids_def)
  then show ?thesis using finite_dom_map_of finite_subset by blast
qed

lemma db_project:
  assumes "db_wf q"
  shows "db_view (projectManageEntityAuthState q tx rules) =
      snd (applyAuthProjection viewAuthStore (db_view q) tx rules)"
    and "db_wf (projectManageEntityAuthState q tx rules)"
  using db.sim_any [OF assms, of tx rules]
  by (simp_all add: sim_def projectManageEntityAuthState_def)

text \<open>
  C2: finalizing a ManageEntity transaction changes the authorization
  state only as an authorized signer of its user, as the creation of that user for the
  signer's own wallet, or as a revocation by the grantee of the grant.
\<close>

theorem no_unauthorized_change:
  assumes "db_wf q" "db_view (projectManageEntityAuthState q tx rules) \<noteq> db_view q"
  shows "permitted (db_view q) tx (db_view (projectManageEntityAuthState q tx rules))"
  using assms permitted_apply [OF db_finite_ids, of q tx rules]
  by (simp add: db_project changes_permitted_def)

theorem no_unauthorized_change_witness:
  "permitted (db_view ex_db) ex_track (db_view (projectManageEntityAuthState ex_db ex_track no_rules))"
proof (rule no_unauthorized_change)
  have "map_of (core_auth_entities (projectManageEntityAuthState ex_db ex_track no_rules))
      (''Track'', 2000001) = Some \<lparr>db_owner_user_id = 2, db_ent_is_deleted = False\<rparr>"
    by code_simp
  moreover have "map_of (core_auth_entities ex_db) (''Track'', 2000001) = None"
    by (simp add: ex_db_def empty_auth_db_def)
  ultimately show "db_view (projectManageEntityAuthState ex_db ex_track no_rules) \<noteq> db_view ex_db"
    by (metis db_view_sels(4) option.map_disc_iff option.distinct(1))
qed (rule ex_db_ok)

text \<open>
  C11: over any sequence of finalized transactions no user disappears or changes
  wallet, no track or playlist disappears, changes owner or comes back from deletion, and no
  claim on content is withdrawn, on tables whose statements do not fail. Nothing is said here of developer
  apps and grants, which may come back, or of a user's deactivation.
\<close>

theorem history_monotone:
  assumes "db_wf q"
  shows "view_le (db_view q) (db_view (fold (\<lambda>tx q. projectManageEntityAuthState q tx rules) txs q))"
  using assms
proof (induction txs arbitrary: q)
  case (Cons tx txs)
  have "view_le (db_view q) (db_view (projectManageEntityAuthState q tx rules))"
    using view_le_apply db_project(1) [OF Cons.prems] by metis
  with Cons.IH [OF db_project(2) [OF Cons.prems]] show ?case
    by (auto intro: view_le_trans)
qed simp

theorem history_monotone_witness:
  "view_le (db_view ex_db)
     (db_view (fold (\<lambda>tx q. projectManageEntityAuthState q tx no_rules) [ex_track, ex_deactivate] ex_db))"
  using history_monotone [OF ex_db_ok(1)] by blast

text \<open>
  C12: a finalized transaction creates or deletes a track or playlist only
  for the user it names as owner, with an authorized signer, and touches no other id.
\<close>

theorem entity_changes_owned:
  assumes "db_wf q"
    and "v_entities (db_view (projectManageEntityAuthState q tx rules)) (t, i) \<noteq> v_entities (db_view q) (t, i)"
  shows "i = EntityID tx \<and> authorized (db_view q) (UserID tx) (Signer tx) \<and>
    (\<exists>e. v_entities (db_view (projectManageEntityAuthState q tx rules)) (t, i) = Some e \<and>
       EntOwnerID e = UserID tx) \<and>
    (\<forall>e. v_entities (db_view q) (t, i) = Some e \<longrightarrow> EntOwnerID e = UserID tx)"
proof -
  have "entities_owned (db_view q) tx (db_view (projectManageEntityAuthState q tx rules))"
    using entities_owned_apply db_project(1) [OF assms(1)] by metis
  then show ?thesis
    using assms(2) unfolding entities_owned_def by (simp only: split_paired_All snd_conv) blast
qed

theorem entity_changes_owned_witness:
  "authorized (db_view ex_db) 2 ''0xb''"
proof -
  have "map_of (core_auth_entities (projectManageEntityAuthState ex_db ex_track no_rules))
      (''Track'', 2000001) = Some \<lparr>db_owner_user_id = 2, db_ent_is_deleted = False\<rparr>"
    by code_simp
  moreover have "map_of (core_auth_entities ex_db) (''Track'', 2000001) = None"
    by (simp add: ex_db_def empty_auth_db_def)
  ultimately have "v_entities (db_view (projectManageEntityAuthState ex_db ex_track no_rules))
      (''Track'', 2000001) \<noteq> v_entities (db_view ex_db) (''Track'', 2000001)" by simp
  from entity_changes_owned [OF ex_db_ok(1) this] show ?thesis by (simp add: ex_tx_def)
qed

text \<open>
  C13: a live transaction never gives two users the same wallet.
\<close>

theorem wallets_stay_unique:
  assumes "db_wf q" "unique_wallets (db_view q)" "\<not> Migration tx"
  shows "unique_wallets (db_view (projectManageEntityAuthState q tx rules))"
  using unique_wallets_apply [OF assms(2,3)] db_project(1) [OF assms(1)] by metis

theorem wallets_stay_unique_witness:
  "unique_wallets (db_view (projectManageEntityAuthState ex_db ex_track no_rules))"
  by (rule wallets_stay_unique [OF ex_db_ok]) (simp add: ex_tx_def)

text \<open>
  C14: whatever the store, a transaction the projection rejects with a
  rule changes nothing, so a rejected transaction leaves nothing in the overlay for later ones.
\<close>

theorem rejected_leaves_no_trace:
  "applyAuthProjection ops st tx rules = (Some (AuthValidation r), st') \<Longrightarrow> st' = st"
  using applyAuthProjection_clean [of st ops tx rules] by (simp add: rejection_clean_def)

theorem rejected_leaves_no_trace_witness:
  "snd (applyAuthProjection dbAuthStore ex_db (ex_track\<lparr>Signer := ''0xc''\<rparr>) no_rules) = ex_db"
proof -
  have "fst (applyAuthProjection dbAuthStore ex_db (ex_track\<lparr>Signer := ''0xc''\<rparr>) no_rules) =
      Some (AuthValidation (SignerNotAuthorized ''0xc'' 2))" by code_simp
  then show ?thesis using rejected_leaves_no_trace by (metis prod.collapse)
qed

section \<open>Content claims\<close>

lemma canonical_Track [simp]: "canonicalAuthEntityType ''Track'' = Some ''Track''"
  "canonicalAuthAction ''Create'' = Some ''Create''" "canonicalAuthAction ''Update'' = Some ''Update''"
  by code_simp+

lemma EntityCreate_cids:
  "projectEntityCreate viewAuthStore v tx t = (e, s) \<Longrightarrow> v_cids s = v_cids v"
  by (auto simp: projectEntityCreate_def Let_def seq_defs split: option.splits if_splits)

lemma track_write_asserts:
  assumes "EntityType tx = ''Track''" "Action tx \<in> {''Create'', ''Update''}" "\<not> Migration tx"
    "ContentAuthEnforced rules" "\<not> ContentAuthStrict rules"
    "applyAuthProjection viewAuthStore v tx rules = (None, v')"
  shows "\<exists>s. v_cids s = v_cids v \<and> projectAssertedTrackCids viewAuthStore s tx rules = (None, v')"
proof (cases "Action tx = ''Create''")
  case True
  obtain e s where c: "projectEntityCreate viewAuthStore v tx ''Track'' = (e, s)" by fastforce
  with True assms have "projectAssertedTrackCids viewAuthStore s tx rules = (None, v')"
    by (auto simp: applyAuthProjection_def claims_fair_migrated then_do_def split: option.splits)
  with EntityCreate_cids [OF c] show ?thesis by blast
next
  case False
  with assms have "projectAssertedTrackCids viewAuthStore v tx rules = (None, v')"
    by (auto simp: applyAuthProjection_def try_check_def split: option.splits)
  then show ?thesis by blast
qed

lemma view_track_write_claims:
  assumes "ContentAuthEnforced rules" "EntityType tx = ''Track''" "Action tx \<in> {''Create'', ''Update''}"
    "\<not> Migration tx" "validateTrackContentAuth viewAuthStore v tx rules = None"
    "applyAuthProjection viewAuthStore v tx rules = (None, v')"
    "key \<in> set trackCidMetadataKeys" "metaString tx key \<noteq> []"
  shows "(metaString tx key, UserID tx) \<in> v_cids v'"
proof -
  from assms have held: "(metaString tx key, UserID tx) \<in> v_cids v \<or>
      \<not> cid_claimed v (metaString tx key) \<and> \<not> ContentAuthStrict rules"
    by (intro check_cids_passed [where ks = trackCidMetadataKeys])
      (auto simp: validateTrackContentAuth_def split: if_splits)
  have mono: "v_cids v \<subseteq> v_cids v'"
    using view_le_apply [of v tx rules] assms(6) by (simp add: view_le_def)
  show ?thesis
  proof (cases "ContentAuthStrict rules")
    case True with held mono show ?thesis by blast
  next
    case False
    have asserted: "projectAssertedTrackCids viewAuthStore s tx rules =
        assert_cids viewAuthStore s (UserID tx) (map (metaString tx) trackCidMetadataKeys)" for s
      using assms False by (simp add: projectAssertedTrackCids_def)
    obtain s where s: "v_cids s = v_cids v" and v': "snd (projectAssertedTrackCids viewAuthStore s tx rules) = v'"
      using track_write_asserts [OF assms(2,3,4,1) False assms(6)] by fastforce
    have "(metaString tx key, UserID tx) \<in> v_cids s \<or> \<not> cid_claimed s (metaString tx key)"
      using held s by (auto simp: cid_claimed_def)
    with assms(7,8) v' show ?thesis
      using assert_cids_claims(2) [of "metaString tx key"] unfolding asserted by force
  qed
qed

text \<open>
  C9: once content authorization is enforced, a track create or update that a
  proposal accepts leaves its user holding the claim on every audio cid it names.
\<close>

theorem track_write_claims:
  assumes "ov_wf ov" "ContentAuthEnforced rules"
    and "me_EntityType em = ''Track''" "me_Action em \<in> {''Create'', ''Update''}"
    and "validateManageEntityAuth recover unmarshal rules (overlayAuthStore dbAuthStore) ov em = (None, ov')"
    and "key \<in> set trackCidMetadataKeys"
    and "metaString (authTxFromManageEntity unmarshal em) key \<noteq> []"
  shows "(metaString (authTxFromManageEntity unmarshal em) key, me_UserId em) \<in> v_cids (ov_view ov')"
proof -
  let ?tx = "authTxFromManageEntity unmarshal em"
  have tx: "EntityType ?tx = ''Track''" "Action ?tx \<in> {''Create'', ''Update''}" "\<not> Migration ?tx"
    "UserID ?tx = me_UserId em"
    using assms(3,4) by (simp_all add: authTxFromManageEntity_def)
  then have scan: "\<not> needs_scan ?tx" by (auto simp: needs_scan_def)
  from assms(2,5) have ok: "validateTrackContentAuth (overlayAuthStore dbAuthStore) ov ?tx rules = None"
    "applyAuthProjection (overlayAuthStore dbAuthStore) ov ?tx rules = (None, ov')"
    by (auto simp: validateManageEntityAuth_def Let_def case_prod_unfold prod_eq_iff
        split: option.splits if_splits)
  have "sim ov_wf ov_view (None, ov') (applyAuthProjection viewAuthStore (ov_view ov) ?tx rules)"
    using ov.sim_live [OF assms(1) tx(3), of rules] scan ok(2) by simp
  then have "applyAuthProjection viewAuthStore (ov_view ov) ?tx rules = (None, ov_view ov')"
    by (cases "applyAuthProjection viewAuthStore (ov_view ov) ?tx rules") (simp add: sim_def)
  from view_track_write_claims [OF assms(2) tx(1-3) _ this assms(6,7)] ok(1) show ?thesis
    by (simp add: ov.validateTrackContentAuth_view [OF assms(1)] tx(4) del: ov_view_sels)
qed

definition ex_meta :: "string \<Rightarrow> meta option" where
  "ex_meta raw = Some [(''owner_id'', JNum (if raw = ''1'' then 1 else 2)), (''track_cid'', JStr ''cid1'')]"

definition ex_em :: "int \<Rightarrow> string \<Rightarrow> string \<Rightarrow> string \<Rightarrow> ManageEntityLegacy" where
  "ex_em u t s m = \<lparr>me_UserId = u, me_EntityType = t, me_EntityId = 2000001, me_Action = ''Create'',
     me_Metadata = m, me_Signature = [], me_Signer = s, me_Nonce = []\<rparr>"

theorem track_write_claims_witness:
  "(''cid1'', 2) \<in> v_cids (ov_view (snd (validateManageEntityAuth (\<lambda>em. Some (me_Signer em)) ex_meta
     window_rules (overlayAuthStore dbAuthStore) (newOverlayAuthStore ex_db) (ex_em 2 ''Track'' ''0xb'' ''2''))))"
proof -
  let ?r = "validateManageEntityAuth (\<lambda>em. Some (me_Signer em)) ex_meta window_rules
    (overlayAuthStore dbAuthStore) (newOverlayAuthStore ex_db) (ex_em 2 ''Track'' ''0xb'' ''2'')"
  have "fst ?r = None" by code_simp
  then have "?r = (None, snd ?r)" by (simp add: prod_eq_iff)
  from track_write_claims [OF ov_wf_new [OF ex_db_ok] _ _ _ this, of "''track_cid''"] show ?thesis
    by (simp add: window_rules_def ex_em_def trackCidMetadataKeys_def authTxFromManageEntity_def
        parseAuthMetadata_def ex_meta_def metaString_def del: ov_view_sels)
qed

text \<open>
  The content check and the claim projection compare the entity type
  exactly, the rest of the projection folds case. With everything enforced, the same create of
  a track naming another user's audio is rejected as \<^verbatim>\<open>Track\<close> and accepted as
  \<^verbatim>\<open>track\<close>, where it still creates the track.
\<close>

theorem lowercase_track_bypasses:
  "let q = ex_db\<lparr>core_auth_cids := [((''cid1'', 2), ''tx'')]\<rparr>;
       check = validateManageEntityAuth (\<lambda>em. Some (me_Signer em)) ex_meta (RulesetAt (Some dev_schedule) 1)
         (overlayAuthStore dbAuthStore) (newOverlayAuthStore q)
   in fst (check (ex_em 1 ''Track'' ''0xa'' ''1'')) =
        Some (AuthRejectionError (RuleRejection (CidNotUploadedForUser ''track_cid'' ''cid1'' 1))) \<and>
      fst (check (ex_em 1 ''track'' ''0xa'' ''1'')) = None \<and>
      ov_entities (snd (check (ex_em 1 ''track'' ''0xa'' ''1''))) =
        [((''Track'', 2000001), \<lparr>EntOwnerID = 1, EntDeleted = False\<rparr>)]"
  by code_simp

text \<open>
  C10: a live transaction adds claims only for its own user and only on cids
  nobody held, so it never takes a share in content another user uploaded.
\<close>

theorem claims_never_taken:
  assumes "db_wf q" "\<not> Migration tx"
    "(c, u) \<in> v_cids (db_view (projectManageEntityAuthState q tx rules))"
  shows "(c, u) \<in> v_cids (db_view q) \<or> u = UserID tx \<and> \<not> cid_claimed (db_view q) c"
  using assms claims_fair_apply [OF assms(2), of "db_view q" rules]
  by (simp add: db_project claims_fair_def del: db_view_sels)

theorem claims_never_taken_witness:
  "\<not> cid_claimed (db_view ex_db) ''cid1''"
proof -
  have "map_of (core_auth_cids (projectManageEntityAuthState ex_db ex_track window_rules)) (''cid1'', 2) = Some []"
    by code_simp
  then have "(''cid1'', 2) \<in> v_cids (db_view (projectManageEntityAuthState ex_db ex_track window_rules))"
    by (simp add: domI)
  from claims_never_taken [OF ex_db_ok(1) _ this] show ?thesis
    by (simp add: ex_tx_def ex_db_def empty_auth_db_def)
qed

section \<open>Approving a grant\<close>

text \<open>
  A pending grant is approved by any authorized user of the chain, not
  only by its grantee: the projection checks the signer for the transaction's user and never
  that this user is the grantee.
\<close>

theorem any_user_approves:
  assumes "db_wf q" "canonicalAuthEntityType (EntityType tx) = Some ''Grant''"
    "canonicalAuthAction (Action tx) = Some ''Approve''"
    "authorized (db_view q) (UserID tx) (Signer tx)"
    "metaString tx ''grantee_address'' = grantee" "grantee \<noteq> []"
    "metaInt64 tx ''grantor_user_id'' = Some grantor"
    "v_grants (db_view q) (ToLower grantee, grantor) = Some g" "\<not> Revoked g" "Approved g = None"
  shows "v_grants (db_view (projectManageEntityAuthState q tx rules)) (ToLower grantee, grantor) =
    Some \<lparr>Approved = Some True, Revoked = False\<rparr>"
proof -
  have "validateAuthSigner viewAuthStore (db_view q) (UserID tx) (Signer tx) = None"
    using assms(4) by (simp add: validateAuthSigner_view)
  then have "snd (applyAuthProjection viewAuthStore (db_view q) tx rules) =
      (db_view q)\<lparr>v_grants := (v_grants (db_view q))((ToLower grantee, grantor) \<mapsto>
        \<lparr>Approved = Some True, Revoked = False\<rparr>)\<rparr>"
    using assms by (simp add: applyAuthProjection_def projectGrantApproveReject_def del: db_view_sels)
  then show ?thesis by (simp add: db_project [OF assms(1)] del: db_view_sels)
qed

text \<open>User 2 holds a pending grant from user 1; user 3 approves it.\<close>

definition ex_pending :: auth_db where
  "ex_pending = ex_db\<lparr>
     core_auth_users := core_auth_users ex_db @
       [(3, \<lparr>db_wallet = ''0xc'', db_handle_lc = None, db_is_deactivated = False\<rparr>)],
     core_auth_grants := [((''0xb'', 1), \<lparr>db_is_approved = None, db_is_revoked = False\<rparr>)]\<rparr>"

theorem any_user_approves_witness:
  "v_grants (db_view (projectManageEntityAuthState ex_pending
     (ex_tx 3 ''Grant'' 0 ''Approve'' ''0xc'' [(''grantee_address'', JStr ''0xb''), (''grantor_user_id'', JNum 1)])
     no_rules)) (ToLower ''0xb'', 1) = Some \<lparr>Approved = Some True, Revoked = False\<rparr>"
proof (rule any_user_approves)
  show "db_wf ex_pending"
    by (simp add: db_wf_def keyed_def ex_pending_def ex_db_def empty_auth_db_def)
  have "ToLower ''0xb'' = ''0xb''" by code_simp
  then show "v_grants (db_view ex_pending) (ToLower ''0xb'', 1) = Some \<lparr>Approved = None, Revoked = False\<rparr>"
    by (simp add: ex_pending_def row_defs)
  show "authorized (db_view ex_pending) (UserID (ex_tx 3 ''Grant'' 0 ''Approve'' ''0xc''
      [(''grantee_address'', JStr ''0xb''), (''grantor_user_id'', JNum 1)]))
      (Signer (ex_tx 3 ''Grant'' 0 ''Approve'' ''0xc''
      [(''grantee_address'', JStr ''0xb''), (''grantor_user_id'', JNum 1)]))"
    by (simp add: authorized_def ex_tx_def ex_pending_def ex_db_def empty_auth_db_def row_defs)
qed (code_simp)+

end
