(* ===== verification/Rendezvous.thy ===== *)
theory Rendezvous
  imports Prelude "HOL-Library.Char_ord" "HOL-Library.List_Lexorder" "HOL-Library.Product_Lexorder"
    "HOL-Library.Multiset" "HOL-Library.Sublist"
begin

text \<open>
  Rendezvous hashing, \<^verbatim>\<open>pkg/common/rendezvous.go\<close>: the attestors of a registration or a
  storage proof, and the ranking of storage hosts. Bytes are characters, so the lexicographic
  order of \<^verbatim>\<open>bytes.Compare\<close> and of Go's string comparison is the library's order on
  character lists, and the order of \<^verbatim>\<open>NodeTuples.Less\<close> is the one on pairs of a score and
  an address. The hash is the parameter \<open>sha256\<close>; \<^verbatim>\<open>url.Parse\<close> succeeding is
  the parameter \<open>parses\<close>.
\<close>

definition node_tuples :: "(string \<Rightarrow> string) \<Rightarrow> string list \<Rightarrow> string \<Rightarrow> (string \<times> string) list" where
  "node_tuples sha256 addrs key = sort (map (\<lambda>addr. (sha256 (addr @ key), addr)) addrs)"

definition GetAttestorRendezvous :: "(string \<Rightarrow> string) \<Rightarrow> string list \<Rightarrow> string \<Rightarrow> int \<Rightarrow> string set" where
  "GetAttestorRendezvous sha256 validatorAddresses key rsize =
     (let tuples = node_tuples sha256 validatorAddresses key;
          bound = min (int (length tuples)) rsize
      in set (map snd (take (nat bound) tuples)))"

definition isDead :: "string \<Rightarrow> string list \<Rightarrow> bool" where
  "isDead h deadHosts \<longleftrightarrow> list_ex (\<lambda>dead. sublist dead h \<or> h = dead) deadHosts"

fun filterLiveHosts_from ::
  "(string \<Rightarrow> bool) \<Rightarrow> string list \<Rightarrow> string list \<Rightarrow> string list \<Rightarrow> string list" where
  "filterLiveHosts_from parses deadHosts liveHosts [] = liveHosts"
| "filterLiveHosts_from parses deadHosts liveHosts (h # hs) =
     (if isDead h deadHosts then filterLiveHosts_from parses deadHosts liveHosts hs
      else if \<not> parses h then filterLiveHosts_from parses deadHosts liveHosts hs
      else if h \<in> set liveHosts then filterLiveHosts_from parses deadHosts liveHosts hs
      else filterLiveHosts_from parses deadHosts (liveHosts @ [h]) hs)"

definition filterLiveHosts :: "(string \<Rightarrow> bool) \<Rightarrow> string list \<Rightarrow> string list \<Rightarrow> string list" where
  "filterLiveHosts parses hosts deadHosts = filterLiveHosts_from parses deadHosts [] hosts"

record RendezvousHasher =
  rh_hosts :: "string list"

definition NewRendezvousHasher :: "(string \<Rightarrow> bool) \<Rightarrow> string list \<Rightarrow> string list \<Rightarrow> RendezvousHasher" where
  "NewRendezvousHasher parses hosts deadHosts = \<lparr>rh_hosts = filterLiveHosts parses hosts deadHosts\<rparr>"

definition UpdateHosts ::
  "(string \<Rightarrow> bool) \<Rightarrow> RendezvousHasher \<Rightarrow> string list \<Rightarrow> string list \<Rightarrow> RendezvousHasher" where
  "UpdateHosts parses rh hosts deadHosts = rh\<lparr>rh_hosts := filterLiveHosts parses hosts deadHosts\<rparr>"

definition Rank :: "(string \<Rightarrow> string) \<Rightarrow> RendezvousHasher \<Rightarrow> string \<Rightarrow> string list" where
  "Rank sha256 rh key = map snd (node_tuples sha256 (rh_hosts rh) key)"

section \<open>The order of the addresses does not matter\<close>

lemma node_tuples_mset:
  "mset addrs = mset addrs' \<Longrightarrow> node_tuples sha256 addrs key = node_tuples sha256 addrs' key"
  unfolding node_tuples_def
  by (rule properties_for_sort) (simp_all add: mset_map)

lemma length_node_tuples [simp]: "length (node_tuples sha256 addrs key) = length addrs"
  by (simp add: node_tuples_def)

lemma mset_snd_node_tuples: "mset (map snd (node_tuples sha256 addrs key)) = mset addrs"
  by (simp add: node_tuples_def mset_map multiset.map_comp comp_def)

lemma set_snd_node_tuples: "set (map snd (node_tuples sha256 addrs key)) = set addrs"
  using mset_snd_node_tuples by (metis mset_eq_setD)

lemma GetAttestorRendezvous_mset:
  "mset addrs = mset addrs' \<Longrightarrow>
     GetAttestorRendezvous sha256 addrs key rsize = GetAttestorRendezvous sha256 addrs' key rsize"
  using node_tuples_mset [of addrs addrs' sha256 key] by (simp add: GetAttestorRendezvous_def)

lemma GetAttestorRendezvous_subset: "GetAttestorRendezvous sha256 addrs key rsize \<subseteq> set addrs"
  using set_snd_node_tuples [of sha256 addrs key]
  by (auto simp: GetAttestorRendezvous_def Let_def dest: in_set_takeD)

lemma finite_GetAttestorRendezvous [simp]: "finite (GetAttestorRendezvous sha256 addrs key rsize)"
  by (simp add: GetAttestorRendezvous_def Let_def)

lemma card_GetAttestorRendezvous:
  "card (GetAttestorRendezvous sha256 addrs key rsize) \<le> nat (min (int (length addrs)) rsize)"
  unfolding GetAttestorRendezvous_def Let_def by (rule card_length [THEN order_trans]) simp

lemma card_GetAttestorRendezvous_distinct:
  assumes "distinct addrs"
  shows "card (GetAttestorRendezvous sha256 addrs key rsize) = nat (min (int (length addrs)) rsize)"
proof -
  have "distinct (map snd (node_tuples sha256 addrs key))"
    using assms mset_snd_node_tuples by (metis mset_eq_imp_distinct_iff)
  then have "distinct (map snd (take (nat (min (int (length addrs)) rsize)) (node_tuples sha256 addrs key)))"
    by (simp add: take_map [symmetric])
  from distinct_card [OF this] show ?thesis
    by (simp add: GetAttestorRendezvous_def Let_def)
qed

section \<open>Live hosts\<close>

lemma filterLiveHosts_from_set:
  "set (filterLiveHosts_from parses dead live hs) =
     set live \<union> {h \<in> set hs. \<not> isDead h dead \<and> parses h}"
  by (induction parses dead live hs rule: filterLiveHosts_from.induct) auto

lemma filterLiveHosts_from_distinct:
  "distinct live \<Longrightarrow> distinct (filterLiveHosts_from parses dead live hs)"
  by (induction parses dead live hs rule: filterLiveHosts_from.induct) auto

lemma filterLiveHosts_set:
  "set (filterLiveHosts parses hosts dead) = {h \<in> set hosts. \<not> isDead h dead \<and> parses h}"
  by (simp add: filterLiveHosts_def filterLiveHosts_from_set)

lemma filterLiveHosts_distinct: "distinct (filterLiveHosts parses hosts dead)"
  by (simp add: filterLiveHosts_def filterLiveHosts_from_distinct)

lemma attestors_mset:
  assumes "mset addrs = mset addrs'"
  shows "GetAttestorRendezvous sha256 addrs key rsize = GetAttestorRendezvous sha256 addrs' key rsize"
  using node_tuples_mset [OF assms] by (simp add: GetAttestorRendezvous_def)

lemma attestors_card:
  assumes "distinct addrs" "0 \<le> rsize"
  shows "GetAttestorRendezvous sha256 addrs key rsize \<subseteq> set addrs"
    "int (card (GetAttestorRendezvous sha256 addrs key rsize)) = min (int (length addrs)) rsize"
proof -
  let ?t = "map snd (node_tuples sha256 addrs key)" and ?n = "nat (min (int (length addrs)) rsize)"
  have ms: "mset ?t = mset addrs" by (rule mset_snd_node_tuples)
  have len: "length ?t = length addrs" using ms by (rule mset_eq_length)
  have set: "GetAttestorRendezvous sha256 addrs key rsize = set (take ?n ?t)"
    using len by (simp add: GetAttestorRendezvous_def take_map)
  show "GetAttestorRendezvous sha256 addrs key rsize \<subseteq> set addrs"
    unfolding set using set_take_subset [of ?n ?t] mset_eq_setD [OF ms] by simp
  have "distinct (take ?n ?t)" using mset_eq_imp_distinct_iff [OF ms] assms(1) by simp
  then have "card (set (take ?n ?t)) = length (take ?n ?t)" by (rule distinct_card)
  then show "int (card (GetAttestorRendezvous sha256 addrs key rsize)) = min (int (length addrs)) rsize"
    unfolding set using len assms(2) by simp
qed

text \<open>
  C21: two nodes that know the same hosts, in whatever order and with whatever repetitions, rank
  every key the same way, and the ranking lists each live host once. Two nodes that list the same validators,
  repetitions included, in whatever order, select the same attestors for every key: as many as asked for, or all.
\<close>

theorem rank_deterministic:
  assumes "set hosts = set hosts'" "mset addrs = mset addrs'"
  shows "Rank sha256 (NewRendezvousHasher parses hosts dead) key =
      Rank sha256 (UpdateHosts parses rh hosts' dead) key \<and>
    distinct (Rank sha256 (NewRendezvousHasher parses hosts dead) key) \<and>
    set (Rank sha256 (NewRendezvousHasher parses hosts dead) key) =
      {h \<in> set hosts. \<not> isDead h dead \<and> parses h} \<and>
    GetAttestorRendezvous sha256 addrs key rsize = GetAttestorRendezvous sha256 addrs' key rsize \<and>
    (distinct addrs \<and> 0 \<le> rsize \<longrightarrow> GetAttestorRendezvous sha256 addrs key rsize \<subseteq> set addrs \<and>
      int (card (GetAttestorRendezvous sha256 addrs key rsize)) = min (int (length addrs)) rsize)"
proof -
  have "mset (filterLiveHosts parses hosts dead) = mset (filterLiveHosts parses hosts' dead)"
    using assms filterLiveHosts_distinct
    by (subst set_eq_iff_mset_eq_distinct [symmetric]) (auto simp: filterLiveHosts_set)
  then have "Rank sha256 (NewRendezvousHasher parses hosts dead) key =
      Rank sha256 (UpdateHosts parses rh hosts' dead) key"
    unfolding Rank_def NewRendezvousHasher_def UpdateHosts_def
    by (subst node_tuples_mset) simp_all
  moreover have ms: "mset (Rank sha256 (NewRendezvousHasher parses hosts dead) key) =
      mset (filterLiveHosts parses hosts dead)"
    unfolding Rank_def NewRendezvousHasher_def RendezvousHasher.select_convs by (rule mset_snd_node_tuples)
  then have "distinct (Rank sha256 (NewRendezvousHasher parses hosts dead) key)"
    using mset_eq_imp_distinct_iff [OF ms] filterLiveHosts_distinct by blast
  moreover have "set (Rank sha256 (NewRendezvousHasher parses hosts dead) key) = {h \<in> set hosts. \<not> isDead h dead \<and> parses h}"
    using mset_eq_setD [OF ms] filterLiveHosts_set by blast
  ultimately show ?thesis
    using attestors_mset [OF assms(2), of sha256 key rsize] attestors_card [of addrs rsize sha256 key] by simp
qed

theorem rank_deterministic_witness:
  "Rank rev (NewRendezvousHasher (\<lambda>_. True) [''b'', ''a''] []) ''k'' =
   Rank rev (UpdateHosts (\<lambda>_. True) \<lparr>rh_hosts = []\<rparr> [''a'', ''b'', ''a''] []) ''k'' \<and>
   GetAttestorRendezvous rev [''v'', ''w'', ''x''] ''k'' 2 = GetAttestorRendezvous rev [''x'', ''v'', ''w''] ''k'' 2 \<and>
   card (GetAttestorRendezvous rev [''v'', ''w'', ''x''] ''k'' 2) = 2"
  using rank_deterministic [of "[''b'', ''a'']" "[''a'', ''b'', ''a'']" "[''v'', ''w'', ''x'']" "[''x'', ''v'', ''w'']"
    rev "\<lambda>_. True" "[]" "''k''" "\<lparr>rh_hosts = []\<rparr>" 2] by auto

end
