(* ===== verification/Encodings.thy ===== *)
theory Encodings
  imports Prelude
begin

text \<open>
  The byte encodings of Go's standard library the node relies on: hexadecimal
  (\<^verbatim>\<open>encoding/hex\<close>), base64 (\<^verbatim>\<open>encoding/base64\<close>, the padded standard
  alphabet) and the UTF-8 text of a code point (the conversion \<^verbatim>\<open>string(rune(x))\<close>),
  with their round trips. A byte string is a list of characters; digits are computed on \<^typ>\<open>int\<close>.
\<close>

lemma of_char_int_bounds: "0 \<le> (of_char c :: int)" "(of_char c :: int) < 256"
  using pos_mod_bound [of 256 "of_char c :: int"] pos_mod_sign [of 256 "of_char c :: int"]
  by (simp_all del: pos_mod_bound pos_mod_sign)

lemma char_of_inj: "0 \<le> m \<Longrightarrow> m < 256 \<Longrightarrow> 0 \<le> n \<Longrightarrow> n < 256 \<Longrightarrow>
    char_of (m :: int) = char_of n \<longleftrightarrow> m = n"
  by (simp add: char_of_eq_iff take_bit_int_eq_self)

section \<open>Fixed-width integers\<close>

lemma base256_digits: "(\<Sum>i<k. (n div 256 ^ i mod 256) * 256 ^ i) = n mod (256 ^ k :: int)"
proof (induction k)
  case (Suc k)
  have "n mod (256 ^ k * 256) = 256 ^ k * (n div 256 ^ k mod 256) + n mod 256 ^ k"
    by (rule zmod_zmult2_eq) simp
  with Suc show ?case by (simp add: mult.commute)
qed simp

lemma char_of_int_inj:
  "(char_of (m :: int) :: char) = char_of n \<Longrightarrow> m mod 256 = n mod 256"
  by (metis of_char_of)

lemma be_uint64_inj:
  assumes "be_uint64 x = be_uint64 y" "0 \<le> x" "x < 2 ^ 64" "0 \<le> y" "y < 2 ^ 64"
  shows "x = y"
proof -
  have "\<forall>i\<in>{7, 6, 5, 4, 3, 2, 1, 0}. x div 256 ^ i mod 256 = y div 256 ^ i mod 256"
    using assms by (auto simp: be_uint64_def dest!: char_of_int_inj)
  moreover have "i \<in> {7, 6, 5, 4, 3, 2, 1, 0}" if "i < 8" for i :: nat
    unfolding insert_iff empty_iff using that by presburger
  ultimately have d: "x div 256 ^ i mod 256 = y div 256 ^ i mod 256" if "i < 8" for i :: nat
    using that by (simp only: Ball_def)
  have "x mod 256 ^ 8 = y mod 256 ^ 8"
    unfolding base256_digits [symmetric] by (intro sum.cong refl) (simp add: d)
  with assms show ?thesis by simp
qed

text \<open>\<^verbatim>\<open>binary.LittleEndian.PutUint64\<close> and the number such bytes stand for.\<close>

definition le_uint64 :: "int \<Rightarrow> string" where
  "le_uint64 x = rev (be_uint64 x)"

fun le_value :: "string \<Rightarrow> int" where
  "le_value [] = 0"
| "le_value (b # bs) = of_char b + 256 * le_value bs"

lemma length_le_uint64 [simp]: "length (le_uint64 x) = 8"
  by (simp add: le_uint64_def)

lemma le_value_digits:
  "le_value (map (\<lambda>i. char_of (n div 256 ^ i mod 256)) [0..<k]) = n mod 256 ^ k"
proof -
  have "le_value (map (\<lambda>i. char_of (f i mod 256)) [m..<m + k]) = (\<Sum>i<k. (f (m + i) mod 256) * 256 ^ i)" for f m
  proof (induction k arbitrary: m)
    case (Suc k)
    have "[m..<m + Suc k] = m # [Suc m..<Suc m + k]" by (simp add: upt_rec)
    with Suc [of "Suc m"] show ?case
      by (simp add: sum.lessThan_Suc_shift sum_distrib_left algebra_simps del: sum.lessThan_Suc)
  qed simp
  from this [of "\<lambda>i. n div 256 ^ i" 0] show ?thesis by (simp add: base256_digits)
qed

lemma le_value_le_uint64: "0 \<le> x \<Longrightarrow> x < 2 ^ 64 \<Longrightarrow> le_value (le_uint64 x) = x"
proof -
  assume x: "0 \<le> x" "x < 2 ^ 64"
  have "[0..<8] = [0, 1, 2, 3, 4, 5, 6, 7::nat]" by (simp add: upt_rec)
  with x have "le_uint64 x = map (\<lambda>i. char_of (x div 256 ^ i mod 256)) [0..<8]"
    by (simp only: le_uint64_def be_uint64_def mod_pos_pos_trivial list.map rev.simps append.simps)
  with le_value_digits [of x 8] x show ?thesis by simp
qed

text \<open>The conversion of a \<^verbatim>\<open>uint64\<close> to an \<^verbatim>\<open>int64\<close>.\<close>

definition int64 :: "int \<Rightarrow> int" where
  "int64 x = (x + 2 ^ 63) mod 2 ^ 64 - 2 ^ 63"

section \<open>Hexadecimal\<close>

definition hex_digit :: "char \<Rightarrow> int option" where
  "hex_digit c = (let n = (of_char c :: int) in
     if 48 \<le> n \<and> n \<le> 57 then Some (n - 48)
     else if 97 \<le> n \<and> n \<le> 102 then Some (n - 87)
     else if 65 \<le> n \<and> n \<le> 70 then Some (n - 55)
     else None)"

fun hex_decode :: "string \<Rightarrow> string option" where
  "hex_decode [] = Some []"
| "hex_decode [c] = None"
| "hex_decode (a # b # cs) = (case (hex_digit a, hex_digit b, hex_decode cs) of
     (Some h, Some l, Some r) \<Rightarrow> Some (char_of (16 * h + l) # r)
   | _ \<Rightarrow> None)"

definition hex_char :: "int \<Rightarrow> char" where
  "hex_char n = (if n < 10 then char_of (48 + n) else char_of (87 + n))"

definition hex_encode :: "string \<Rightarrow> string" where
  "hex_encode bs = concat (map (\<lambda>c. [hex_char (of_char c div 16), hex_char (of_char c mod 16)]) bs)"

lemma hex_digit_char [simp]: "0 \<le> n \<Longrightarrow> n < 16 \<Longrightarrow> hex_digit (hex_char n) = Some n"
  by (simp add: hex_digit_def hex_char_def Let_def)

lemma hex_decode_encode [simp]: "hex_decode (hex_encode bs) = Some bs"
proof (induction bs)
  case (Cons c bs)
  have "0 \<le> (of_char c :: int) div 16 \<and> (of_char c :: int) div 16 < 16"
    using of_char_int_bounds [of c] by auto
  moreover have "16 * ((of_char c :: int) div 16) + of_char c mod 16 = of_char c" by simp
  ultimately show ?case using Cons by (simp add: hex_encode_def)
qed (simp add: hex_encode_def)

lemma length_hex_encode [simp]: "length (hex_encode bs) = 2 * length bs"
  by (induction bs) (simp_all add: hex_encode_def)

lemma hex_encode_inj: "hex_encode bs = hex_encode cs \<longleftrightarrow> bs = cs"
  using hex_decode_encode by (metis option.inject)

lemma hex_encode_Nil [simp]: "hex_encode bs = [] \<longleftrightarrow> bs = []"
  by (cases bs) (simp_all add: hex_encode_def)

lemma hex_decode_length: "hex_decode s = Some bs \<Longrightarrow> length s = 2 * length bs"
  by (induction s arbitrary: bs rule: hex_decode.induct) (auto split: option.splits)

section \<open>Base64\<close>

definition b64_char :: "int \<Rightarrow> char" where
  "b64_char n = (if n < 26 then char_of (65 + n) else if n < 52 then char_of (71 + n)
     else if n < 62 then char_of (n - 4) else if n = 62 then CHR ''+'' else CHR ''/'')"

definition b64_digit :: "char \<Rightarrow> int option" where
  "b64_digit c = (let n = (of_char c :: int) in
     if 65 \<le> n \<and> n \<le> 90 then Some (n - 65)
     else if 97 \<le> n \<and> n \<le> 122 then Some (n - 71)
     else if 48 \<le> n \<and> n \<le> 57 then Some (n + 4)
     else if n = 43 then Some 62
     else if n = 47 then Some 63
     else None)"

fun base64_encode :: "string \<Rightarrow> string" where
  "base64_encode [] = []"
| "base64_encode [x] = (let a = (of_char x :: int) in
     [b64_char (a div 4), b64_char (a mod 4 * 16), CHR ''='', CHR ''=''])"
| "base64_encode [x, y] = (let a = (of_char x :: int); b = of_char y in
     [b64_char (a div 4), b64_char (a mod 4 * 16 + b div 16), b64_char (b mod 16 * 4), CHR ''=''])"
| "base64_encode (x # y # z # r) = (let a = (of_char x :: int); b = of_char y; c = of_char z in
     b64_char (a div 4) # b64_char (a mod 4 * 16 + b div 16) #
     b64_char (b mod 16 * 4 + c div 64) # b64_char (c mod 64) # base64_encode r)"

fun base64_quads :: "string \<Rightarrow> string option" where
  "base64_quads [] = Some []"
| "base64_quads (p # q # r # s # rest) =
     (case (b64_digit p, b64_digit q) of
        (Some a, Some b) \<Rightarrow>
          if rest = [] \<and> r = CHR ''='' \<and> s = CHR ''='' then Some [char_of (a * 4 + b div 16)]
          else (case b64_digit r of
              None \<Rightarrow> None
            | Some c \<Rightarrow>
              if rest = [] \<and> s = CHR ''=''
              then Some [char_of (a * 4 + b div 16), char_of (b mod 16 * 16 + c div 4)]
              else (case (b64_digit s, base64_quads rest) of
                  (Some d, Some bs) \<Rightarrow> Some (char_of (a * 4 + b div 16) #
                    char_of (b mod 16 * 16 + c div 4) # char_of (c mod 4 * 64 + d) # bs)
                | _ \<Rightarrow> None))
      | _ \<Rightarrow> None)"
| "base64_quads _ = None"

text \<open>The decoder skips line breaks.\<close>

definition base64_decode :: "string \<Rightarrow> string option" where
  "base64_decode s = base64_quads (filter (\<lambda>c. c \<noteq> CHR 0x0A \<and> c \<noteq> CHR 0x0D) s)"

lemma b64_digit_char [simp]: "0 \<le> n \<Longrightarrow> n < 64 \<Longrightarrow> b64_digit (b64_char n) = Some n"
  by (simp add: b64_digit_def b64_char_def Let_def)

lemma b64_digit_special [simp]:
  "b64_digit (CHR ''='') = None" "b64_digit (CHR 0x0A) = None" "b64_digit (CHR 0x0D) = None"
  by (simp_all add: b64_digit_def)

lemma b64_char_special [simp]:
  "0 \<le> n \<Longrightarrow> n < 64 \<Longrightarrow> b64_char n \<noteq> CHR ''='' \<and> b64_char n \<noteq> CHR 0x0A \<and> b64_char n \<noteq> CHR 0x0D"
  using b64_digit_char [of n] b64_digit_special by (metis option.distinct(1))

lemma b64_filter [simp]:
  "0 \<le> n \<Longrightarrow> n < 64 \<Longrightarrow>
     filter (\<lambda>c. c \<noteq> CHR 0x0A \<and> c \<noteq> CHR 0x0D) (b64_char n # cs) =
     b64_char n # filter (\<lambda>c. c \<noteq> CHR 0x0A \<and> c \<noteq> CHR 0x0D) cs"
  by simp

text \<open>What the decoder makes of digits in range.\<close>

lemma b64_decode_digits:
  assumes "0 \<le> a" "a < 64" "0 \<le> b" "b < 64" "0 \<le> c" "c < 64" "0 \<le> d" "d < 64"
  shows "base64_decode [b64_char a, b64_char b, CHR ''='', CHR ''=''] = Some [char_of (a * 4 + b div 16)]"
    "base64_decode [b64_char a, b64_char b, b64_char c, CHR ''=''] =
       Some [char_of (a * 4 + b div 16), char_of (b mod 16 * 16 + c div 4)]"
    "base64_decode (b64_char a # b64_char b # b64_char c # b64_char d # s) =
       map_option (\<lambda>bs. char_of (a * 4 + b div 16) # char_of (b mod 16 * 16 + c div 4) #
         char_of (c mod 4 * 64 + d) # bs) (base64_decode s)"
  unfolding base64_decode_def using assms
  by (simp_all del: filter.simps(2) add: filter.simps(2) [of _ "CHR ''=''"] split: option.split)

lemma split_digit:
  fixes p q n :: int
  assumes "0 \<le> q" "q < n"
  shows "(p * n + q) div n = p" "(p * n + q) mod n = q"
  using assms by simp_all

text \<open>The digits of a group of bytes are in range, and put together they give the bytes back.\<close>

lemma b64_group:
  fixes a b c :: int
  assumes "0 \<le> a" "a < 256" "0 \<le> b" "b < 256" "0 \<le> c" "c < 256"
  shows "0 \<le> a div 4" "a div 4 < 64" "0 \<le> a mod 4 * 16" "a mod 4 * 16 < 64"
    "0 \<le> a mod 4 * 16 + b div 16" "a mod 4 * 16 + b div 16 < 64"
    "0 \<le> b mod 16 * 4" "b mod 16 * 4 < 64"
    "0 \<le> b mod 16 * 4 + c div 64" "b mod 16 * 4 + c div 64 < 64" "0 \<le> c mod 64" "c mod 64 < 64"
    "a div 4 * 4 + (a mod 4 * 16 + b div 16) div 16 = a" "a div 4 * 4 + a mod 4 * 16 div 16 = a"
    "(a mod 4 * 16 + b div 16) mod 16 * 16 + (b mod 16 * 4 + c div 64) div 4 = b"
    "(a mod 4 * 16 + b div 16) mod 16 * 16 + b mod 16 * 4 div 4 = b"
    "(b mod 16 * 4 + c div 64) mod 4 * 64 + c mod 64 = c"
proof -
  have d: "0 \<le> a div 4" "a div 4 < 64" "0 \<le> b div 16" "b div 16 < 16" "0 \<le> c div 64" "c div 64 < 4"
    using assms by simp_all
  have m: "0 \<le> a mod 4" "a mod 4 < 4" "0 \<le> b mod 16" "b mod 16 < 16" "0 \<le> c mod 64" "c mod 64 < 64"
    by simp_all
  show "0 \<le> a div 4" "a div 4 < 64" "0 \<le> a mod 4 * 16" "a mod 4 * 16 < 64"
    "0 \<le> a mod 4 * 16 + b div 16" "a mod 4 * 16 + b div 16 < 64"
    "0 \<le> b mod 16 * 4" "b mod 16 * 4 < 64"
    "0 \<le> b mod 16 * 4 + c div 64" "b mod 16 * 4 + c div 64 < 64" "0 \<le> c mod 64" "c mod 64 < 64"
    using d m by linarith+
  show "a div 4 * 4 + (a mod 4 * 16 + b div 16) div 16 = a" "a div 4 * 4 + a mod 4 * 16 div 16 = a"
    "(a mod 4 * 16 + b div 16) mod 16 * 16 + (b mod 16 * 4 + c div 64) div 4 = b"
    "(a mod 4 * 16 + b div 16) mod 16 * 16 + b mod 16 * 4 div 4 = b"
    "(b mod 16 * 4 + c div 64) mod 4 * 64 + c mod 64 = c"
    using d by (simp_all only: split_digit nonzero_mult_div_cancel_right div_mult_mod_eq)
qed

lemma base64_decode_encode [simp]: "base64_decode (base64_encode bs) = Some bs"
proof (induction bs rule: base64_encode.induct)
  case 1
  show ?case by (simp add: base64_decode_def)
next
  case (2 x)
  note g = b64_group [OF of_char_int_bounds [of x] of_char_int_bounds [of x] of_char_int_bounds [of x]]
  show ?case by (simp only: base64_encode.simps Let_def b64_decode_digits(1) [of _ _ 0 0] g char_of_char option.map)
next
  case (3 x y)
  note g = b64_group [OF of_char_int_bounds [of x] of_char_int_bounds [of y] of_char_int_bounds [of x]]
  show ?case by (simp only: base64_encode.simps Let_def b64_decode_digits(2) [of _ _ _ 0] g char_of_char option.map)
next
  case (4 x y z r)
  note g = b64_group [OF of_char_int_bounds [of x] of_char_int_bounds [of y] of_char_int_bounds [of z]]
  show ?case by (simp only: base64_encode.simps Let_def b64_decode_digits(3) g 4 char_of_char option.map)
qed

lemma base64_encode_inj: "base64_encode bs = base64_encode cs \<longleftrightarrow> bs = cs"
  using base64_decode_encode by (metis option.inject)

section \<open>Code points\<close>

text \<open>
  \<^verbatim>\<open>string(rune(x))\<close> for an \<^verbatim>\<open>int64\<close> \<open>x\<close>: the value is cut to 32 bits and written
  in UTF-8; a value that is no Unicode code point gives the replacement character.
\<close>

definition int32 :: "int \<Rightarrow> int" where
  "int32 x = (x + 2 ^ 31) mod 2 ^ 32 - 2 ^ 31"

definition is_code_point :: "int \<Rightarrow> bool" where
  "is_code_point r \<longleftrightarrow> 0 \<le> r \<and> r \<le> 0x10FFFF \<and> \<not> (0xD800 \<le> r \<and> r \<le> 0xDFFF)"

definition utf8 :: "int \<Rightarrow> string" where
  "utf8 r0 = (let r = (if is_code_point r0 then r0 else 0xFFFD) in
     if r \<le> 0x7F then [char_of r]
     else if r \<le> 0x7FF then [char_of (0xC0 + r div 64), char_of (0x80 + r mod 64)]
     else if r \<le> 0xFFFF
     then [char_of (0xE0 + r div 4096), char_of (0x80 + r div 64 mod 64), char_of (0x80 + r mod 64)]
     else [char_of (0xF0 + r div 262144), char_of (0x80 + r div 4096 mod 64),
           char_of (0x80 + r div 64 mod 64), char_of (0x80 + r mod 64)])"

definition string_of_rune :: "int \<Rightarrow> string" where
  "string_of_rune x = utf8 (int32 x)"

text \<open>Reading the first code point of a text back.\<close>

definition utf8_first :: "string \<Rightarrow> int" where
  "utf8_first s = (let b = (\<lambda>i. of_char (s ! i) :: int) in
     if b 0 < 0x80 then b 0
     else if b 0 < 0xE0 then (b 0 - 0xC0) * 64 + (b 1 - 0x80)
     else if b 0 < 0xF0 then (b 0 - 0xE0) * 4096 + (b 1 - 0x80) * 64 + (b 2 - 0x80)
     else (b 0 - 0xF0) * 262144 + (b 1 - 0x80) * 4096 + (b 2 - 0x80) * 64 + (b 3 - 0x80))"

lemma of_char_of_int: "0 \<le> n \<Longrightarrow> n < 256 \<Longrightarrow> of_char (char_of n :: char) = (n :: int)"
  by simp

lemma div_mod_64: "(r :: int) div 64 * 64 + r mod 64 = r"
    "r div 4096 * 4096 + r div 64 mod 64 * 64 + r mod 64 = r"
    "r div 262144 * 262144 + r div 4096 mod 64 * 4096 + r div 64 mod 64 * 64 + r mod 64 = r"
proof -
  have a: "r div 4096 = r div 64 div 64" "r div 262144 = r div 4096 div 64"
    by (simp_all add: zdiv_zmult2_eq)
  show 1: "r div 64 * 64 + r mod 64 = r" by simp
  have 2: "r div 64 div 64 * 64 + r div 64 mod 64 = r div 64" by (rule div_mult_mod_eq)
  then show 3: "r div 4096 * 4096 + r div 64 mod 64 * 64 + r mod 64 = r" using 1 a(1) by linarith
  have "r div 4096 div 64 * 64 + r div 4096 mod 64 = r div 4096" by (rule div_mult_mod_eq)
  then show "r div 262144 * 262144 + r div 4096 mod 64 * 4096 + r div 64 mod 64 * 64 + r mod 64 = r"
    using 3 a(2) by linarith
qed

lemma utf8_first_bytes:
  assumes "0 \<le> b" "b < 64" "0 \<le> c" "c < 64" "0 \<le> d" "d < 64"
  shows "2 \<le> a \<Longrightarrow> a < 32 \<Longrightarrow> utf8_first (char_of (0xC0 + a) # char_of (0x80 + b) # s) = a * 64 + b"
    "0 \<le> a \<Longrightarrow> a < 16 \<Longrightarrow> utf8_first (char_of (0xE0 + a) # char_of (0x80 + b) # char_of (0x80 + c) # s) =
       a * 4096 + b * 64 + c"
    "0 \<le> a \<Longrightarrow> a < 8 \<Longrightarrow> utf8_first (char_of (0xF0 + a) # char_of (0x80 + b) # char_of (0x80 + c) #
       char_of (0x80 + d) # s) = a * 262144 + b * 4096 + c * 64 + d"
  using assms by (simp_all add: utf8_first_def Let_def of_char_of_int del: of_char_of)

lemma utf8_first_utf8:
  assumes "is_code_point r"
  shows "utf8_first (utf8 r @ s) = r"
proof -
  have r: "0 \<le> r" "r \<le> 0x10FFFF" using assms by (simp_all add: is_code_point_def)
  have m: "0 \<le> r mod 64" "r mod 64 < 64" "0 \<le> r div 64 mod 64" "r div 64 mod 64 < 64"
    "0 \<le> r div 4096 mod 64" "r div 4096 mod 64 < 64" by simp_all
  consider "r \<le> 0x7F" | "0x7F < r" "r \<le> 0x7FF" | "0x7FF < r" "r \<le> 0xFFFF" | "0xFFFF < r" by linarith
  then show ?thesis
  proof cases
    case 1
    with assms r show ?thesis by (simp add: utf8_def utf8_first_def Let_def)
  next
    case 2
    then have "2 \<le> r div 64" "r div 64 < 32" by simp_all
    then have "utf8_first (char_of (0xC0 + r div 64) # char_of (0x80 + r mod 64) # s) = r"
      by (simp only: utf8_first_bytes(1) [OF m(1,2) m(1,2) m(1,2)] div_mod_64(1))
    with 2 assms show ?thesis by (simp add: utf8_def)
  next
    case 3
    then have "0 \<le> r div 4096" "r div 4096 < 16" by simp_all
    then have "utf8_first (char_of (0xE0 + r div 4096) # char_of (0x80 + r div 64 mod 64) #
        char_of (0x80 + r mod 64) # s) = r"
      by (simp only: utf8_first_bytes(2) [OF m(3,4) m(1,2) m(1,2)] div_mod_64(2))
    with 3 assms show ?thesis by (simp add: utf8_def)
  next
    case 4
    have "0 \<le> r div 262144" using r(1) by (rule pos_imp_zdiv_nonneg_iff [THEN iffD2, rotated]) simp
    moreover have "r div 262144 \<le> 0x10FFFF div 262144" using r(2) by (rule zdiv_mono1) simp
    ultimately have "0 \<le> r div 262144" "r div 262144 < 8" by simp_all
    then have "utf8_first (char_of (0xF0 + r div 262144) # char_of (0x80 + r div 4096 mod 64) #
        char_of (0x80 + r div 64 mod 64) # char_of (0x80 + r mod 64) # s) = r"
      by (simp only: utf8_first_bytes(3) [OF m(5,6) m(3,4) m(1,2)] div_mod_64(3))
    moreover have "utf8 r = [char_of (0xF0 + r div 262144), char_of (0x80 + r div 4096 mod 64),
        char_of (0x80 + r div 64 mod 64), char_of (0x80 + r mod 64)]"
      unfolding utf8_def Let_def using 4 assms by (simp only: if_True if_False not_le) simp
    ultimately show ?thesis by (simp only: append_Cons append_Nil)
  qed
qed

lemma utf8_prefix_free:
  assumes "is_code_point r" "is_code_point r'" "utf8 r @ s = utf8 r' @ s'"
  shows "r = r' \<and> s = s'"
proof -
  have "r = r'" using utf8_first_utf8 [OF assms(1), of s] utf8_first_utf8 [OF assms(2), of s'] assms(3) by simp
  with assms(3) show ?thesis by simp
qed

lemma int32_id [simp]: "- (2 ^ 31) \<le> x \<Longrightarrow> x < 2 ^ 31 \<Longrightarrow> int32 x = x"
  by (simp add: int32_def)

end
