(* ===== verification/Signing.thy ===== *)
theory Signing
  imports Encodings
begin

text \<open>
  Signatures and addresses, \<^verbatim>\<open>pkg/common/crypto.go\<close>, \<^verbatim>\<open>proto.go\<close> and
  \<^verbatim>\<open>address.go\<close>. The record \<open>prims\<close> holds what these files take from the hash
  functions and from go-ethereum: SHA-256 and Keccak-256, signing and recovery on secp256k1
  (\<^verbatim>\<open>crypto.Sign\<close>, \<^verbatim>\<open>crypto.SigToPub\<close>), the public key of a private key, its
  compressed form and the checksummed text of its address. Every definition and lemma holds for
  any choice of them; where a law of signing is needed it is a premise.
\<close>

record prims =
  Sha256 :: "string \<Rightarrow> string"
  Keccak256 :: "string \<Rightarrow> string"
  ecdsa_Sign :: "string \<Rightarrow> string \<Rightarrow> string option"
  SigToPub :: "string \<Rightarrow> string \<Rightarrow> string option"
  ecdsa_Public :: "string \<Rightarrow> string"
  PubkeyToAddress_Hex :: "string \<Rightarrow> string"
  CompressPubkey :: "string \<Rightarrow> string"

section \<open>Signing and recovering\<close>

definition EthSign :: "'z prims_scheme \<Rightarrow> string \<Rightarrow> string \<Rightarrow> string option" where
  "EthSign pr pkey dat = map_option hex_encode (ecdsa_Sign pr (Sha256 pr dat) pkey)"

definition EthRecover :: "'z prims_scheme \<Rightarrow> string \<Rightarrow> string \<Rightarrow> (string \<times> string) option" where
  "EthRecover pr signatureStr dat = (case hex_decode signatureStr of
     None \<Rightarrow> None
   | Some signature \<Rightarrow>
     (case SigToPub pr (Sha256 pr dat) signature of
        None \<Rightarrow> None
      | Some pubKey \<Rightarrow> Some (pubKey, PubkeyToAddress_Hex pr pubKey)))"

definition EthSignKeccak :: "'z prims_scheme \<Rightarrow> string \<Rightarrow> string \<Rightarrow> string option" where
  "EthSignKeccak pr pkey dat = map_option hex_encode (ecdsa_Sign pr (Keccak256 pr dat) pkey)"

definition EthRecoverKeccak :: "'z prims_scheme \<Rightarrow> string \<Rightarrow> string \<Rightarrow> (string \<times> string) option" where
  "EthRecoverKeccak pr sigHex dat = (case hex_decode sigHex of
     None \<Rightarrow> None
   | Some sigBytes \<Rightarrow>
     if length sigBytes \<noteq> 65 then None
     else (case SigToPub pr (Keccak256 pr dat) sigBytes of
        None \<Rightarrow> None
      | Some pubKey \<Rightarrow> Some (pubKey, PubkeyToAddress_Hex pr pubKey)))"

definition SerializePublicKeyHex :: "'z prims_scheme \<Rightarrow> string \<Rightarrow> string" where
  "SerializePublicKeyHex pr pubKey = hex_encode (CompressPubkey pr pubKey)"

definition PrivKeyToAddress :: "'z prims_scheme \<Rightarrow> string \<Rightarrow> string" where
  "PrivKeyToAddress pr privateKey = PubkeyToAddress_Hex pr (ecdsa_Public pr privateKey)"

text \<open>
  A message is signed over its deterministic protobuf bytes; \<open>body\<close> is what
  \<^verbatim>\<open>signableBytes\<close> returned, \<^const>\<open>None\<close> for its error.
\<close>

definition ProtoSign :: "'z prims_scheme \<Rightarrow> string \<Rightarrow> string option \<Rightarrow> string option" where
  "ProtoSign pr privKey body = (case body of None \<Rightarrow> None | Some b \<Rightarrow> EthSign pr privKey b)"

definition ProtoRecover :: "'z prims_scheme \<Rightarrow> string option \<Rightarrow> string \<Rightarrow> string option" where
  "ProtoRecover pr body signature = (case body of
     None \<Rightarrow> None | Some b \<Rightarrow> map_option snd (EthRecover pr signature b))"

text \<open>The check of a transaction hash that signing and recovering share.\<close>

definition has_0x :: "string \<Rightarrow> bool" where
  "has_0x s \<longleftrightarrow> take 2 s = ''0x''"

definition TrimPrefix_0x :: "string \<Rightarrow> string" where
  "TrimPrefix_0x s = (if has_0x s then drop 2 s else s)"

definition tx_hash_bytes :: "string \<Rightarrow> string option" where
  "tx_hash_bytes txHash =
     (if \<not> has_0x txHash \<and> length txHash \<noteq> 64 then None
      else (case hex_decode (TrimPrefix_0x txHash) of
          None \<Rightarrow> None
        | Some hashBytes \<Rightarrow> if length hashBytes \<noteq> 32 then None else Some hashBytes))"

definition TxHashSign :: "'z prims_scheme \<Rightarrow> string \<Rightarrow> string \<Rightarrow> string option" where
  "TxHashSign pr pkey txHash = (case tx_hash_bytes txHash of
     None \<Rightarrow> None | Some hashBytes \<Rightarrow> EthSign pr pkey hashBytes)"

definition TxHashRecover :: "'z prims_scheme \<Rightarrow> string \<Rightarrow> string \<Rightarrow> (string \<times> string) option" where
  "TxHashRecover pr txHash signature = (case tx_hash_bytes txHash of
     None \<Rightarrow> None | Some hashBytes \<Rightarrow> EthRecover pr signature hashBytes)"

text \<open>\<^verbatim>\<open>ToTxHashFromBytes\<close>: comet hashes a transaction with SHA-256 and prints it in upper case.\<close>

definition upper_char :: "char \<Rightarrow> char" where
  "upper_char c = (let n = (of_char c :: int) in if 97 \<le> n \<and> n \<le> 122 then char_of (n - 32) else c)"

definition ToTxHashFromBytes :: "'z prims_scheme \<Rightarrow> string \<Rightarrow> string" where
  "ToTxHashFromBytes pr txBytes = map upper_char (hex_encode (Sha256 pr txBytes))"

text \<open>
  The law of the curve that signature checks rest on, documented for go-ethereum: recovery from a
  signature gives the public key of the key that signed.
\<close>

definition recovery_inverts_signing :: "'z prims_scheme \<Rightarrow> bool" where
  "recovery_inverts_signing pr \<longleftrightarrow>
     (\<forall>h k s. ecdsa_Sign pr h k = Some s \<longrightarrow> SigToPub pr h s = Some (ecdsa_Public pr k))"

lemma eth_recovers:
  "recovery_inverts_signing pr \<Longrightarrow> EthSign pr k dat = Some sig \<Longrightarrow>
    EthRecover pr sig dat = Some (ecdsa_Public pr k, PrivKeyToAddress pr k)"
  by (auto simp: EthSign_def EthRecover_def PrivKeyToAddress_def recovery_inverts_signing_def)

lemma keccak_recovers:
  "recovery_inverts_signing pr \<Longrightarrow> EthSignKeccak pr k dat = Some sig \<Longrightarrow> length sig = 130 \<Longrightarrow>
    EthRecoverKeccak pr sig dat = Some (ecdsa_Public pr k, PrivKeyToAddress pr k)"
  by (auto simp: EthSignKeccak_def EthRecoverKeccak_def PrivKeyToAddress_def recovery_inverts_signing_def)

lemma proto_recovers:
  "recovery_inverts_signing pr \<Longrightarrow> ProtoSign pr k body = Some sig \<Longrightarrow>
    ProtoRecover pr body sig = Some (PrivKeyToAddress pr k)"
  by (auto simp: ProtoSign_def ProtoRecover_def dest: eth_recovers split: option.splits)

text \<open>A scheme with transparent signatures, on which the examples of the development run.\<close>

definition ex_prims :: prims where
  "ex_prims = \<lparr>Sha256 = rev, Keccak256 = (\<lambda>x. take 32 (x @ replicate 32 CHR ''k'')),
     ecdsa_Sign = (\<lambda>h k. if k = [] then None else Some k),
     SigToPub = (\<lambda>h s. if s = [] then None else Some s),
     ecdsa_Public = (\<lambda>k. k), PubkeyToAddress_Hex = (\<lambda>k. k), CompressPubkey = (\<lambda>k. k)\<rparr>"

lemma ex_prims_recover: "recovery_inverts_signing ex_prims"
  by (simp add: recovery_inverts_signing_def ex_prims_def)

section \<open>Fixed-width names\<close>

definition NUL :: char where "NUL = CHR 0x00"

definition Utf8ToHex :: "string \<Rightarrow> string" where
  "Utf8ToHex s = take 32 s @ replicate (32 - length s) NUL"

text \<open>The loop variable after \<^verbatim>\<open>for end = range hex\<close>, which stops at the first zero byte.\<close>

fun range_end :: "nat \<Rightarrow> nat \<Rightarrow> string \<Rightarrow> nat" where
  "range_end e i [] = e"
| "range_end e i (b # bs) = (if b = NUL then i else range_end i (Suc i) bs)"

definition HexToUtf8 :: "string \<Rightarrow> string" where
  "HexToUtf8 hex = take (range_end 0 0 hex) hex"

section \<open>Content addresses\<close>

definition address_salt :: "string \<Rightarrow> int \<Rightarrow> int \<Rightarrow> string \<Rightarrow> string" where
  "address_salt chainId blockHeight txindex discriminator =
     discriminator @ '':'' @ chainId @ '':'' @ string_of_rune blockHeight @ '':'' @ string_of_rune txindex"

definition CreateAddress :: "'z prims_scheme \<Rightarrow> string \<Rightarrow> string \<Rightarrow> int \<Rightarrow> int \<Rightarrow> string \<Rightarrow> string" where
  "CreateAddress pr txhash chainId blockHeight txindex discriminator =
     (let contentHash = Keccak256 pr txhash;
          saltHash = Sha256 pr (address_salt chainId blockHeight txindex discriminator);
          preimage = [CHR 0xFF] @ chainId @ saltHash @ contentHash;
          addressBytes = Keccak256 pr preimage
      in ''0x'' @ hex_encode (drop 12 addressBytes))"

definition HexToBytes :: "string \<Rightarrow> string option" where
  "HexToBytes addr = hex_decode (TrimPrefix_0x addr)"

definition BytesToHex :: "string \<Rightarrow> string" where
  "BytesToHex bytes = ''0x'' @ hex_encode bytes"

definition CreateERNAddress :: "'z prims_scheme \<Rightarrow> string \<Rightarrow> string \<Rightarrow> int \<Rightarrow> int \<Rightarrow> string \<Rightarrow> string" where
  "CreateERNAddress pr txhash chainId blockHeight txindex messageID =
     CreateAddress pr txhash chainId blockHeight txindex (''ern:'' @ messageID)"

definition CreatePartyAddress :: "'z prims_scheme \<Rightarrow> string \<Rightarrow> string \<Rightarrow> int \<Rightarrow> int \<Rightarrow> string \<Rightarrow> string" where
  "CreatePartyAddress pr txhash chainId blockHeight txindex partyReference =
     CreateAddress pr txhash chainId blockHeight txindex (''party:'' @ partyReference)"

definition CreateResourceAddress :: "'z prims_scheme \<Rightarrow> string \<Rightarrow> string \<Rightarrow> int \<Rightarrow> int \<Rightarrow> string \<Rightarrow> string" where
  "CreateResourceAddress pr txhash chainId blockHeight txindex resourceReference =
     CreateAddress pr txhash chainId blockHeight txindex (''resource:'' @ resourceReference)"

definition CreateReleaseAddress :: "'z prims_scheme \<Rightarrow> string \<Rightarrow> string \<Rightarrow> int \<Rightarrow> int \<Rightarrow> string \<Rightarrow> string" where
  "CreateReleaseAddress pr txhash chainId blockHeight txindex releaseReference =
     CreateAddress pr txhash chainId blockHeight txindex (''release:'' @ releaseReference)"

definition CreateDealAddress :: "'z prims_scheme \<Rightarrow> string \<Rightarrow> string \<Rightarrow> int \<Rightarrow> int \<Rightarrow> string \<Rightarrow> string" where
  "CreateDealAddress pr txhash chainId blockHeight txindex dealReference =
     CreateAddress pr txhash chainId blockHeight txindex (''deal:'' @ dealReference)"

section \<open>Properties\<close>

text \<open>
  C22: the address recovered from a signature is the address of the key that
  signed, for transaction hashes as for protobuf messages, whenever recovery on the curve inverts
  signing on it.
\<close>

theorem signatures_recover:
  assumes "recovery_inverts_signing pr"
  shows "(TxHashSign pr k h = Some sig \<longrightarrow>
      TxHashRecover pr h sig = Some (ecdsa_Public pr k, PrivKeyToAddress pr k)) \<and>
    (ProtoSign pr k body = Some sig \<longrightarrow> ProtoRecover pr body sig = Some (PrivKeyToAddress pr k))"
  using eth_recovers [OF assms] proto_recovers [OF assms]
  by (auto simp: TxHashSign_def TxHashRecover_def split: option.splits)

theorem signatures_recover_witness:
  "TxHashRecover ex_prims (replicate 64 CHR ''a'') (hex_encode ''key'') = Some (''key'', ''key'') \<and>
   ProtoRecover ex_prims (Some ''body'') (hex_encode ''key'') = Some ''key''"
proof -
  have "TxHashSign ex_prims ''key'' (replicate 64 CHR ''a'') = Some (hex_encode ''key'')"
    "ProtoSign ex_prims ''key'' (Some ''body'') = Some (hex_encode ''key'')" by code_simp+
  with signatures_recover [OF ex_prims_recover, of "''key''" "replicate 64 CHR ''a''" "hex_encode ''key''" "Some ''body''"]
  show ?thesis by (simp add: ex_prims_def PrivKeyToAddress_def)
qed

lemma takeWhile_snoc:
  "\<not> P y \<or> (\<exists>x\<in>set xs. \<not> P x) \<Longrightarrow> takeWhile P (xs @ [y]) = takeWhile P xs"
  by (induction xs) auto

lemma range_end_takeWhile:
  "range_end e i bs = (if NUL \<in> set bs then i + length (takeWhile (\<lambda>b. b \<noteq> NUL) bs)
     else if bs = [] then e else i + length bs - 1)"
  by (induction e i bs rule: range_end.induct) auto

text \<open>
  Writing a name into 32 bytes and reading it back gives the name
  up to its first zero byte, but at most 31 bytes of it: a name of exactly 32 bytes loses its last
  one, because the loop over the array ends on index 31 when no zero byte is found.
\<close>

theorem fixed_width_names_lose_a_byte:
  "HexToUtf8 (Utf8ToHex s) = takeWhile (\<lambda>b. b \<noteq> NUL) (take 31 s)"
proof (cases "NUL \<in> set (take 32 s) \<or> length s < 32")
  case True
  then have in_hex: "NUL \<in> set (Utf8ToHex s)" by (auto simp: Utf8ToHex_def)
  have "takeWhile (\<lambda>b. b \<noteq> NUL) (Utf8ToHex s) = takeWhile (\<lambda>b. b \<noteq> NUL) (take 32 s)"
  proof (cases "NUL \<in> set (take 32 s)")
    case True
    then show ?thesis unfolding Utf8ToHex_def by (rule takeWhile_append1) simp
  next
    case False
    then have "takeWhile (\<lambda>b. b \<noteq> NUL) (take 32 s @ xs) = take 32 s @ takeWhile (\<lambda>b. b \<noteq> NUL) xs" for xs
      by (intro takeWhile_append2) metis
    moreover have "takeWhile (\<lambda>b. b \<noteq> NUL) (take 32 s) = take 32 s"
      using False by (auto simp: takeWhile_eq_all_conv)
    moreover have "takeWhile (\<lambda>b. b \<noteq> NUL) (replicate (32 - length s) NUL) = []"
      by (cases "32 - length s") simp_all
    ultimately show ?thesis by (simp only: Utf8ToHex_def append_Nil2)
  qed
  moreover have "takeWhile (\<lambda>b. b \<noteq> NUL) (take 32 s) = takeWhile (\<lambda>b. b \<noteq> NUL) (take 31 s)"
  proof (cases "length s < 32")
    case False
    then have "take 32 s = take 31 s @ [s ! 31]" using take_Suc_conv_app_nth [of 31 s] by simp
    with True False show ?thesis by (auto simp: takeWhile_snoc)
  qed simp
  moreover have "HexToUtf8 (Utf8ToHex s) = takeWhile (\<lambda>b. b \<noteq> NUL) (Utf8ToHex s)"
    using in_hex by (simp add: HexToUtf8_def range_end_takeWhile flip: takeWhile_eq_take)
  ultimately show ?thesis by simp
next
  case False
  then have h: "Utf8ToHex s = take 32 s" "NUL \<notin> set (take 32 s)" "length (take 32 s) = 32" "take 32 s \<noteq> []"
    by (auto simp: Utf8ToHex_def)
  have "set (take 31 s) \<subseteq> set (take 32 s)" by (rule set_take_subset_set_take) simp
  with h have "takeWhile (\<lambda>b. b \<noteq> NUL) (take 31 s) = take 31 s" by (auto simp: takeWhile_eq_all_conv)
  moreover have "HexToUtf8 (Utf8ToHex s) = take 31 s"
    using h by (simp add: HexToUtf8_def range_end_takeWhile)
  ultimately show ?thesis by (simp only:)
qed

text \<open>The code point a number becomes.\<close>

definition rune_of :: "int \<Rightarrow> int" where
  "rune_of x = (if is_code_point x then x else 0xFFFD)"

lemma replacement_code_point: "is_code_point 0xFFFD"
  by (simp add: is_code_point_def)

lemma utf8_rune_of: "utf8 x = utf8 (rune_of x)"
  unfolding utf8_def rune_of_def by (simp only: replacement_code_point if_True split: if_split) simp

lemma is_code_point_rune_of: "is_code_point (rune_of x)"
  by (simp add: rune_of_def is_code_point_def)

lemma utf8_eq_iff: "utf8 x @ s = utf8 y @ t \<longleftrightarrow> rune_of x = rune_of y \<and> s = t"
  using utf8_prefix_free [OF is_code_point_rune_of is_code_point_rune_of] utf8_rune_of by metis

text \<open>
  For one chain and one discriminator the salt of a content address
  tells two positions apart exactly when block height and index are told apart as Unicode code
  points. From height 1,114,112 on all blocks share one salt, so the same transaction at two such
  heights gets the same address.
\<close>

theorem address_salt_collisions:
  assumes "0 \<le> h" "h < 2 ^ 31" "0 \<le> h'" "h' < 2 ^ 31" "0 \<le> i" "i < 2 ^ 31" "0 \<le> i'" "i' < 2 ^ 31"
  shows "address_salt chainId h i d = address_salt chainId h' i' d \<longleftrightarrow>
    rune_of h = rune_of h' \<and> rune_of i = rune_of i'"
proof -
  have r: "int32 h = h" "int32 h' = h'" "int32 i = i" "int32 i' = i'" using assms by simp_all
  have "utf8 i = utf8 i' \<longleftrightarrow> rune_of i = rune_of i'" using utf8_eq_iff [of i "[]" i' "[]"] by simp
  then show ?thesis
    unfolding address_salt_def string_of_rune_def r by (simp add: utf8_eq_iff)
qed

theorem address_salt_collisions_witness:
  "CreateAddress ex_prims ''tx'' ''openaudio'' 1200000 0 ''ern:m'' =
   CreateAddress ex_prims ''tx'' ''openaudio'' 1300000 0 ''ern:m''"
proof -
  have "address_salt ''openaudio'' 1200000 0 ''ern:m'' = address_salt ''openaudio'' 1300000 0 ''ern:m''"
    by (rule address_salt_collisions [THEN iffD2]) (simp_all add: rune_of_def is_code_point_def)
  then show ?thesis by (simp add: CreateAddress_def)
qed

text \<open>Text and bytes of an address.\<close>

lemma hex_bytes_roundtrip: "HexToBytes (BytesToHex bytes) = Some bytes"
  by (simp add: HexToBytes_def BytesToHex_def TrimPrefix_0x_def has_0x_def)

end
