(* ===== verification/Validator_Set.thy ===== *)
theory Validator_Set
  imports Upgrades Rendezvous Signing
begin

text \<open>
  The registered validators: the table \<^verbatim>\<open>core_validators\<close> and its queries, attestations
  (\<^verbatim>\<open>pkg/core/server/attestation.go\<close>), registration and deregistration
  (\<^verbatim>\<open>registration.go\<close>, \<^verbatim>\<open>registration_legacy.go\<close>) and the validator updates a
  block emits for them (\<^verbatim>\<open>abci.go\<close>).

  The table has no key beyond its row id, so it is a list of rows in the order a scan returns
  them. Validation reads the committed table (\<^verbatim>\<open>s.db\<close>), finalization writes the block's
  transaction (\<^verbatim>\<open>s.getDb()\<close>); the operations that use both take both. Which statements
  fail is the field \<open>val_fault\<close>.
\<close>

section \<open>Table\<close>

record CoreValidator =
  cv_pub_key :: string
  cv_endpoint :: string
  cv_eth_address :: string
  cv_comet_address :: string
  cv_comet_pub_key :: string
  cv_eth_block :: string
  cv_node_type :: string
  cv_sp_id :: string
  cv_jailed :: bool

datatype ValidatorEventType = ValidatorEventRegistered | ValidatorEventDeregistered

record ValidatorHistory =
  vh_endpoint :: string
  vh_eth_address :: string
  vh_comet_address :: string
  vh_sp_id :: int
  vh_service_type :: string
  vh_event_type :: ValidatorEventType
  vh_event_time :: int
  vh_event_block :: int

datatype val_stmt =
    V_ByCometAddress string
  | V_ByEthAddress string
  | V_ByEndpoint string
  | V_HistoryForID int string
  | V_AllEthAddresses
  | V_AllSorted
  | V_Total
  | V_AllNodes
  | V_AllIncludingJailed
  | V_IsRegistered string
  | V_Insert string
  | V_Delete string
  | V_Jail string
  | V_Unjail string
  | V_AppendHistory

record validator_db =
  core_validators :: "CoreValidator list"
  validator_history :: "ValidatorHistory list"
  val_fault :: "val_stmt \<Rightarrow> pg_error option"

definition val_first :: "validator_db \<Rightarrow> val_stmt \<Rightarrow> (CoreValidator \<Rightarrow> bool) \<Rightarrow> query_error + CoreValidator" where
  "val_first q stmt P = (case val_fault q stmt of
     Some e \<Rightarrow> Inl (QueryFailed e)
   | None \<Rightarrow> (case find P (core_validators q) of None \<Rightarrow> Inl ErrNoRows | Some r \<Rightarrow> Inr r))"

definition val_exec :: "validator_db \<Rightarrow> val_stmt \<Rightarrow> validator_db \<Rightarrow> pg_error option \<times> validator_db" where
  "val_exec q stmt q' = (case val_fault q stmt of Some e \<Rightarrow> (Some e, q) | None \<Rightarrow> (None, q'))"

definition GetRegisteredNodeByCometAddress :: "validator_db \<Rightarrow> string \<Rightarrow> query_error + CoreValidator" where
  "GetRegisteredNodeByCometAddress q addr =
     val_first q (V_ByCometAddress addr) (\<lambda>r. cv_comet_address r = addr)"

definition GetRegisteredNodeByEthAddress :: "validator_db \<Rightarrow> string \<Rightarrow> query_error + CoreValidator" where
  "GetRegisteredNodeByEthAddress q addr =
     val_first q (V_ByEthAddress addr) (\<lambda>r. cv_eth_address r = addr)"

definition GetNodeByEndpoint :: "validator_db \<Rightarrow> string \<Rightarrow> query_error + CoreValidator" where
  "GetNodeByEndpoint q endpoint = val_first q (V_ByEndpoint endpoint) (\<lambda>r. cv_endpoint r = endpoint)"

definition GetAllEthAddressesOfRegisteredNodes :: "validator_db \<Rightarrow> pg_error + string list" where
  "GetAllEthAddressesOfRegisteredNodes q = (case val_fault q V_AllEthAddresses of
     Some e \<Rightarrow> Inl e
   | None \<Rightarrow> Inr (map cv_eth_address (filter (\<lambda>r. \<not> cv_jailed r) (core_validators q))))"

definition GetAllRegisteredNodes :: "validator_db \<Rightarrow> pg_error + CoreValidator list" where
  "GetAllRegisteredNodes q = (case val_fault q V_AllNodes of
     Some e \<Rightarrow> Inl e
   | None \<Rightarrow> Inr (filter (\<lambda>r. \<not> cv_jailed r) (core_validators q)))"

definition GetAllRegisteredNodesIncludingJailed :: "validator_db \<Rightarrow> pg_error + CoreValidator list" where
  "GetAllRegisteredNodesIncludingJailed q = (case val_fault q V_AllIncludingJailed of
     Some e \<Rightarrow> Inl e
   | None \<Rightarrow> Inr (core_validators q))"

text \<open>Jailed rows count; the comparison folds case in the database.\<close>

definition IsRegisteredNodeEthAddress :: "validator_db \<Rightarrow> string \<Rightarrow> pg_error + bool" where
  "IsRegisteredNodeEthAddress q ethAddress = (case val_fault q (V_IsRegistered ethAddress) of
     Some e \<Rightarrow> Inl e
   | None \<Rightarrow> Inr (\<exists>r\<in>set (core_validators q). ToLower (cv_eth_address r) = ToLower ethAddress))"

text \<open>A new row is not jailed, the column's default.\<close>

definition InsertRegisteredNode ::
  "validator_db \<Rightarrow> string \<Rightarrow> string \<Rightarrow> string \<Rightarrow> string \<Rightarrow> string \<Rightarrow> string \<Rightarrow> string \<Rightarrow> string \<Rightarrow>
   pg_error option \<times> validator_db" where
  "InsertRegisteredNode q pubKey endpoint ethAddress cometAddress cometPubKey ethBlock nodeType spID =
     val_exec q (V_Insert ethAddress) (q\<lparr>core_validators := core_validators q @
       [\<lparr>cv_pub_key = pubKey, cv_endpoint = endpoint, cv_eth_address = ethAddress,
         cv_comet_address = cometAddress, cv_comet_pub_key = cometPubKey, cv_eth_block = ethBlock,
         cv_node_type = nodeType, cv_sp_id = spID, cv_jailed = False\<rparr>]\<rparr>)"

definition DeleteRegisteredNode :: "validator_db \<Rightarrow> string \<Rightarrow> pg_error option \<times> validator_db" where
  "DeleteRegisteredNode q addr = val_exec q (V_Delete addr)
     (q\<lparr>core_validators := filter (\<lambda>r. cv_comet_address r \<noteq> addr) (core_validators q)\<rparr>)"

definition JailRegisteredNode :: "validator_db \<Rightarrow> string \<Rightarrow> pg_error option \<times> validator_db" where
  "JailRegisteredNode q addr = val_exec q (V_Jail addr)
     (q\<lparr>core_validators := map (\<lambda>r. if cv_comet_address r = addr then r\<lparr>cv_jailed := True\<rparr> else r)
        (core_validators q)\<rparr>)"

definition UnjailRegisteredNode :: "validator_db \<Rightarrow> string \<Rightarrow> pg_error option \<times> validator_db" where
  "UnjailRegisteredNode q addr = val_exec q (V_Unjail addr)
     (q\<lparr>core_validators := map (\<lambda>r. if cv_comet_address r = addr then r\<lparr>cv_jailed := False\<rparr> else r)
        (core_validators q)\<rparr>)"

definition AppendValidatorHistory :: "validator_db \<Rightarrow> ValidatorHistory \<Rightarrow> pg_error option \<times> validator_db" where
  "AppendValidatorHistory q h = val_exec q V_AppendHistory
     (q\<lparr>validator_history := validator_history q @ [h]\<rparr>)"

section \<open>Messages, configuration and cryptography\<close>

record ValidatorRegistration =
  vr_DelegateWallet :: string
  vr_Endpoint :: string
  vr_NodeType :: string
  vr_SpId :: string
  vr_EthBlock :: int
  vr_CometAddress :: string
  vr_PubKey :: string
  vr_Power :: int
  vr_Deadline :: int

record ValidatorDeregistration =
  vd_CometAddress :: string
  vd_PubKey :: string
  vd_Deadline :: int
  vd_Remove :: bool

datatype AttestationBody =
    AttRegistration ValidatorRegistration
  | AttDeregistration ValidatorDeregistration

record Attestation =
  att_Signatures :: "string list"
  att_Body :: "AttestationBody option"

record ValidatorMisbehaviorDeregistration =
  vmd_CometAddress :: string
  vmd_PubKey :: string

record ValidatorRegistrationLegacy =
  vrl_Endpoint :: string
  vrl_CometAddress :: string
  vrl_EthBlock :: string
  vrl_NodeType :: string
  vrl_SpId :: string
  vrl_PubKey :: string
  vrl_Power :: int

text \<open>A signed transaction with a body of type \<open>'b\<close>.\<close>

record 'b signed =
  stx_Signature :: string
  stx_RequestId :: string
  stx_Body :: 'b

record core_config =
  cfg_ChainID :: string
  cfg_Upgrades :: "UpgradeSchedule option"
  AttRegistrationRSize :: int
  AttRegistrationMin :: int
  AttDeregistrationRSize :: int
  AttDeregistrationMin :: int
  ValidatorVotingPower :: int

definition rules_at :: "core_config \<Rightarrow> int \<Rightarrow> Rules" where
  "rules_at cfg height = RulesetAt (cfg_Upgrades cfg) height"

text \<open>
  What the code takes from other modules beyond the primitives of signing: the comet address of
  an ed25519 public key and of raw address bytes, the parts of a URL, and protobuf serialization.
\<close>

record url_parts =
  u_Scheme :: string
  u_Hostname :: string
  u_HasUser :: bool
  u_RawQuery :: string
  u_Fragment :: string

record crypto = prims +
  ed25519_Address :: "string \<Rightarrow> string"
  comet_Address :: "string \<Rightarrow> string"
  url_Parse :: "string \<Rightarrow> url_parts option"
  marshal_body :: "AttestationBody \<Rightarrow> string option"
  marshal_body_det :: "AttestationBody \<Rightarrow> string option"
  marshal_attestation :: "Attestation \<Rightarrow> string option"
  marshal_attestation_tx :: "Attestation signed \<Rightarrow> string option"
  marshal_legacy :: "ValidatorRegistrationLegacy \<Rightarrow> string option"

definition ed25519_PubKeySize :: nat where "ed25519_PubKeySize = 32"

end
