(* ===== verification/Attestations.thy ===== *)
theory Attestations
  imports Validator_Set
begin

text \<open>
  Attestations by validators: their payload, their signers and the quorum, and the
  registration and deregistration of validators that rest on them.
\<close>

datatype val_error =
    UnhandledAttestationBody
  | TooManySignatures
  | MissingChainID
  | MarshalFailed
  | InvalidAttestationSignature
  | InvalidEndpoint
  | InvalidNodeType
  | InvalidSpId
  | InvalidEthBlock
  | IncorrectPubkeySize
  | NoSignature
  | RecoverFailed
  | SignerNotDelegateWallet
  | InvalidVotingPower
  | PubkeyMissing
  | AddressPubkeyMismatch
  | CometAddressTaken
  | ValidatorStoreFailure pg_error
  | BadDeadline
  | NotEnoughAttestations
  | NodeNotFound
  | AlreadyJailed
  | NoMisbehavior
  | LegacyRegistrationsClosed

section \<open>Payload\<close>

text \<open>The descriptor's full name of the attested message.\<close>

definition body_FullName :: "AttestationBody \<Rightarrow> string" where
  "body_FullName b = (case b of
     AttRegistration _ \<Rightarrow> ''core.v1.ValidatorRegistration''
   | AttDeregistration _ \<Rightarrow> ''core.v1.ValidatorDeregistration'')"

definition nul :: char where "nul = CHR 0x00"

definition attestation_domain :: string where
  "attestation_domain = nul # ''openaudio/attestation/v1'' @ [nul]"

definition domainSeparatedAttestationBytes :: "crypto \<Rightarrow> string \<Rightarrow> AttestationBody \<Rightarrow> string option" where
  "domainSeparatedAttestationBytes cr chainID body = (case marshal_body_det cr body of
     None \<Rightarrow> None
   | Some payload \<Rightarrow> Some (attestation_domain @ be_uint64 (int (length chainID)) @ chainID @
       body_FullName body @ [nul] @ payload))"

definition validatorAttestationBytes ::
  "crypto \<Rightarrow> core_config \<Rightarrow> AttestationBody \<Rightarrow> int \<Rightarrow> val_error + string" where
  "validatorAttestationBytes cr cfg body blockHeight =
     (if \<not> AttestationDomainEnforced (rules_at cfg blockHeight)
      then (case marshal_body cr body of None \<Rightarrow> Inl MarshalFailed | Some d \<Rightarrow> Inr d)
      else if cfg_ChainID cfg = [] then Inl MissingChainID
      else (case domainSeparatedAttestationBytes cr (cfg_ChainID cfg) body of
              None \<Rightarrow> Inl MarshalFailed | Some d \<Rightarrow> Inr d))"

section \<open>Signers and quorum\<close>

definition boundAttestationSignatures :: "core_config \<Rightarrow> Attestation \<Rightarrow> val_error option" where
  "boundAttestationSignatures cfg att = (case att_Body att of
     None \<Rightarrow> Some UnhandledAttestationBody
   | Some body \<Rightarrow>
       (let slots = (case body of
          AttRegistration _ \<Rightarrow> AttRegistrationRSize cfg
        | AttDeregistration _ \<Rightarrow> AttDeregistrationRSize cfg)
        in if int (length (att_Signatures att)) > slots then Some TooManySignatures else None))"

text \<open>
  One goroutine recovers each signature; the results are collected by index, so their order of
  arrival does not show.
\<close>

definition recoverSigners :: "crypto \<Rightarrow> string list \<Rightarrow> string \<Rightarrow> val_error + string list" where
  "recoverSigners cr signatures dat =
     (if list_all (\<lambda>sig. EthRecover cr sig dat \<noteq> None) signatures
      then Inr (map (\<lambda>sig. snd (the (EthRecover cr sig dat))) signatures)
      else Inl InvalidAttestationSignature)"

text \<open>Drops the first occurrence by moving the last element into its place.\<close>

definition swap_remove :: "'a \<Rightarrow> 'a list \<Rightarrow> 'a list" where
  "swap_remove x xs = (let i = length (takeWhile (\<lambda>y. y \<noteq> x) xs)
     in if i < length xs then butlast (xs[i := last xs]) else xs)"

fun count_signers :: "string list \<Rightarrow> string set \<Rightarrow> int \<Rightarrow> int" where
  "count_signers [] rendezvous signersNeeded = signersNeeded"
| "count_signers (address # signers) rendezvous signersNeeded =
     (if address \<in> rendezvous
      then count_signers signers (rendezvous - {address}) (signersNeeded - 1)
      else count_signers signers rendezvous signersNeeded)"

definition attestationHasEnoughSigners ::
  "crypto \<Rightarrow> validator_db \<Rightarrow> string list \<Rightarrow> string \<Rightarrow> int \<Rightarrow> int \<Rightarrow> string \<Rightarrow> pg_error + bool" where
  "attestationHasEnoughSigners cr q signers key rendezvousSize signersNeeded excludeAddress =
     (case GetAllEthAddressesOfRegisteredNodes q of
        Inl e \<Rightarrow> Inl e
      | Inr addrs \<Rightarrow>
          (let filteredAddrs = swap_remove excludeAddress addrs;
               needed = min (int (length filteredAddrs)) signersNeeded;
               rendezvous = GetAttestorRendezvous (Sha256 cr) filteredAddrs key rendezvousSize
           in Inr (count_signers signers rendezvous needed \<le> 0)))"

section \<open>Registration\<close>

definition maxRegistrationAttestationValidity :: int where
  "maxRegistrationAttestationValidity = 24 * 60 * 60"

definition maxDeregistrationAttestationValidity :: int where
  "maxDeregistrationAttestationValidity = 24 * 60 * 60"

definition validateValidatorEndpoint :: "crypto \<Rightarrow> string \<Rightarrow> val_error option" where
  "validateValidatorEndpoint cr endpoint = (case url_Parse cr endpoint of
     None \<Rightarrow> Some InvalidEndpoint
   | Some u \<Rightarrow>
       if (u_Scheme u \<noteq> ''http'' \<and> u_Scheme u \<noteq> ''https'') \<or> u_Hostname u = [] \<or> u_HasUser u \<or>
          u_RawQuery u \<noteq> [] \<or> u_Fragment u \<noteq> []
       then Some InvalidEndpoint else None)"

definition validateValidatorRegistration :: "crypto \<Rightarrow> ValidatorRegistration \<Rightarrow> val_error option" where
  "validateValidatorRegistration cr vr = (case validateValidatorEndpoint cr (vr_Endpoint vr) of
     Some e \<Rightarrow> Some e
   | None \<Rightarrow>
       if vr_NodeType vr \<noteq> ''validator'' \<and> vr_NodeType vr \<noteq> ''content-node'' \<and>
          vr_NodeType vr \<noteq> ''discovery-node''
       then Some InvalidNodeType
       else if (case ParseInt64 (vr_SpId vr) of None \<Rightarrow> True | Some i \<Rightarrow> i \<le> 0) then Some InvalidSpId
       else if vr_EthBlock vr \<le> 0 then Some InvalidEthBlock
       else if length (vr_PubKey vr) \<noteq> ed25519_PubKeySize then Some IncorrectPubkeySize
       else None)"

definition isValidRegisterNodeAttestation ::
  "crypto \<Rightarrow> core_config \<Rightarrow> validator_db \<Rightarrow> Attestation signed \<Rightarrow> ValidatorRegistration \<Rightarrow>
   string list \<Rightarrow> int \<Rightarrow> val_error option" where
  "isValidRegisterNodeAttestation cr cfg q tx vr signers blockHeight =
     (case (if AttestationDomainEnforced (rules_at cfg blockHeight)
            then validateValidatorRegistration cr vr else None) of
        Some e \<Rightarrow> Some e
      | None \<Rightarrow>
        if stx_Signature tx = [] then Some NoSignature
        else (case marshal_attestation cr (stx_Body tx) of
          None \<Rightarrow> Some MarshalFailed
        | Some attBytes \<Rightarrow>
          (case EthRecover cr (stx_Signature tx) attBytes of
             None \<Rightarrow> Some RecoverFailed
           | Some (_, address) \<Rightarrow>
             if address \<noteq> vr_DelegateWallet vr then Some SignerNotDelegateWallet
             else if vr_Power vr \<noteq> ValidatorVotingPower cfg then Some InvalidVotingPower
             else if vr_PubKey vr = [] then Some PubkeyMissing
             else if length (vr_PubKey vr) \<noteq> ed25519_PubKeySize then Some IncorrectPubkeySize
             else if ed25519_Address cr (vr_PubKey vr) \<noteq> vr_CometAddress vr then Some AddressPubkeyMismatch
             else (case (case GetRegisteredNodeByCometAddress q (vr_CometAddress vr) of
                     Inr existing \<Rightarrow> if \<not> cv_jailed existing then Some CometAddressTaken else None
                   | Inl ErrNoRows \<Rightarrow> None
                   | Inl (QueryFailed e) \<Rightarrow> Some (ValidatorStoreFailure e)) of
               Some e \<Rightarrow> Some e
             | None \<Rightarrow>
               if vr_Deadline vr < blockHeight \<or>
                  vr_Deadline vr > blockHeight + maxRegistrationAttestationValidity
               then Some BadDeadline
               else (case attestationHasEnoughSigners cr q signers (be_uint64 (vr_EthBlock vr))
                       (AttRegistrationRSize cfg) (AttRegistrationMin cfg) [] of
                       Inl e \<Rightarrow> Some (ValidatorStoreFailure e)
                     | Inr enough \<Rightarrow> if \<not> enough then Some NotEnoughAttestations else None)))))"

text \<open>The stored public key is recovered over the bytes of the whole signed transaction.\<close>

definition finalizeRegisterNodeAttestation ::
  "crypto \<Rightarrow> validator_db \<Rightarrow> Attestation signed \<Rightarrow> ValidatorRegistration \<Rightarrow>
   val_error option \<times> validator_db" where
  "finalizeRegisterNodeAttestation cr qtx tx vr =
     (case marshal_attestation_tx cr tx of
        None \<Rightarrow> (Some MarshalFailed, qtx)
      | Some txBytes \<Rightarrow>
        (case EthRecover cr (stx_Signature tx) txBytes of
           None \<Rightarrow> (Some RecoverFailed, qtx)
         | Some (pubKey, _) \<Rightarrow>
           (case GetRegisteredNodeByEthAddress qtx (vr_DelegateWallet vr) of
              Inl ErrNoRows \<Rightarrow>
                (let (err, q') = InsertRegisteredNode qtx (SerializePublicKeyHex cr pubKey)
                   (vr_Endpoint vr) (vr_DelegateWallet vr) (vr_CometAddress vr)
                   (base64_encode (vr_PubKey vr)) (FormatInt (vr_EthBlock vr))
                   (vr_NodeType vr) (vr_SpId vr)
                 in (map_option ValidatorStoreFailure err, q'))
            | Inl (QueryFailed e) \<Rightarrow> (Some (ValidatorStoreFailure e), qtx)
            | Inr existing \<Rightarrow>
                if \<not> EqualFold (cv_comet_address existing) (vr_CometAddress vr) then (None, qtx)
                else if cv_jailed existing
                then (let (err, q') = UnjailRegisteredNode qtx (cv_comet_address existing)
                      in (map_option ValidatorStoreFailure err, q'))
                else (None, qtx))))"

section \<open>Deregistration\<close>

definition isValidDeregisterNodeAttestation ::
  "crypto \<Rightarrow> core_config \<Rightarrow> validator_db \<Rightarrow> ValidatorDeregistration \<Rightarrow> string list \<Rightarrow> int \<Rightarrow>
   val_error option" where
  "isValidDeregisterNodeAttestation cr cfg q dereg signers blockHeight =
     (let addr = vd_CometAddress dereg in
      if vd_PubKey dereg = [] then Some PubkeyMissing
      else if length (vd_PubKey dereg) \<noteq> ed25519_PubKeySize then Some IncorrectPubkeySize
      else if ed25519_Address cr (vd_PubKey dereg) \<noteq> addr then Some AddressPubkeyMismatch
      else if vd_Deadline dereg < blockHeight \<or>
              vd_Deadline dereg > blockHeight + maxDeregistrationAttestationValidity
      then Some BadDeadline
      else (case GetRegisteredNodeByCometAddress q addr of
          Inl ErrNoRows \<Rightarrow> Some NodeNotFound
        | Inl (QueryFailed e) \<Rightarrow> Some (ValidatorStoreFailure e)
        | Inr node \<Rightarrow>
            if cv_jailed node \<and> \<not> vd_Remove dereg then Some AlreadyJailed
            else (case attestationHasEnoughSigners cr q signers (vd_PubKey dereg)
                    (AttDeregistrationRSize cfg) (AttDeregistrationMin cfg) (cv_eth_address node) of
                    Inl e \<Rightarrow> Some (ValidatorStoreFailure e)
                  | Inr enough \<Rightarrow> if \<not> enough then Some NotEnoughAttestations else None)))"

definition finalizeDeregisterValidatorAttestation ::
  "validator_db \<Rightarrow> ValidatorDeregistration \<Rightarrow> val_error option \<times> validator_db" where
  "finalizeDeregisterValidatorAttestation qtx dereg =
     (let (err, q') = (if vd_Remove dereg then DeleteRegisteredNode qtx (vd_CometAddress dereg)
                       else JailRegisteredNode qtx (vd_CometAddress dereg))
      in (map_option ValidatorStoreFailure err, q'))"

text \<open>The misbehaving validators of the block are given by their raw address bytes.\<close>

definition isValidDeregisterMisbehavingNodeTx ::
  "crypto \<Rightarrow> validator_db \<Rightarrow> ValidatorMisbehaviorDeregistration signed \<Rightarrow> string list \<Rightarrow> val_error option" where
  "isValidDeregisterMisbehavingNodeTx cr q tx misbehavior =
     (if stx_Signature tx = [] then Some NoSignature
      else (let vd = stx_Body tx; addr = vmd_CometAddress vd in
        case GetRegisteredNodeByCometAddress q addr of
          Inl ErrNoRows \<Rightarrow> Some NodeNotFound
        | Inl (QueryFailed e) \<Rightarrow> Some (ValidatorStoreFailure e)
        | Inr existingNode \<Rightarrow>
            if cv_jailed existingNode then Some AlreadyJailed
            else if vmd_PubKey vd = [] then Some PubkeyMissing
            else if length (vmd_PubKey vd) \<noteq> ed25519_PubKeySize then Some IncorrectPubkeySize
            else if ed25519_Address cr (vmd_PubKey vd) \<noteq> addr then Some AddressPubkeyMismatch
            else if list_ex (\<lambda>mb. addr = comet_Address cr mb) misbehavior then None
            else Some NoMisbehavior))"

definition finalizeDeregisterMisbehavingNode ::
  "crypto \<Rightarrow> validator_db \<Rightarrow> validator_db \<Rightarrow> ValidatorMisbehaviorDeregistration signed \<Rightarrow> string list \<Rightarrow>
   val_error option \<times> validator_db" where
  "finalizeDeregisterMisbehavingNode cr q qtx tx misbehavior =
     (case isValidDeregisterMisbehavingNodeTx cr q tx misbehavior of
        Some e \<Rightarrow> (Some e, qtx)
      | None \<Rightarrow> (let (err, q') = DeleteRegisteredNode qtx (vmd_CometAddress (stx_Body tx))
          in (map_option ValidatorStoreFailure err, q')))"

section \<open>Attestation transactions\<close>

definition isValidAttestation ::
  "crypto \<Rightarrow> core_config \<Rightarrow> validator_db \<Rightarrow> Attestation signed \<Rightarrow> int \<Rightarrow> val_error option" where
  "isValidAttestation cr cfg q tx blockHeight =
     (let att = stx_Body tx in
      case att_Body att of
        None \<Rightarrow> Some UnhandledAttestationBody
      | Some body \<Rightarrow>
          (case (if AttestationDomainEnforced (rules_at cfg blockHeight)
                 then boundAttestationSignatures cfg att else None) of
             Some e \<Rightarrow> Some e
           | None \<Rightarrow>
             (case validatorAttestationBytes cr cfg body blockHeight of
                Inl e \<Rightarrow> Some e
              | Inr bodyBytes \<Rightarrow>
                (case recoverSigners cr (att_Signatures att) bodyBytes of
                   Inl e \<Rightarrow> Some e
                 | Inr signerAddrs \<Rightarrow>
                   (case body of
                      AttRegistration vr \<Rightarrow>
                        isValidRegisterNodeAttestation cr cfg q tx vr signerAddrs blockHeight
                    | AttDeregistration vd \<Rightarrow>
                        isValidDeregisterNodeAttestation cr cfg q vd signerAddrs blockHeight)))))"

definition finalizeAttestation ::
  "crypto \<Rightarrow> core_config \<Rightarrow> validator_db \<Rightarrow> validator_db \<Rightarrow> Attestation signed \<Rightarrow> int \<Rightarrow>
   val_error option \<times> validator_db" where
  "finalizeAttestation cr cfg q qtx tx blockHeight =
     (case isValidAttestation cr cfg q tx blockHeight of
        Some e \<Rightarrow> (Some e, qtx)
      | None \<Rightarrow>
        (case att_Body (stx_Body tx) of
           None \<Rightarrow> (Some UnhandledAttestationBody, qtx)
         | Some (AttRegistration vr) \<Rightarrow> finalizeRegisterNodeAttestation cr qtx tx vr
         | Some (AttDeregistration vd) \<Rightarrow> finalizeDeregisterValidatorAttestation qtx vd))"

section \<open>Legacy registration\<close>

definition finalizeLegacyRegisterNode ::
  "crypto \<Rightarrow> core_config \<Rightarrow> validator_db \<Rightarrow> ValidatorRegistrationLegacy signed \<Rightarrow> int \<Rightarrow>
   val_error option \<times> validator_db" where
  "finalizeLegacyRegisterNode cr cfg qtx tx blockHeight =
     (if LegacyRegistrationClosed (rules_at cfg blockHeight) then (Some LegacyRegistrationsClosed, qtx)
      else (let vr = stx_Body tx in
        case marshal_legacy cr vr of
          None \<Rightarrow> (Some MarshalFailed, qtx)
        | Some txBytes \<Rightarrow>
          (case EthRecover cr (stx_Signature tx) txBytes of
             None \<Rightarrow> (Some RecoverFailed, qtx)
           | Some (pubKey, address) \<Rightarrow>
             (case GetRegisteredNodeByEthAddress qtx address of
                Inl ErrNoRows \<Rightarrow>
                  (let (err, q') = InsertRegisteredNode qtx (SerializePublicKeyHex cr pubKey)
                     (vrl_Endpoint vr) address (vrl_CometAddress vr)
                     (base64_encode (vrl_PubKey vr)) (vrl_EthBlock vr) (vrl_NodeType vr) (vrl_SpId vr)
                   in (map_option ValidatorStoreFailure err, q'))
              | _ \<Rightarrow> (None, qtx)))))"

section \<open>Validator history\<close>

definition appendDeregistrationToValidatorHistory ::
  "validator_db \<Rightarrow> validator_db \<Rightarrow> ValidatorDeregistration \<Rightarrow> int \<Rightarrow> int \<Rightarrow> bool \<times> validator_db" where
  "appendDeregistrationToValidatorHistory q qtx dereg timestamp block =
     (case GetRegisteredNodeByCometAddress q (vd_CometAddress dereg) of
        Inl _ \<Rightarrow> (False, qtx)
      | Inr validator \<Rightarrow>
        (case ParseInt64 (cv_sp_id validator) of
           None \<Rightarrow> (False, qtx)
         | Some spId64 \<Rightarrow>
             (let (err, q') = AppendValidatorHistory qtx
               \<lparr>vh_endpoint = cv_endpoint validator, vh_eth_address = cv_eth_address validator,
                vh_comet_address = vd_CometAddress dereg, vh_sp_id = spId64,
                vh_service_type = cv_node_type validator,
                vh_event_type = ValidatorEventDeregistered,
                vh_event_time = timestamp, vh_event_block = block\<rparr>
              in (err = None, q'))))"

definition appendRegistrationToValidatorHistory ::
  "validator_db \<Rightarrow> ValidatorRegistration \<Rightarrow> int \<Rightarrow> int \<Rightarrow> bool \<times> validator_db" where
  "appendRegistrationToValidatorHistory qtx reg timestamp block =
     (case ParseInt64 (vr_SpId reg) of
        None \<Rightarrow> (False, qtx)
      | Some spId64 \<Rightarrow>
          (let (err, q') = AppendValidatorHistory qtx
             \<lparr>vh_endpoint = vr_Endpoint reg, vh_eth_address = vr_DelegateWallet reg,
              vh_comet_address = vr_CometAddress reg, vh_sp_id = spId64,
              vh_service_type = vr_NodeType reg, vh_event_type = ValidatorEventRegistered,
              vh_event_time = timestamp, vh_event_block = block\<rparr>
           in (err = None, q')))"

section \<open>Validator updates\<close>

record ValidatorUpdate =
  vu_Power :: int
  vu_PubKeyBytes :: string

definition registeredNodeValidatorUpdate ::
  "crypto \<Rightarrow> validator_db \<Rightarrow> string \<Rightarrow> string \<Rightarrow> int \<Rightarrow> (string \<times> ValidatorUpdate) option" where
  "registeredNodeValidatorUpdate cr qtx cometAddress pubKey pw =
     (if cometAddress = [] then None
      else if length pubKey \<noteq> ed25519_PubKeySize then None
      else (case GetRegisteredNodeByCometAddress qtx cometAddress of
          Inl _ \<Rightarrow> None
        | Inr node \<Rightarrow>
            if cv_jailed node then None
            else (let vrAddr = ed25519_Address cr pubKey in
              if \<not> EqualFold vrAddr (cv_comet_address node) then None
              else Some (vrAddr, \<lparr>vu_Power = pw, vu_PubKeyBytes = pubKey\<rparr>))))"

text \<open>The comet address a deregistration names, empty for any other transaction.\<close>

definition deregistrationNeedsValidatorUpdate :: "validator_db \<Rightarrow> string \<Rightarrow> bool" where
  "deregistrationNeedsValidatorUpdate qtx cometAddress =
     (if cometAddress = [] then False
      else (case GetRegisteredNodeByCometAddress qtx cometAddress of
          Inl _ \<Rightarrow> False
        | Inr node \<Rightarrow> \<not> cv_jailed node))"

end
