(* ===== verification/Storage_Proofs.thy ===== *)
theory Storage_Proofs
  imports Attestations
begin

text \<open>
  Proof of storage, \<^verbatim>\<open>pkg/core/server/pos.go\<close>: which blocks challenge, which proofs and
  verifications are valid, and how a verification resolves a challenge. The replies of the
  storage service and the submission of transactions are outside the model. Verification of an
  ed25519 signature is the parameter \<open>VerifySignature\<close>.
\<close>

section \<open>Tables\<close>

datatype ProofStatus = ProofStatusUnresolved | ProofStatusPass | ProofStatusFail

record StorageProofRow =
  spr_height :: int
  spr_address :: string
  spr_cid :: "string option"
  spr_signature :: "string option"
  spr_proof :: "string option"
  spr_provers :: "string list"
  spr_status :: ProofStatus

datatype pos_stmt =
    P_GetBlock int
  | P_GetStorageProof int string
  | P_GetStorageProofs int
  | P_GetPeers int
  | P_Insert int string
  | P_Update int string

record pos_db =
  core_block_hashes :: "(int, string) table"
  storage_proofs :: "StorageProofRow list"
  storage_proof_peers :: "(int, string list) table"
  pos_fault :: "pos_stmt \<Rightarrow> pg_error option"

definition GetBlock_hash :: "pos_db \<Rightarrow> int \<Rightarrow> query_error + string" where
  "GetBlock_hash q height = (case pos_fault q (P_GetBlock height) of
     Some e \<Rightarrow> Inl (QueryFailed e)
   | None \<Rightarrow> (case map_of (core_block_hashes q) height of None \<Rightarrow> Inl ErrNoRows | Some h \<Rightarrow> Inr h))"

definition GetStorageProof :: "pos_db \<Rightarrow> int \<Rightarrow> string \<Rightarrow> query_error + StorageProofRow" where
  "GetStorageProof q height addr = (case pos_fault q (P_GetStorageProof height addr) of
     Some e \<Rightarrow> Inl (QueryFailed e)
   | None \<Rightarrow> (case find (\<lambda>r. spr_height r = height \<and> spr_address r = addr) (storage_proofs q) of
       None \<Rightarrow> Inl ErrNoRows | Some r \<Rightarrow> Inr r))"

definition GetStorageProofPeers :: "pos_db \<Rightarrow> int \<Rightarrow> query_error + string list" where
  "GetStorageProofPeers q height = (case pos_fault q (P_GetPeers height) of
     Some e \<Rightarrow> Inl (QueryFailed e)
   | None \<Rightarrow> (case map_of (storage_proof_peers q) height of None \<Rightarrow> Inl ErrNoRows | Some ps \<Rightarrow> Inr ps))"

definition GetStorageProofs :: "pos_db \<Rightarrow> int \<Rightarrow> pg_error + StorageProofRow list" where
  "GetStorageProofs q height = (case pos_fault q (P_GetStorageProofs height) of
     Some e \<Rightarrow> Inl e
   | None \<Rightarrow> Inr (filter (\<lambda>r. spr_height r = height) (storage_proofs q)))"

text \<open>The table is unique on address and height: an insert of an existing pair fails.\<close>

definition insert_proof_row :: "pos_db \<Rightarrow> StorageProofRow \<Rightarrow> pg_error option \<times> pos_db" where
  "insert_proof_row q row = (case pos_fault q (P_Insert (spr_height row) (spr_address row)) of
     Some e \<Rightarrow> (Some e, q)
   | None \<Rightarrow>
       if list_ex (\<lambda>r. spr_height r = spr_height row \<and> spr_address r = spr_address row) (storage_proofs q)
       then (Some unique_violation, q)
       else (None, q\<lparr>storage_proofs := storage_proofs q @ [row]\<rparr>))"

definition InsertStorageProof ::
  "pos_db \<Rightarrow> int \<Rightarrow> string \<Rightarrow> string option \<Rightarrow> string option \<Rightarrow> string list \<Rightarrow> pg_error option \<times> pos_db" where
  "InsertStorageProof q height addr cid sig provers = insert_proof_row q
     \<lparr>spr_height = height, spr_address = addr, spr_cid = cid, spr_signature = sig, spr_proof = None,
      spr_provers = provers, spr_status = ProofStatusUnresolved\<rparr>"

definition InsertFailedStorageProof :: "pos_db \<Rightarrow> int \<Rightarrow> string \<Rightarrow> pg_error option \<times> pos_db" where
  "InsertFailedStorageProof q height addr = insert_proof_row q
     \<lparr>spr_height = height, spr_address = addr, spr_cid = None, spr_signature = None, spr_proof = None,
      spr_provers = [], spr_status = ProofStatusFail\<rparr>"

definition UpdateStorageProof ::
  "pos_db \<Rightarrow> string option \<Rightarrow> ProofStatus \<Rightarrow> int \<Rightarrow> string \<Rightarrow> pg_error option \<times> pos_db" where
  "UpdateStorageProof q proof status height addr = (case pos_fault q (P_Update height addr) of
     Some e \<Rightarrow> (Some e, q)
   | None \<Rightarrow> (None, q\<lparr>storage_proofs := map (\<lambda>r.
       if spr_height r = height \<and> spr_address r = addr
       then r\<lparr>spr_proof := proof, spr_status := status\<rparr> else r) (storage_proofs q)\<rparr>))"

section \<open>Challenges\<close>

definition blockShouldTriggerNewPoSChallenge :: "string \<Rightarrow> bool" where
  "blockShouldTriggerNewPoSChallenge blockHash \<longleftrightarrow>
     blockHash \<noteq> [] \<and> (of_char (last blockHash) :: int) mod 16 = 0"

definition posChallengeDeadline :: int where "posChallengeDeadline = 2"

record StorageProof =
  sp_Height :: int
  sp_Address :: string
  sp_ProverAddresses :: "string list"
  sp_Cid :: string
  sp_ProofSignature :: string

record StorageProofVerification =
  spv_Height :: int
  spv_Proof :: string

record pos_crypto =
  marshal_proof :: "StorageProof \<Rightarrow> string option"
  VerifySignature :: "string \<Rightarrow> string \<Rightarrow> string \<Rightarrow> bool"

datatype pos_error =
    ProofNoSignature
  | ProofMarshalFailed
  | ProofRecoverFailed
  | ProverNotFound
  | ProverJailed
  | ProverMismatch
  | InvalidHeight
  | PastDeadline
  | BeforeDeadline
  | BlockNotFound
  | BadBlockHash
  | NotAChallenge
  | NotAReplica
  | ProofStoreFailure pg_error
  | BadBase64

text \<open>The height names a block that triggered a challenge.\<close>

definition challenge_block :: "pos_db \<Rightarrow> int \<Rightarrow> pos_error option" where
  "challenge_block q height = (case GetBlock_hash q height of
     Inl _ \<Rightarrow> Some BlockNotFound
   | Inr h \<Rightarrow> (case hex_decode h of
       None \<Rightarrow> Some BadBlockHash
     | Some bytes \<Rightarrow> if \<not> blockShouldTriggerNewPoSChallenge bytes then Some NotAChallenge else None))"

definition isValidStorageProofTx ::
  "crypto \<Rightarrow> pos_crypto \<Rightarrow> validator_db \<Rightarrow> pos_db \<Rightarrow> StorageProof signed \<Rightarrow> int \<Rightarrow> bool \<Rightarrow> pos_error option" where
  "isValidStorageProofTx cr pc vq q tx currentBlockHeight enforceReplicas =
     (if stx_Signature tx = [] then Some ProofNoSignature
      else (let sp = stx_Body tx in
        case marshal_proof pc sp of
          None \<Rightarrow> Some ProofMarshalFailed
        | Some txBytes \<Rightarrow>
          (case EthRecover cr (stx_Signature tx) txBytes of
             None \<Rightarrow> Some ProofRecoverFailed
           | Some (_, address) \<Rightarrow>
             (case GetRegisteredNodeByEthAddress vq address of
                Inl _ \<Rightarrow> Some ProverNotFound
              | Inr node \<Rightarrow>
                if cv_jailed node then Some ProverJailed
                else if \<not> EqualFold (cv_comet_address node) (sp_Address sp) then Some ProverMismatch
                else if sp_Height sp = 0 then Some InvalidHeight
                else if currentBlockHeight - sp_Height sp > posChallengeDeadline then Some PastDeadline
                else (case challenge_block q (sp_Height sp) of
                    Some e \<Rightarrow> Some e
                  | None \<Rightarrow>
                    (case GetStorageProofPeers q (sp_Height sp) of
                       Inr peers \<Rightarrow>
                         if enforceReplicas \<and> sp_Address sp \<notin> set peers then Some NotAReplica else None
                     | Inl _ \<Rightarrow> None))))))"

definition isValidStorageProofVerificationTx ::
  "pos_db \<Rightarrow> StorageProofVerification \<Rightarrow> int \<Rightarrow> pos_error option" where
  "isValidStorageProofVerificationTx q spv currentBlockHeight =
     (if spv_Height spv = 0 then Some InvalidHeight
      else if currentBlockHeight - spv_Height spv \<le> posChallengeDeadline then Some BeforeDeadline
      else challenge_block q (spv_Height spv))"

section \<open>Finalizing a proof\<close>

definition finalizeStorageProof ::
  "crypto \<Rightarrow> pos_crypto \<Rightarrow> validator_db \<Rightarrow> pos_db \<Rightarrow> pos_db \<Rightarrow> StorageProof signed \<Rightarrow> int \<Rightarrow>
   pos_error option \<times> pos_db" where
  "finalizeStorageProof cr pc vq q qtx tx blockHeight =
     (case isValidStorageProofTx cr pc vq q tx blockHeight False of
        Some e \<Rightarrow> (Some e, qtx)
      | None \<Rightarrow> (let sp = stx_Body tx in
          case GetStorageProof qtx (sp_Height sp) (sp_Address sp) of
            Inl ErrNoRows \<Rightarrow>
              (let (err, q') = InsertStorageProof qtx (sp_Height sp) (sp_Address sp) (Some (sp_Cid sp))
                 (Some (base64_encode (sp_ProofSignature sp))) (sp_ProverAddresses sp)
               in (map_option ProofStoreFailure err, q'))
          | _ \<Rightarrow> (None, qtx)))"

section \<open>Finalizing a verification\<close>

text \<open>The loop that checks the plaintext proof against every prover's signature.\<close>

definition peer_vote :: "string \<Rightarrow> (string, int) table \<Rightarrow> (string, int) table" where
  "peer_vote peer votes = AList.update peer
     ((case map_of votes peer of None \<Rightarrow> 0 | Some n \<Rightarrow> n) + 1) votes"

fun match_proofs ::
  "pos_crypto \<Rightarrow> validator_db \<Rightarrow> string \<Rightarrow> StorageProofRow list \<Rightarrow> string list \<Rightarrow> (string, int) table \<Rightarrow>
   pos_error + (string list \<times> (string, int) table)" where
  "match_proofs pc vqtx proof [] nodes peers = Inr (nodes, peers)"
| "match_proofs pc vqtx proof (p # ps) nodes peers =
     (case GetRegisteredNodeByCometAddress vqtx (spr_address p) of
        Inl _ \<Rightarrow> Inl ProverNotFound
      | Inr node \<Rightarrow>
        if cv_jailed node then Inl ProverJailed
        else (case base64_decode (case spr_signature p of None \<Rightarrow> [] | Some s \<Rightarrow> s) of
            None \<Rightarrow> Inl BadBase64
          | Some sigBytes \<Rightarrow>
            (case base64_decode (cv_comet_pub_key node) of
               None \<Rightarrow> Inl BadBase64
             | Some pubKeyBytes \<Rightarrow>
               if VerifySignature pc pubKeyBytes proof sigBytes
               then match_proofs pc vqtx proof ps (nodes @ [spr_address p])
                      (fold peer_vote (spr_provers p) peers)
               else match_proofs pc vqtx proof ps nodes peers)))"

text \<open>Marks every proof of the challenge and forgets its prover among the peers voted for.\<close>

fun resolve_proofs ::
  "pos_db \<Rightarrow> string \<Rightarrow> int \<Rightarrow> string list \<Rightarrow> StorageProofRow list \<Rightarrow> (string, int) table \<Rightarrow>
   pos_error option \<times> pos_db \<times> (string, int) table" where
  "resolve_proofs qtx proofStr height nodes [] peers = (None, qtx, peers)"
| "resolve_proofs qtx proofStr height nodes (p # ps) peers =
     (case UpdateStorageProof qtx (Some proofStr)
             (if spr_address p \<in> set nodes then ProofStatusPass else ProofStatusFail)
             height (spr_address p) of
        (Some e, q') \<Rightarrow> (Some (ProofStoreFailure e), q', peers)
      | (None, q') \<Rightarrow> resolve_proofs q' proofStr height nodes ps (AList.delete (spr_address p) peers))"

text \<open>Adds a failed proof for each voted peer that sent none; a failed insert is ignored.\<close>

definition insert_missing :: "int \<Rightarrow> int \<Rightarrow> (string, int) table \<Rightarrow> pos_db \<Rightarrow> pos_db" where
  "insert_missing height half peers qtx = fold (\<lambda>(peer, vote) q.
     if vote > half then snd (InsertFailedStorageProof q height peer) else q) peers qtx"

definition finalizeStorageProofVerification ::
  "pos_crypto \<Rightarrow> validator_db \<Rightarrow> pos_db \<Rightarrow> pos_db \<Rightarrow> StorageProofVerification \<Rightarrow> int \<Rightarrow>
   pos_error option \<times> pos_db" where
  "finalizeStorageProofVerification pc vqtx q qtx spv currentBlockHeight =
     (case isValidStorageProofVerificationTx q spv currentBlockHeight of
        Some e \<Rightarrow> (Some e, qtx)
      | None \<Rightarrow>
        (case GetStorageProofs qtx (spv_Height spv) of
           Inl e \<Rightarrow> (Some (ProofStoreFailure e), qtx)
         | Inr proofs \<Rightarrow>
           if proofs = [] \<or> spr_status (hd proofs) \<noteq> ProofStatusUnresolved then (None, qtx)
           else (case match_proofs pc vqtx (spv_Proof spv) proofs [] [] of
               Inl e \<Rightarrow> (Some e, qtx)
             | Inr (nodes, peers) \<Rightarrow>
               if length nodes > length proofs div 2
               then (case resolve_proofs qtx (hex_encode (spv_Proof spv)) (spv_Height spv) nodes proofs peers of
                   (Some e, q', _) \<Rightarrow> (Some e, q')
                 | (None, q', peers') \<Rightarrow>
                     (None, insert_missing (spv_Height spv) (int (length proofs div 2)) peers' q'))
               else (None, qtx))))"

end
