(* ===== verification/Validator_Laws.thy ===== *)
theory Validator_Laws
  imports Attestations
begin

text \<open>
  What the validator operations guarantee: the quorum behind an attestation, the separation of
  attestation payloads between chains and message types, and the state of the validator table
  after each operation.
\<close>

section \<open>The quorum\<close>

lemma count_signers_card:
  "finite rv \<Longrightarrow> count_signers signers rv n = n - int (card (set signers \<inter> rv))"
proof (induction signers arbitrary: rv n)
  case (Cons a as)
  show ?case
  proof (cases "a \<in> rv")
    case True
    have "set (a # as) \<inter> rv = insert a (set as \<inter> (rv - {a}))" using True by auto
    then show ?thesis using Cons True by (simp add: card_insert_if)
  next
    case False
    then have "set (a # as) \<inter> rv = set as \<inter> rv" by auto
    then show ?thesis using Cons False by simp
  qed
qed simp

lemma mset_swap_remove: "mset (swap_remove x xs) = mset xs - {#x#}"
proof (cases "x \<in> set xs")
  case True
  then obtain ys zs where xs: "xs = ys @ x # zs" and "x \<notin> set ys" by (meson split_list_first)
  then have tw: "takeWhile (\<lambda>y. y \<noteq> x) xs = ys" by (auto simp: takeWhile_tail)
  show ?thesis
  proof (cases zs rule: rev_cases)
    case Nil then show ?thesis using xs tw by (simp add: swap_remove_def butlast_append)
  next
    case (snoc zs' z) then show ?thesis using xs tw
      by (simp add: swap_remove_def butlast_append)
  qed
next
  case False
  then have "length (takeWhile (\<lambda>y. y \<noteq> x) xs) = length xs" by (induction xs) auto
  with False show ?thesis by (simp add: swap_remove_def)
qed

lemma swap_remove_remove1: "mset (swap_remove x xs) = mset (remove1 x xs)"
  by (simp add: mset_swap_remove)

lemma set_swap_remove: "distinct xs \<Longrightarrow> set (swap_remove x xs) = set xs - {x}"
  using mset_eq_setD [OF swap_remove_remove1, of x xs] by simp

text \<open>The Ethereum addresses of the validators that are not jailed.\<close>

definition active_addresses :: "validator_db \<Rightarrow> string list" where
  "active_addresses q = map cv_eth_address (filter (\<lambda>r. \<not> cv_jailed r) (core_validators q))"

text \<open>
  Enough validators signed exactly when at least as many distinct signers as
  the configured minimum, or all the eligible validators if they are fewer, belong to the
  rendezvous of the eligible validators; neither the order of the table's rows nor repeated
  signatures matter.
\<close>

theorem quorum_exact:
  assumes "val_fault q V_AllEthAddresses = None"
  shows "attestationHasEnoughSigners cr q signers key rsize needed excluded =
    Inr (min (int (length (remove1 excluded (active_addresses q)))) needed \<le>
      int (card (set signers \<inter>
        GetAttestorRendezvous (Sha256 cr) (remove1 excluded (active_addresses q)) key rsize)))"
proof -
  have m: "mset (swap_remove excluded (active_addresses q)) = mset (remove1 excluded (active_addresses q))"
    by (rule swap_remove_remove1)
  show ?thesis
    using assms GetAttestorRendezvous_mset [OF m, of "Sha256 cr" key rsize] mset_eq_length [OF m]
    by (simp add: attestationHasEnoughSigners_def GetAllEthAddressesOfRegisteredNodes_def
        active_addresses_def [symmetric] count_signers_card Let_def)
qed

definition ex_validator :: "string \<Rightarrow> string \<Rightarrow> bool \<Rightarrow> CoreValidator" where
  "ex_validator eth comet jailed = \<lparr>cv_pub_key = [], cv_endpoint = [], cv_eth_address = eth,
     cv_comet_address = comet, cv_comet_pub_key = [], cv_eth_block = [], cv_node_type = [],
     cv_sp_id = ''1'', cv_jailed = jailed\<rparr>"

definition ex_vdb :: validator_db where
  "ex_vdb = \<lparr>core_validators = [ex_validator ''0xa'' ''A'' False, ex_validator ''0xb'' ''B'' False,
      ex_validator ''0xc'' ''C'' True],
     validator_history = [], val_fault = (\<lambda>_. None)\<rparr>"

text \<open>Signatures name the signer; messages are not serialized.\<close>

definition ex_crypto :: crypto where
  "ex_crypto = \<lparr>Sha256 = Sha256 ex_prims, Keccak256 = Keccak256 ex_prims, ecdsa_Sign = ecdsa_Sign ex_prims,
     SigToPub = SigToPub ex_prims, ecdsa_Public = ecdsa_Public ex_prims,
     PubkeyToAddress_Hex = PubkeyToAddress_Hex ex_prims, CompressPubkey = CompressPubkey ex_prims,
     ed25519_Address = take 1, comet_Address = take 1, url_Parse = (\<lambda>_. None),
     marshal_body = (\<lambda>_. Some ''body''),
     marshal_body_det = (\<lambda>_. Some ''body''), marshal_attestation = (\<lambda>_. Some ''att''),
     marshal_attestation_tx = (\<lambda>_. Some ''tx''), marshal_legacy = (\<lambda>_. Some ''legacy'')\<rparr>"

theorem quorum_exact_witness:
  "attestationHasEnoughSigners ex_crypto ex_vdb [''0xa'', ''0xa''] ''k'' 15 5 [] = Inr False \<and>
   attestationHasEnoughSigners ex_crypto ex_vdb [''0xa'', ''0xb''] ''k'' 15 5 [] = Inr True"
proof -
  have f: "val_fault ex_vdb V_AllEthAddresses = None" by (simp add: ex_vdb_def)
  have "remove1 [] (active_addresses ex_vdb) = [''0xa'', ''0xb'']" by code_simp
  moreover have "GetAttestorRendezvous (Sha256 ex_crypto) [''0xa'', ''0xb''] ''k'' 15 = {''0xa'', ''0xb''}"
    by code_simp
  ultimately show ?thesis by (simp add: quorum_exact [OF f] Int_insert_left)
qed

lemma enough_signers:
  assumes "attestationHasEnoughSigners cr q signers key rsize needed excluded = Inr True"
  shows "min (int (length (remove1 excluded (active_addresses q)))) needed \<le>
    int (card (set signers \<inter> set (remove1 excluded (active_addresses q))))"
proof -
  let ?f = "swap_remove excluded (active_addresses q)"
  have m: "mset ?f = mset (remove1 excluded (active_addresses q))" by (rule swap_remove_remove1)
  note len = mset_eq_length [OF m] and set = mset_eq_setD [OF m]
  from assms have "min (int (length ?f)) needed \<le>
      int (card (set signers \<inter> GetAttestorRendezvous (Sha256 cr) ?f key rsize))"
    by (auto simp: attestationHasEnoughSigners_def GetAllEthAddressesOfRegisteredNodes_def
        active_addresses_def [symmetric] count_signers_card Let_def split: option.splits)
  also have "\<dots> \<le> int (card (set signers \<inter> set ?f))"
    using GetAttestorRendezvous_subset [of "Sha256 cr" ?f key rsize]
    by (intro of_nat_mono card_mono) auto
  finally show ?thesis by (simp add: len set)
qed

text \<open>The distinct addresses recovered from an attestation's signatures over a payload.\<close>

definition attested_by :: "crypto \<Rightarrow> Attestation \<Rightarrow> string \<Rightarrow> string set" where
  "attested_by cr att payload =
     {a. \<exists>sig\<in>set (att_Signatures att). \<exists>pk. EthRecover cr sig payload = Some (pk, a)}"

lemma recoverSigners_set:
  "recoverSigners cr (att_Signatures att) payload = Inr signers \<Longrightarrow> set signers = attested_by cr att payload"
  by (force simp: recoverSigners_def attested_by_def list_all_iff image_iff split: if_splits)

lemma valid_attestation_cases:
  assumes "isValidAttestation cr cfg q tx height = None"
  obtains body payload signers where "att_Body (stx_Body tx) = Some body"
    "validatorAttestationBytes cr cfg body height = Inr payload" "set signers = attested_by cr (stx_Body tx) payload"
    "(case body of
        AttRegistration vr \<Rightarrow> isValidRegisterNodeAttestation cr cfg q tx vr signers height
      | AttDeregistration vd \<Rightarrow> isValidDeregisterNodeAttestation cr cfg q vd signers height) = None"
  using assms
  by (auto simp: isValidAttestation_def Let_def dest!: recoverSigners_set split: option.splits sum.splits)

lemma registration_quorum:
  assumes "isValidAttestation cr cfg q tx height = None" "att_Body (stx_Body tx) = Some (AttRegistration vr)"
  shows "\<exists>payload. validatorAttestationBytes cr cfg (AttRegistration vr) height = Inr payload \<and>
    min (int (length (remove1 [] (active_addresses q)))) (AttRegistrationMin cfg) \<le>
      int (card (attested_by cr (stx_Body tx) payload \<inter> set (remove1 [] (active_addresses q))))"
proof -
  from assms obtain payload signers where p: "validatorAttestationBytes cr cfg (AttRegistration vr) height = Inr payload"
    "set signers = attested_by cr (stx_Body tx) payload" "isValidRegisterNodeAttestation cr cfg q tx vr signers height = None"
    by (auto elim!: valid_attestation_cases)
  from p(3) have "attestationHasEnoughSigners cr q signers (be_uint64 (vr_EthBlock vr))
      (AttRegistrationRSize cfg) (AttRegistrationMin cfg) [] = Inr True"
    by (auto simp: isValidRegisterNodeAttestation_def split: option.splits sum.splits if_splits)
  from enough_signers [OF this] p(1,2) show ?thesis by auto
qed

lemma deregistration_quorum:
  assumes "isValidAttestation cr cfg q tx height = None" "att_Body (stx_Body tx) = Some (AttDeregistration vd)"
  shows "\<exists>payload. validatorAttestationBytes cr cfg (AttDeregistration vd) height = Inr payload \<and>
    (\<exists>node\<in>set (core_validators q). cv_comet_address node = vd_CometAddress vd \<and>
      min (int (length (remove1 (cv_eth_address node) (active_addresses q)))) (AttDeregistrationMin cfg) \<le>
        int (card (attested_by cr (stx_Body tx) payload \<inter> set (remove1 (cv_eth_address node) (active_addresses q)))))"
proof -
  from assms obtain payload signers where p: "validatorAttestationBytes cr cfg (AttDeregistration vd) height = Inr payload"
    "set signers = attested_by cr (stx_Body tx) payload" "isValidDeregisterNodeAttestation cr cfg q vd signers height = None"
    by (auto elim!: valid_attestation_cases)
  from p(3) obtain node where "GetRegisteredNodeByCometAddress q (vd_CometAddress vd) = Inr node"
    and e: "attestationHasEnoughSigners cr q signers (vd_PubKey vd)
      (AttDeregistrationRSize cfg) (AttDeregistrationMin cfg) (cv_eth_address node) = Inr True"
    by (auto simp: isValidDeregisterNodeAttestation_def Let_def
        split: option.splits sum.splits if_splits query_error.splits)
  then have "node \<in> set (core_validators q)" "cv_comet_address node = vd_CometAddress vd"
    by (auto simp: GetRegisteredNodeByCometAddress_def val_first_def find_Some_iff split: option.splits)
  with enough_signers [OF e] p(1,2) show ?thesis by auto
qed

text \<open>
  C15: an attestation that passes validation carries valid signatures over
  its payload by the required number of distinct validators that are not jailed; for a
  deregistration the validator it is about does not count.
\<close>

theorem attestation_needs_quorum:
  assumes "isValidAttestation cr cfg q tx height = None"
  shows "\<exists>body payload. att_Body (stx_Body tx) = Some body \<and>
    validatorAttestationBytes cr cfg body height = Inr payload \<and>
    (case body of
       AttRegistration vr \<Rightarrow>
         min (int (length (remove1 [] (active_addresses q)))) (AttRegistrationMin cfg) \<le>
           int (card (attested_by cr (stx_Body tx) payload \<inter> set (remove1 [] (active_addresses q))))
     | AttDeregistration vd \<Rightarrow> (\<exists>node\<in>set (core_validators q).
         cv_comet_address node = vd_CometAddress vd \<and>
         min (int (length (remove1 (cv_eth_address node) (active_addresses q)))) (AttDeregistrationMin cfg) \<le>
           int (card (attested_by cr (stx_Body tx) payload \<inter>
             set (remove1 (cv_eth_address node) (active_addresses q))))))"
proof -
  obtain body where "att_Body (stx_Body tx) = Some body" using assms by (rule valid_attestation_cases)
  with registration_quorum [OF assms] deregistration_quorum [OF assms] show ?thesis by (cases body) fastforce+
qed

definition ex_config :: core_config where
  "ex_config = \<lparr>cfg_ChainID = ''openaudio-devnet'', cfg_Upgrades = Some empty_schedule,
     AttRegistrationRSize = 15, AttRegistrationMin = 5, AttDeregistrationRSize = 15,
     AttDeregistrationMin = 5, ValidatorVotingPower = 10\<rparr>"

text \<open>Both active validators attest the registration of a third.\<close>

definition ex_registration :: "Attestation signed" where
  "ex_registration = \<lparr>stx_Signature = hex_encode ''0xd'', stx_RequestId = [], stx_Body =
     \<lparr>att_Signatures = [hex_encode ''0xa'', hex_encode ''0xb''], att_Body = Some (AttRegistration
       \<lparr>vr_DelegateWallet = ''0xd'', vr_Endpoint = ''http://d'', vr_NodeType = ''validator'',
        vr_SpId = ''1'', vr_EthBlock = 7, vr_CometAddress = ''D'',
        vr_PubKey = CHR ''D'' # replicate 31 CHR ''k'', vr_Power = 10, vr_Deadline = 100\<rparr>)\<rparr>\<rparr>"

theorem attestation_needs_quorum_witness:
  "\<exists>payload. int 2 \<le> int (card (attested_by ex_crypto (stx_Body ex_registration) payload \<inter> {''0xa'', ''0xb''}))"
proof -
  have v: "isValidAttestation ex_crypto ex_config ex_vdb ex_registration 90 = None" by code_simp
  have a: "remove1 [] (active_addresses ex_vdb) = [''0xa'', ''0xb'']" by code_simp
  from attestation_needs_quorum [OF v] show ?thesis
    by (auto simp: ex_registration_def a ex_config_def)
qed

section \<open>Payloads of different chains and messages differ\<close>

lemma append_marker_inj:
  "xs @ c # ps = ys @ c # qs \<Longrightarrow> c \<notin> set xs \<Longrightarrow> c \<notin> set ys \<Longrightarrow> xs = ys \<and> ps = qs"
proof (induction xs arbitrary: ys)
  case Nil then show ?case by (cases ys) auto
next
  case (Cons x xs) then show ?case by (cases ys) auto
qed

lemma nul_not_in_name: "nul \<notin> set (body_FullName b)"
  by (cases b) (simp_all add: body_FullName_def nul_def)

text \<open>
  Two domain-separated attestation payloads with the same bytes are for the
  same chain, the same message type and the same serialized message, so a signature given on
  one chain or for one kind of message never counts on another.
\<close>

theorem domain_separation:
  assumes "domainSeparatedAttestationBytes cr c b = Some d"
    "domainSeparatedAttestationBytes cr c' b' = Some d"
    "length c < 2 ^ 64" "length c' < 2 ^ 64"
  shows "c = c' \<and> body_FullName b = body_FullName b' \<and> marshal_body_det cr b = marshal_body_det cr b'"
proof -
  from assms obtain p p' where p: "marshal_body_det cr b = Some p" "marshal_body_det cr b' = Some p'"
    and eq: "be_uint64 (int (length c)) @ c @ body_FullName b @ nul # p =
      be_uint64 (int (length c')) @ c' @ body_FullName b' @ nul # p'"
    by (auto simp: domainSeparatedAttestationBytes_def split: option.splits)
  then have "be_uint64 (int (length c)) = be_uint64 (int (length c'))"
    and rest: "c @ body_FullName b @ nul # p = c' @ body_FullName b' @ nul # p'"
    by simp_all
  with assms(3,4) have "length c = length c'" by (auto dest!: be_uint64_inj)
  with rest have "c = c'" "body_FullName b @ nul # p = body_FullName b' @ nul # p'" by simp_all
  with p append_marker_inj [OF _ nul_not_in_name nul_not_in_name] show ?thesis by metis
qed

definition ex_dereg :: AttestationBody where
  "ex_dereg = AttDeregistration \<lparr>vd_CometAddress = ''A'', vd_PubKey = [], vd_Deadline = 9, vd_Remove = False\<rparr>"

theorem domain_separation_witness:
  "domainSeparatedAttestationBytes ex_crypto ''a'' ex_dereg \<noteq>
   domainSeparatedAttestationBytes ex_crypto ''b'' ex_dereg"
proof
  assume eq: "domainSeparatedAttestationBytes ex_crypto ''a'' ex_dereg =
   domainSeparatedAttestationBytes ex_crypto ''b'' ex_dereg"
  obtain d where d: "domainSeparatedAttestationBytes ex_crypto ''a'' ex_dereg = Some d"
    by (simp add: domainSeparatedAttestationBytes_def ex_crypto_def)
  with eq have "domainSeparatedAttestationBytes ex_crypto ''b'' ex_dereg = Some d" by simp
  from domain_separation [OF d this] show False by simp
qed

section \<open>The validator table\<close>

lemmas val_query_defs = val_first_def val_exec_def GetRegisteredNodeByCometAddress_def
  GetRegisteredNodeByEthAddress_def InsertRegisteredNode_def DeleteRegisteredNode_def
  JailRegisteredNode_def UnjailRegisteredNode_def

text \<open>Each Ethereum address registers one validator.\<close>

definition unique_eth :: "validator_db \<Rightarrow> bool" where
  "unique_eth q \<longleftrightarrow> distinct (map cv_eth_address (core_validators q))"

lemma unique_eth_rows:
  "map cv_eth_address (core_validators q') = map cv_eth_address (core_validators q) \<Longrightarrow>
    unique_eth q \<Longrightarrow> unique_eth q'"
  by (simp add: unique_eth_def)

lemma unique_eth_writes:
  assumes "unique_eth q"
  shows "unique_eth (snd (DeleteRegisteredNode q addr))"
    "unique_eth (snd (JailRegisteredNode q addr))"
    "unique_eth (snd (UnjailRegisteredNode q addr))"
    "GetRegisteredNodeByEthAddress q eth = Inl ErrNoRows \<Longrightarrow>
      unique_eth (snd (InsertRegisteredNode q pk ep eth ca cpk eb nt sp))"
proof -
  have "cv_eth_address (if cv_comet_address r = addr then r\<lparr>cv_jailed := b\<rparr> else r) = cv_eth_address r"
    for r b by simp
  then have m: "map cv_eth_address (map (\<lambda>r. if cv_comet_address r = addr then r\<lparr>cv_jailed := b\<rparr> else r) rs) =
      map cv_eth_address rs" for rs b by simp
  show "unique_eth (snd (DeleteRegisteredNode q addr))"
    using assms by (auto simp: val_query_defs unique_eth_def distinct_map_filter split: option.splits)
  show "unique_eth (snd (JailRegisteredNode q addr))" "unique_eth (snd (UnjailRegisteredNode q addr))"
    using assms by (auto simp: val_query_defs unique_eth_def m simp del: map_map split: option.splits)
  show "GetRegisteredNodeByEthAddress q eth = Inl ErrNoRows \<Longrightarrow>
      unique_eth (snd (InsertRegisteredNode q pk ep eth ca cpk eb nt sp))"
    using assms by (auto simp: val_query_defs unique_eth_def find_None_iff split: option.splits)
qed

text \<open>
  C16: whatever attestation, legacy registration or misbehaviour
  deregistration a block finalizes, no Ethereum address ever registers two validators.
\<close>

theorem one_validator_per_wallet:
  assumes "unique_eth qtx"
  shows "unique_eth (snd (finalizeAttestation cr cfg q qtx tx height)) \<and>
    unique_eth (snd (finalizeLegacyRegisterNode cr cfg qtx ltx height)) \<and>
    unique_eth (snd (finalizeDeregisterMisbehavingNode cr q qtx mtx misbehavior))"
proof (intro conjI)
  have reg: "unique_eth (snd (finalizeRegisterNodeAttestation cr qtx tx vr))" for vr
    using assms unique_eth_writes [OF assms]
    by (auto simp: finalizeRegisterNodeAttestation_def case_prod_unfold Let_def
        split: option.split sum.split query_error.split)
  have dereg: "unique_eth (snd (finalizeDeregisterValidatorAttestation qtx vd))" for vd
    using unique_eth_writes [OF assms]
    by (simp add: finalizeDeregisterValidatorAttestation_def case_prod_unfold Let_def)
  show "unique_eth (snd (finalizeAttestation cr cfg q qtx tx height))"
    using assms reg dereg
    by (auto simp: finalizeAttestation_def split: option.split AttestationBody.split)
  show "unique_eth (snd (finalizeLegacyRegisterNode cr cfg qtx ltx height))"
    using assms unique_eth_writes [OF assms]
    by (auto simp: finalizeLegacyRegisterNode_def case_prod_unfold Let_def
        split: option.split sum.split query_error.split)
  show "unique_eth (snd (finalizeDeregisterMisbehavingNode cr q qtx mtx misbehavior))"
    using assms unique_eth_writes [OF assms]
    by (auto simp: finalizeDeregisterMisbehavingNode_def case_prod_unfold Let_def split: option.split)
qed

theorem one_validator_per_wallet_witness:
  "unique_eth (snd (finalizeAttestation ex_crypto ex_config ex_vdb ex_vdb ex_registration 90)) \<and>
   length (core_validators (snd (finalizeAttestation ex_crypto ex_config ex_vdb ex_vdb ex_registration 90))) = 4"
proof -
  have "unique_eth ex_vdb" by code_simp
  then have "unique_eth (snd (finalizeAttestation ex_crypto ex_config ex_vdb ex_vdb ex_registration 90))"
    using one_validator_per_wallet by blast
  moreover have "length (core_validators (snd (finalizeAttestation ex_crypto ex_config ex_vdb ex_vdb
      ex_registration 90))) = 4" by code_simp
  ultimately show ?thesis by blast
qed

text \<open>
  A finalized deregistration leaves no active validator under the
  comet address it names, none at all when it asks for removal, and every other row as it was.
\<close>

theorem deregistration_takes_effect:
  assumes "finalizeDeregisterValidatorAttestation qtx vd = (None, q')"
  shows "(\<forall>r\<in>set (core_validators q'). cv_comet_address r = vd_CometAddress vd \<longrightarrow>
      cv_jailed r \<and> \<not> vd_Remove vd) \<and>
    filter (\<lambda>r. cv_comet_address r \<noteq> vd_CometAddress vd) (core_validators q') =
      filter (\<lambda>r. cv_comet_address r \<noteq> vd_CometAddress vd) (core_validators qtx)"
proof -
  have "filter (\<lambda>r. cv_comet_address r \<noteq> a)
      (map (\<lambda>r. if cv_comet_address r = a then r\<lparr>cv_jailed := True\<rparr> else r) rs) =
      filter (\<lambda>r. cv_comet_address r \<noteq> a) rs" for a rs
    by (induction rs) auto
  with assms show ?thesis
    by (auto simp: finalizeDeregisterValidatorAttestation_def val_query_defs
        split: if_splits option.splits)
qed

theorem deregistration_takes_effect_witness:
  "filter (\<lambda>r. cv_comet_address r \<noteq> ''A'') (core_validators (snd (finalizeDeregisterValidatorAttestation ex_vdb
     \<lparr>vd_CometAddress = ''A'', vd_PubKey = [], vd_Deadline = 9, vd_Remove = False\<rparr>))) =
   [ex_validator ''0xb'' ''B'' False, ex_validator ''0xc'' ''C'' True]"
proof -
  let ?vd = "\<lparr>vd_CometAddress = ''A'', vd_PubKey = [], vd_Deadline = 9, vd_Remove = False\<rparr>"
  have "fst (finalizeDeregisterValidatorAttestation ex_vdb ?vd) = None" by code_simp
  then have "finalizeDeregisterValidatorAttestation ex_vdb ?vd =
      (None, snd (finalizeDeregisterValidatorAttestation ex_vdb ?vd))" by (simp add: prod_eq_iff)
  from deregistration_takes_effect [OF this] show ?thesis
    by (simp add: ex_vdb_def ex_validator_def)
qed

text \<open>
  A registration makes a block emit voting power only for an active
  registered validator, and under the comet address of the public key it powers.
\<close>

theorem registration_update_sound:
  assumes "registeredNodeValidatorUpdate cr qtx cometAddress pubKey pw = Some (addr, update)"
  shows "addr = ed25519_Address cr (vu_PubKeyBytes update) \<and> vu_Power update = pw \<and>
    (\<exists>r\<in>set (core_validators qtx). \<not> cv_jailed r \<and> cv_comet_address r = cometAddress \<and>
       EqualFold addr (cv_comet_address r))"
  using assms
  by (auto simp: registeredNodeValidatorUpdate_def val_query_defs Let_def find_Some_iff
      split: if_splits sum.splits option.splits intro!: bexI)

theorem registration_update_sound_witness:
  "\<exists>r\<in>set (core_validators ex_vdb). \<not> cv_jailed r \<and> cv_comet_address r = ''A''"
proof -
  have "registeredNodeValidatorUpdate ex_crypto ex_vdb ''A'' (CHR ''A'' # replicate 31 CHR ''k'') 10 =
      Some (''A'', \<lparr>vu_Power = 10, vu_PubKeyBytes = CHR ''A'' # replicate 31 CHR ''k''\<rparr>)" by code_simp
  from registration_update_sound [OF this] show ?thesis by blast
qed

end
