(* ===== verification/Storage_Laws.thy ===== *)
theory Storage_Laws
  imports Storage_Proofs Validator_Laws
begin

text \<open>
  How storage challenges resolve: only by a majority, completely, and only after the window for
  proofs has closed.
\<close>

section \<open>Matching proofs\<close>

text \<open>The stored signature of a proof verifies under its prover's registered key.\<close>

definition proof_matches :: "pos_crypto \<Rightarrow> validator_db \<Rightarrow> string \<Rightarrow> StorageProofRow \<Rightarrow> bool" where
  "proof_matches pc vq proof p \<longleftrightarrow> (\<exists>node sig key.
     GetRegisteredNodeByCometAddress vq (spr_address p) = Inr node \<and> \<not> cv_jailed node \<and>
     base64_decode (case spr_signature p of None \<Rightarrow> [] | Some s \<Rightarrow> s) = Some sig \<and>
     base64_decode (cv_comet_pub_key node) = Some key \<and> VerifySignature pc key proof sig)"

lemma match_proofs_nodes:
  "match_proofs pc vq proof ps ns peers = Inr (nodes, peers') \<Longrightarrow>
     nodes = ns @ map spr_address (filter (proof_matches pc vq proof) ps)"
proof (induction pc vq "proof" ps ns peers rule: match_proofs.induct)
  case (2 pc vqtx pr p ps nodes peers)
  then show ?case by (auto simp: proof_matches_def split: sum.splits if_splits option.splits)
qed simp

section \<open>Resolving\<close>

definition mark_proof :: "string \<Rightarrow> int \<Rightarrow> string list \<Rightarrow> string set \<Rightarrow> StorageProofRow \<Rightarrow> StorageProofRow" where
  "mark_proof proofStr height nodes addrs r =
     (if spr_height r = height \<and> spr_address r \<in> addrs
      then r\<lparr>spr_proof := Some proofStr,
             spr_status := if spr_address r \<in> set nodes then ProofStatusPass else ProofStatusFail\<rparr>
      else r)"

lemma mark_proof_keys [simp]:
  "spr_height (mark_proof s h ns as r) = spr_height r"
  "spr_address (mark_proof s h ns as r) = spr_address r"
  by (simp_all add: mark_proof_def)

lemma resolve_proofs_rows:
  "resolve_proofs q s height nodes ps peers = (None, q', peers') \<Longrightarrow>
     storage_proofs q' = map (mark_proof s height nodes (spr_address ` set ps)) (storage_proofs q)"
proof (induction q s height nodes ps peers rule: resolve_proofs.induct)
  case (1 q s height nodes peers)
  then show ?case by (simp add: mark_proof_def [abs_def])
next
  case (2 q s height nodes p ps peers)
  let ?st = "if spr_address p \<in> set nodes then ProofStatusPass else ProofStatusFail"
  from 2(2) obtain q1 where u: "UpdateStorageProof q (Some s) ?st height (spr_address p) = (None, q1)"
    and r: "resolve_proofs q1 s height nodes ps (AList.delete (spr_address p) peers) = (None, q', peers')"
    by (auto split: prod.splits option.splits)
  from u have "storage_proofs q1 = map (mark_proof s height nodes {spr_address p}) (storage_proofs q)"
    by (auto simp: UpdateStorageProof_def mark_proof_def split: option.splits)
  with 2(1) [OF u [symmetric] _ r] show ?case by (auto simp: mark_proof_def)
qed

lemma insert_missing_rows:
  "\<exists>extra. storage_proofs (insert_missing height half peers q) = storage_proofs q @ extra \<and>
     (\<forall>r\<in>set extra. spr_height r = height \<and> spr_status r = ProofStatusFail)"
  unfolding insert_missing_def
proof (induction peers arbitrary: q)
  case (Cons e peers)
  obtain peer vote where e: "e = (peer, vote)" by fastforce
  let ?q1 = "if vote > half then snd (InsertFailedStorageProof q height peer) else q"
  have "\<exists>x1. storage_proofs ?q1 = storage_proofs q @ x1 \<and>
      (\<forall>r\<in>set x1. spr_height r = height \<and> spr_status r = ProofStatusFail)"
    by (auto simp: InsertFailedStorageProof_def insert_proof_row_def split: option.splits)
  with Cons.IH [of ?q1] show ?case by (force simp: e)
qed simp

text \<open>The proofs of a challenge.\<close>

definition proofs_at :: "pos_db \<Rightarrow> int \<Rightarrow> StorageProofRow list" where
  "proofs_at q height = filter (\<lambda>r. spr_height r = height) (storage_proofs q)"

lemma verification_branches:
  assumes "finalizeStorageProofVerification pc vqtx q qtx spv height = (None, q')"
  obtains (unchanged) "q' = qtx"
    | (resolved) nodes peers q1 peers1 where
        "match_proofs pc vqtx (spv_Proof spv) (proofs_at qtx (spv_Height spv)) [] [] = Inr (nodes, peers)"
        "length (proofs_at qtx (spv_Height spv)) div 2 < length nodes"
        "resolve_proofs qtx (hex_encode (spv_Proof spv)) (spv_Height spv) nodes
           (proofs_at qtx (spv_Height spv)) peers = (None, q1, peers1)"
        "q' = insert_missing (spv_Height spv)
           (int (length (proofs_at qtx (spv_Height spv)) div 2)) peers1 q1"
        "isValidStorageProofVerificationTx q spv height = None"
proof (cases "match_proofs pc vqtx (spv_Proof spv) (proofs_at qtx (spv_Height spv)) [] []")
  case (Inl e)
  with assms unchanged show thesis
    by (auto simp: finalizeStorageProofVerification_def GetStorageProofs_def
        simp flip: proofs_at_def split: option.splits if_splits)
next
  case (Inr np)
  obtain nodes peers where np: "np = (nodes, peers)" by (cases np)
  obtain err q1 peers1 where r: "resolve_proofs qtx (hex_encode (spv_Proof spv)) (spv_Height spv) nodes
      (proofs_at qtx (spv_Height spv)) peers = (err, q1, peers1)"
    by (cases "resolve_proofs qtx (hex_encode (spv_Proof spv)) (spv_Height spv) nodes
      (proofs_at qtx (spv_Height spv)) peers")
  show thesis
  proof (cases "length (proofs_at qtx (spv_Height spv)) div 2 < length nodes \<and> q' \<noteq> qtx")
    case True
    then have "err = None \<and> isValidStorageProofVerificationTx q spv height = None \<and>
        q' = insert_missing (spv_Height spv) (int (length (proofs_at qtx (spv_Height spv)) div 2)) peers1 q1"
      using assms Inr np r
      by (auto simp: finalizeStorageProofVerification_def GetStorageProofs_def
          simp flip: proofs_at_def split: option.splits if_splits)
    with True Inr np r show thesis by (intro resolved [of nodes peers q1 peers1]) simp_all
  next
    case False
    have "q' = qtx"
    proof (rule ccontr)
      assume "q' \<noteq> qtx"
      with False have "\<not> length (proofs_at qtx (spv_Height spv)) div 2 < length nodes" by simp
      with assms Inr np \<open>q' \<noteq> qtx\<close> show False
        by (simp add: finalizeStorageProofVerification_def GetStorageProofs_def
            flip: proofs_at_def split: option.splits if_splits)
    qed
    then show thesis by (rule unchanged)
  qed
qed

lemma resolved_rows:
  assumes "match_proofs pc vqtx pr ps [] [] = Inr (nodes, peers)"
    and "resolve_proofs qtx s h nodes ps peers = (None, q1, peers1)"
    and "q' = insert_missing h half peers1 q1"
  obtains extra where
    "storage_proofs q' = map (mark_proof s h (map spr_address (filter (proof_matches pc vqtx pr) ps))
       (spr_address ` set ps)) (storage_proofs qtx) @ extra"
    "\<forall>r\<in>set extra. spr_height r = h \<and> spr_status r = ProofStatusFail"
proof -
  have n: "nodes = map spr_address (filter (proof_matches pc vqtx pr) ps)"
    using match_proofs_nodes [OF assms(1)] by simp
  have q1: "storage_proofs q1 = map (mark_proof s h nodes (spr_address ` set ps)) (storage_proofs qtx)"
    by (rule resolve_proofs_rows [OF assms(2)])
  from insert_missing_rows [of h half peers1 q1] obtain extra where
    e: "storage_proofs q' = storage_proofs q1 @ extra"
      "\<forall>r\<in>set extra. spr_height r = h \<and> spr_status r = ProofStatusFail"
    unfolding assms(3) by blast
  show thesis by (rule that [OF _ e(2)]) (simp add: e(1) q1 n)
qed

text \<open>
  C20: a verification changes the proofs of a challenge only when the
  plaintext matches the signatures of more than half of them; then exactly the provers that
  matched pass, all the others fail, and other challenges are untouched.
\<close>

theorem challenge_needs_majority:
  assumes "finalizeStorageProofVerification pc vqtx q qtx spv height = (None, q')"
    and "storage_proofs q' \<noteq> storage_proofs qtx"
  shows "length (proofs_at qtx (spv_Height spv)) <
      2 * length (filter (proof_matches pc vqtx (spv_Proof spv)) (proofs_at qtx (spv_Height spv))) \<and>
    (\<forall>r\<in>set (proofs_at qtx (spv_Height spv)).
       \<exists>r'\<in>set (proofs_at q' (spv_Height spv)). spr_address r' = spr_address r \<and>
         spr_status r' = (if \<exists>m\<in>set (proofs_at qtx (spv_Height spv)).
             spr_address m = spr_address r \<and> proof_matches pc vqtx (spv_Proof spv) m
           then ProofStatusPass else ProofStatusFail)) \<and>
    filter (\<lambda>r. spr_height r \<noteq> spv_Height spv) (storage_proofs q') =
      filter (\<lambda>r. spr_height r \<noteq> spv_Height spv) (storage_proofs qtx)"
proof -
  let ?h = "spv_Height spv" and ?m = "proof_matches pc vqtx (spv_Proof spv)"
  let ?ps = "proofs_at qtx ?h"
  let ?nodes = "map spr_address (filter ?m ?ps)"
  let ?mark = "mark_proof (hex_encode (spv_Proof spv)) ?h ?nodes (spr_address ` set ?ps)"
  from assms(1) obtain nodes peers q1 peers1 where
    m: "match_proofs pc vqtx (spv_Proof spv) ?ps [] [] = Inr (nodes, peers)"
    and maj: "length ?ps div 2 < length nodes"
    and r: "resolve_proofs qtx (hex_encode (spv_Proof spv)) ?h nodes ?ps peers = (None, q1, peers1)"
    and q': "q' = insert_missing ?h (int (length ?ps div 2)) peers1 q1"
    using assms(2) by (cases rule: verification_branches) auto
  have nodes: "nodes = ?nodes" using match_proofs_nodes [OF m] by simp
  obtain extra where rows: "storage_proofs q' = map ?mark (storage_proofs qtx) @ extra"
    and extra: "\<forall>r\<in>set extra. spr_height r = ?h \<and> spr_status r = ProofStatusFail"
    using resolved_rows [OF m r q'] by blast
  have "filter (\<lambda>r. spr_height r \<noteq> ?h) (map ?mark xs) = filter (\<lambda>r. spr_height r \<noteq> ?h) xs" for xs
    by (induction xs) (auto simp: mark_proof_def)
  then have others: "filter (\<lambda>r. spr_height r \<noteq> ?h) (storage_proofs q') =
      filter (\<lambda>r. spr_height r \<noteq> ?h) (storage_proofs qtx)"
    using rows extra by simp
  have "\<exists>r'\<in>set (proofs_at q' ?h). spr_address r' = spr_address r \<and>
      spr_status r' = (if \<exists>m\<in>set ?ps. spr_address m = spr_address r \<and> ?m m
        then ProofStatusPass else ProofStatusFail)" if r: "r \<in> set ?ps" for r
  proof (rule bexI [of _ "?mark r"])
    show "?mark r \<in> set (proofs_at q' ?h)" using r by (auto simp: proofs_at_def rows)
    have "spr_address r \<in> set ?nodes \<longleftrightarrow> (\<exists>m\<in>set ?ps. spr_address m = spr_address r \<and> ?m m)"
      by (auto simp: image_iff)
    moreover have "spr_height r = ?h" using r by (simp add: proofs_at_def)
    ultimately show "spr_address (?mark r) = spr_address r \<and> spr_status (?mark r) =
        (if \<exists>m\<in>set ?ps. spr_address m = spr_address r \<and> ?m m then ProofStatusPass else ProofStatusFail)"
      using r by (simp add: mark_proof_def del: set_map set_filter)
  qed
  moreover have "length ?ps < 2 * length (filter ?m ?ps)" using maj nodes by simp
  ultimately show ?thesis using others by blast
qed

text \<open>Validators A and B signed the plaintext, a third prover did not.\<close>

definition ex_pos_crypto :: pos_crypto where
  "ex_pos_crypto = \<lparr>marshal_proof = (\<lambda>_. Some ''proof''),
     VerifySignature = (\<lambda>key proof sig. sig = ''s'' @ proof)\<rparr>"

definition ex_proof_row :: "string \<Rightarrow> string \<Rightarrow> StorageProofRow" where
  "ex_proof_row addr sig = \<lparr>spr_height = 40, spr_address = addr, spr_cid = Some ''cid'',
     spr_signature = Some (base64_encode sig), spr_proof = None, spr_provers = [''A'', ''B'', ''D''],
     spr_status = ProofStatusUnresolved\<rparr>"

definition ex_pos_vdb :: validator_db where
  "ex_pos_vdb = \<lparr>core_validators = [ex_validator ''0xa'' ''A'' False, ex_validator ''0xb'' ''B'' False,
      ex_validator ''0xc'' ''C'' False],
     validator_history = [], val_fault = (\<lambda>_. None)\<rparr>"

definition ex_pos_db :: pos_db where
  "ex_pos_db = \<lparr>core_block_hashes = [(40, ''AB10'')],
     storage_proofs = [ex_proof_row ''A'' ''sp'', ex_proof_row ''B'' ''sp'', ex_proof_row ''C'' ''sx''],
     storage_proof_peers = [], pos_fault = (\<lambda>_. None)\<rparr>"

definition ex_verification :: StorageProofVerification where
  "ex_verification = \<lparr>spv_Height = 40, spv_Proof = ''p''\<rparr>"

theorem challenge_needs_majority_witness:
  "length (proofs_at ex_pos_db 40) <
     2 * length (filter (proof_matches ex_pos_crypto ex_pos_vdb ''p'') (proofs_at ex_pos_db 40)) \<and>
   map (\<lambda>r. (spr_address r, spr_status r))
     (storage_proofs (snd (finalizeStorageProofVerification ex_pos_crypto ex_pos_vdb ex_pos_db ex_pos_db
        ex_verification 43))) =
     [(''A'', ProofStatusPass), (''B'', ProofStatusPass), (''C'', ProofStatusFail), (''D'', ProofStatusFail)]"
proof -
  let ?f = "finalizeStorageProofVerification ex_pos_crypto ex_pos_vdb ex_pos_db ex_pos_db ex_verification 43"
  have e: "fst ?f = None" by code_simp
  have st: "map (\<lambda>r. (spr_address r, spr_status r)) (storage_proofs (snd ?f)) =
     [(''A'', ProofStatusPass), (''B'', ProofStatusPass), (''C'', ProofStatusFail), (''D'', ProofStatusFail)]"
    by code_simp
  have "?f = (None, snd ?f)" using e by (simp add: prod_eq_iff)
  moreover have "length (map (\<lambda>r. (spr_address r, spr_status r)) (storage_proofs (snd ?f))) = 4"
    unfolding st by simp
  then have "storage_proofs (snd ?f) \<noteq> storage_proofs ex_pos_db" by (auto simp: ex_pos_db_def)
  ultimately have "length (proofs_at ex_pos_db (spv_Height ex_verification)) <
     2 * length (filter (proof_matches ex_pos_crypto ex_pos_vdb (spv_Proof ex_verification))
       (proofs_at ex_pos_db (spv_Height ex_verification)))"
    by (rule challenge_needs_majority [THEN conjunct1])
  with st show ?thesis by (simp add: ex_verification_def)
qed

section \<open>Windows\<close>

text \<open>
  The block that accepts a proof of storage always comes before
  the block that resolves its challenge, whatever the states the two are checked on.
\<close>

theorem proofs_close_before_resolution:
  assumes "isValidStorageProofTx cr pc vq q tx h1 enforce = None"
    and "isValidStorageProofVerificationTx q' spv h2 = None"
    and "spv_Height spv = sp_Height (stx_Body tx)"
  shows "h1 < h2"
proof -
  from assms(1) have "h1 - sp_Height (stx_Body tx) \<le> posChallengeDeadline"
    by (auto simp: isValidStorageProofTx_def Let_def split: if_splits option.splits prod.splits sum.splits)
  moreover from assms(2) have "posChallengeDeadline < h2 - spv_Height spv"
    by (auto simp: isValidStorageProofVerificationTx_def split: if_splits)
  ultimately show ?thesis using assms(3) by simp
qed

definition ex_storage_proof :: "string \<Rightarrow> StorageProof signed" where
  "ex_storage_proof addr = \<lparr>stx_Signature = hex_encode ''0xc'', stx_RequestId = [], stx_Body =
     \<lparr>sp_Height = 40, sp_Address = addr, sp_ProverAddresses = [''A''], sp_Cid = ''cid'',
      sp_ProofSignature = ''sp''\<rparr>\<rparr>"

theorem proofs_close_before_resolution_witness: "(42::int) < 43"
proof (rule proofs_close_before_resolution)
  show "isValidStorageProofTx ex_crypto ex_pos_crypto ex_pos_vdb ex_pos_db (ex_storage_proof ''C'') 42 True = None"
    by code_simp
  show "isValidStorageProofVerificationTx ex_pos_db ex_verification 43 = None" by code_simp
  show "spv_Height ex_verification = sp_Height (stx_Body (ex_storage_proof ''C''))"
    by (simp add: ex_verification_def ex_storage_proof_def)
qed

section \<open>Addresses in another case\<close>

lemma unknown_comet_address:
  "\<forall>r\<in>set (core_validators vq). cv_comet_address r \<noteq> addr \<Longrightarrow>
     \<exists>e. GetRegisteredNodeByCometAddress vq addr = Inl e"
  by (auto simp: GetRegisteredNodeByCometAddress_def val_first_def find_None_iff [THEN iffD2] split: option.split)

lemma match_proofs_unknown:
  assumes unknown: "\<forall>r\<in>set (core_validators vq). cv_comet_address r \<noteq> spr_address p"
  shows "p \<in> set ps \<Longrightarrow> \<exists>e. match_proofs pc vq pr ps ns peers = Inl e"
proof (induction ps arbitrary: ns peers)
  case (Cons p0 ps)
  show ?case
  proof (cases "p = p0")
    case True
    with unknown_comet_address [OF unknown] show ?thesis by auto
  next
    case False
    with Cons.prems have "\<exists>e. match_proofs pc vq pr ps ns peers = Inl e" for ns peers
      by (intro Cons.IH) simp
    then show ?thesis by (auto split: sum.split option.split)
  qed
qed simp

text \<open>
  A stored proof whose address no validator has, letter for
  letter, keeps its challenge from ever being resolved: every verification leaves all proofs as
  they are. Validation compares the address of a proof with the validator's only up to case and
  the proof is stored as it was sent, so a single validator can do this.
\<close>

theorem unknown_prover_blocks_challenge:
  assumes "p \<in> set (storage_proofs qtx)"
    and "\<forall>r\<in>set (core_validators vqtx). cv_comet_address r \<noteq> spr_address p"
    and "spr_height p = spv_Height spv"
  shows "snd (finalizeStorageProofVerification pc vqtx q qtx spv height) = qtx"
proof -
  have "p \<in> set (filter (\<lambda>r. spr_height r = spv_Height spv) (storage_proofs qtx))"
    using assms by simp
  from match_proofs_unknown [OF assms(2) this] obtain e where
    "match_proofs pc vqtx (spv_Proof spv)
      (filter (\<lambda>r. spr_height r = spv_Height spv) (storage_proofs qtx)) [] [] = Inl e" by blast
  then show ?thesis
    by (simp add: finalizeStorageProofVerification_def GetStorageProofs_def split: option.split)
qed

text \<open>Validator C submits its proof under the lower case spelling of its address.\<close>

definition ex_two_proofs :: pos_db where
  "ex_two_proofs = ex_pos_db\<lparr>storage_proofs := [ex_proof_row ''A'' ''sp'', ex_proof_row ''B'' ''sp'']\<rparr>"

definition ex_recased :: pos_db where
  "ex_recased = snd (finalizeStorageProof ex_crypto ex_pos_crypto ex_pos_vdb ex_pos_db ex_two_proofs
     (ex_storage_proof ''c'') 42)"

theorem unknown_prover_blocks_challenge_witness:
  "snd (finalizeStorageProofVerification ex_pos_crypto ex_pos_vdb ex_pos_db ex_recased ex_verification 43) =
     ex_recased \<and>
   fst (finalizeStorageProof ex_crypto ex_pos_crypto ex_pos_vdb ex_pos_db ex_two_proofs
     (ex_storage_proof ''c'') 42) = None"
proof
  have rows: "storage_proofs ex_recased = storage_proofs ex_two_proofs @
      [\<lparr>spr_height = 40, spr_address = ''c'', spr_cid = Some ''cid'', spr_signature = Some (base64_encode ''sp''),
        spr_proof = None, spr_provers = [''A''], spr_status = ProofStatusUnresolved\<rparr>]"
    (is "_ = _ @ [?p]") by code_simp
  show "snd (finalizeStorageProofVerification ex_pos_crypto ex_pos_vdb ex_pos_db ex_recased
      ex_verification 43) = ex_recased"
    by (rule unknown_prover_blocks_challenge [of ?p])
      (simp_all add: rows ex_verification_def ex_pos_vdb_def ex_validator_def)
  show "fst (finalizeStorageProof ex_crypto ex_pos_crypto ex_pos_vdb ex_pos_db ex_two_proofs
      (ex_storage_proof ''c'') 42) = None" by code_simp
qed

end
