(* ===== verification/Reward_Claims.thy ===== *)
theory Reward_Claims
  imports Signing "HOL-Library.Char_ord" "HOL-Library.List_Lexorder"
begin

text \<open>
  Reward claims, \<^verbatim>\<open>pkg/rewards\<close>: the bytes a node attests for a claim
  (\<^verbatim>\<open>reward_claim.go\<close>), the checks before it does (\<^verbatim>\<open>reward_attester.go\<close>), the
  canonical form of a set of authorities (\<^verbatim>\<open>reward_pool.go\<close>) and the handler that serves an
  attestation (\<^verbatim>\<open>getRewardAttestation\<close> in \<^verbatim>\<open>pkg/core/server/rewards.go\<close>). Amounts
  are \<^typ>\<open>int\<close> with the bounds of \<^verbatim>\<open>uint64\<close> written out where they matter.
\<close>

section \<open>Claims\<close>

record RewardClaim =
  RecipientEthAddress :: string
  rc_Amount :: int
  rc_RewardID :: string
  RewardAddress :: string
  rc_Specifier :: string
  rc_ClaimAuthority :: string
  Decimals :: int

datatype claim_error =
    DecimalsTooLarge
  | AmountOverflows
  | BadRecipient
  | BadOracle
  | BadClaimSignature
  | SignFailed
  | RewardNotFound
  | MissingRecipient
  | MissingSpecifier
  | MissingAmount
  | AmountExceedsReward
  | NotAClaimAuthority

definition combinedID :: "RewardClaim \<Rightarrow> string" where
  "combinedID claim = (if RewardAddress claim \<noteq> []
     then RewardAddress claim @ '':'' @ rc_RewardID claim @ '':'' @ rc_Specifier claim
     else rc_RewardID claim @ '':'' @ rc_Specifier claim)"

definition claim_decimals :: "RewardClaim \<Rightarrow> int" where
  "claim_decimals claim = (if Decimals claim = 0 then 8 else Decimals claim)"

definition scaled_amount :: "RewardClaim \<Rightarrow> int" where
  "scaled_amount claim = rc_Amount claim * 10 ^ nat (claim_decimals claim)"

definition Compile :: "RewardClaim \<Rightarrow> claim_error + string" where
  "Compile claim =
     (if claim_decimals claim > 18 then Inl DecimalsTooLarge
      else if \<not> (0 \<le> scaled_amount claim \<and> scaled_amount claim < 2 ^ 64) then Inl AmountOverflows
      else (case hex_decode (TrimPrefix_0x (RecipientEthAddress claim)) of
          None \<Rightarrow> Inl BadRecipient
        | Some userBytes \<Rightarrow>
          (let front = userBytes @ ''_'' @ le_uint64 (scaled_amount claim) @ ''_'' @ combinedID claim in
           if rc_ClaimAuthority claim = [] then Inr front
           else (case hex_decode (TrimPrefix_0x (rc_ClaimAuthority claim)) of
               None \<Rightarrow> Inl BadOracle
             | Some oracleBytes \<Rightarrow> Inr (front @ ''_'' @ oracleBytes)))))"

definition SignClaim :: "'z prims_scheme \<Rightarrow> RewardClaim \<Rightarrow> string \<Rightarrow> claim_error + string" where
  "SignClaim pr claim privateKey = (case Compile claim of
     Inl e \<Rightarrow> Inl e
   | Inr claimData \<Rightarrow>
     (case ecdsa_Sign pr (Keccak256 pr claimData) privateKey of
        None \<Rightarrow> Inl SignFailed
      | Some signatureBytes \<Rightarrow> Inr (''0x'' @ hex_encode signatureBytes)))"

definition VerifyClaim :: "'z prims_scheme \<Rightarrow> RewardClaim \<Rightarrow> string \<Rightarrow> claim_error + string" where
  "VerifyClaim pr claim signature = (case Compile claim of
     Inl e \<Rightarrow> Inl e
   | Inr claimData \<Rightarrow>
     (case hex_decode (TrimPrefix_0x signature) of
        None \<Rightarrow> Inl BadClaimSignature
      | Some sigBytes \<Rightarrow>
        (case SigToPub pr (Keccak256 pr claimData) sigBytes of
           None \<Rightarrow> Inl BadClaimSignature
         | Some pubKey \<Rightarrow> Inr (PubkeyToAddress_Hex pr pubKey))))"

section \<open>Attester\<close>

record ClaimAuthority =
  ca_Address :: string
  ca_Name :: string

record Reward =
  ClaimAuthorities :: "ClaimAuthority list"
  reward_Amount :: int
  RewardId :: string
  reward_Name :: string

record RewardAttester =
  EthereumAddress :: string
  EthereumKey :: string
  Rewards :: "Reward list"

definition getRewardById :: "RewardAttester \<Rightarrow> string \<Rightarrow> Reward option" where
  "getRewardById rs rewardID = find (\<lambda>reward. RewardId reward = rewardID) (Rewards rs)"

definition Validate :: "RewardAttester \<Rightarrow> RewardClaim \<Rightarrow> claim_error option" where
  "Validate rs claim = (case getRewardById rs (rc_RewardID claim) of
     None \<Rightarrow> Some RewardNotFound
   | Some reward \<Rightarrow>
     if RecipientEthAddress claim = [] then Some MissingRecipient
     else if rc_Specifier claim = [] then Some MissingSpecifier
     else if rc_Amount claim = 0 then Some MissingAmount
     else if rc_Amount claim > reward_Amount reward then Some AmountExceedsReward
     else None)"

definition validClaimAuthority :: "ClaimAuthority list \<Rightarrow> string \<Rightarrow> bool" where
  "validClaimAuthority claimAuthorities address =
     list_ex (\<lambda>authority. EqualFold (ca_Address authority) address) claimAuthorities"

definition Authenticate :: "'z prims_scheme \<Rightarrow> RewardAttester \<Rightarrow> RewardClaim \<Rightarrow> string \<Rightarrow> claim_error option" where
  "Authenticate pr rs claim signature = (case getRewardById rs (rc_RewardID claim) of
     None \<Rightarrow> Some RewardNotFound
   | Some reward \<Rightarrow>
     (case VerifyClaim pr claim signature of
        Inl e \<Rightarrow> Some e
      | Inr recoveredSigner \<Rightarrow>
        if \<not> validClaimAuthority (ClaimAuthorities reward) recoveredSigner then Some NotAClaimAuthority
        else None))"

definition Attest :: "'z prims_scheme \<Rightarrow> RewardAttester \<Rightarrow> RewardClaim \<Rightarrow> claim_error + string \<times> string" where
  "Attest pr rs claim = (case Compile claim of
     Inl e \<Rightarrow> Inl e
   | Inr claimData \<Rightarrow>
     (case ecdsa_Sign pr (Keccak256 pr claimData) (EthereumKey rs) of
        None \<Rightarrow> Inl SignFailed
      | Some signatureBytes \<Rightarrow> Inr (claimData, ''0x'' @ hex_encode signatureBytes)))"

section \<open>The attestation endpoint\<close>

text \<open>\<^verbatim>\<open>strconv.ParseUint(s, 10, 64)\<close>.\<close>

definition ParseUint64 :: "string \<Rightarrow> int option" where
  "ParseUint64 s = (if s = [] \<or> \<not> list_all is_digit s then None
     else if decimal s < 2 ^ 64 then Some (decimal s) else None)"

record attestation_query =
  q_eth_recipient_address :: string
  q_reward_id :: string
  q_specifier :: string
  q_oracle_address :: string
  q_signature :: string
  q_amount :: string

datatype attestation_response =
    BadRequest
  | Unauthorized
  | InternalServerError
  | Attested string string

definition query_claim :: "attestation_query \<Rightarrow> int \<Rightarrow> RewardClaim" where
  "query_claim c amountUint = \<lparr>RecipientEthAddress = q_eth_recipient_address c, rc_Amount = amountUint,
     rc_RewardID = q_reward_id c, RewardAddress = [], rc_Specifier = q_specifier c,
     rc_ClaimAuthority = q_oracle_address c, Decimals = 0\<rparr>"

definition getRewardAttestation ::
  "'z prims_scheme \<Rightarrow> RewardAttester \<Rightarrow> attestation_query \<Rightarrow> attestation_response" where
  "getRewardAttestation pr rs c =
     (if q_eth_recipient_address c = [] then BadRequest
      else if q_reward_id c = [] then BadRequest
      else if q_specifier c = [] then BadRequest
      else if q_oracle_address c = [] then BadRequest
      else if q_signature c = [] then BadRequest
      else if q_amount c = [] then BadRequest
      else (case ParseUint64 (q_amount c) of
          None \<Rightarrow> BadRequest
        | Some amountUint \<Rightarrow>
          (let claim = query_claim c amountUint in
           case Validate rs claim of
             Some _ \<Rightarrow> BadRequest
           | None \<Rightarrow>
             (case Authenticate pr rs claim (q_signature c) of
                Some _ \<Rightarrow> Unauthorized
              | None \<Rightarrow>
                (case Attest pr rs claim of
                   Inl _ \<Rightarrow> InternalServerError
                 | Inr (_, attestation) \<Rightarrow> Attested (EthereumAddress rs) attestation)))))"

section \<open>Authorities\<close>

fun collect_authorities :: "string list \<Rightarrow> string list \<Rightarrow> string list" where
  "collect_authorities out [] = out"
| "collect_authorities out (a # as) = (let a' = ToLower (TrimSpace a) in
     if a' = [] then collect_authorities out as
     else if a' \<in> set out then collect_authorities out as
     else collect_authorities (out @ [a']) as)"

definition CanonicalAuthorities :: "string list \<Rightarrow> string list" where
  "CanonicalAuthorities authorities = sort (collect_authorities [] authorities)"

lemma set_collect_authorities:
  "set (collect_authorities out as) = set out \<union> (\<lambda>a. ToLower (TrimSpace a)) ` set as - {[]} \<union> (set out \<inter> {[]})"
  by (induction out as rule: collect_authorities.induct) (auto simp: Let_def)

lemma distinct_collect_authorities: "distinct out \<Longrightarrow> distinct (collect_authorities out as)"
  by (induction out as rule: collect_authorities.induct) (auto simp: Let_def)

lemma CanonicalAuthorities_set: "set (CanonicalAuthorities as) = (\<lambda>a. ToLower (TrimSpace a)) ` set as - {[]}"
  by (simp add: CanonicalAuthorities_def set_collect_authorities)

lemma CanonicalAuthorities_distinct: "distinct (CanonicalAuthorities as)" "sorted (CanonicalAuthorities as)"
  by (simp_all add: CanonicalAuthorities_def distinct_collect_authorities)

text \<open>The canonical form depends on the set of addresses only.\<close>

lemma CanonicalAuthorities_cong: "set as = set bs \<Longrightarrow> CanonicalAuthorities as = CanonicalAuthorities bs"
  by (rule sorted_distinct_set_unique)
    (simp_all add: CanonicalAuthorities_distinct CanonicalAuthorities_set)

section \<open>Properties\<close>

lemma decimal_nonneg: "list_all is_digit ds \<Longrightarrow> 0 \<le> decimal ds"
proof -
  have "0 \<le> n \<Longrightarrow> list_all is_digit ds \<Longrightarrow> 0 \<le> foldl (\<lambda>n c. 10 * n + (of_char c - 48)) n ds" for n :: int
    by (induction ds arbitrary: n) (auto simp: is_digit_def)
  then show "list_all is_digit ds \<Longrightarrow> 0 \<le> decimal ds" by (simp add: decimal_def)
qed

lemma Compile_cases:
  assumes "Compile claim = Inr b"
  obtains userBytes rest where
    "hex_decode (TrimPrefix_0x (RecipientEthAddress claim)) = Some userBytes"
    "0 \<le> scaled_amount claim" "scaled_amount claim < 2 ^ 64" "claim_decimals claim \<le> 18"
    "b = userBytes @ ''_'' @ le_uint64 (scaled_amount claim) @ ''_'' @ rest"
  using assms by (auto simp: Compile_def Let_def split: if_splits option.splits)

text \<open>
  The bytes a node attests for a claim to a 20-byte address name
  exactly one recipient and exactly one amount, the claimed one scaled by the decimals without
  wrap-around: two claims with the same bytes pay the same address the same amount.
\<close>

theorem claim_bytes_determine_payment:
  assumes "Compile claim = Inr b" "Compile claim' = Inr b"
    and "hex_decode (TrimPrefix_0x (RecipientEthAddress claim)) = Some user" "length user = 20"
    and "hex_decode (TrimPrefix_0x (RecipientEthAddress claim')) = Some user'" "length user' = 20"
  shows "user = user' \<and> scaled_amount claim = scaled_amount claim' \<and>
    take 20 b = user \<and> le_value (take 8 (drop 21 b)) = rc_Amount claim * 10 ^ nat (claim_decimals claim)"
proof -
  from assms(1,3) obtain rest where a: "0 \<le> scaled_amount claim" "scaled_amount claim < 2 ^ 64"
    and b: "b = user @ ''_'' @ le_uint64 (scaled_amount claim) @ ''_'' @ rest"
    by (auto elim: Compile_cases)
  from assms(2,5) obtain rest' where a': "0 \<le> scaled_amount claim'" "scaled_amount claim' < 2 ^ 64"
    and b': "b = user' @ ''_'' @ le_uint64 (scaled_amount claim') @ ''_'' @ rest'"
    by (auto elim: Compile_cases)
  from b b' assms(4,6) have "user = user'" "le_uint64 (scaled_amount claim) = le_uint64 (scaled_amount claim')"
    by simp_all
  moreover have "take 20 b = user" "take 8 (drop 21 b) = le_uint64 (scaled_amount claim)"
    using b assms(4) by (simp_all add: drop_Cons')
  ultimately show ?thesis
    using le_value_le_uint64 [OF a] le_value_le_uint64 [OF a'] by (simp add: scaled_amount_def)
qed

definition ex_claim :: RewardClaim where
  "ex_claim = \<lparr>RecipientEthAddress = ''0x'' @ hex_encode (replicate 20 CHR ''u''), rc_Amount = 5,
     rc_RewardID = ''r'', RewardAddress = [], rc_Specifier = ''s'', rc_ClaimAuthority = [], Decimals = 6\<rparr>"

theorem claim_bytes_determine_payment_witness:
  "\<exists>b. Compile ex_claim = Inr b \<and> le_value (take 8 (drop 21 b)) = 5000000"
proof -
  have c: "hex_decode (TrimPrefix_0x (RecipientEthAddress ex_claim)) = Some (replicate 20 CHR ''u'')"
    by (simp add: ex_claim_def TrimPrefix_0x_def has_0x_def)
  have "Compile ex_claim = Inr (replicate 20 CHR ''u'' @ ''_'' @ le_uint64 5000000 @ ''_r:s'')"
    using c by (simp add: Compile_def Let_def scaled_amount_def claim_decimals_def combinedID_def) (simp add: ex_claim_def)
  from claim_bytes_determine_payment [OF this this c _ c] this show ?thesis
    by (simp add: ex_claim_def claim_decimals_def)
qed

text \<open>
  C27: the endpoint signs a claim only if its reward is configured, its
  amount is positive and within the configured amount, and the request carries a signature of one
  of the reward's claim authorities over the very bytes that are attested.
\<close>

theorem attested_claims_authorized:
  assumes "getRewardAttestation pr rs c = Attested owner attestation"
  shows "\<exists>amount reward claimData signer.
    ParseUint64 (q_amount c) = Some amount \<and>
    getRewardById rs (q_reward_id c) = Some reward \<and> 0 < amount \<and> amount \<le> reward_Amount reward \<and>
    Compile (query_claim c amount) = Inr claimData \<and>
    VerifyClaim pr (query_claim c amount) (q_signature c) = Inr signer \<and>
    validClaimAuthority (ClaimAuthorities reward) signer \<and>
    map_option (\<lambda>s. ''0x'' @ hex_encode s) (ecdsa_Sign pr (Keccak256 pr claimData) (EthereumKey rs)) =
      Some attestation"
proof -
  from assms obtain amount where p: "ParseUint64 (q_amount c) = Some amount"
    and v: "Validate rs (query_claim c amount) = None"
    and au: "Authenticate pr rs (query_claim c amount) (q_signature c) = None"
    and at: "\<exists>claimData. Attest pr rs (query_claim c amount) = Inr (claimData, attestation)"
    by (auto simp: getRewardAttestation_def Let_def split: if_splits option.splits sum.splits prod.splits)
  from p have "0 \<le> amount" by (auto simp: ParseUint64_def decimal_nonneg split: if_splits)
  moreover obtain reward where "getRewardById rs (q_reward_id c) = Some reward" "amount \<noteq> 0"
    "amount \<le> reward_Amount reward"
    using v by (auto simp: Validate_def query_claim_def split: option.splits if_splits)
  moreover then obtain signer where "VerifyClaim pr (query_claim c amount) (q_signature c) = Inr signer"
    "validClaimAuthority (ClaimAuthorities reward) signer"
    using au by (auto simp: Authenticate_def query_claim_def split: option.splits sum.splits if_splits)
  moreover obtain claimData where "Compile (query_claim c amount) = Inr claimData"
    "map_option (\<lambda>s. ''0x'' @ hex_encode s) (ecdsa_Sign pr (Keccak256 pr claimData) (EthereumKey rs)) =
      Some attestation"
    using at by (auto simp: Attest_def split: sum.splits option.splits)
  ultimately show ?thesis using p by (metis order_le_less)
qed

definition ex_attester :: RewardAttester where
  "ex_attester = \<lparr>EthereumAddress = ''0xnode'', EthereumKey = ''nodekey'', Rewards =
     [\<lparr>ClaimAuthorities = [\<lparr>ca_Address = ''AUTH'', ca_Name = []\<rparr>], reward_Amount = 10,
       RewardId = ''r'', reward_Name = []\<rparr>]\<rparr>"

definition ex_query :: attestation_query where
  "ex_query = \<lparr>q_eth_recipient_address = hex_encode (replicate 20 CHR ''u''), q_reward_id = ''r'',
     q_specifier = ''s'', q_oracle_address = ''0xab'', q_signature = ''0x'' @ hex_encode ''auth'',
     q_amount = ''7''\<rparr>"

theorem attested_claims_authorized_witness:
  "\<exists>reward. getRewardById ex_attester ''r'' = Some reward \<and> 7 \<le> reward_Amount reward"
proof -
  have "getRewardAttestation ex_prims ex_attester ex_query =
      Attested ''0xnode'' (''0x'' @ hex_encode ''nodekey'')" by code_simp
  from attested_claims_authorized [OF this] obtain amount reward where
    "ParseUint64 (q_amount ex_query) = Some amount" "getRewardById ex_attester (q_reward_id ex_query) = Some reward"
    "amount \<le> reward_Amount reward" by blast
  moreover have "ParseUint64 (q_amount ex_query) = Some 7" by code_simp
  ultimately show ?thesis by (auto simp: ex_query_def)
qed

end
