(* ===== verification/Reward_State.thy ===== *)
theory Reward_State
  imports Reward_Claims "HOL-Library.Product_Lexorder"
begin

text \<open>
  Rewards and reward pools on chain: \<^verbatim>\<open>pkg/core/server/rewards.go\<close>,
  \<^verbatim>\<open>reward_pools.go\<close>, the replay of the retired wire format (\<^verbatim>\<open>rewards_legacy.go\<close>
  and \<^verbatim>\<open>pkg/common/legacy_reward_signing.go\<close>) and the projection of the genesis writer
  (\<^verbatim>\<open>reward_state.go\<close>), over the tables \<^verbatim>\<open>core_rewards\<close>,
  \<^verbatim>\<open>core_reward_pools\<close> and \<^verbatim>\<open>launchpad_authority_rm\<close>. Validation reads the
  committed tables, finalization the block's transaction: both are passed explicitly. Which
  statements fail is the field \<open>rw_fault\<close>; text is ordered by bytes.
\<close>

section \<open>Tables\<close>

record reward_row =
  rw_address :: string
  rw_index :: int
  rw_tx_hash :: string
  rw_sender :: string
  rw_reward_id :: string
  rw_name :: string
  rw_amount :: int
  rw_rewards_manager_pubkey :: "string option"
  rw_raw_message :: string
  rw_block_height :: int

datatype reward_stmt =
    R_GetReward string
  | R_GetRewardPool string
  | R_GetLaunchpadRM "string list"
  | R_InsertRewardPool string
  | R_UpdateRewardPool string
  | R_UpsertRewardPool string
  | R_InsertCoreReward string
  | R_DeleteCoreReward string

record reward_db =
  core_rewards :: "reward_row list"
  core_reward_pools :: "(string, string list) table"
  launchpad_authority_rm :: "(string, string) table"
  rw_fault :: "reward_stmt \<Rightarrow> pg_error option"

definition rw_exec :: "reward_db \<Rightarrow> reward_stmt \<Rightarrow> reward_db \<Rightarrow> pg_error option \<times> reward_db" where
  "rw_exec q stmt q' = (case rw_fault q stmt of Some e \<Rightarrow> (Some e, q) | None \<Rightarrow> (None, q'))"

text \<open>The row \<^verbatim>\<open>order by block_height desc limit 1\<close> returns; the first one inserted among equals.\<close>

fun latest_reward :: "reward_row list \<Rightarrow> reward_row option" where
  "latest_reward [] = None"
| "latest_reward (r # rs) = (case latest_reward rs of
     None \<Rightarrow> Some r
   | Some r' \<Rightarrow> if rw_block_height r' > rw_block_height r then Some r' else Some r)"

text \<open>The authorities a reward is joined with, none when it has no pool.\<close>

definition claim_authorities :: "reward_db \<Rightarrow> reward_row \<Rightarrow> string list" where
  "claim_authorities q r = (case rw_rewards_manager_pubkey r of
     None \<Rightarrow> []
   | Some rm \<Rightarrow> (case map_of (core_reward_pools q) rm of None \<Rightarrow> [] | Some as \<Rightarrow> as))"

definition GetReward :: "reward_db \<Rightarrow> string \<Rightarrow> query_error + reward_row \<times> string list" where
  "GetReward q address = (case rw_fault q (R_GetReward address) of
     Some e \<Rightarrow> Inl (QueryFailed e)
   | None \<Rightarrow> (case latest_reward (filter (\<lambda>r. rw_address r = address) (core_rewards q)) of
       None \<Rightarrow> Inl ErrNoRows
     | Some r \<Rightarrow> Inr (r, claim_authorities q r)))"

definition GetRewardPool :: "reward_db \<Rightarrow> string \<Rightarrow> query_error + string list" where
  "GetRewardPool q rm = (case rw_fault q (R_GetRewardPool rm) of
     Some e \<Rightarrow> Inl (QueryFailed e)
   | None \<Rightarrow> (case map_of (core_reward_pools q) rm of None \<Rightarrow> Inl ErrNoRows | Some as \<Rightarrow> Inr as))"

definition GetLaunchpadRMByAuthority :: "reward_db \<Rightarrow> string list \<Rightarrow> query_error + string" where
  "GetLaunchpadRMByAuthority q addrs = (case rw_fault q (R_GetLaunchpadRM addrs) of
     Some e \<Rightarrow> Inl (QueryFailed e)
   | None \<Rightarrow>
     (case sort (map prod.swap (filter (\<lambda>(a, rm). a \<in> set addrs) (launchpad_authority_rm q))) of
        [] \<Rightarrow> Inl ErrNoRows
      | (rm, _) # _ \<Rightarrow> Inr rm))"

definition InsertRewardPool :: "reward_db \<Rightarrow> string \<Rightarrow> string list \<Rightarrow> pg_error option \<times> reward_db" where
  "InsertRewardPool q rm authorities = (case rw_fault q (R_InsertRewardPool rm) of
     Some e \<Rightarrow> (Some e, q)
   | None \<Rightarrow>
     if map_of (core_reward_pools q) rm \<noteq> None then (Some unique_violation, q)
     else (None, q\<lparr>core_reward_pools := (rm, authorities) # core_reward_pools q\<rparr>))"

definition UpdateRewardPoolAuthorities :: "reward_db \<Rightarrow> string \<Rightarrow> string list \<Rightarrow> pg_error option \<times> reward_db" where
  "UpdateRewardPoolAuthorities q rm authorities = rw_exec q (R_UpdateRewardPool rm)
     (q\<lparr>core_reward_pools := update_existing rm (\<lambda>_. authorities) (core_reward_pools q)\<rparr>)"

definition sql_trim :: "string \<Rightarrow> string" where
  "sql_trim s = rev (dropWhile (\<lambda>c. c = CHR '' '') (rev (dropWhile (\<lambda>c. c = CHR '' '') s)))"

definition union_authorities :: "string list \<Rightarrow> string list \<Rightarrow> string list" where
  "union_authorities old new =
     sort (remdups (map (\<lambda>a. ToLower (sql_trim a)) (filter (\<lambda>a. sql_trim a \<noteq> []) (old @ new))))"

definition UpsertLegacyReplayRewardPool :: "reward_db \<Rightarrow> string \<Rightarrow> string list \<Rightarrow> pg_error option \<times> reward_db" where
  "UpsertLegacyReplayRewardPool q rm authorities = rw_exec q (R_UpsertRewardPool rm)
     (case map_of (core_reward_pools q) rm of
        None \<Rightarrow> q\<lparr>core_reward_pools := (rm, authorities) # core_reward_pools q\<rparr>
      | Some old \<Rightarrow> q\<lparr>core_reward_pools := update_existing rm (\<lambda>_. union_authorities old authorities)
          (core_reward_pools q)\<rparr>)"

definition InsertCoreReward :: "reward_db \<Rightarrow> reward_row \<Rightarrow> pg_error option \<times> reward_db" where
  "InsertCoreReward q r = rw_exec q (R_InsertCoreReward (rw_address r))
     (q\<lparr>core_rewards := core_rewards q @ [r]\<rparr>)"

definition DeleteCoreReward :: "reward_db \<Rightarrow> string \<Rightarrow> pg_error option \<times> reward_db" where
  "DeleteCoreReward q address = rw_exec q (R_DeleteCoreReward address)
     (q\<lparr>core_rewards := filter (\<lambda>r. rw_address r \<noteq> address) (core_rewards q)\<rparr>)"

section \<open>Messages\<close>

record CreateReward =
  cr_RewardId :: string
  cr_Name :: string
  cr_Amount :: int
  cr_RewardsManagerPubkey :: string

record DeleteReward =
  dr_Address :: string

datatype RewardAction =
    RewardBody_Create CreateReward
  | RewardBody_Delete DeleteReward

record RewardBody =
  rb_DeadlineBlockHeight :: int
  rb_Action :: "RewardAction option"

text \<open>\<open>rm_unknown\<close> are the fields of the wire message that the current type does not have.\<close>

record RewardMessage =
  rm_Body :: "RewardBody option"
  rm_Signature :: string
  rm_unknown :: string

record CreateRewardPool =
  crp_RewardsManagerPubkey :: string
  crp_Authorities :: "string list"

record SetRewardPoolAuthorities =
  sra_RewardsManagerPubkey :: string
  sra_Authorities :: "string list"

datatype RewardPoolAction =
    RewardPoolBody_Create CreateRewardPool
  | RewardPoolBody_SetAuthorities SetRewardPoolAuthorities

record RewardPoolBody =
  rpb_DeadlineBlockHeight :: int
  rpb_Action :: "RewardPoolAction option"

record RewardPoolMessage =
  rpm_Body :: "RewardPoolBody option"
  rpm_Signature :: string
  rpm_RmOwnerSignature :: string

record LegacyCreateReward =
  lcr_RewardId :: string
  lcr_Name :: string
  lcr_Amount :: int
  lcr_ClaimAuthorities :: "ClaimAuthority list"
  lcr_DeadlineBlockHeight :: int
  lcr_Signature :: string

record LegacyDeleteReward =
  ldr_Address :: string
  ldr_DeadlineBlockHeight :: int
  ldr_Signature :: string

datatype LegacyRewardAction =
    LegacyRewardMessage_Create LegacyCreateReward
  | LegacyRewardMessage_Delete LegacyDeleteReward

text \<open>
  What the code takes from other modules: protobuf serialization, base58, the address syntax check
  of go-ethereum, ed25519, JSON, and the environment the node runs in.
\<close>

record reward_lib = prims +
  marshal_reward_body :: "RewardBody \<Rightarrow> string option"
  marshal_pool_body :: "RewardPoolBody \<Rightarrow> string option"
  marshal_create :: "CreateReward \<Rightarrow> string option"
  marshal_legacy_create :: "LegacyCreateReward \<Rightarrow> string option"
  marshal_reward_message :: "RewardMessage \<Rightarrow> string option"
  unmarshal_legacy_reward :: "string \<Rightarrow> LegacyRewardAction option option"
  base58_Decode :: "string \<Rightarrow> string option"
  IsHexAddress :: "string \<Rightarrow> bool"
  ed25519_Verify :: "string \<Rightarrow> string \<Rightarrow> string \<Rightarrow> bool"
  json_Marshal :: "string list \<Rightarrow> string"
  RuntimeEnvironment :: string
  cfg_GenesisChainID :: string

datatype reward_error =
    RewardMessageNil
  | RewardBodyNil
  | LegacyFormat
  | LegacyMarshal
  | LegacyUnmarshal
  | RewardExpired
  | RewardSignatureInvalid
  | RewardUnauthorized
  | UnsupportedAction
  | BadManagerPubkey
  | ReservedManagerPubkey
  | BadAuthorityList
  | OwnerSignatureInvalid
  | PoolExists
  | PoolNotFound
  | OnChainRewardNotFound
  | BadTxHash
  | RewardMarshal
  | RewardQueryFailed pg_error
  | RewardStmtFailed pg_error

definition stmt_result :: "pg_error option \<times> reward_db \<Rightarrow> reward_error option \<times> reward_db" where
  "stmt_result x = (map_option RewardStmtFailed (fst x), snd x)"

section \<open>Shape checks\<close>

definition DevAudioRewardsManagerPubkey :: string where
  "DevAudioRewardsManagerPubkey = ''DJPzVothq58SmkpRb1ATn5ddN2Rpv1j2TcGvM3XsHf1c''"

definition ProdAudioRewardsManagerPubkey :: string where
  "ProdAudioRewardsManagerPubkey = ''71hWFVYokLaN1PNYzTAWi13EfJ7Xt9VbSWUKsXUT8mxE''"

definition AudioRewardsManagerPubkey :: "'z reward_lib_scheme \<Rightarrow> string" where
  "AudioRewardsManagerPubkey lib =
     (if RuntimeEnvironment lib \<in> {''prod'', ''production'', ''mainnet''} then ProdAudioRewardsManagerPubkey
      else if RuntimeEnvironment lib \<in> {''dev'', ''development'', ''devnet'', ''local'', ''sandbox''}
      then DevAudioRewardsManagerPubkey
      else [])"

definition solanaPubkeyByteLen :: nat where "solanaPubkeyByteLen = 32"

definition ed25519_SignatureSize :: nat where "ed25519_SignatureSize = 64"

definition ed25519_PublicKeySize :: nat where "ed25519_PublicKeySize = 32"

definition verifyRewardPoolOwnerSignature ::
  "'z reward_lib_scheme \<Rightarrow> string \<Rightarrow> string \<Rightarrow> string \<Rightarrow> reward_error option" where
  "verifyRewardPoolOwnerSignature lib rmPubkey bodyBytes signature =
     (if length signature \<noteq> ed25519_SignatureSize then Some OwnerSignatureInvalid
      else (case base58_Decode lib rmPubkey of
          None \<Rightarrow> Some OwnerSignatureInvalid
        | Some pubkeyBytes \<Rightarrow>
          if length pubkeyBytes \<noteq> ed25519_PublicKeySize then Some OwnerSignatureInvalid
          else if \<not> ed25519_Verify lib pubkeyBytes bodyBytes signature then Some OwnerSignatureInvalid
          else None))"

definition validateAuthorityList :: "'z reward_lib_scheme \<Rightarrow> string list \<Rightarrow> reward_error option" where
  "validateAuthorityList lib addrs =
     (if addrs = [] then Some BadAuthorityList
      else if list_all (\<lambda>a. IsHexAddress lib (TrimSpace a)) addrs then None
      else Some BadAuthorityList)"

definition validateRewardsManagerPubkeyShape :: "'z reward_lib_scheme \<Rightarrow> string \<Rightarrow> reward_error option" where
  "validateRewardsManagerPubkeyShape lib pubkey =
     (if pubkey = [] then Some BadManagerPubkey
      else if pubkey \<noteq> TrimSpace pubkey then Some BadManagerPubkey
      else (case base58_Decode lib pubkey of
          None \<Rightarrow> Some BadManagerPubkey
        | Some bytes \<Rightarrow> if length bytes \<noteq> solanaPubkeyByteLen then Some BadManagerPubkey else None))"

definition validateRewardsManagerPubkey :: "'z reward_lib_scheme \<Rightarrow> string \<Rightarrow> reward_error option" where
  "validateRewardsManagerPubkey lib pubkey =
     (case validateRewardsManagerPubkeyShape lib pubkey of
        Some e \<Rightarrow> Some e
      | None \<Rightarrow>
        (let audioRM = TrimSpace (AudioRewardsManagerPubkey lib) in
         if audioRM \<noteq> [] \<and> pubkey = audioRM then Some ReservedManagerPubkey else None))"

definition checkPoolAuthorization :: "reward_db \<Rightarrow> string \<Rightarrow> string \<Rightarrow> reward_error option" where
  "checkPoolAuthorization q rewardsManagerPubkey signer =
     (case GetRewardPool q rewardsManagerPubkey of
        Inl ErrNoRows \<Rightarrow> Some PoolNotFound
      | Inl (QueryFailed e) \<Rightarrow> Some (RewardQueryFailed e)
      | Inr authorities \<Rightarrow>
        if ToLower (TrimSpace signer) \<notin> set authorities then Some RewardUnauthorized else None)"

definition recoverDeadlinedSigner ::
  "'z reward_lib_scheme \<Rightarrow> int \<Rightarrow> int \<Rightarrow> string option \<Rightarrow> string \<Rightarrow> reward_error + string" where
  "recoverDeadlinedSigner lib currentHeight deadlineHeight msg signature =
     (if currentHeight > deadlineHeight then Inl RewardExpired
      else (case ProtoRecover lib msg signature of
          None \<Rightarrow> Inl RewardSignatureInvalid
        | Some signer \<Rightarrow> Inr signer))"

section \<open>Rewards\<close>

text \<open>A message without a body, read again in the retired format; the inner \<^const>\<open>None\<close> is no action.\<close>

definition tryParseLegacyReward ::
  "'z reward_lib_scheme \<Rightarrow> RewardMessage \<Rightarrow> reward_error + LegacyRewardAction option" where
  "tryParseLegacyReward lib rm =
     (if rm_Body rm \<noteq> None then Inr None
      else (case marshal_reward_message lib rm of
          None \<Rightarrow> Inl LegacyMarshal
        | Some raw \<Rightarrow>
          if raw = [] then Inr None
          else (case unmarshal_legacy_reward lib raw of
              None \<Rightarrow> Inl LegacyUnmarshal
            | Some action \<Rightarrow> Inr action)))"

definition validateCreateReward ::
  "'z reward_lib_scheme \<Rightarrow> reward_db \<Rightarrow> CreateReward \<Rightarrow> string \<Rightarrow> reward_error option" where
  "validateCreateReward lib q createReward signer =
     (case validateRewardsManagerPubkey lib (cr_RewardsManagerPubkey createReward) of
        Some e \<Rightarrow> Some e
      | None \<Rightarrow> checkPoolAuthorization q (cr_RewardsManagerPubkey createReward) signer)"

definition checkRewardAuthority :: "reward_db \<Rightarrow> string \<Rightarrow> string \<Rightarrow> reward_error option" where
  "checkRewardAuthority q address signer = (case GetReward q address of
     Inl ErrNoRows \<Rightarrow> Some OnChainRewardNotFound
   | Inl (QueryFailed e) \<Rightarrow> Some (RewardQueryFailed e)
   | Inr (_, authorities) \<Rightarrow>
     if ToLower (TrimSpace signer) \<notin> set authorities then Some RewardUnauthorized else None)"

definition validateDeleteReward :: "reward_db \<Rightarrow> DeleteReward \<Rightarrow> string \<Rightarrow> reward_error option" where
  "validateDeleteReward q deleteReward signer = checkRewardAuthority q (dr_Address deleteReward) signer"

definition isValidRewardTransaction ::
  "'z reward_lib_scheme \<Rightarrow> reward_db \<Rightarrow> RewardMessage option \<Rightarrow> int \<Rightarrow> reward_error option" where
  "isValidRewardTransaction lib q reward blockHeight = (case reward of
     None \<Rightarrow> Some RewardMessageNil
   | Some envelope \<Rightarrow>
     (case rm_Body envelope of
        None \<Rightarrow> (case tryParseLegacyReward lib envelope of
            Inr (Some _) \<Rightarrow> Some LegacyFormat
          | _ \<Rightarrow> Some RewardBodyNil)
      | Some body \<Rightarrow>
        (case recoverDeadlinedSigner lib blockHeight (rb_DeadlineBlockHeight body)
                (marshal_reward_body lib body) (rm_Signature envelope) of
           Inl e \<Rightarrow> Some e
         | Inr signer \<Rightarrow>
           (case rb_Action body of
              Some (RewardBody_Create create) \<Rightarrow> validateCreateReward lib q create signer
            | Some (RewardBody_Delete del) \<Rightarrow> validateDeleteReward q del signer
            | None \<Rightarrow> Some UnsupportedAction))))"

definition finalizeCreateReward ::
  "'z reward_lib_scheme \<Rightarrow> reward_db \<Rightarrow> int \<Rightarrow> string \<Rightarrow> int \<Rightarrow> CreateReward \<Rightarrow> string \<Rightarrow>
   reward_error option \<times> reward_db" where
  "finalizeCreateReward lib qtx height txhash messageIndex createReward signer =
     (case checkPoolAuthorization qtx (cr_RewardsManagerPubkey createReward) signer of
        Some e \<Rightarrow> (Some e, qtx)
      | None \<Rightarrow>
        (case HexToBytes txhash of
           None \<Rightarrow> (Some BadTxHash, qtx)
         | Some txhashBytes \<Rightarrow>
           (case marshal_create lib createReward of
              None \<Rightarrow> (Some RewardMarshal, qtx)
            | Some rawMessage \<Rightarrow> stmt_result (InsertCoreReward qtx
                \<lparr>rw_address = CreateAddress lib txhashBytes (cfg_GenesisChainID lib) height messageIndex [],
                 rw_index = messageIndex, rw_tx_hash = txhash, rw_sender = signer,
                 rw_reward_id = cr_RewardId createReward, rw_name = cr_Name createReward,
                 rw_amount = int64 (cr_Amount createReward),
                 rw_rewards_manager_pubkey = Some (cr_RewardsManagerPubkey createReward),
                 rw_raw_message = rawMessage, rw_block_height = height\<rparr>))))"

definition finalizeDeleteReward :: "reward_db \<Rightarrow> DeleteReward \<Rightarrow> string \<Rightarrow> reward_error option \<times> reward_db" where
  "finalizeDeleteReward qtx deleteReward signer =
     (case checkRewardAuthority qtx (dr_Address deleteReward) signer of
        Some e \<Rightarrow> (Some e, qtx)
      | None \<Rightarrow> stmt_result (DeleteCoreReward qtx (dr_Address deleteReward)))"

section \<open>Legacy rewards\<close>

definition LegacyDeterministicCreateRewardData :: "'z reward_lib_scheme \<Rightarrow> LegacyCreateReward \<Rightarrow> string" where
  "LegacyDeterministicCreateRewardData lib cr =
     (let authorities = sort (map (\<lambda>auth. ca_Address auth @ '':'' @ ca_Name auth) (lcr_ClaimAuthorities cr))
      in hex_encode (Sha256 lib (lcr_RewardId cr @ ''|'' @ lcr_Name cr @ ''|'' @ FormatInt (lcr_Amount cr) @
           ''|'' @ json_Marshal lib authorities @ ''|'' @ FormatInt (lcr_DeadlineBlockHeight cr))))"

definition LegacyDeterministicDeleteRewardData :: "'z reward_lib_scheme \<Rightarrow> LegacyDeleteReward \<Rightarrow> string" where
  "LegacyDeterministicDeleteRewardData lib dr =
     hex_encode (Sha256 lib (ldr_Address dr @ ''|'' @ FormatInt (ldr_DeadlineBlockHeight dr)))"

definition LegacyRecoverCreateReward :: "'z reward_lib_scheme \<Rightarrow> LegacyCreateReward \<Rightarrow> string option" where
  "LegacyRecoverCreateReward lib cr = (case hex_decode (LegacyDeterministicCreateRewardData lib cr) of
     None \<Rightarrow> None
   | Some dataBytes \<Rightarrow> map_option snd (EthRecover lib (lcr_Signature cr) dataBytes))"

definition LegacyRecoverDeleteReward :: "'z reward_lib_scheme \<Rightarrow> LegacyDeleteReward \<Rightarrow> string option" where
  "LegacyRecoverDeleteReward lib dr = (case hex_decode (LegacyDeterministicDeleteRewardData lib dr) of
     None \<Rightarrow> None
   | Some dataBytes \<Rightarrow> map_option snd (EthRecover lib (ldr_Signature dr) dataBytes))"

definition recoverLegacyCreateRewardSigner ::
  "'z reward_lib_scheme \<Rightarrow> int \<Rightarrow> LegacyCreateReward \<Rightarrow> reward_error + string" where
  "recoverLegacyCreateRewardSigner lib currentHeight cr =
     (if currentHeight > lcr_DeadlineBlockHeight cr then Inl RewardExpired
      else (case LegacyRecoverCreateReward lib cr of
          None \<Rightarrow> Inl RewardSignatureInvalid | Some signer \<Rightarrow> Inr signer))"

definition recoverLegacyDeleteRewardSigner ::
  "'z reward_lib_scheme \<Rightarrow> int \<Rightarrow> LegacyDeleteReward \<Rightarrow> reward_error + string" where
  "recoverLegacyDeleteRewardSigner lib currentHeight dr =
     (if currentHeight > ldr_DeadlineBlockHeight dr then Inl RewardExpired
      else (case LegacyRecoverDeleteReward lib dr of
          None \<Rightarrow> Inl RewardSignatureInvalid | Some signer \<Rightarrow> Inr signer))"

text \<open>The pool a legacy reward belongs to, created or widened when its manager is known.\<close>

definition legacy_pool ::
  "reward_db \<Rightarrow> string list \<Rightarrow> reward_error option \<times> string option \<times> reward_db" where
  "legacy_pool qtx canonicalAuthorities =
     (if canonicalAuthorities = [] then (None, None, qtx)
      else (case GetLaunchpadRMByAuthority qtx canonicalAuthorities of
          Inl ErrNoRows \<Rightarrow> (None, None, qtx)
        | Inl (QueryFailed e) \<Rightarrow> (Some (RewardQueryFailed e), None, qtx)
        | Inr rm \<Rightarrow>
          (case UpsertLegacyReplayRewardPool qtx rm canonicalAuthorities of
             (Some e, q') \<Rightarrow> (Some (RewardStmtFailed e), None, q')
           | (None, q') \<Rightarrow> (None, Some rm, q'))))"

definition finalizeLegacyCreateReward ::
  "'z reward_lib_scheme \<Rightarrow> reward_db \<Rightarrow> int \<Rightarrow> string \<Rightarrow> int \<Rightarrow> LegacyCreateReward \<Rightarrow> string \<Rightarrow>
   reward_error option \<times> reward_db" where
  "finalizeLegacyCreateReward lib qtx height txhash messageIndex cr signer =
     (case HexToBytes txhash of
        None \<Rightarrow> (Some BadTxHash, qtx)
      | Some txhashBytes \<Rightarrow>
        (case legacy_pool qtx (CanonicalAuthorities (map ca_Address (lcr_ClaimAuthorities cr))) of
           (Some e, _, q') \<Rightarrow> (Some e, q')
         | (None, rmPubkey, q') \<Rightarrow>
           (case marshal_legacy_create lib cr of
              None \<Rightarrow> (Some RewardMarshal, q')
            | Some rawMessage \<Rightarrow> stmt_result (InsertCoreReward q'
                \<lparr>rw_address = CreateAddress lib txhashBytes (cfg_GenesisChainID lib) height messageIndex [],
                 rw_index = messageIndex, rw_tx_hash = txhash, rw_sender = signer,
                 rw_reward_id = lcr_RewardId cr, rw_name = lcr_Name cr, rw_amount = int64 (lcr_Amount cr),
                 rw_rewards_manager_pubkey = rmPubkey, rw_raw_message = rawMessage,
                 rw_block_height = height\<rparr>))))"

definition finalizeLegacyDeleteReward ::
  "reward_db \<Rightarrow> LegacyDeleteReward \<Rightarrow> string \<Rightarrow> reward_error option \<times> reward_db" where
  "finalizeLegacyDeleteReward qtx dr signer =
     (case checkRewardAuthority qtx (ldr_Address dr) signer of
        Some e \<Rightarrow> (Some e, qtx)
      | None \<Rightarrow> stmt_result (DeleteCoreReward qtx (ldr_Address dr)))"

definition finalizeLegacyRewardTransaction ::
  "'z reward_lib_scheme \<Rightarrow> reward_db \<Rightarrow> int \<Rightarrow> LegacyRewardAction \<Rightarrow> string \<Rightarrow> int \<Rightarrow>
   reward_error option \<times> reward_db" where
  "finalizeLegacyRewardTransaction lib qtx height legacy txhash messageIndex = (case legacy of
     LegacyRewardMessage_Create cr \<Rightarrow>
       (case recoverLegacyCreateRewardSigner lib height cr of
          Inl e \<Rightarrow> (Some e, qtx)
        | Inr signer \<Rightarrow> finalizeLegacyCreateReward lib qtx height txhash messageIndex cr signer)
   | LegacyRewardMessage_Delete dr \<Rightarrow>
       (case recoverLegacyDeleteRewardSigner lib height dr of
          Inl e \<Rightarrow> (Some e, qtx)
        | Inr signer \<Rightarrow> finalizeLegacyDeleteReward qtx dr signer))"

definition finalizeRewards ::
  "'z reward_lib_scheme \<Rightarrow> reward_db \<Rightarrow> int \<Rightarrow> string \<Rightarrow> int \<Rightarrow> RewardMessage option \<Rightarrow>
   reward_error option \<times> reward_db" where
  "finalizeRewards lib qtx height txhash messageIndex reward = (case reward of
     None \<Rightarrow> (Some RewardMessageNil, qtx)
   | Some envelope \<Rightarrow>
     (case rm_Body envelope of
        None \<Rightarrow> (case tryParseLegacyReward lib envelope of
            Inl e \<Rightarrow> (Some e, qtx)
          | Inr None \<Rightarrow> (Some RewardBodyNil, qtx)
          | Inr (Some legacy) \<Rightarrow> finalizeLegacyRewardTransaction lib qtx height legacy txhash messageIndex)
      | Some body \<Rightarrow>
        (case recoverDeadlinedSigner lib height (rb_DeadlineBlockHeight body)
                (marshal_reward_body lib body) (rm_Signature envelope) of
           Inl e \<Rightarrow> (Some e, qtx)
         | Inr signer \<Rightarrow>
           (case rb_Action body of
              Some (RewardBody_Create create) \<Rightarrow>
                finalizeCreateReward lib qtx height txhash messageIndex create signer
            | Some (RewardBody_Delete del) \<Rightarrow> finalizeDeleteReward qtx del signer
            | None \<Rightarrow> (Some UnsupportedAction, qtx)))))"

definition finalizeRewardTransaction ::
  "'z reward_lib_scheme \<Rightarrow> reward_db \<Rightarrow> int \<Rightarrow> RewardMessage option \<Rightarrow> string \<Rightarrow> reward_error option \<times> reward_db" where
  "finalizeRewardTransaction lib qtx height reward txhash = finalizeRewards lib qtx height txhash 0 reward"

section \<open>Pools\<close>

text \<open>The checks of a pool creation that do not read the tables.\<close>

definition check_create_pool ::
  "'z reward_lib_scheme \<Rightarrow> RewardPoolBody \<Rightarrow> string \<Rightarrow> CreateRewardPool \<Rightarrow> string \<Rightarrow> reward_error option" where
  "check_create_pool lib body rmOwnerSignature msg signer =
     (case validateRewardsManagerPubkey lib (crp_RewardsManagerPubkey msg) of
        Some e \<Rightarrow> Some e
      | None \<Rightarrow>
        (case validateAuthorityList lib (crp_Authorities msg) of
           Some e \<Rightarrow> Some e
         | None \<Rightarrow>
           (case marshal_pool_body lib body of
              None \<Rightarrow> Some OwnerSignatureInvalid
            | Some bodyBytes \<Rightarrow>
              (case verifyRewardPoolOwnerSignature lib (crp_RewardsManagerPubkey msg) bodyBytes rmOwnerSignature of
                 Some e \<Rightarrow> Some e
               | None \<Rightarrow>
                 if ToLower (TrimSpace signer) \<notin> set (CanonicalAuthorities (crp_Authorities msg))
                 then Some RewardUnauthorized else None))))"

definition validateCreateRewardPool ::
  "'z reward_lib_scheme \<Rightarrow> reward_db \<Rightarrow> RewardPoolBody \<Rightarrow> string \<Rightarrow> CreateRewardPool \<Rightarrow> string \<Rightarrow>
   reward_error option" where
  "validateCreateRewardPool lib q body rmOwnerSignature msg signer =
     (case check_create_pool lib body rmOwnerSignature msg signer of
        Some e \<Rightarrow> Some e
      | None \<Rightarrow>
        (case GetRewardPool q (crp_RewardsManagerPubkey msg) of
           Inr _ \<Rightarrow> Some PoolExists
         | Inl ErrNoRows \<Rightarrow> None
         | Inl (QueryFailed e) \<Rightarrow> Some (RewardQueryFailed e)))"

definition check_set_authorities ::
  "'z reward_lib_scheme \<Rightarrow> reward_db \<Rightarrow> SetRewardPoolAuthorities \<Rightarrow> string \<Rightarrow> reward_error option" where
  "check_set_authorities lib q msg signer =
     (case validateRewardsManagerPubkeyShape lib (sra_RewardsManagerPubkey msg) of
        Some e \<Rightarrow> Some e
      | None \<Rightarrow>
        (case validateAuthorityList lib (sra_Authorities msg) of
           Some e \<Rightarrow> Some e
         | None \<Rightarrow> checkPoolAuthorization q (sra_RewardsManagerPubkey msg) signer))"

definition validateSetRewardPoolAuthorities ::
  "'z reward_lib_scheme \<Rightarrow> reward_db \<Rightarrow> SetRewardPoolAuthorities \<Rightarrow> string \<Rightarrow> reward_error option" where
  "validateSetRewardPoolAuthorities lib q msg signer = check_set_authorities lib q msg signer"

definition isValidRewardPoolTransaction ::
  "'z reward_lib_scheme \<Rightarrow> reward_db \<Rightarrow> RewardPoolMessage option \<Rightarrow> int \<Rightarrow> reward_error option" where
  "isValidRewardPoolTransaction lib q pool blockHeight = (case pool of
     None \<Rightarrow> Some RewardBodyNil
   | Some envelope \<Rightarrow>
     (case rpm_Body envelope of
        None \<Rightarrow> Some RewardBodyNil
      | Some body \<Rightarrow>
        (case recoverDeadlinedSigner lib blockHeight (rpb_DeadlineBlockHeight body)
                (marshal_pool_body lib body) (rpm_Signature envelope) of
           Inl e \<Rightarrow> Some e
         | Inr signer \<Rightarrow>
           (case rpb_Action body of
              Some (RewardPoolBody_Create create) \<Rightarrow>
                validateCreateRewardPool lib q body (rpm_RmOwnerSignature envelope) create signer
            | Some (RewardPoolBody_SetAuthorities upd) \<Rightarrow> validateSetRewardPoolAuthorities lib q upd signer
            | None \<Rightarrow> Some UnsupportedAction))))"

definition finalizeCreateRewardPool ::
  "'z reward_lib_scheme \<Rightarrow> reward_db \<Rightarrow> RewardPoolBody \<Rightarrow> string \<Rightarrow> CreateRewardPool \<Rightarrow> string \<Rightarrow>
   reward_error option \<times> reward_db" where
  "finalizeCreateRewardPool lib qtx body rmOwnerSignature msg signer =
     (case check_create_pool lib body rmOwnerSignature msg signer of
        Some e \<Rightarrow> (Some e, qtx)
      | None \<Rightarrow>
        (case GetRewardPool qtx (crp_RewardsManagerPubkey msg) of
           Inr _ \<Rightarrow> (None, qtx)
         | Inl ErrNoRows \<Rightarrow> stmt_result (InsertRewardPool qtx (crp_RewardsManagerPubkey msg)
             (CanonicalAuthorities (crp_Authorities msg)))
         | Inl (QueryFailed e) \<Rightarrow> (Some (RewardQueryFailed e), qtx)))"

definition finalizeSetRewardPoolAuthorities ::
  "'z reward_lib_scheme \<Rightarrow> reward_db \<Rightarrow> SetRewardPoolAuthorities \<Rightarrow> string \<Rightarrow> reward_error option \<times> reward_db" where
  "finalizeSetRewardPoolAuthorities lib qtx msg signer =
     (case check_set_authorities lib qtx msg signer of
        Some e \<Rightarrow> (Some e, qtx)
      | None \<Rightarrow> stmt_result (UpdateRewardPoolAuthorities qtx (sra_RewardsManagerPubkey msg)
          (CanonicalAuthorities (sra_Authorities msg))))"

definition finalizeRewardPoolTransaction ::
  "'z reward_lib_scheme \<Rightarrow> reward_db \<Rightarrow> int \<Rightarrow> RewardPoolMessage option \<Rightarrow> reward_error option \<times> reward_db" where
  "finalizeRewardPoolTransaction lib qtx height pool = (case pool of
     None \<Rightarrow> (Some RewardBodyNil, qtx)
   | Some envelope \<Rightarrow>
     (case rpm_Body envelope of
        None \<Rightarrow> (Some RewardBodyNil, qtx)
      | Some body \<Rightarrow>
        (case recoverDeadlinedSigner lib height (rpb_DeadlineBlockHeight body)
                (marshal_pool_body lib body) (rpm_Signature envelope) of
           Inl e \<Rightarrow> (Some e, qtx)
         | Inr signer \<Rightarrow>
           (case rpb_Action body of
              Some (RewardPoolBody_Create create) \<Rightarrow>
                finalizeCreateRewardPool lib qtx body (rpm_RmOwnerSignature envelope) create signer
            | Some (RewardPoolBody_SetAuthorities upd) \<Rightarrow>
                finalizeSetRewardPoolAuthorities lib qtx upd signer
            | None \<Rightarrow> (Some UnsupportedAction, qtx)))))"

section \<open>Projection of the genesis writer\<close>

definition projectRewardPool :: "reward_db \<Rightarrow> RewardPoolMessage \<Rightarrow> reward_error option \<times> reward_db" where
  "projectRewardPool q envelope = (case rpm_Body envelope of
     None \<Rightarrow> (Some RewardBodyNil, q)
   | Some body \<Rightarrow>
     (case rpb_Action body of
        Some (RewardPoolBody_Create create) \<Rightarrow> stmt_result (InsertRewardPool q
          (crp_RewardsManagerPubkey create) (CanonicalAuthorities (crp_Authorities create)))
      | _ \<Rightarrow> (Some UnsupportedAction, q)))"

definition projectReward ::
  "'z reward_lib_scheme \<Rightarrow> reward_db \<Rightarrow> RewardMessage \<Rightarrow> string \<Rightarrow> int \<Rightarrow> int \<Rightarrow> string \<Rightarrow>
   reward_error option \<times> reward_db" where
  "projectReward lib q msg chainID height messageIndex txhash = (case rm_Body msg of
     None \<Rightarrow> (Some RewardBodyNil, q)
   | Some body \<Rightarrow>
     (case rb_Action body of
        Some (RewardBody_Create create) \<Rightarrow>
          (case ProtoRecover lib (marshal_reward_body lib body) (rm_Signature msg) of
             None \<Rightarrow> (Some RewardSignatureInvalid, q)
           | Some signer \<Rightarrow>
             (case HexToBytes txhash of
                None \<Rightarrow> (Some BadTxHash, q)
              | Some txhashBytes \<Rightarrow>
                (case marshal_create lib create of
                   None \<Rightarrow> (Some RewardMarshal, q)
                 | Some rawMessage \<Rightarrow> stmt_result (InsertCoreReward q
                     \<lparr>rw_address = CreateAddress lib txhashBytes chainID height messageIndex [],
                      rw_index = messageIndex, rw_tx_hash = txhash, rw_sender = signer,
                      rw_reward_id = cr_RewardId create, rw_name = cr_Name create,
                      rw_amount = int64 (cr_Amount create),
                      rw_rewards_manager_pubkey = Some (cr_RewardsManagerPubkey create),
                      rw_raw_message = rawMessage, rw_block_height = height\<rparr>))))
      | _ \<Rightarrow> (Some UnsupportedAction, q)))"

text \<open>The body of a transaction as far as the projection looks at it.\<close>

datatype reward_tx =
    RewardPoolTx RewardPoolMessage
  | RewardTx RewardMessage
  | OtherTx

definition ProjectMigrationRewardState ::
  "'z reward_lib_scheme \<Rightarrow> reward_db \<Rightarrow> reward_tx \<Rightarrow> string \<Rightarrow> int \<Rightarrow> int \<Rightarrow> string \<Rightarrow>
   bool \<times> reward_error option \<times> reward_db" where
  "ProjectMigrationRewardState lib q stx chainID height messageIndex txhash = (case stx of
     RewardPoolTx envelope \<Rightarrow> (True, projectRewardPool q envelope)
   | RewardTx msg \<Rightarrow> (True, projectReward lib q msg chainID height messageIndex txhash)
   | OtherTx \<Rightarrow> (False, None, q))"

end
