(* ===== verification/Reward_Service.thy ===== *)
theory Reward_Service
  imports Reward_State Validator_Set
begin

text \<open>
  What a node signs for rewards on request: the attestation of a claim on an on-chain reward and
  the attestations that add or delete a sender of a Solana reward manager
  (\<^verbatim>\<open>pkg/core/server/connect.go\<close>, \<^verbatim>\<open>pkg/rewards/sender_attester.go\<close>). The
  addresses of the anti-abuse oracles come from the Ethereum service and are a field of the state.
\<close>

section \<open>Sender attestations\<close>

definition AddSenderMessagePrefix :: string where "AddSenderMessagePrefix = ''add''"

definition DeleteSenderMessagePrefix :: string where "DeleteSenderMessagePrefix = ''del''"

definition getSenderAttestation ::
  "'z reward_lib_scheme \<Rightarrow> string \<Rightarrow> string \<Rightarrow> string \<Rightarrow> string \<Rightarrow> (string \<times> string) option" where
  "getSenderAttestation lib signer messagePrefix senderAddress rewardsManagerAccountPubKey =
     (case base58_Decode lib rewardsManagerAccountPubKey of
        None \<Rightarrow> None
      | Some programBytes \<Rightarrow>
        (case hex_decode (TrimPrefix_0x senderAddress) of
           None \<Rightarrow> None
         | Some addrBytes \<Rightarrow>
           (case EthSignKeccak lib signer (messagePrefix @ programBytes @ addrBytes) of
              None \<Rightarrow> None
            | Some sig \<Rightarrow> Some (PrivKeyToAddress lib signer, sig))))"

definition GetCreateSenderAttestation ::
  "'z reward_lib_scheme \<Rightarrow> string \<Rightarrow> string \<Rightarrow> string \<Rightarrow> (string \<times> string) option" where
  "GetCreateSenderAttestation lib signer newSenderAddress rm =
     getSenderAttestation lib signer AddSenderMessagePrefix newSenderAddress rm"

definition GetDeleteSenderAttestation ::
  "'z reward_lib_scheme \<Rightarrow> string \<Rightarrow> string \<Rightarrow> string \<Rightarrow> (string \<times> string) option" where
  "GetDeleteSenderAttestation lib signer senderAddress rm =
     getSenderAttestation lib signer DeleteSenderMessagePrefix senderAddress rm"

section \<open>Service\<close>

datatype rpc_error = Unavailable | InvalidArgument | NotFound | PermissionDenied | Internal

record core_service =
  cs_EthereumKey :: string
  cs_rewards :: reward_db
  cs_validators :: validator_db
  cs_oracles :: "string list option"

text \<open>A request before the node is set up; afterwards the node's state.\<close>

definition ready :: "core_service option \<Rightarrow> rpc_error + core_service" where
  "ready c = (case c of None \<Rightarrow> Inl Unavailable | Some core \<Rightarrow> Inr core)"

definition gatherEligibleSenderAddresses :: "core_service \<Rightarrow> string list option" where
  "gatherEligibleSenderAddresses core = (case GetAllEthAddressesOfRegisteredNodes (cs_validators core) of
     Inl _ \<Rightarrow> None
   | Inr validators \<Rightarrow> map_option (\<lambda>aaos. validators @ aaos) (cs_oracles core))"

datatype sender_gate =
    PoolGated "string list"
  | AudioGated
  | UnknownRM
  | GateFailed

definition senderGateForRM :: "'z reward_lib_scheme \<Rightarrow> core_service \<Rightarrow> string \<Rightarrow> sender_gate" where
  "senderGateForRM lib core rmPubkey = (case GetRewardPool (cs_rewards core) rmPubkey of
     Inr authorities \<Rightarrow> PoolGated authorities
   | Inl (QueryFailed _) \<Rightarrow> GateFailed
   | Inl ErrNoRows \<Rightarrow>
     (let audioRM = TrimSpace (AudioRewardsManagerPubkey lib) in
      if audioRM \<noteq> [] \<and> rmPubkey = audioRM then AudioGated else UnknownRM))"

definition attestation_result :: "(string \<times> string) option \<Rightarrow> rpc_error + string \<times> string" where
  "attestation_result r = (case r of None \<Rightarrow> Inl InvalidArgument | Some x \<Rightarrow> Inr x)"

definition GetRewardSenderAttestation ::
  "'z reward_lib_scheme \<Rightarrow> core_service option \<Rightarrow> string \<Rightarrow> string \<Rightarrow> rpc_error + string \<times> string" where
  "GetRewardSenderAttestation lib c reqAddress reqRM = (case ready c of
     Inl e \<Rightarrow> Inl e
   | Inr core \<Rightarrow>
     (let address = TrimSpace reqAddress; rewardsManagerPubkey = TrimSpace reqRM;
          sign = attestation_result
            (GetCreateSenderAttestation lib (cs_EthereumKey core) address rewardsManagerPubkey)
      in
      if address = [] then Inl InvalidArgument
      else if validateRewardsManagerPubkeyShape lib rewardsManagerPubkey \<noteq> None then Inl InvalidArgument
      else (case senderGateForRM lib core rewardsManagerPubkey of
          UnknownRM \<Rightarrow> Inl InvalidArgument
        | GateFailed \<Rightarrow> Inl Internal
        | PoolGated authorities \<Rightarrow>
          if ToLower address \<notin> set authorities then Inl InvalidArgument else sign
        | AudioGated \<Rightarrow>
          (case gatherEligibleSenderAddresses core of
             None \<Rightarrow> Inl Internal
           | Some eligible \<Rightarrow>
             if \<not> list_ex (\<lambda>eth. EqualFold eth address) eligible then Inl InvalidArgument else sign))))"

definition GetDeleteRewardSenderAttestation ::
  "'z reward_lib_scheme \<Rightarrow> core_service option \<Rightarrow> string \<Rightarrow> string \<Rightarrow> rpc_error + string \<times> string" where
  "GetDeleteRewardSenderAttestation lib c reqAddress reqRM = (case ready c of
     Inl e \<Rightarrow> Inl e
   | Inr core \<Rightarrow>
     (let address = TrimSpace reqAddress; rewardsManagerPubkey = TrimSpace reqRM;
          sign = attestation_result
            (GetDeleteSenderAttestation lib (cs_EthereumKey core) address rewardsManagerPubkey)
      in
      if address = [] then Inl InvalidArgument
      else if validateRewardsManagerPubkeyShape lib rewardsManagerPubkey \<noteq> None then Inl InvalidArgument
      else (case senderGateForRM lib core rewardsManagerPubkey of
          UnknownRM \<Rightarrow> Inl InvalidArgument
        | GateFailed \<Rightarrow> Inl Internal
        | PoolGated authorities \<Rightarrow>
          if ToLower address \<in> set authorities then Inl InvalidArgument else sign
        | AudioGated \<Rightarrow>
          (case gatherEligibleSenderAddresses core of
             None \<Rightarrow> Inl Internal
           | Some eligible \<Rightarrow>
             if list_ex (\<lambda>eth. EqualFold eth address) eligible then Inl InvalidArgument else sign))))"

section \<open>Claims on on-chain rewards\<close>

record claim_request =
  req_EthRecipientAddress :: string
  req_RewardAddress :: string
  req_Specifier :: string
  req_ClaimAuthority :: string
  req_Signature :: string
  req_Amount :: int
  req_RewardId :: string
  req_AmountDecimals :: int

text \<open>The conversion of an \<^verbatim>\<open>int64\<close> to a \<^verbatim>\<open>uint64\<close>.\<close>

definition uint64 :: "int \<Rightarrow> int" where "uint64 x = x mod 2 ^ 64"

definition request_claim :: "claim_request \<Rightarrow> RewardClaim" where
  "request_claim req = \<lparr>RecipientEthAddress = TrimSpace (req_EthRecipientAddress req),
     rc_Amount = req_Amount req, rc_RewardID = req_RewardId req, RewardAddress = [],
     rc_Specifier = req_Specifier req, rc_ClaimAuthority = TrimSpace (req_ClaimAuthority req),
     Decimals = req_AmountDecimals req\<rparr>"

definition reward_attester :: "'z reward_lib_scheme \<Rightarrow> string \<Rightarrow> reward_row \<Rightarrow> string list \<Rightarrow> RewardAttester" where
  "reward_attester lib key dbReward authorities = \<lparr>EthereumAddress = PrivKeyToAddress lib key,
     EthereumKey = key, Rewards = [\<lparr>ClaimAuthorities = map (\<lambda>a. \<lparr>ca_Address = a, ca_Name = []\<rparr>) authorities,
       reward_Amount = uint64 (rw_amount dbReward), RewardId = rw_reward_id dbReward,
       reward_Name = rw_name dbReward\<rparr>]\<rparr>"

definition GetRewardAttestation ::
  "'z reward_lib_scheme \<Rightarrow> core_service option \<Rightarrow> claim_request \<Rightarrow> rpc_error + string \<times> string" where
  "GetRewardAttestation lib c req = (case ready c of
     Inl e \<Rightarrow> Inl e
   | Inr core \<Rightarrow>
     if TrimSpace (req_EthRecipientAddress req) = [] then Inl InvalidArgument
     else if TrimSpace (req_RewardAddress req) = [] then Inl InvalidArgument
     else if req_Specifier req = [] then Inl InvalidArgument
     else if length (req_Specifier req) > 256 then Inl InvalidArgument
     else if TrimSpace (req_ClaimAuthority req) = [] then Inl InvalidArgument
     else if req_Signature req = [] then Inl InvalidArgument
     else if req_Amount req = 0 then Inl InvalidArgument
     else if req_RewardId req = [] then Inl InvalidArgument
     else if req_AmountDecimals req > 18 then Inl InvalidArgument
     else (case GetReward (cs_rewards core) (TrimSpace (req_RewardAddress req)) of
         Inl ErrNoRows \<Rightarrow> Inl NotFound
       | Inl (QueryFailed _) \<Rightarrow> Inl Internal
       | Inr (dbReward, authorities) \<Rightarrow>
         (let attester = reward_attester lib (cs_EthereumKey core) dbReward authorities in
          case Validate attester (request_claim req) of
            Some _ \<Rightarrow> Inl InvalidArgument
          | None \<Rightarrow>
            (case Authenticate lib attester (request_claim req) (req_Signature req) of
               Some _ \<Rightarrow> Inl PermissionDenied
             | None \<Rightarrow>
               (case Attest lib attester (request_claim req) of
                  Inl _ \<Rightarrow> Inl Internal
                | Inr (_, attestation) \<Rightarrow> Inr (EthereumAddress attester, attestation))))))"

end
