(* ===== verification/Reward_Laws.thy ===== *)
theory Reward_Laws
  imports Reward_Service
begin

text \<open>
  Who can change rewards and pools, what a node signs for them, and that the projection of the
  genesis writer agrees with finalization.
\<close>

section \<open>Canonical authorities\<close>

lemma length_dropWhile: "length (dropWhile P xs) \<le> length xs"
  by (induction xs) auto

lemma dropWhile_same_length: "length (dropWhile P xs) = length xs \<Longrightarrow> dropWhile P xs = xs"
  using length_dropWhile [of P] by (cases xs) (auto split: if_splits dest: Suc_le_lessD, metis Suc_n_not_le_n)

definition trim_with :: "(char \<Rightarrow> bool) \<Rightarrow> string \<Rightarrow> string" where
  "trim_with P s = rev (dropWhile P (rev (dropWhile P s)))"

lemma trims: "TrimSpace s = trim_with is_space s" "sql_trim s = trim_with (\<lambda>c. c = CHR '' '') s"
  by (simp_all add: TrimSpace_def sql_trim_def trim_with_def)

lemma length_trim_with: "length (trim_with P s) \<le> length s"
  unfolding trim_with_def using length_dropWhile [of P "rev (dropWhile P s)"] length_dropWhile [of P s] by simp

lemma trim_with_ends:
  "trim_with P s = s \<longleftrightarrow> s = [] \<or> \<not> P (hd s) \<and> \<not> P (last s)"
proof (cases s)
  case (Cons c cs)
  show ?thesis
  proof (cases "P c")
    case True
    have "length (trim_with P s) \<le> length (dropWhile P cs)"
      unfolding trim_with_def using True Cons length_dropWhile [of P "rev (dropWhile P cs)"] by simp
    then have "trim_with P s \<noteq> s" using Cons length_dropWhile [of P cs] by fastforce
    with True Cons show ?thesis by simp
  next
    case False
    then have "trim_with P s = rev (dropWhile P (rev s))" using Cons by (simp add: trim_with_def)
    moreover have "dropWhile P (rev s) = rev s \<longleftrightarrow> \<not> P (last s)"
    proof -
      have "rev s = last s # rev (butlast s)" using Cons by (metis append_butlast_last_id list.distinct(1) rev_eq_Cons_iff rev_rev_ident)
      then show ?thesis using length_dropWhile [of P "rev (butlast s)"]
        by (metis Suc_n_not_le_n dropWhile.simps(2) length_Cons)
    qed
    ultimately show ?thesis using False Cons by (metis list.distinct(1) list.sel(1) rev_rev_ident)
  qed
qed (simp add: trim_with_def)

lemma trim_with_idem: "trim_with P (trim_with P s) = trim_with P s"
proof (cases "trim_with P s = []")
  case False
  let ?m = "dropWhile P s"
  have m: "dropWhile P (rev ?m) \<noteq> []" using False by (auto simp: trim_with_def)
  then have "\<not> P (hd (dropWhile P (rev ?m)))" by (rule hd_dropWhile)
  moreover obtain xs where "rev ?m = xs @ dropWhile P (rev ?m)"
    using takeWhile_dropWhile_id [of P "rev ?m"] by metis
  then have "last (rev ?m) = last (dropWhile P (rev ?m))" using m by (metis last_appendR)
  then have "hd ?m = last (dropWhile P (rev ?m))"
    using m by (metis dropWhile.simps(1) hd_rev last_rev rev.simps(1) rev_rev_ident)
  moreover have "\<not> P (hd ?m)" using m by (metis dropWhile.simps(1) hd_dropWhile rev.simps(1))
  ultimately show ?thesis using m
    unfolding trim_with_ends by (simp add: trim_with_def hd_rev last_rev)
next
  case True
  show ?thesis unfolding True by (simp add: trim_with_def)
qed

lemma is_space_lower [simp]: "is_space (lower_char c) = is_space c"
  by (auto simp: is_space_def lower_char_def Let_def)

lemma hd_ToLower: "s \<noteq> [] \<Longrightarrow> hd (ToLower s) = lower_char (hd s)" "s \<noteq> [] \<Longrightarrow> last (ToLower s) = lower_char (last s)"
  by (simp_all add: ToLower_def hd_map last_map)

text \<open>The addresses a pool stores: lower case, without surrounding space, not empty.\<close>

definition canonical_address :: "string \<Rightarrow> bool" where
  "canonical_address a \<longleftrightarrow> a \<noteq> [] \<and> ToLower a = a \<and> TrimSpace a = a"

lemma canonical_normalized:
  assumes "ToLower (TrimSpace x) \<noteq> []"
  shows "canonical_address (ToLower (TrimSpace x))"
proof -
  have t: "TrimSpace x \<noteq> []" using assms by auto
  have "TrimSpace (TrimSpace x) = TrimSpace x" by (simp add: trims trim_with_idem)
  with t have "\<not> is_space (hd (TrimSpace x)) \<and> \<not> is_space (last (TrimSpace x))"
    by (simp add: trims trim_with_ends)
  with t show ?thesis using assms
    by (simp add: canonical_address_def trims trim_with_ends hd_ToLower)
qed

lemma canonical_sql_trim: "canonical_address a \<Longrightarrow> sql_trim a = a"
  by (auto simp: canonical_address_def trims trim_with_ends is_space_def)

lemma CanonicalAuthorities_canonical: "a \<in> set (CanonicalAuthorities as) \<Longrightarrow> canonical_address a"
  using canonical_normalized by (auto simp: CanonicalAuthorities_set)

definition pool_ok :: "string list \<Rightarrow> bool" where
  "pool_ok as \<longleftrightarrow> as \<noteq> [] \<and> distinct as \<and> (\<forall>a\<in>set as. canonical_address a)"

lemma pool_ok_canonical: "CanonicalAuthorities as \<noteq> [] \<Longrightarrow> pool_ok (CanonicalAuthorities as)"
  by (simp add: pool_ok_def CanonicalAuthorities_distinct CanonicalAuthorities_canonical)

lemma pool_ok_union:
  assumes "pool_ok old" "pool_ok new"
  shows "pool_ok (union_authorities old new)"
proof -
  have c: "\<forall>a\<in>set (old @ new). canonical_address a" using assms by (auto simp: pool_ok_def)
  then have "map (\<lambda>a. ToLower (sql_trim a)) (filter (\<lambda>a. sql_trim a \<noteq> []) (old @ new)) = old @ new"
    by (intro map_idI [of "old @ new", THEN trans [rotated]])
      (auto simp: canonical_sql_trim canonical_address_def filter_id_conv)
  then have "union_authorities old new = sort (remdups (old @ new))" by (simp add: union_authorities_def)
  then have "set (union_authorities old new) = set old \<union> set new" "distinct (union_authorities old new)"
    by simp_all
  with c assms show ?thesis unfolding pool_ok_def by (metis Un_iff empty_set set_append set_empty2 sup_eq_bot_iff)
qed

section \<open>Pools stay usable data\<close>

definition pools_ok :: "reward_db \<Rightarrow> bool" where
  "pools_ok q \<longleftrightarrow> (\<forall>rm as. map_of (core_reward_pools q) rm = Some as \<longrightarrow> pool_ok as)"

lemma pools_ok_frame: "core_reward_pools q' = core_reward_pools q \<Longrightarrow> pools_ok q' = pools_ok q"
  by (simp add: pools_ok_def)

lemma pools_ok_writes:
  assumes "pools_ok q" "pool_ok as"
  shows "pools_ok (snd (InsertRewardPool q rm as))" "pools_ok (snd (UpdateRewardPoolAuthorities q rm as))"
    "pools_ok (snd (UpsertLegacyReplayRewardPool q rm as))"
  using assms pool_ok_union
  by (auto simp: InsertRewardPool_def UpdateRewardPoolAuthorities_def UpsertLegacyReplayRewardPool_def
      rw_exec_def pools_ok_def map_of_update_existing split: option.splits if_splits)

lemma reward_writes_frame [simp]:
  "core_reward_pools (snd (InsertCoreReward q r)) = core_reward_pools q"
  "core_reward_pools (snd (DeleteCoreReward q a)) = core_reward_pools q"
  by (simp_all add: InsertCoreReward_def DeleteCoreReward_def rw_exec_def split: option.split)

lemma stmt_result_snd [simp]: "snd (stmt_result x) = snd x"
  by (simp add: stmt_result_def)

lemma finalizeCreateReward_pools [simp]:
  "core_reward_pools (snd (finalizeCreateReward lib q h txhash i cr signer)) = core_reward_pools q"
  by (simp add: finalizeCreateReward_def split: option.split)

lemma finalizeDeleteReward_pools [simp]:
  "core_reward_pools (snd (finalizeDeleteReward q d signer)) = core_reward_pools q"
  "core_reward_pools (snd (finalizeLegacyDeleteReward q ld signer)) = core_reward_pools q"
  by (simp_all add: finalizeDeleteReward_def finalizeLegacyDeleteReward_def split: option.split)

lemma pools_ok_rewards [simp]:
  "pools_ok (snd (finalizeCreateReward lib q h txhash i cr signer)) = pools_ok q"
  "pools_ok (snd (finalizeDeleteReward q d signer)) = pools_ok q"
  "pools_ok (snd (finalizeLegacyDeleteReward q ld signer)) = pools_ok q"
  by (rule pools_ok_frame, simp)+

lemma legacy_pool_ok:
  assumes "pools_ok q"
  shows "pools_ok (snd (snd (legacy_pool q (CanonicalAuthorities as))))"
proof (cases "CanonicalAuthorities as = []")
  case False
  then have "pool_ok (CanonicalAuthorities as)" by (rule pool_ok_canonical)
  with pools_ok_writes(3) [OF assms this] assms show ?thesis
    by (auto simp: legacy_pool_def split: sum.split query_error.split option.split prod.split; metis snd_conv)
qed (simp add: legacy_pool_def assms)

lemma pools_ok_InsertCoreReward [simp]: "pools_ok (snd (InsertCoreReward q r)) = pools_ok q"
  by (rule pools_ok_frame) simp

lemma finalizeLegacyCreateReward_pools_ok:
  assumes "pools_ok q"
  shows "pools_ok (snd (finalizeLegacyCreateReward lib q h txhash i cr signer))"
proof -
  obtain e rm q1 where l: "legacy_pool q (CanonicalAuthorities (map ca_Address (lcr_ClaimAuthorities cr))) = (e, rm, q1)"
    by (cases "legacy_pool q (CanonicalAuthorities (map ca_Address (lcr_ClaimAuthorities cr)))")
  with legacy_pool_ok [OF assms, of "map ca_Address (lcr_ClaimAuthorities cr)"] have "pools_ok q1" by simp
  with l assms show ?thesis by (simp add: finalizeLegacyCreateReward_def split: option.split)
qed

lemma validated_authorities:
  assumes "validateAuthorityList lib as = None" "\<not> IsHexAddress lib []"
  shows "pool_ok (CanonicalAuthorities as)"
proof -
  from assms(1) have "as \<noteq> []" "IsHexAddress lib (TrimSpace (hd as))"
    by (cases as; simp add: validateAuthorityList_def split: if_splits)+
  then obtain a where a: "a \<in> set as" "TrimSpace a \<noteq> []" using assms(2) by (metis list.set_sel(1))
  then have "ToLower (TrimSpace a) \<in> set (CanonicalAuthorities as)"
    by (auto simp: CanonicalAuthorities_set)
  then show ?thesis by (intro pool_ok_canonical) auto
qed

text \<open>
  C24: whatever reward and pool transactions a block holds, legacy ones
  included, every pool keeps a non-empty list of distinct, lower-case, trimmed authorities; the
  only thing used of the address syntax is that the empty string is no address.
\<close>

theorem pools_stay_canonical:
  assumes "pools_ok q" and "\<not> IsHexAddress lib []"
  shows "pools_ok (snd (finalizeRewards lib q h txhash i reward)) \<and>
    pools_ok (snd (finalizeRewardPoolTransaction lib q h pool))"
proof
  show "pools_ok (snd (finalizeRewards lib q h txhash i reward))"
    using assms(1)
    by (simp add: finalizeRewards_def finalizeLegacyRewardTransaction_def finalizeLegacyCreateReward_pools_ok
        split: option.split sum.split RewardAction.split LegacyRewardAction.split)
  have "pools_ok (snd (finalizeCreateRewardPool lib q body sig msg signer))" for body sig msg signer
  proof (cases "check_create_pool lib body sig msg signer")
    case None
    then have "validateAuthorityList lib (crp_Authorities msg) = None"
      by (auto simp: check_create_pool_def split: option.splits)
    from pools_ok_writes(1) [OF assms(1) validated_authorities [OF this assms(2)]] assms(1) None show ?thesis
      by (auto simp: finalizeCreateRewardPool_def split: sum.split query_error.split)
  qed (simp add: finalizeCreateRewardPool_def assms(1))
  moreover have "pools_ok (snd (finalizeSetRewardPoolAuthorities lib q msg signer))" for msg signer
  proof (cases "check_set_authorities lib q msg signer")
    case None
    then have "validateAuthorityList lib (sra_Authorities msg) = None"
      by (auto simp: check_set_authorities_def split: option.splits)
    from pools_ok_writes(2) [OF assms(1) validated_authorities [OF this assms(2)]] None show ?thesis
      by (simp add: finalizeSetRewardPoolAuthorities_def)
  qed (simp add: finalizeSetRewardPoolAuthorities_def assms(1))
  ultimately show "pools_ok (snd (finalizeRewardPoolTransaction lib q h pool))"
    using assms(1)
    by (auto simp: finalizeRewardPoolTransaction_def split: option.split sum.split RewardPoolAction.split)
qed

section \<open>Who changes rewards\<close>

lemma checkPoolAuthorization_None:
  "checkPoolAuthorization q rm signer = None \<Longrightarrow>
     \<exists>as. map_of (core_reward_pools q) rm = Some as \<and> ToLower (TrimSpace signer) \<in> set as"
  by (auto simp: checkPoolAuthorization_def GetRewardPool_def split: option.splits sum.splits
      query_error.splits if_splits)

lemma latest_reward_in: "latest_reward rs = Some r \<Longrightarrow> r \<in> set rs"
  by (induction rs arbitrary: r) (auto split: option.splits if_splits)

lemma checkRewardAuthority_None:
  assumes "checkRewardAuthority q address signer = None"
  obtains r rm as where "r \<in> set (core_rewards q)" "rw_address r = address"
    "rw_rewards_manager_pubkey r = Some rm" "map_of (core_reward_pools q) rm = Some as"
    "ToLower (TrimSpace signer) \<in> set as"
proof -
  from assms obtain r as where "latest_reward (filter (\<lambda>r. rw_address r = address) (core_rewards q)) = Some r"
    "claim_authorities q r = as" "ToLower (TrimSpace signer) \<in> set as"
    by (auto simp: checkRewardAuthority_def GetReward_def split: option.splits sum.splits
        query_error.splits if_splits)
  with latest_reward_in that show thesis
    by (fastforce simp: claim_authorities_def split: option.splits)
qed

lemma finalizeCreateReward_change:
  assumes "finalizeCreateReward lib q h txhash i cr signer = (err, q')" "q' \<noteq> q"
  shows "checkPoolAuthorization q (cr_RewardsManagerPubkey cr) signer = None \<and>
    (\<exists>r. core_rewards q' = core_rewards q @ [r] \<and> rw_sender r = signer \<and>
       rw_rewards_manager_pubkey r = Some (cr_RewardsManagerPubkey cr))"
  using assms
  by (auto simp: finalizeCreateReward_def InsertCoreReward_def rw_exec_def stmt_result_def split: option.splits)

lemma finalizeDeleteReward_change:
  assumes "finalizeDeleteReward q d signer = (err, q')" "q' \<noteq> q"
  shows "checkRewardAuthority q (dr_Address d) signer = None \<and>
    core_rewards q' = filter (\<lambda>r. rw_address r \<noteq> dr_Address d) (core_rewards q)"
  using assms
  by (auto simp: finalizeDeleteReward_def DeleteCoreReward_def rw_exec_def stmt_result_def split: option.splits)

text \<open>
  C23: a reward transaction of the current format changes the tables only
  before its deadline and only when its body is signed by a current authority of the pool
  concerned: it then adds one reward of that pool, or removes the rewards of an address that has
  one in that pool. The pools stay as they are.
\<close>

theorem reward_changes_authorized:
  assumes "finalizeRewards lib q h txhash i (Some envelope) = (err, q')" "q' \<noteq> q"
    and "rm_Body envelope = Some body"
  shows "h \<le> rb_DeadlineBlockHeight body \<and> core_reward_pools q' = core_reward_pools q \<and>
    (\<exists>signer rm as. ProtoRecover lib (marshal_reward_body lib body) (rm_Signature envelope) = Some signer \<and>
       map_of (core_reward_pools q) rm = Some as \<and> ToLower (TrimSpace signer) \<in> set as \<and>
       ((\<exists>r. core_rewards q' = core_rewards q @ [r] \<and> rw_sender r = signer \<and>
           rw_rewards_manager_pubkey r = Some rm) \<or>
        (\<exists>r0\<in>set (core_rewards q). rw_rewards_manager_pubkey r0 = Some rm \<and>
           core_rewards q' = filter (\<lambda>r. rw_address r \<noteq> rw_address r0) (core_rewards q))))"
proof -
  obtain signer action where h: "h \<le> rb_DeadlineBlockHeight body"
    and s: "ProtoRecover lib (marshal_reward_body lib body) (rm_Signature envelope) = Some signer"
    and a: "rb_Action body = Some action"
    using assms by (auto simp: finalizeRewards_def recoverDeadlinedSigner_def
        split: option.splits sum.splits if_splits)
  show ?thesis
  proof (cases action)
    case (RewardBody_Create cr)
    with assms h s a have f: "finalizeCreateReward lib q h txhash i cr signer = (err, q')"
      by (simp add: finalizeRewards_def recoverDeadlinedSigner_def)
    from finalizeCreateReward_change [OF f assms(2)] checkPoolAuthorization_None
    obtain as r where "map_of (core_reward_pools q) (cr_RewardsManagerPubkey cr) = Some as"
      "ToLower (TrimSpace signer) \<in> set as" "core_rewards q' = core_rewards q @ [r]"
      "rw_sender r = signer" "rw_rewards_manager_pubkey r = Some (cr_RewardsManagerPubkey cr)" by metis
    moreover have "core_reward_pools q' = core_reward_pools q"
      using finalizeCreateReward_pools [of lib q h txhash i cr signer] f by simp
    ultimately show ?thesis using h s by blast
  next
    case (RewardBody_Delete d)
    with assms h s a have f: "finalizeDeleteReward q d signer = (err, q')"
      by (simp add: finalizeRewards_def recoverDeadlinedSigner_def)
    from finalizeDeleteReward_change [OF f assms(2)] obtain r rm as where
      "r \<in> set (core_rewards q)" "rw_address r = dr_Address d" "rw_rewards_manager_pubkey r = Some rm"
      "map_of (core_reward_pools q) rm = Some as" "ToLower (TrimSpace signer) \<in> set as"
      "core_rewards q' = filter (\<lambda>r. rw_address r \<noteq> dr_Address d) (core_rewards q)"
      by (metis checkRewardAuthority_None)
    moreover have "core_reward_pools q' = core_reward_pools q"
      using finalizeDeleteReward_pools(1) [of q d signer] f by simp
    ultimately show ?thesis using h s by metis
  qed
qed

section \<open>Examples\<close>

text \<open>
  A library with transparent signatures and the address syntax of go-ethereum: forty hexadecimal
  digits, with or without the prefix.
\<close>

definition ex_is_hex_address :: "string \<Rightarrow> bool" where
  "ex_is_hex_address s = (let t = (if take 2 s \<in> {''0x'', ''0X''} then drop 2 s else s)
     in length t = 40 \<and> list_all (\<lambda>c. hex_digit c \<noteq> None) t)"

definition ex_lib :: reward_lib where
  "ex_lib = \<lparr>Sha256 = Sha256 ex_prims, Keccak256 = Keccak256 ex_prims, ecdsa_Sign = ecdsa_Sign ex_prims,
     SigToPub = SigToPub ex_prims, ecdsa_Public = ecdsa_Public ex_prims,
     PubkeyToAddress_Hex = (\<lambda>k. ''0x'' @ hex_encode k), CompressPubkey = CompressPubkey ex_prims,
     marshal_reward_body = (\<lambda>_. Some ''body''), marshal_pool_body = (\<lambda>_. Some ''body''),
     marshal_create = (\<lambda>_. Some ''create''), marshal_legacy_create = (\<lambda>_. Some ''legacy''),
     marshal_reward_message = (\<lambda>_. Some []), unmarshal_legacy_reward = (\<lambda>_. None),
     base58_Decode = Some, IsHexAddress = ex_is_hex_address, ed25519_Verify = (\<lambda>_ _ _. True),
     json_Marshal = concat, RuntimeEnvironment = ''dev'', cfg_GenesisChainID = ''openaudio-devnet''\<rparr>"

definition ex_rm :: string where "ex_rm = replicate 32 CHR ''R''"

definition ex_authority_key :: string where "ex_authority_key = replicate 20 CHR ''a''"

definition ex_authority :: string where "ex_authority = ''0x'' @ hex_encode ex_authority_key"

definition ex_rewards_db :: reward_db where
  "ex_rewards_db = \<lparr>core_rewards = [], core_reward_pools = [(ex_rm, [ex_authority])],
     launchpad_authority_rm = [], rw_fault = (\<lambda>_. None)\<rparr>"

definition ex_rotation :: "string list \<Rightarrow> RewardPoolMessage" where
  "ex_rotation authorities = \<lparr>rpm_Body = Some \<lparr>rpb_DeadlineBlockHeight = 100, rpb_Action =
       Some (RewardPoolBody_SetAuthorities
         \<lparr>sra_RewardsManagerPubkey = ex_rm, sra_Authorities = authorities\<rparr>)\<rparr>,
     rpm_Signature = hex_encode ex_authority_key, rpm_RmOwnerSignature = []\<rparr>"

definition ex_create_reward :: RewardMessage where
  "ex_create_reward = \<lparr>rm_Body = Some \<lparr>rb_DeadlineBlockHeight = 100, rb_Action = Some (RewardBody_Create
       \<lparr>cr_RewardId = ''r'', cr_Name = ''n'', cr_Amount = 5, cr_RewardsManagerPubkey = ex_rm\<rparr>)\<rparr>,
     rm_Signature = hex_encode ex_authority_key, rm_unknown = []\<rparr>"

lemma ex_rewards_db_pools: "pools_ok ex_rewards_db"
proof -
  have "pool_ok [ex_authority]" by code_simp
  then show ?thesis by (simp add: pools_ok_def ex_rewards_db_def)
qed

theorem pools_stay_canonical_witness:
  "pools_ok (snd (finalizeRewardPoolTransaction ex_lib ex_rewards_db 9
     (Some (ex_rotation [ex_authority, '' '' @ ex_authority]))))"
proof -
  have "\<not> IsHexAddress ex_lib []" by code_simp
  from pools_stay_canonical [OF ex_rewards_db_pools this] show ?thesis by blast
qed

theorem reward_changes_authorized_witness:
  "\<exists>signer. ProtoRecover ex_lib (Some ''body'') (hex_encode ex_authority_key) = Some signer \<and>
     signer \<in> {ex_authority}"
proof -
  let ?f = "finalizeRewards ex_lib ex_rewards_db 9 ''ab'' 0 (Some ex_create_reward)"
  have "length (core_rewards (snd ?f)) = 1" by code_simp
  then have "snd ?f \<noteq> ex_rewards_db" by (auto simp: ex_rewards_db_def)
  moreover have "?f = (fst ?f, snd ?f)" by simp
  moreover have "rm_Body ex_create_reward = Some (the (rm_Body ex_create_reward))"
    by (simp add: ex_create_reward_def)
  ultimately obtain signer rm as where r:
    "ProtoRecover ex_lib (marshal_reward_body ex_lib (the (rm_Body ex_create_reward)))
       (rm_Signature ex_create_reward) = Some signer"
    "map_of (core_reward_pools ex_rewards_db) rm = Some as" "ToLower (TrimSpace signer) \<in> set as"
    using reward_changes_authorized by metis
  moreover have "ProtoRecover ex_lib (Some ''body'') (hex_encode ex_authority_key) = Some ex_authority"
    by code_simp
  ultimately show ?thesis by blast
qed

section \<open>The projection of the genesis writer\<close>

text \<open>
  C25: for a reward creation that finalizes, the genesis writer's
  projection adds the row finalization adds, apart from two columns: finalization always files the
  reward under message index 0, the writer under the transaction's position in its block, from
  which the reward's address is derived as well. So the two write the same tables exactly for
  the first transaction of a block. For the creation of a pool that did not exist the tables
  always agree. The statements are taken not to fail.
\<close>

theorem migration_matches_finalize:
  assumes "rw_fault q = (\<lambda>_. None)"
  shows "(rm_Body msg = Some body \<and> rb_Action body = Some (RewardBody_Create cr) \<and>
      finalizeRewardTransaction lib q h (Some msg) txhash = (None, q') \<longrightarrow>
    (\<exists>row bytes. HexToBytes txhash = Some bytes \<and> rw_index row = 0 \<and>
       rw_address row = CreateAddress lib bytes (cfg_GenesisChainID lib) h 0 [] \<and>
       q' = q\<lparr>core_rewards := core_rewards q @ [row]\<rparr> \<and>
       ProjectMigrationRewardState lib q (RewardTx msg) (cfg_GenesisChainID lib) h position txhash =
         (True, None, q\<lparr>core_rewards := core_rewards q @
           [row\<lparr>rw_index := position,
              rw_address := CreateAddress lib bytes (cfg_GenesisChainID lib) h position []\<rparr>]\<rparr>)) \<and>
    (snd (snd (ProjectMigrationRewardState lib q (RewardTx msg) (cfg_GenesisChainID lib) h position txhash)) = q'
       \<longleftrightarrow> position = 0)) \<and>
   (rpm_Body env = Some pbody \<and> rpb_Action pbody = Some (RewardPoolBody_Create crp) \<and>
      map_of (core_reward_pools q) (crp_RewardsManagerPubkey crp) = None \<and>
      finalizeRewardPoolTransaction lib q h (Some env) = (None, q') \<longrightarrow>
    ProjectMigrationRewardState lib q (RewardPoolTx env) chainID h position txhash = (True, None, q'))"
proof ((rule conjI; rule impI), goal_cases)
  case 1
  then obtain signer bytes raw where c: "ProtoRecover lib (marshal_reward_body lib body) (rm_Signature msg) = Some signer"
    "HexToBytes txhash = Some bytes" "marshal_create lib cr = Some raw"
    and q': "projectReward lib q msg (cfg_GenesisChainID lib) h 0 txhash = (None, q')"
    by (auto simp: finalizeRewardTransaction_def finalizeRewards_def finalizeCreateReward_def projectReward_def
        recoverDeadlinedSigner_def split: option.splits sum.splits if_splits)
  define row where "row i = \<lparr>rw_address = CreateAddress lib bytes (cfg_GenesisChainID lib) h i [], rw_index = i,
      rw_tx_hash = txhash, rw_sender = signer, rw_reward_id = cr_RewardId cr, rw_name = cr_Name cr,
      rw_amount = int64 (cr_Amount cr), rw_rewards_manager_pubkey = Some (cr_RewardsManagerPubkey cr),
      rw_raw_message = raw, rw_block_height = h\<rparr>" for i
  have p: "projectReward lib q msg (cfg_GenesisChainID lib) h i txhash =
      (None, q\<lparr>core_rewards := core_rewards q @ [row i]\<rparr>)" for i
    using 1 c assms by (simp add: projectReward_def InsertCoreReward_def rw_exec_def stmt_result_def row_def)
  have r: "row i = (row 0)\<lparr>rw_index := i, rw_address := CreateAddress lib bytes (cfg_GenesisChainID lib) h i []\<rparr>"
    "rw_index (row i) = i" "rw_address (row i) = CreateAddress lib bytes (cfg_GenesisChainID lib) h i []" for i
    by (simp_all add: row_def)
  have m: "ProjectMigrationRewardState lib q (RewardTx msg) (cfg_GenesisChainID lib) h position txhash =
      (True, None, q\<lparr>core_rewards := core_rewards q @ [row position]\<rparr>)"
    by (simp add: ProjectMigrationRewardState_def p)
  have q0: "q' = q\<lparr>core_rewards := core_rewards q @ [row 0]\<rparr>" using q' p by simp
  have "snd (snd (ProjectMigrationRewardState lib q (RewardTx msg) (cfg_GenesisChainID lib) h position txhash)) = q'
      \<longleftrightarrow> position = 0"
    using r(2) [of position] r(2) [of 0] by (auto simp: m q0 dest!: arg_cong [where f = core_rewards])
  then show ?case using m q0 c(2) r by metis
next
  case 2
  then show ?case
    by (auto simp: ProjectMigrationRewardState_def projectRewardPool_def finalizeRewardPoolTransaction_def
        finalizeCreateRewardPool_def GetRewardPool_def split: option.splits if_splits sum.splits)
qed

theorem migration_matches_finalize_witness:
  "snd (snd (ProjectMigrationRewardState ex_lib ex_rewards_db (RewardTx ex_create_reward) ''openaudio-devnet'' 9 0 ''ab'')) =
     snd (finalizeRewardTransaction ex_lib ex_rewards_db 9 (Some ex_create_reward) ''ab'') \<and>
   snd (snd (ProjectMigrationRewardState ex_lib ex_rewards_db (RewardTx ex_create_reward) ''openaudio-devnet'' 9 1 ''ab'')) \<noteq>
     snd (finalizeRewardTransaction ex_lib ex_rewards_db 9 (Some ex_create_reward) ''ab'')"
proof -
  let ?f = "finalizeRewardTransaction ex_lib ex_rewards_db 9 (Some ex_create_reward) ''ab''"
  have "fst ?f = None" by code_simp
  then have f: "?f = (None, snd ?f)" by (simp add: prod_eq_iff)
  have c: "cfg_GenesisChainID ex_lib = ''openaudio-devnet''" by (simp add: ex_lib_def)
  have "rw_fault ex_rewards_db = (\<lambda>_. None)" by (simp add: ex_rewards_db_def)
  from migration_matches_finalize [OF this, THEN conjunct1, rule_format, of ex_create_reward _ _ ex_lib 9 "''ab''" "snd ?f"] f
  have "snd (snd (ProjectMigrationRewardState ex_lib ex_rewards_db (RewardTx ex_create_reward)
    (cfg_GenesisChainID ex_lib) 9 i ''ab'')) = snd ?f \<longleftrightarrow> i = 0" for i
    by (simp add: ex_create_reward_def)
  from this [of 0] this [of 1] show ?thesis by (simp add: c)
qed

section \<open>Authorities without the prefix\<close>

lemma has_0x_normalized:
  assumes "has_0x s"
  shows "has_0x (ToLower (TrimSpace s))"
proof -
  from assms obtain t where s: "s = ''0x'' @ t" by (metis has_0x_def append_take_drop_id)
  have "dropWhile is_space (rev t @ ''x0'') = dropWhile is_space (rev t) @ ''x0''"
    by (rule dropWhile_append3) (simp add: is_space_def)
  then have "TrimSpace s = ''0x'' @ rev (dropWhile is_space (rev t))"
    by (simp add: TrimSpace_def s is_space_def)
  then show ?thesis by (simp add: has_0x_def ToLower_def lower_char_def)
qed

lemma recovered_address: "ProtoRecover lib body sig = Some signer \<Longrightarrow> \<exists>k. signer = PubkeyToAddress_Hex lib k"
  by (auto simp: ProtoRecover_def EthRecover_def split: option.splits)

lemma unprefixed_pool_refuses:
  assumes "\<forall>k. has_0x (PubkeyToAddress_Hex lib k)" "ProtoRecover lib body sig = Some signer"
    and "map_of (core_reward_pools q) rm = Some as" "\<forall>a\<in>set as. \<not> has_0x a"
  shows "checkPoolAuthorization q rm signer \<noteq> None"
proof
  assume "checkPoolAuthorization q rm signer = None"
  from checkPoolAuthorization_None [OF this] assms(3,4) have "\<not> has_0x (ToLower (TrimSpace signer))" by auto
  moreover have "has_0x signer" using recovered_address [OF assms(2)] assms(1) by auto
  ultimately show False using has_0x_normalized by blast
qed

text \<open>
  What may follow in later blocks: pool transactions, and reward transactions of the current
  format. Validation refuses the retired format.
\<close>

datatype later_tx =
    LaterPool int RewardPoolMessage
  | LaterReward int string RewardMessage

fun current_format :: "later_tx \<Rightarrow> bool" where
  "current_format (LaterPool h env) = True"
| "current_format (LaterReward h txhash msg) = (rm_Body msg \<noteq> None)"

fun later_step :: "'z reward_lib_scheme \<Rightarrow> later_tx \<Rightarrow> reward_db \<Rightarrow> reward_db" where
  "later_step lib (LaterPool h env) q = snd (finalizeRewardPoolTransaction lib q h (Some env))"
| "later_step lib (LaterReward h txhash msg) q = snd (finalizeRewardTransaction lib q h (Some msg) txhash)"

definition rewards_of :: "reward_db \<Rightarrow> string \<Rightarrow> reward_row set" where
  "rewards_of q rm = {r \<in> set (core_rewards q). rw_rewards_manager_pubkey r = Some rm}"

lemma finalizeCreateRewardPool_keeps:
  "map_of (core_reward_pools q) rm = Some as \<Longrightarrow>
   map_of (core_reward_pools (snd (finalizeCreateRewardPool lib q body sig msg signer))) rm = Some as"
  "core_rewards (snd (finalizeCreateRewardPool lib q body sig msg signer)) = core_rewards q"
  by (auto simp: finalizeCreateRewardPool_def GetRewardPool_def InsertRewardPool_def
      split: option.split sum.split query_error.split)

lemma finalizeSet_keeps:
  "checkPoolAuthorization q rm signer \<noteq> None \<Longrightarrow> map_of (core_reward_pools q) rm = Some as \<Longrightarrow>
   map_of (core_reward_pools (snd (finalizeSetRewardPoolAuthorities lib q msg signer))) rm = Some as"
  "core_rewards (snd (finalizeSetRewardPoolAuthorities lib q msg signer)) = core_rewards q"
  by (auto simp: finalizeSetRewardPoolAuthorities_def check_set_authorities_def UpdateRewardPoolAuthorities_def
      rw_exec_def map_of_update_existing split: option.split)

lemma finalizeCreateReward_keeps:
  "checkPoolAuthorization q rm signer \<noteq> None \<Longrightarrow>
   rewards_of (snd (finalizeCreateReward lib q h txhash i cr signer)) rm = rewards_of q rm"
  by (auto simp: rewards_of_def finalizeCreateReward_def InsertCoreReward_def rw_exec_def split: option.splits)

lemma finalizeDeleteReward_keeps: "rewards_of (snd (finalizeDeleteReward q d signer)) rm \<subseteq> rewards_of q rm"
  by (auto simp: rewards_of_def finalizeDeleteReward_def DeleteCoreReward_def rw_exec_def split: option.splits)

lemma locked_step:
  assumes "\<forall>k. has_0x (PubkeyToAddress_Hex lib k)" "map_of (core_reward_pools q) rm = Some as"
    and "\<forall>a\<in>set as. \<not> has_0x a" "current_format tx"
  shows "map_of (core_reward_pools (later_step lib tx q)) rm = Some as \<and>
    rewards_of (later_step lib tx q) rm \<subseteq> rewards_of q rm"
proof -
  have refuse: "checkPoolAuthorization q rm signer \<noteq> None"
    if "recoverDeadlinedSigner lib h d b sig = Inr signer" for h d b sig signer
    using that unprefixed_pool_refuses [OF assms(1) _ assms(2,3), of b sig]
    by (auto simp: recoverDeadlinedSigner_def split: if_splits option.splits)
  show ?thesis
  proof (cases tx)
    case (LaterPool h env)
    then show ?thesis using assms(2)
      by (auto simp: finalizeRewardPoolTransaction_def rewards_of_def finalizeCreateRewardPool_keeps finalizeSet_keeps refuse
          split: option.split sum.split RewardPoolAction.split)
  next
    case (LaterReward h txhash msg)
    with assms(4) obtain body where "rm_Body msg = Some body" by auto
    with LaterReward show ?thesis using assms(2) finalizeDeleteReward_keeps
      by (auto simp: finalizeRewardTransaction_def finalizeRewards_def finalizeCreateReward_keeps refuse
          split: option.split sum.split RewardAction.split)
  qed
qed

lemma locked_fold:
  assumes "\<forall>k. has_0x (PubkeyToAddress_Hex lib k)" "\<forall>a\<in>set as. \<not> has_0x a"
  shows "map_of (core_reward_pools q) rm = Some as \<Longrightarrow> list_all current_format txs \<Longrightarrow>
    map_of (core_reward_pools (fold (later_step lib) txs q)) rm = Some as \<and>
    rewards_of (fold (later_step lib) txs q) rm \<subseteq> rewards_of q rm"
proof (induction txs arbitrary: q)
  case (Cons tx txs)
  with locked_step [OF assms(1) Cons.prems(1) assms(2), of tx] show ?case by fastforce
qed simp

text \<open>
  C26: the check of the authority list accepts every address
  that go-ethereum's IsHexAddress accepts, and that includes addresses without the prefix 0x. So a
  rotation to such authorities that a current authority signs passes validation and finalization,
  and it locks the pool: recovered signers always carry the prefix, so
  no sequence of later pool transactions and reward transactions of the current format changes
  the authorities of the pool or creates a reward in it. Reward transactions of the retired
  format are refused by validation.
\<close>

theorem unprefixed_authorities_orphan_pool:
  assumes "\<forall>k. has_0x (PubkeyToAddress_Hex lib k)"
    and "rpm_Body env = Some body" "rpb_Action body = Some (RewardPoolBody_SetAuthorities msg)"
    and "recoverDeadlinedSigner lib h (rpb_DeadlineBlockHeight body) (marshal_pool_body lib body)
      (rpm_Signature env) = Inr signer"
    and "rw_fault q = (\<lambda>_. None)" "validateRewardsManagerPubkeyShape lib (sra_RewardsManagerPubkey msg) = None"
    and "map_of (core_reward_pools q) (sra_RewardsManagerPubkey msg) = Some old" "ToLower (TrimSpace signer) \<in> set old"
    and "sra_Authorities msg \<noteq> []"
    and "\<forall>a\<in>set (sra_Authorities msg). IsHexAddress lib (TrimSpace a) \<and> \<not> has_0x (ToLower (TrimSpace a))"
  shows "isValidRewardPoolTransaction lib q (Some env) h = None \<and>
    (\<exists>q'. finalizeRewardPoolTransaction lib q h (Some env) = (None, q') \<and>
       (\<forall>txs. list_all current_format txs \<longrightarrow>
          map_of (core_reward_pools (fold (later_step lib) txs q')) (sra_RewardsManagerPubkey msg) =
            Some (CanonicalAuthorities (sra_Authorities msg)) \<and>
          rewards_of (fold (later_step lib) txs q') (sra_RewardsManagerPubkey msg)
            \<subseteq> rewards_of q (sra_RewardsManagerPubkey msg))) \<and>
    (rm_Body legacy = None \<longrightarrow> isValidRewardTransaction lib q2 (Some legacy) h2 \<noteq> None)"
proof -
  let ?rm = "sra_RewardsManagerPubkey msg" and ?as = "CanonicalAuthorities (sra_Authorities msg)"
  let ?q = "q\<lparr>core_reward_pools := update_existing ?rm (\<lambda>_. ?as) (core_reward_pools q)\<rparr>"
  have c: "check_set_authorities lib q msg signer = None"
    using assms(5-10) by (auto simp: check_set_authorities_def validateAuthorityList_def list_all_iff
        checkPoolAuthorization_def GetRewardPool_def)
  then have v: "isValidRewardPoolTransaction lib q (Some env) h = None"
    and f: "finalizeRewardPoolTransaction lib q h (Some env) = (None, ?q)"
    using assms(2-5) by (simp_all add: isValidRewardPoolTransaction_def validateSetRewardPoolAuthorities_def
        finalizeRewardPoolTransaction_def finalizeSetRewardPoolAuthorities_def UpdateRewardPoolAuthorities_def
        rw_exec_def stmt_result_def)
  have u: "\<forall>a\<in>set ?as. \<not> has_0x a" using assms(10) by (auto simp: CanonicalAuthorities_set)
  have p: "map_of (core_reward_pools ?q) ?rm = Some ?as" using assms(7) by (simp add: map_of_update_existing)
  have r: "rewards_of ?q ?rm = rewards_of q ?rm" by (simp add: rewards_of_def)
  have "rm_Body legacy = None \<longrightarrow> isValidRewardTransaction lib q2 (Some legacy) h2 \<noteq> None"
    by (auto simp: isValidRewardTransaction_def split: sum.splits option.splits)
  with v f locked_fold [OF assms(1) u p] show ?thesis unfolding r by blast
qed

text \<open>The authority hands the pool to itself, leaving out the prefix.\<close>

definition ex_orphaned :: reward_db where
  "ex_orphaned = snd (finalizeRewardPoolTransaction ex_lib ex_rewards_db 9
     (Some (ex_rotation [hex_encode ex_authority_key])))"

theorem unprefixed_authorities_orphan_pool_witness:
  "core_reward_pools ex_orphaned = [(ex_rm, [hex_encode ex_authority_key])] \<and>
   isValidRewardPoolTransaction ex_lib ex_rewards_db (Some (ex_rotation [hex_encode ex_authority_key])) 9 = None \<and>
   map_of (core_reward_pools (fold (later_step ex_lib)
     [LaterPool 10 (ex_rotation [ex_authority]), LaterReward 11 ''ab'' ex_create_reward] ex_orphaned)) ex_rm =
     Some (CanonicalAuthorities [hex_encode ex_authority_key])"
proof -
  let ?msg = "\<lparr>sra_RewardsManagerPubkey = ex_rm, sra_Authorities = [hex_encode ex_authority_key]\<rparr>"
  let ?env = "ex_rotation [hex_encode ex_authority_key]"
  let ?body = "\<lparr>rpb_DeadlineBlockHeight = 100, rpb_Action = Some (RewardPoolBody_SetAuthorities ?msg)\<rparr>"
  let ?txs = "[LaterPool 10 (ex_rotation [ex_authority]), LaterReward 11 ''ab'' ex_create_reward]"
  have k: "\<forall>k. has_0x (PubkeyToAddress_Hex ex_lib k)" by (simp add: ex_lib_def has_0x_def)
  have b: "rpm_Body ?env = Some ?body" "rpb_Action ?body = Some (RewardPoolBody_SetAuthorities ?msg)"
    by (simp_all add: ex_rotation_def)
  have "ProtoRecover ex_lib (marshal_pool_body ex_lib ?body) (rpm_Signature ?env) = Some ex_authority" by code_simp
  then have s: "recoverDeadlinedSigner ex_lib 9 (rpb_DeadlineBlockHeight ?body) (marshal_pool_body ex_lib ?body)
      (rpm_Signature ?env) = Inr ex_authority" by (simp add: recoverDeadlinedSigner_def)
  have n: "rw_fault ex_rewards_db = (\<lambda>_. None)" by (simp add: ex_rewards_db_def)
  have "validateRewardsManagerPubkeyShape ex_lib ex_rm = None" by code_simp
  then have v: "validateRewardsManagerPubkeyShape ex_lib (sra_RewardsManagerPubkey ?msg) = None" by simp
  have m: "map_of (core_reward_pools ex_rewards_db) (sra_RewardsManagerPubkey ?msg) = Some [ex_authority]"
    by (simp add: ex_rewards_db_def)
  have "ToLower (TrimSpace ex_authority) = ex_authority" by code_simp
  then have i: "ToLower (TrimSpace ex_authority) \<in> set [ex_authority]" by simp
  have "IsHexAddress ex_lib (TrimSpace (hex_encode ex_authority_key))"
    "\<not> has_0x (ToLower (TrimSpace (hex_encode ex_authority_key)))" by code_simp+
  then have u: "\<forall>a\<in>set (sra_Authorities ?msg). IsHexAddress ex_lib (TrimSpace a) \<and> \<not> has_0x (ToLower (TrimSpace a))"
    by simp
  have "sra_Authorities ?msg \<noteq> []" by simp
  note o = unprefixed_authorities_orphan_pool [OF k b s n v m i this u]
  from o [THEN conjunct2, THEN conjunct1] obtain q' where
    f: "finalizeRewardPoolTransaction ex_lib ex_rewards_db 9 (Some ?env) = (None, q')" and
    t: "\<forall>txs. list_all current_format txs \<longrightarrow> map_of (core_reward_pools (fold (later_step ex_lib) txs q'))
      (sra_RewardsManagerPubkey ?msg) = Some (CanonicalAuthorities (sra_Authorities ?msg))" by blast
  have "list_all current_format ?txs" by (simp add: ex_create_reward_def)
  with t have "map_of (core_reward_pools (fold (later_step ex_lib) ?txs q')) ex_rm =
      Some (CanonicalAuthorities [hex_encode ex_authority_key])" by fastforce
  moreover have "q' = ex_orphaned" using f by (simp add: ex_orphaned_def)
  moreover have "core_reward_pools ex_orphaned = [(ex_rm, [hex_encode ex_authority_key])]" by code_simp
  ultimately show ?thesis using o [THEN conjunct1] by blast
qed

end
