(* ===== verification/Sender_Laws.thy ===== *)
theory Sender_Laws
  imports Reward_Laws
begin

text \<open>
  What the attestations for the senders of a reward manager are signed for: additions only for
  authorities; deletions also for current authorities, when the prefix of the address is left out.
\<close>

section \<open>Additions\<close>

lemma senderGate_cases:
  "senderGateForRM lib core rm = PoolGated as \<Longrightarrow> map_of (core_reward_pools (cs_rewards core)) rm = Some as"
  "senderGateForRM lib core rm = AudioGated \<Longrightarrow> map_of (core_reward_pools (cs_rewards core)) rm = None \<and>
     rm = TrimSpace (AudioRewardsManagerPubkey lib)"
  by (auto simp: senderGateForRM_def GetRewardPool_def Let_def
      split: sum.splits option.splits query_error.splits if_splits)

lemma attestation_result_Inr: "attestation_result r = Inr x \<Longrightarrow> r = Some x"
  by (simp add: attestation_result_def split: option.splits)

lemma getSenderAttestation_Some:
  assumes "getSenderAttestation lib key pre addr rm = Some (owner, sig)"
  obtains program bytes where "base58_Decode lib rm = Some program"
    "hex_decode (TrimPrefix_0x addr) = Some bytes" "owner = PrivKeyToAddress lib key"
    "EthSignKeccak lib key (pre @ program @ bytes) = Some sig"
  using assms by (auto simp: getSenderAttestation_def split: option.splits)

text \<open>
  C28: a node signs the addition of a sender only for an address that is an
  authority of the reward manager's pool, or, for the AUDIO reward manager without a pool, a
  registered validator or an anti-abuse oracle; the signature is over the manager and that address.
\<close>

theorem sender_additions_gated:
  assumes "GetRewardSenderAttestation lib (Some core) addr rm = Inr (owner, sig)"
  shows "\<exists>program bytes. base58_Decode lib (TrimSpace rm) = Some program \<and>
      hex_decode (TrimPrefix_0x (TrimSpace addr)) = Some bytes \<and>
      EthSignKeccak lib (cs_EthereumKey core) (''add'' @ program @ bytes) = Some sig \<and>
      ((\<exists>as. map_of (core_reward_pools (cs_rewards core)) (TrimSpace rm) = Some as \<and>
          ToLower (TrimSpace addr) \<in> set as) \<or>
       (map_of (core_reward_pools (cs_rewards core)) (TrimSpace rm) = None \<and>
        TrimSpace rm = TrimSpace (AudioRewardsManagerPubkey lib) \<and>
        (\<exists>eligible eth. gatherEligibleSenderAddresses core = Some eligible \<and> eth \<in> set eligible \<and>
           EqualFold eth (TrimSpace addr))))"
proof -
  have sign: "GetCreateSenderAttestation lib (cs_EthereumKey core) (TrimSpace addr) (TrimSpace rm) = Some (owner, sig)"
    using assms by (auto simp: GetRewardSenderAttestation_def ready_def Let_def
        split: if_splits sender_gate.splits option.splits dest!: attestation_result_Inr)
  consider as where "senderGateForRM lib core (TrimSpace rm) = PoolGated as" "ToLower (TrimSpace addr) \<in> set as"
    | eligible where "senderGateForRM lib core (TrimSpace rm) = AudioGated"
      "gatherEligibleSenderAddresses core = Some eligible" "list_ex (\<lambda>eth. EqualFold eth (TrimSpace addr)) eligible"
    using assms by (auto simp: GetRewardSenderAttestation_def ready_def Let_def
        split: if_splits sender_gate.splits option.splits)
  then have gate: "(\<exists>as. map_of (core_reward_pools (cs_rewards core)) (TrimSpace rm) = Some as \<and>
          ToLower (TrimSpace addr) \<in> set as) \<or>
       (map_of (core_reward_pools (cs_rewards core)) (TrimSpace rm) = None \<and>
        TrimSpace rm = TrimSpace (AudioRewardsManagerPubkey lib) \<and>
        (\<exists>eligible eth. gatherEligibleSenderAddresses core = Some eligible \<and> eth \<in> set eligible \<and>
           EqualFold eth (TrimSpace addr)))"
    by cases (auto dest: senderGate_cases simp: list_ex_iff)
  from sign obtain program bytes where "base58_Decode lib (TrimSpace rm) = Some program"
    "hex_decode (TrimPrefix_0x (TrimSpace addr)) = Some bytes"
    "EthSignKeccak lib (cs_EthereumKey core) (''add'' @ program @ bytes) = Some sig"
    unfolding GetCreateSenderAttestation_def AddSenderMessagePrefix_def by (rule getSenderAttestation_Some)
  with gate show ?thesis by blast
qed

definition ex_core :: core_service where
  "ex_core = \<lparr>cs_EthereumKey = ''node'', cs_rewards = ex_rewards_db,
     cs_validators = \<lparr>core_validators = [], validator_history = [], val_fault = (\<lambda>_. None)\<rparr>,
     cs_oracles = Some []\<rparr>"

theorem sender_additions_gated_witness:
  "\<exists>as. map_of (core_reward_pools ex_rewards_db) (TrimSpace ex_rm) = Some as \<and>
     ToLower (TrimSpace ex_authority) \<in> set as"
proof -
  have "GetRewardSenderAttestation ex_lib (Some ex_core) ex_authority ex_rm =
      Inr (''0x'' @ hex_encode ''node'', hex_encode ''node'')" by code_simp
  moreover have "map_of (core_reward_pools (cs_rewards ex_core)) (TrimSpace ex_rm) \<noteq> None" by code_simp
  ultimately show ?thesis
    using sender_additions_gated [of ex_lib ex_core ex_authority ex_rm] by (auto simp: ex_core_def)
qed

section \<open>Deletions\<close>

lemma hex_digit_plain:
  assumes "hex_digit c \<noteq> None"
  shows "\<not> is_space c" "lower_char c \<noteq> CHR ''x''" "c \<noteq> CHR ''x''"
  using assms by (auto simp: hex_digit_def is_space_def lower_char_def Let_def char_of_eq_iff take_bit_int_eq_self
      split: if_splits)

lemma hex_decode_digits: "hex_decode s = Some bs \<Longrightarrow> c \<in> set s \<Longrightarrow> hex_digit c \<noteq> None"
  by (induction s arbitrary: bs rule: hex_decode.induct) (auto split: option.splits)

lemma hex_text:
  assumes "hex_decode s = Some bs"
  shows "TrimSpace s = s" "\<not> has_0x s" "\<not> has_0x (ToLower s)"
proof -
  show "TrimSpace s = s"
    using hex_decode_digits [OF assms] hex_digit_plain(1) by (cases "s = []") (auto simp: trims trim_with_ends)
  have "CHR ''x'' \<notin> set s" "CHR ''x'' \<notin> set (ToLower s)"
    using hex_decode_digits [OF assms] hex_digit_plain(2,3) by (force simp: ToLower_def)+
  moreover have "CHR ''x'' \<in> set t" if "has_0x t" for t
    using that set_take_subset [of 2 t] by (auto simp: has_0x_def)
  ultimately show "\<not> has_0x s" "\<not> has_0x (ToLower s)" by blast+
qed

text \<open>
  For a pool whose authorities carry the prefix 0x, a node refuses to sign
  the deletion of a current authority, but signs the very same bytes when the request leaves the
  prefix out: the check compares the text of the address, the signature is over its bytes.
\<close>

theorem sender_deletions_bypass:
  assumes "validateRewardsManagerPubkeyShape lib rm = None"
    and "GetRewardPool (cs_rewards core) rm = Inr as" and "\<forall>a\<in>set as. has_0x a"
    and "''0x'' @ digits \<in> set as" and "ToLower digits = digits"
    and "hex_decode digits = Some bytes" and "digits \<noteq> []"
    and "GetDeleteSenderAttestation lib (cs_EthereumKey core) (''0x'' @ digits) rm = Some (owner, sig)"
  shows "GetDeleteRewardSenderAttestation lib (Some core) (''0x'' @ digits) rm = Inl InvalidArgument \<and>
    GetDeleteRewardSenderAttestation lib (Some core) digits rm = Inr (owner, sig)"
proof -
  have rm: "TrimSpace rm = rm"
    using assms(1) by (auto simp: validateRewardsManagerPubkeyShape_def split: if_splits)
  note t = hex_text [OF assms(6)]
  have same: "TrimPrefix_0x (''0x'' @ digits) = digits" "TrimPrefix_0x digits = digits"
    using t(2) by (simp_all add: TrimPrefix_0x_def has_0x_def)
  have gate: "senderGateForRM lib core rm = PoolGated as" using assms(2) by (simp add: senderGateForRM_def)
  have trim: "TrimSpace (''0x'' @ digits) = ''0x'' @ digits"
    using t(1) assms(7) by (auto simp: trims trim_with_ends is_space_def)
  have "ToLower (''0x'' @ digits) = ''0x'' @ digits" using assms(5) by (simp add: ToLower_def lower_char_def)
  with assms(1,4) gate rm trim have "GetDeleteRewardSenderAttestation lib (Some core) (''0x'' @ digits) rm = Inl InvalidArgument"
    by (simp add: GetDeleteRewardSenderAttestation_def ready_def Let_def)
  moreover have "GetDeleteSenderAttestation lib (cs_EthereumKey core) digits rm = Some (owner, sig)"
    using assms(8) unfolding GetDeleteSenderAttestation_def getSenderAttestation_def same .
  moreover have "ToLower digits \<notin> set as" using assms(3) t(3) by blast
  ultimately show ?thesis
    using assms(1,7) gate rm t(1) by (simp add: GetDeleteRewardSenderAttestation_def ready_def Let_def attestation_result_def)
qed

theorem sender_deletions_bypass_witness:
  "GetDeleteRewardSenderAttestation ex_lib (Some ex_core) ex_authority ex_rm = Inl InvalidArgument \<and>
   GetDeleteRewardSenderAttestation ex_lib (Some ex_core) (hex_encode ex_authority_key) ex_rm =
     Inr (''0x'' @ hex_encode ''node'', hex_encode ''node'')"
proof -
  have p: "GetRewardPool (cs_rewards ex_core) ex_rm = Inr [ex_authority]"
    by (simp add: GetRewardPool_def ex_core_def ex_rewards_db_def)
  have c: "validateRewardsManagerPubkeyShape ex_lib ex_rm = None"
    "ToLower (hex_encode ex_authority_key) = hex_encode ex_authority_key"
    "GetDeleteSenderAttestation ex_lib (cs_EthereumKey ex_core) (''0x'' @ hex_encode ex_authority_key) ex_rm =
      Some (''0x'' @ hex_encode ''node'', hex_encode ''node'')" by code_simp+
  have a: "\<forall>a\<in>set [ex_authority]. has_0x a" "''0x'' @ hex_encode ex_authority_key \<in> set [ex_authority]"
    "hex_encode ex_authority_key \<noteq> []"
    by (simp_all add: ex_authority_def ex_authority_key_def has_0x_def)
  show ?thesis
    by (rule sender_deletions_bypass [OF c(1) p a(1,2) c(2) hex_decode_encode a(3) c(3), folded ex_authority_def])
qed

end
