(* ===== verification/Stream_Signatures.thy ===== *)
theory Stream_Signatures
  imports Signing
begin

text \<open>
  The signed query parameter of a stream request
  (\<^verbatim>\<open>pkg/mediorum/server/signature/signature.go\<close>): an envelope of JSON data and a signature over
  its canonical form, how it is made and how the signer is recovered.

  Parameters beside the primitives: the JSON texts of the two structures with their decoding, RFC
  8785 canonicalization (\<^verbatim>\<open>jcs.Transform\<close>) and \<^verbatim>\<open>accounts.TextHash\<close>. Decoding an
  envelope through a pointer gives a null pointer for the JSON value \<^verbatim>\<open>null\<close>.
\<close>

section \<open>Envelopes\<close>

record SignatureEnvelope =
  env_Data :: string
  env_Signature :: string

record SignatureData =
  sig_UploadID :: string
  sig_Cid :: string
  ShouldCache :: int
  sig_Timestamp :: int
  sig_TrackId :: int
  sig_UserID :: int

record RecoveredSignature =
  DataHash :: string
  SigData :: SignatureData
  SignerWallet :: string
  SignerPubkey :: string

record stream_lib = prims +
  marshal_data :: "SignatureData \<Rightarrow> string option"
  unmarshal_data :: "string \<Rightarrow> SignatureData option"
  marshal_envelope :: "SignatureEnvelope \<Rightarrow> string option"
  unmarshal_envelope :: "string \<Rightarrow> SignatureEnvelope option option"
  jcs_Transform :: "string \<Rightarrow> string option"
  TextHash :: "string \<Rightarrow> string"

section \<open>Recovering\<close>

text \<open>A panic is a result of its own: a null envelope and a signature of less than two characters.\<close>

datatype parse_result = Recovered RecoveredSignature | ParseError | Panicked

definition normalize_v :: "string \<Rightarrow> string" where
  "normalize_v s = (if (of_char (s ! 64) :: int) \<ge> 27 then s[64 := char_of ((of_char (s ! 64) :: int) - 27)] else s)"

definition ParseFromQueryString :: "'z stream_lib_scheme \<Rightarrow> string \<Rightarrow> parse_result" where
  "ParseFromQueryString lib queryStringValue = (case unmarshal_envelope lib queryStringValue of
     None \<Rightarrow> ParseError
   | Some None \<Rightarrow> Panicked
   | Some (Some envelope) \<Rightarrow>
     (case jcs_Transform lib (env_Data envelope) of
        None \<Rightarrow> ParseError
      | Some inner \<Rightarrow>
        (let hash = Keccak256 lib inner; hash2 = TextHash lib hash in
         if length (env_Signature envelope) < 2 then Panicked
         else (case hex_decode (drop 2 (env_Signature envelope)) of
             None \<Rightarrow> ParseError
           | Some signatureBytes \<Rightarrow>
             if length signatureBytes < 65 then ParseError
             else (case SigToPub lib hash2 (normalize_v signatureBytes) of
                 None \<Rightarrow> ParseError
               | Some recoveredPubkey \<Rightarrow>
                 (case unmarshal_data lib (env_Data envelope) of
                    None \<Rightarrow> ParseError
                  | Some dat \<Rightarrow> Recovered \<lparr>DataHash = hash, SigData = dat,
                      SignerWallet = PubkeyToAddress_Hex lib recoveredPubkey,
                      SignerPubkey = CompressPubkey lib recoveredPubkey\<rparr>))))))"

section \<open>Signing\<close>

definition ethereum_v :: "string \<Rightarrow> string" where
  "ethereum_v s = (if length s = 65 then s[64 := char_of (((of_char (s ! 64) :: int) + 27) mod 256)] else s)"

definition GenerateQueryStringFromSignatureData ::
  "'z stream_lib_scheme \<Rightarrow> SignatureData \<Rightarrow> string \<Rightarrow> string option" where
  "GenerateQueryStringFromSignatureData lib dat privKey = (case marshal_data lib dat of
     None \<Rightarrow> None
   | Some dataBytes \<Rightarrow>
     (case jcs_Transform lib dataBytes of
        None \<Rightarrow> None
      | Some canonicalJSON \<Rightarrow>
        (let hash2 = TextHash lib (Keccak256 lib canonicalJSON) in
         case ecdsa_Sign lib hash2 privKey of
           None \<Rightarrow> None
         | Some sigBytes \<Rightarrow> marshal_envelope lib
             \<lparr>env_Data = dataBytes, env_Signature = ''0x'' @ hex_encode (ethereum_v sigBytes)\<rparr>)))"

definition SignBytes :: "'z stream_lib_scheme \<Rightarrow> string \<Rightarrow> string \<Rightarrow> string option" where
  "SignBytes lib input privateKey = ecdsa_Sign lib (TextHash lib (Keccak256 lib input)) privateKey"

definition SignCoreBytes :: "'z stream_lib_scheme \<Rightarrow> string option \<Rightarrow> string \<Rightarrow> string option" where
  "SignCoreBytes lib input privateKey = (case input of
     None \<Rightarrow> None
   | Some eventBodyBytes \<Rightarrow> map_option hex_encode (SignBytes lib eventBodyBytes privateKey))"

section \<open>What is signed is recovered\<close>

text \<open>Signatures are 65 bytes, the last of them the recovery id.\<close>

definition recoverable_signatures :: "'z prims_scheme \<Rightarrow> bool" where
  "recoverable_signatures pr = (\<forall>h k s. ecdsa_Sign pr h k = Some s \<longrightarrow>
     length s = 65 \<and> (of_char (s ! 64) :: int) < 4)"

definition json_inverts :: "'z stream_lib_scheme \<Rightarrow> bool" where
  "json_inverts lib \<longleftrightarrow>
     (\<forall>d t. marshal_data lib d = Some t \<longrightarrow> unmarshal_data lib t = Some d) \<and>
     (\<forall>e t. marshal_envelope lib e = Some t \<longrightarrow> unmarshal_envelope lib t = Some (Some e))"

lemma normalize_ethereum_v:
  assumes "length s = 65" "(of_char (s ! 64) :: int) < 4"
  shows "normalize_v (ethereum_v s) = s"
proof -
  let ?v = "of_char (s ! 64) :: int"
  have "0 \<le> ?v" by (rule of_char_int_bounds)
  with assms(2) have "(?v + 27) mod 256 = ?v + 27" by simp
  with assms(1) have e: "ethereum_v s = s[64 := char_of (?v + 27)]" by (simp add: ethereum_v_def)
  have "of_char (char_of (?v + 27) :: char) = ?v + 27" using \<open>0 \<le> ?v\<close> assms(2) by (simp add: of_char_of)
  with assms(1) \<open>0 \<le> ?v\<close> show ?thesis by (simp add: e normalize_v_def)
qed

lemma length_ethereum_v [simp]: "length (ethereum_v s) = length s"
  by (simp add: ethereum_v_def)

text \<open>
  A parameter generated for some data and key is parsed back to that data and
  to the address and public key of that key.
\<close>

theorem stream_signature_roundtrip:
  assumes "recovery_inverts_signing lib" "recoverable_signatures lib" "json_inverts lib"
    and "GenerateQueryStringFromSignatureData lib dat privKey = Some param"
  shows "\<exists>hash. ParseFromQueryString lib param = Recovered \<lparr>DataHash = hash, SigData = dat,
    SignerWallet = PrivKeyToAddress lib privKey, SignerPubkey = CompressPubkey lib (ecdsa_Public lib privKey)\<rparr>"
proof -
  from assms(4) obtain raw canonical s where
    t: "marshal_data lib dat = Some raw" and c: "jcs_Transform lib raw = Some canonical"
    and s: "ecdsa_Sign lib (TextHash lib (Keccak256 lib canonical)) privKey = Some s"
    and p: "marshal_envelope lib \<lparr>env_Data = raw, env_Signature = ''0x'' @ hex_encode (ethereum_v s)\<rparr> = Some param"
    by (auto simp: GenerateQueryStringFromSignatureData_def Let_def split: option.splits)
  from assms(2) s have len: "length s = 65" "(of_char (s ! 64) :: int) < 4"
    unfolding recoverable_signatures_def by blast+
  from assms(1) s have "SigToPub lib (TextHash lib (Keccak256 lib canonical)) s = Some (ecdsa_Public lib privKey)"
    unfolding recovery_inverts_signing_def by blast
  with assms(3) t c p len show ?thesis
    by (simp add: json_inverts_def ParseFromQueryString_def normalize_ethereum_v PrivKeyToAddress_def Let_def)
qed

text \<open>
  A library for examples: a key is its own public key and address, the text of data is its cid, an
  envelope is its two strings.
\<close>

definition ex_sigdata :: "string \<Rightarrow> SignatureData" where
  "ex_sigdata cid = \<lparr>sig_UploadID = [], sig_Cid = cid, ShouldCache = 0, sig_Timestamp = 5000, sig_TrackId = 0, sig_UserID = 0\<rparr>"

definition ex_stream :: stream_lib where
  "ex_stream = \<lparr>Sha256 = (\<lambda>x. x), Keccak256 = (\<lambda>x. x),
     ecdsa_Sign = (\<lambda>h k. if length k < 64 then Some (k @ replicate (64 - length k) CHR '' '' @ [NUL]) else None),
     SigToPub = (\<lambda>h s. Some (takeWhile (\<lambda>c. c \<noteq> CHR '' '') s)),
     ecdsa_Public = takeWhile (\<lambda>c. c \<noteq> CHR '' ''), PubkeyToAddress_Hex = (\<lambda>k. k), CompressPubkey = (\<lambda>k. k),
     marshal_data = (\<lambda>d. if d = ex_sigdata (sig_Cid d) then Some (sig_Cid d) else None),
     unmarshal_data = (\<lambda>t. Some (ex_sigdata t)),
     marshal_envelope = (\<lambda>e. if CHR ''|'' \<in> set (env_Data e) then None else Some (env_Data e @ ''|'' @ env_Signature e)),
     unmarshal_envelope = (\<lambda>t. if t = ''null'' then Some None else
       Some (Some \<lparr>env_Data = takeWhile (\<lambda>c. c \<noteq> CHR ''|'') t, env_Signature = tl (dropWhile (\<lambda>c. c \<noteq> CHR ''|'') t)\<rparr>)),
     jcs_Transform = Some, TextHash = (\<lambda>x. x)\<rparr>"

lemma takeWhile_bar: "CHR ''|'' \<notin> set d \<Longrightarrow> takeWhile (\<lambda>c. c \<noteq> CHR ''|'') (d @ CHR ''|'' # s) = d"
  "CHR ''|'' \<notin> set d \<Longrightarrow> dropWhile (\<lambda>c. c \<noteq> CHR ''|'') (d @ CHR ''|'' # s) = CHR ''|'' # s"
  by (induction d) auto

lemma takeWhile_pad: "takeWhile P (k @ replicate n c @ s) = takeWhile P k" if "\<not> P c" "0 < n"
  using that by (induction k) (auto simp: gr0_conv_Suc)

lemma ex_stream_laws:
  "recovery_inverts_signing ex_stream" "recoverable_signatures ex_stream" "json_inverts ex_stream"
proof -
  have "takeWhile (\<lambda>c. c \<noteq> CHR '' '') (k @ replicate (64 - length k) CHR '' '' @ [NUL]) =
      takeWhile (\<lambda>c. c \<noteq> CHR '' '') k" if "length k < 64" for k
    using that by (simp add: takeWhile_pad)
  then show "recovery_inverts_signing ex_stream"
    by (auto simp: recovery_inverts_signing_def ex_stream_def split: if_splits)
  show "recoverable_signatures ex_stream"
    by (auto simp: recoverable_signatures_def ex_stream_def NUL_def nth_append split: if_splits)
  have "d @ CHR ''|'' # s \<noteq> ''null''" for d s
  proof
    assume "d @ CHR ''|'' # s = ''null''"
    moreover have "CHR ''|'' \<in> set (d @ CHR ''|'' # s)" by simp
    ultimately have "CHR ''|'' \<in> set ''null''" by (simp only:)
    then show False by simp
  qed
  then show "json_inverts ex_stream"
    by (auto simp: json_inverts_def ex_stream_def takeWhile_bar split: if_splits)
qed

theorem stream_signature_roundtrip_witness:
  "\<exists>hash. ParseFromQueryString ex_stream (the (GenerateQueryStringFromSignatureData ex_stream (ex_sigdata ''cid1'') ''0xkey''))
     = Recovered \<lparr>DataHash = hash, SigData = ex_sigdata ''cid1'', SignerWallet = ''0xkey'', SignerPubkey = ''0xkey''\<rparr>"
proof -
  have "GenerateQueryStringFromSignatureData ex_stream (ex_sigdata ''cid1'') ''0xkey'' \<noteq> None" by code_simp
  then obtain p where p: "GenerateQueryStringFromSignatureData ex_stream (ex_sigdata ''cid1'') ''0xkey'' = Some p" by blast
  from stream_signature_roundtrip [OF ex_stream_laws p] p show ?thesis
    by (simp add: ex_stream_def PrivKeyToAddress_def)
qed

end
