(* ===== verification/Track_Access.thy ===== *)
theory Track_Access
  imports Auth_Enforcement Stream_Signatures "HOL-Library.Signed_Division"
begin

text \<open>
  Gated tracks from the chain to the stream: how a Track transaction rewrites the recordings and
  access authorities of a track (\<^verbatim>\<open>pkg/core/server/manage_entity.go\<close>), and how a storage
  node decides on a stream request (\<^verbatim>\<open>lookupTrackAccessInfo\<close>,
  \<^verbatim>\<open>requireRegisteredSignature\<close> and the cache between them in
  \<^verbatim>\<open>pkg/mediorum/server/serve_blob.go\<close>).

  Parameters: \<open>members\<close>, the members of a JSON object in the order of the text,
  \<^const>\<open>None\<close> for other text; \<open>scan_string\<close>, the value GORM's \<^verbatim>\<open>Scan\<close> leaves in
  a string for the rows of a one-column query, the empty string for no row.
\<close>

section \<open>Tables\<close>

record SoundRecording =
  sr_sound_recording_id :: string
  sr_track_id :: string
  sr_cid :: string

record ManagementKey =
  mk_track_id :: string
  mk_address :: string

datatype track_stmt =
    T_DeleteManagementKeys string
  | T_DeleteSoundRecordings string
  | T_InsertSoundRecording string
  | T_InsertManagementKey string string
  | T_TrackOfCid string
  | T_CountKeys string
  | T_CountKey string string
  | T_CidsOfTrack string

record track_db =
  sound_recordings :: "SoundRecording list"
  management_keys :: "ManagementKey list"
  track_fault :: "track_stmt \<Rightarrow> pg_error option"

definition track_exec :: "track_db \<Rightarrow> track_stmt \<Rightarrow> track_db \<Rightarrow> pg_error option \<times> track_db" where
  "track_exec q stmt q' = (case track_fault q stmt of Some e \<Rightarrow> (Some e, q) | None \<Rightarrow> (None, q'))"

definition DeleteManagementKeysByTrackID :: "track_db \<Rightarrow> string \<Rightarrow> pg_error option \<times> track_db" where
  "DeleteManagementKeysByTrackID q trackID = track_exec q (T_DeleteManagementKeys trackID)
     (q\<lparr>management_keys := filter (\<lambda>k. mk_track_id k \<noteq> trackID) (management_keys q)\<rparr>)"

definition DeleteSoundRecordingsByTrackID :: "track_db \<Rightarrow> string \<Rightarrow> pg_error option \<times> track_db" where
  "DeleteSoundRecordingsByTrackID q trackID = track_exec q (T_DeleteSoundRecordings trackID)
     (q\<lparr>sound_recordings := filter (\<lambda>r. sr_track_id r \<noteq> trackID) (sound_recordings q)\<rparr>)"

definition InsertSoundRecording :: "track_db \<Rightarrow> string \<Rightarrow> string \<Rightarrow> string \<Rightarrow> pg_error option \<times> track_db" where
  "InsertSoundRecording q soundRecordingID trackID cid = track_exec q (T_InsertSoundRecording trackID)
     (q\<lparr>sound_recordings := sound_recordings q @
        [\<lparr>sr_sound_recording_id = soundRecordingID, sr_track_id = trackID, sr_cid = cid\<rparr>]\<rparr>)"

definition InsertManagementKey :: "track_db \<Rightarrow> string \<Rightarrow> string \<Rightarrow> pg_error option \<times> track_db" where
  "InsertManagementKey q trackID address = track_exec q (T_InsertManagementKey trackID address)
     (q\<lparr>management_keys := management_keys q @ [\<lparr>mk_track_id = trackID, mk_address = address\<rparr>]\<rparr>)"

section \<open>Track transactions\<close>

record trackMetadata =
  tm_CID :: string
  tm_AccessAuthorities :: "string list"
  tm_TrackCid :: string

text \<open>
  Decoding into the struct: members are matched with the fields up to case, \<^verbatim>\<open>null\<close> leaves
  a string as it is and empties a slice, a value of another kind is an error.
\<close>

definition json_text :: "string \<Rightarrow> json \<Rightarrow> string option" where
  "json_text old j = (case j of JStr s \<Rightarrow> Some s | JNull \<Rightarrow> Some old | _ \<Rightarrow> None)"

fun json_texts :: "json list \<Rightarrow> string list option" where
  "json_texts [] = Some []"
| "json_texts (j # js) = (case (json_text [] j, json_texts js) of
     (Some s, Some ss) \<Rightarrow> Some (s # ss) | _ \<Rightarrow> None)"

fun decode_data :: "string \<Rightarrow> (string \<times> json) list \<Rightarrow> string option" where
  "decode_data trackCid [] = Some trackCid"
| "decode_data trackCid ((k, j) # ms) =
     (if EqualFold k ''track_cid'' then
        (case json_text trackCid j of None \<Rightarrow> None | Some s \<Rightarrow> decode_data s ms)
      else decode_data trackCid ms)"

fun decode_track :: "trackMetadata \<Rightarrow> (string \<times> json) list \<Rightarrow> trackMetadata option" where
  "decode_track m [] = Some m"
| "decode_track m ((k, j) # ms) =
     (if EqualFold k ''cid'' then
        (case json_text (tm_CID m) j of None \<Rightarrow> None | Some s \<Rightarrow> decode_track (m\<lparr>tm_CID := s\<rparr>) ms)
      else if EqualFold k ''access_authorities'' then
        (case j of
           JNull \<Rightarrow> decode_track (m\<lparr>tm_AccessAuthorities := []\<rparr>) ms
         | JArr js \<Rightarrow> (case json_texts js of
               None \<Rightarrow> None | Some ss \<Rightarrow> decode_track (m\<lparr>tm_AccessAuthorities := ss\<rparr>) ms)
         | _ \<Rightarrow> None)
      else if EqualFold k ''data'' then
        (case j of
           JNull \<Rightarrow> decode_track m ms
         | JObj d \<Rightarrow> (case decode_data (tm_TrackCid m) d of
               None \<Rightarrow> None | Some s \<Rightarrow> decode_track (m\<lparr>tm_TrackCid := s\<rparr>) ms)
         | _ \<Rightarrow> None)
      else decode_track m ms)"

definition unmarshal_track :: "(string \<Rightarrow> (string \<times> json) list option) \<Rightarrow> string \<Rightarrow> trackMetadata option" where
  "unmarshal_track members text = (case members text of
     None \<Rightarrow> None
   | Some ms \<Rightarrow> decode_track \<lparr>tm_CID = [], tm_AccessAuthorities = [], tm_TrackCid = []\<rparr> ms)"

datatype track_error = BadTrackMetadata | MissingTrackCid | TrackStmtFailed pg_error

fun insert_keys :: "track_db \<Rightarrow> string \<Rightarrow> string list \<Rightarrow> track_error option \<times> track_db" where
  "insert_keys q trackID [] = (None, q)"
| "insert_keys q trackID (addr # addrs) = (case InsertManagementKey q trackID (ToLower addr) of
     (Some e, q') \<Rightarrow> (Some (TrackStmtFailed e), q')
   | (None, q') \<Rightarrow> insert_keys q' trackID addrs)"

text \<open>
  The third result is the track whose cached access decisions are dropped; it is empty when an
  error comes first.
\<close>

definition processTrackManageEntity ::
  "(string \<Rightarrow> (string \<times> json) list option) \<Rightarrow> track_db \<Rightarrow> ManageEntityLegacy \<Rightarrow>
   track_error option \<times> track_db \<times> string option" where
  "processTrackManageEntity members q me = (case unmarshal_track members (me_Metadata me) of
     None \<Rightarrow> (Some BadTrackMetadata, q, None)
   | Some meta \<Rightarrow>
     (let signers = tm_AccessAuthorities meta; trackID = FormatInt (me_EntityId me); cid = tm_TrackCid meta in
      if signers = [] then
        (case DeleteManagementKeysByTrackID q trackID of
           (Some e, q') \<Rightarrow> (Some (TrackStmtFailed e), q', None)
         | (None, q') \<Rightarrow> (None, q', Some trackID))
      else if cid = [] then (Some MissingTrackCid, q, None)
      else (case DeleteSoundRecordingsByTrackID q trackID of
          (Some e, q1) \<Rightarrow> (Some (TrackStmtFailed e), q1, None)
        | (None, q1) \<Rightarrow>
          (case DeleteManagementKeysByTrackID q1 trackID of
             (Some e, q2) \<Rightarrow> (Some (TrackStmtFailed e), q2, None)
           | (None, q2) \<Rightarrow>
             (case InsertSoundRecording q2 (''sr_'' @ trackID) trackID cid of
                (Some e, q3) \<Rightarrow> (Some (TrackStmtFailed e), q3, None)
              | (None, q3) \<Rightarrow>
                (case insert_keys q3 trackID signers of
                   (Some e, q4) \<Rightarrow> (Some e, q4, None)
                 | (None, q4) \<Rightarrow> (None, q4, Some trackID)))))))"

text \<open>
  Finalizing a ManageEntity transaction: the error of the track tables is logged only, the
  authorization projection runs in any case. The state is the track tables, the authorization
  tables and the tracks whose cached decisions were dropped.
\<close>

definition finalizeManageEntity ::
  "(string \<Rightarrow> (string \<times> json) list option) \<Rightarrow> (string \<Rightarrow> meta option) \<Rightarrow> Rules \<Rightarrow>
   track_db \<times> auth_db \<Rightarrow> ManageEntityLegacy \<Rightarrow> (track_db \<times> auth_db) \<times> string option" where
  "finalizeManageEntity members unmarshal rules st me =
     (let (tdb, inv) =
        (if EqualFold (me_EntityType me) ''Track'' \<and>
            (EqualFold (me_Action me) ''Create'' \<or> EqualFold (me_Action me) ''Update'')
         then snd (processTrackManageEntity members (fst st) me)
         else (fst st, None))
      in ((tdb, projectManageEntityAuthState (snd st) (authTxFromManageEntity unmarshal me) rules), inv))"

definition finalizeManageEntityMigration ::
  "(string \<Rightarrow> (string \<times> json) list option) \<Rightarrow> (string \<Rightarrow> meta option) \<Rightarrow>
   track_db \<times> auth_db \<Rightarrow> ManageEntityLegacy \<Rightarrow> (track_db \<times> auth_db) \<times> string option" where
  "finalizeManageEntityMigration members unmarshal st me =
     (let (tdb, inv) =
        (if EqualFold (me_EntityType me) ''Track'' \<and> EqualFold (me_Action me) ''Create''
         then snd (processTrackManageEntity members (fst st) me)
         else (fst st, None))
      in ((tdb, projectManageEntityAuthState (snd st) (authTxFromManageEntityMigration unmarshal me) no_rules), inv))"

section \<open>Stream requests\<close>

record trackAccessInfo =
  TrackID :: string
  ManagementKeyCount :: nat

definition lookupTrackAccessInfo ::
  "(string list \<Rightarrow> string) \<Rightarrow> track_db \<Rightarrow> string \<Rightarrow> pg_error + trackAccessInfo" where
  "lookupTrackAccessInfo scan_string q cid = (case track_fault q (T_TrackOfCid cid) of
     Some e \<Rightarrow> Inl e
   | None \<Rightarrow>
     (let trackID = scan_string (map sr_track_id (filter (\<lambda>r. sr_cid r = cid) (sound_recordings q))) in
      if trackID = [] then Inr \<lparr>TrackID = [], ManagementKeyCount = 0\<rparr>
      else (case track_fault q (T_CountKeys trackID) of
          Some e \<Rightarrow> Inl e
        | None \<Rightarrow> Inr \<lparr>TrackID = trackID, ManagementKeyCount =
            length (filter (\<lambda>k. mk_track_id k = trackID) (management_keys q))\<rparr>)))"

definition CountManagementKey :: "track_db \<Rightarrow> string \<Rightarrow> string \<Rightarrow> pg_error + nat" where
  "CountManagementKey q trackID address = (case track_fault q (T_CountKey trackID address) of
     Some e \<Rightarrow> Inl e
   | None \<Rightarrow> Inr (length (filter (\<lambda>k. mk_track_id k = trackID \<and> mk_address k = address) (management_keys q))))"

text \<open>The node: its tables, the wallets of signers and peers, and cached decisions with their expiry.\<close>

record media_node =
  mn_db :: track_db
  mn_signers :: "string list"
  mn_peers :: "string list"
  mn_cache :: "(string, trackAccessInfo \<times> int) table"

text \<open>A panic ends in the server's recovery handler with status 500.\<close>

datatype stream_verdict = Allowed | Refused nat

definition cache_get :: "media_node \<Rightarrow> int \<Rightarrow> string \<Rightarrow> trackAccessInfo option" where
  "cache_get n now cid = (case map_of (mn_cache n) cid of
     None \<Rightarrow> None | Some (info, expiry) \<Rightarrow> if now < expiry then Some info else None)"

text \<open>Times are in nanoseconds; a signature carries milliseconds, cut to whole seconds towards zero.\<close>

definition second :: int where "second = 1000000000"

definition cache_minutes :: int where "cache_minutes = 5 * 60 * second"

definition signature_age :: "int \<Rightarrow> RecoveredSignature \<Rightarrow> int" where
  "signature_age now sig = now - (sig_Timestamp (SigData sig) sdiv 1000) * second"

definition access_info ::
  "(string list \<Rightarrow> string) \<Rightarrow> media_node \<Rightarrow> int \<Rightarrow> string \<Rightarrow> (pg_error + trackAccessInfo) \<times> media_node" where
  "access_info scan_string n now cid = (case cache_get n now cid of
     Some info \<Rightarrow> (Inr info, n)
   | None \<Rightarrow> (case lookupTrackAccessInfo scan_string (mn_db n) cid of
       Inl e \<Rightarrow> (Inl e, n)
     | Inr info \<Rightarrow> (Inr info, n\<lparr>mn_cache := AList.update cid (info, now + cache_minutes) (mn_cache n)\<rparr>)))"

text \<open>Whether the signer may authorize the stream; the number is the status of a refusal.\<close>

definition authorize_signer :: "media_node \<Rightarrow> trackAccessInfo \<Rightarrow> string \<Rightarrow> nat option" where
  "authorize_signer n info wallet =
     (if TrackID info \<noteq> [] \<and> ManagementKeyCount info > 0 then
        (case CountManagementKey (mn_db n) (TrackID info) (ToLower wallet) of
           Inl _ \<Rightarrow> Some 503
         | Inr count \<Rightarrow> if count = 0 then Some 401 else None)
      else if list_ex (\<lambda>w. EqualFold w wallet) (mn_signers n) \<or> list_ex (\<lambda>w. EqualFold w wallet) (mn_peers n)
      then None else Some 401)"

definition requireRegisteredSignature ::
  "'z stream_lib_scheme \<Rightarrow> (string list \<Rightarrow> string) \<Rightarrow> media_node \<Rightarrow> int \<Rightarrow>
   string \<Rightarrow> string \<Rightarrow> string \<Rightarrow> stream_verdict \<times> media_node" where
  "requireRegisteredSignature lib scan_string n now cid uploadID sigParam =
     (case ParseFromQueryString lib sigParam of
        Panicked \<Rightarrow> (Refused 500, n)
      | ParseError \<Rightarrow> (Refused 401, n)
      | Recovered sig \<Rightarrow>
        (case access_info scan_string n now cid of
           (Inl _, n') \<Rightarrow> (Refused 503, n')
         | (Inr info, n') \<Rightarrow>
           (case authorize_signer n' info (SignerWallet sig) of
              Some code \<Rightarrow> (Refused code, n')
            | None \<Rightarrow>
              if signature_age now sig > 48 * 3600 * second then (Refused 401, n')
              else if sig_Cid (SigData sig) \<noteq> cid then (Refused 401, n')
              else if sig_UploadID (SigData sig) \<noteq> uploadID then (Refused 401, n')
              else (Allowed, n'))))"

definition InvalidateTrackAccessCacheForTrack :: "media_node \<Rightarrow> string \<Rightarrow> media_node" where
  "InvalidateTrackAccessCacheForTrack n trackID = (case track_fault (mn_db n) (T_CidsOfTrack trackID) of
     Some _ \<Rightarrow> n
   | None \<Rightarrow> n\<lparr>mn_cache := fold (\<lambda>cid c. if cid = [] then c else AList.delete cid c)
       (map sr_cid (filter (\<lambda>r. sr_track_id r = trackID) (sound_recordings (mn_db n)))) (mn_cache n)\<rparr>)"

end
