(* ===== verification/Track_Laws.thy ===== *)
theory Track_Laws
  imports Track_Access
begin

text \<open>
  What stands between a stream request and a gated recording: the decision itself is sound, the
  transactions that rewrite its tables are not tied to the owner of the track or of the audio.
\<close>

section \<open>Requests\<close>

text \<open>
  C29: a request that is not answered from the cache is allowed only with a fresh
  signature for this very audio and upload; when the track the audio belongs to has access
  authorities the signer is one of them, otherwise it is a registered node.
\<close>

theorem stream_access_sound:
  assumes "requireRegisteredSignature lib scan_string n now cid uploadID sigParam = (Allowed, n')"
    and "cache_get n now cid = None"
  shows "\<exists>sig. ParseFromQueryString lib sigParam = Recovered sig \<and> sig_Cid (SigData sig) = cid \<and> sig_UploadID (SigData sig) = uploadID \<and>
      signature_age now sig \<le> 48 * 3600 * second \<and>
      (let track = scan_string (map sr_track_id (filter (\<lambda>r. sr_cid r = cid) (sound_recordings (mn_db n))));
           keys = map mk_address (filter (\<lambda>k. mk_track_id k = track) (management_keys (mn_db n)))
       in if track \<noteq> [] \<and> keys \<noteq> [] then ToLower (SignerWallet sig) \<in> set keys
          else \<exists>w\<in>set (mn_signers n @ mn_peers n). EqualFold w (SignerWallet sig))"
proof -
  from assms obtain sig info where s: "ParseFromQueryString lib sigParam = Recovered sig"
    and l: "lookupTrackAccessInfo scan_string (mn_db n) cid = Inr info"
    and n': "n' = n\<lparr>mn_cache := AList.update cid (info, now + cache_minutes) (mn_cache n)\<rparr>"
    and a: "authorize_signer n' info (SignerWallet sig) = None"
    and d: "sig_Cid (SigData sig) = cid" "sig_UploadID (SigData sig) = uploadID"
      "signature_age now sig \<le> 48 * 3600 * second"
    by (auto simp: requireRegisteredSignature_def access_info_def split: option.splits sum.splits parse_result.splits if_splits)
  let ?track = "scan_string (map sr_track_id (filter (\<lambda>r. sr_cid r = cid) (sound_recordings (mn_db n))))"
  have i: "TrackID info = ?track" "?track \<noteq> [] \<Longrightarrow> ManagementKeyCount info =
      length (filter (\<lambda>k. mk_track_id k = ?track) (management_keys (mn_db n)))"
    using l by (auto simp: lookupTrackAccessInfo_def Let_def split: option.splits if_splits)
  have db: "mn_db n' = mn_db n" "mn_signers n' = mn_signers n" "mn_peers n' = mn_peers n" by (simp_all add: n')
  show ?thesis
  proof (cases "?track \<noteq> [] \<and> filter (\<lambda>k. mk_track_id k = ?track) (management_keys (mn_db n)) \<noteq> []")
    case True
    with a i db have "filter (\<lambda>k. mk_track_id k = ?track \<and> mk_address k = ToLower (SignerWallet sig))
        (management_keys (mn_db n)) \<noteq> []"
      by (auto simp: authorize_signer_def CountManagementKey_def split: option.splits if_splits)
    then have "ToLower (SignerWallet sig) \<in>
        set (map mk_address (filter (\<lambda>k. mk_track_id k = ?track) (management_keys (mn_db n))))"
      by (force simp: filter_empty_conv)
    with True s d show ?thesis by (auto simp: Let_def)
  next
    case False
    with a i db have "list_ex (\<lambda>w. EqualFold w (SignerWallet sig)) (mn_signers n) \<or>
        list_ex (\<lambda>w. EqualFold w (SignerWallet sig)) (mn_peers n)"
      by (auto simp: authorize_signer_def split: if_splits)
    with False s d show ?thesis by (auto simp: Let_def list_ex_iff)
  qed
qed

definition ex_node :: media_node where
  "ex_node = \<lparr>mn_db = \<lparr>sound_recordings = [\<lparr>sr_sound_recording_id = ''sr_2000009'', sr_track_id = ''2000009'', sr_cid = ''cid1''\<rparr>],
       management_keys = [\<lparr>mk_track_id = ''2000009'', mk_address = ''0xowner''\<rparr>], track_fault = (\<lambda>_. None)\<rparr>,
     mn_signers = [], mn_peers = [''0xpeer''], mn_cache = []\<rparr>"

definition ex_param :: "string \<Rightarrow> string" where
  "ex_param key = the (GenerateQueryStringFromSignatureData ex_stream (ex_sigdata ''cid1'') key)"

definition ex_signed :: "string \<Rightarrow> RecoveredSignature" where
  "ex_signed key = \<lparr>DataHash = ''cid1'', SigData = ex_sigdata ''cid1'', SignerWallet = key, SignerPubkey = key\<rparr>"

lemma ex_param_parsed:
  "ParseFromQueryString ex_stream (ex_param ''0xOwner'') = Recovered (ex_signed ''0xOwner'')"
  "ParseFromQueryString ex_stream (ex_param ''0xthief'') = Recovered (ex_signed ''0xthief'')"
  by code_simp+

definition ex_scan :: "string list \<Rightarrow> string" where
  "ex_scan rows = (if rows = [] then [] else last rows)"

theorem stream_access_sound_witness:
  "ToLower ''0xOwner'' \<in> {''0xowner''}"
proof -
  let ?r = "requireRegisteredSignature ex_stream ex_scan ex_node 6000000000 ''cid1'' [] (ex_param ''0xOwner'')"
  have "fst ?r = Allowed" by code_simp
  then have "?r = (Allowed, snd ?r)" by (simp add: prod_eq_iff)
  moreover have "cache_get ex_node 6000000000 ''cid1'' = None" by (simp add: cache_get_def ex_node_def)
  ultimately show ?thesis
    using stream_access_sound [of ex_stream ex_scan ex_node 6000000000 "''cid1''" "[]" "ex_param ''0xOwner''"]
    by (simp add: ex_node_def ex_scan_def ex_param_parsed ex_signed_def Let_def)
qed

section \<open>Transactions\<close>

lemma FormatInt_not_Nil [simp]: "FormatInt n \<noteq> []"
proof -
  have "acc \<noteq> [] \<Longrightarrow> dec_digits m acc \<noteq> []" for m acc
    by (induction m acc rule: dec_digits.induct) (subst dec_digits.simps, simp)
  then have "dec_digits m [] \<noteq> []" for m by (subst dec_digits.simps) simp
  then show ?thesis by (simp add: FormatInt_def)
qed

lemma update_not_create:
  "\<not> EqualFold ''Update'' ''Create''" "\<not> EqualFold ''Track'' ''User''"
  by code_simp+

text \<open>
  C30: once content claims are strictly enforced, an update of a track with empty
  metadata passes validation whatever user it names and whoever signed it, and finalizing it
  removes every access authority of that track and nothing else from the table.
\<close>

theorem any_key_ungates_track:
  assumes "recover me = Some (me_Signer me)"
    and "me_EntityType me = ''Track''" "me_Action me = ''Update''"
    and "unmarshal (me_Metadata me) = Some []" "members (me_Metadata me) = Some []"
    and "ContentAuthStrict rules"
    and "track_fault tdb (T_DeleteManagementKeys (FormatInt (me_EntityId me))) = None"
  shows "validateManageEntityAuth recover unmarshal rules ops overlay me = (None, overlay) \<and>
    management_keys (fst (fst (finalizeManageEntity members unmarshal rules (tdb, adb) me))) =
      filter (\<lambda>k. mk_track_id k \<noteq> FormatInt (me_EntityId me)) (management_keys tdb)"
proof
  let ?tx = "authTxFromManageEntity unmarshal me"
  have m: "tx_meta ?tx = []" "EntityType ?tx = ''Track''" "Action ?tx = ''Update''" "\<not> Migration ?tx"
    using assms by (simp_all add: authTxFromManageEntity_def parseAuthMetadata_def)
  then have "validateTrackContentAuth ops overlay ?tx rules = None"
    by (simp add: validateTrackContentAuth_def trackCidMetadataKeys_def metaString_def)
  moreover have "applyAuthProjection ops overlay ?tx rules = (None, overlay)"
    using m assms(6) update_not_create
    by (simp add: applyAuthProjection_def canonicalAuthEntityType_def canonicalAuthAction_def)
  ultimately show "validateManageEntityAuth recover unmarshal rules ops overlay me = (None, overlay)"
    using assms(1) by (simp add: validateManageEntityAuth_def Let_def)
  show "management_keys (fst (fst (finalizeManageEntity members unmarshal rules (tdb, adb) me))) =
      filter (\<lambda>k. mk_track_id k \<noteq> FormatInt (me_EntityId me)) (management_keys tdb)"
    using assms(2,3,5,7)
    by (simp add: finalizeManageEntity_def processTrackManageEntity_def unmarshal_track_def Let_def
        DeleteManagementKeysByTrackID_def track_exec_def)
qed

definition ex_ungate :: ManageEntityLegacy where
  "ex_ungate = \<lparr>me_UserId = 77, me_EntityType = ''Track'', me_EntityId = 2000009, me_Action = ''Update'',
     me_Metadata = ''{}'', me_Signature = [], me_Signer = ''0xanyone'', me_Nonce = []\<rparr>"

theorem any_key_ungates_track_witness:
  "validateManageEntityAuth (\<lambda>em. Some (me_Signer em)) (\<lambda>_. Some []) (RulesetAt (Some dev_schedule) 1)
     (overlayAuthStore dbAuthStore) (newOverlayAuthStore ex_db) ex_ungate = (None, newOverlayAuthStore ex_db) \<and>
   management_keys (fst (fst (finalizeManageEntity (\<lambda>_. Some []) (\<lambda>_. Some [])
     (RulesetAt (Some dev_schedule) 1) (mn_db ex_node, ex_db) ex_ungate))) = []"
proof -
  have "FormatInt (me_EntityId ex_ungate) = ''2000009''" "ContentAuthStrict (RulesetAt (Some dev_schedule) 1)"
    by code_simp+
  with any_key_ungates_track [of "\<lambda>em. Some (me_Signer em)" ex_ungate "\<lambda>_. Some []" "\<lambda>_. Some []"
      "RulesetAt (Some dev_schedule) 1" "mn_db ex_node" "overlayAuthStore dbAuthStore" "newOverlayAuthStore ex_db" ex_db]
  show ?thesis by (simp add: ex_ungate_def ex_node_def)
qed

text \<open>With no fault, the keys are appended in order.\<close>

lemma insert_keys_result:
  "(\<And>a. track_fault q (T_InsertManagementKey t a) = None) \<Longrightarrow>
   insert_keys q t addrs = (None, q\<lparr>management_keys :=
     management_keys q @ map (\<lambda>a. \<lparr>mk_track_id = t, mk_address = ToLower a\<rparr>) addrs\<rparr>)"
  by (induction addrs arbitrary: q) (simp_all add: InsertManagementKey_def track_exec_def)

lemma gate_result:
  assumes "unmarshal_track members (me_Metadata me) = Some meta"
    and "tm_AccessAuthorities meta \<noteq> []" "tm_TrackCid meta \<noteq> []" "\<And>s. track_fault q s = None"
  shows "processTrackManageEntity members q me =
    (let t = FormatInt (me_EntityId me) in (None, q\<lparr>
       sound_recordings := filter (\<lambda>r. sr_track_id r \<noteq> t) (sound_recordings q) @
         [\<lparr>sr_sound_recording_id = ''sr_'' @ t, sr_track_id = t, sr_cid = tm_TrackCid meta\<rparr>],
       management_keys := filter (\<lambda>k. mk_track_id k \<noteq> t) (management_keys q) @
         map (\<lambda>a. \<lparr>mk_track_id = t, mk_address = ToLower a\<rparr>) (tm_AccessAuthorities meta)\<rparr>, Some t))"
  using assms by (simp add: processTrackManageEntity_def Let_def DeleteSoundRecordingsByTrackID_def
      DeleteManagementKeysByTrackID_def InsertSoundRecording_def track_exec_def insert_keys_result)

text \<open>
  Whoever finalizes a track naming an audio that already belongs to another
  track becomes its gate. Whatever rows there were, a request for that audio signed by one of
  the new track's authorities is allowed; \<^verbatim>\<open>Scan\<close> of several rows into one string keeps the last.
\<close>

theorem recording_taken_over:
  assumes scan: "\<And>rows row. scan_string (rows @ [row]) = row"
    and tx: "EqualFold (me_EntityType me) ''Track''" "EqualFold (me_Action me) ''Create''"
    and meta: "unmarshal_track members (me_Metadata me) = Some meta" "tm_TrackCid meta = cid" "cid \<noteq> []"
      "authority \<in> set (tm_AccessAuthorities meta)"
    and up: "\<And>s. track_fault tdb s = None"
    and req: "ParseFromQueryString lib sigParam = Recovered sig" "EqualFold (SignerWallet sig) authority"
      "sig_Cid (SigData sig) = cid" "sig_UploadID (SigData sig) = uploadID" "signature_age now sig \<le> 48 * 3600 * second"
    and node: "mn_db n = fst (fst (finalizeManageEntity members unmarshal rules (tdb, adb) me))"
      "cache_get n now cid = None"
  shows "fst (requireRegisteredSignature lib scan_string n now cid uploadID sigParam) = Allowed"
proof -
  let ?t = "FormatInt (me_EntityId me)"
  from meta(4) have ne: "tm_AccessAuthorities meta \<noteq> []" by auto
  have db: "mn_db n = tdb\<lparr>
       sound_recordings := filter (\<lambda>r. sr_track_id r \<noteq> ?t) (sound_recordings tdb) @
         [\<lparr>sr_sound_recording_id = ''sr_'' @ ?t, sr_track_id = ?t, sr_cid = cid\<rparr>],
       management_keys := filter (\<lambda>k. mk_track_id k \<noteq> ?t) (management_keys tdb) @
         map (\<lambda>a. \<lparr>mk_track_id = ?t, mk_address = ToLower a\<rparr>) (tm_AccessAuthorities meta)\<rparr>"
    using tx meta gate_result [of members me meta tdb, OF meta(1) ne _ up] node
    by (simp add: finalizeManageEntity_def Let_def)
  have l: "lookupTrackAccessInfo scan_string (mn_db n) cid =
      Inr \<lparr>TrackID = ?t, ManagementKeyCount = length (tm_AccessAuthorities meta)\<rparr>"
    using scan up by (simp add: lookupTrackAccessInfo_def db filter_map o_def)
  from meta(4) req(2) have "\<exists>a\<in>set (tm_AccessAuthorities meta). ToLower a = ToLower (SignerWallet sig)"
    by (auto simp: EqualFold_def)
  then have "CountManagementKey (mn_db n) ?t (ToLower (SignerWallet sig)) \<noteq> Inr 0"
    using up by (auto simp: CountManagementKey_def db filter_empty_conv)
  moreover have "\<exists>c. CountManagementKey (mn_db n) ?t (ToLower (SignerWallet sig)) = Inr c"
    using up by (simp add: CountManagementKey_def db)
  ultimately have "authorize_signer (n\<lparr>mn_cache := c\<rparr>) \<lparr>TrackID = ?t,
      ManagementKeyCount = length (tm_AccessAuthorities meta)\<rparr> (SignerWallet sig) = None" for c
    using ne by (auto simp: authorize_signer_def)
  with l req node(2) show ?thesis by (simp add: requireRegisteredSignature_def access_info_def)
qed

text \<open>A track of user 1 naming the audio of user 2; the type in lower case passes the content check.\<close>

definition ex_takeover :: ManageEntityLegacy where
  "ex_takeover = \<lparr>me_UserId = 1, me_EntityType = ''track'', me_EntityId = 2000010, me_Action = ''Create'',
     me_Metadata = ''t'', me_Signature = [], me_Signer = ''0xa'', me_Nonce = []\<rparr>"

definition ex_members :: "string \<Rightarrow> (string \<times> json) list option" where
  "ex_members _ = Some [(''cid'', JStr ''meta1''), (''access_authorities'', JArr [JStr ''0xThief'']),
     (''data'', JObj [(''owner_id'', JNum 1), (''track_cid'', JStr ''cid1'')])]"

definition ex_taken :: media_node where
  "ex_taken = ex_node\<lparr>mn_db := fst (fst (finalizeManageEntity ex_members ex_members
     (RulesetAt (Some dev_schedule) 1) (mn_db ex_node, ex_db) ex_takeover))\<rparr>"

theorem recording_taken_over_witness:
  "fst (validateManageEntityAuth (\<lambda>em. Some (me_Signer em)) ex_members
     (RulesetAt (Some dev_schedule) 1) (overlayAuthStore dbAuthStore)
     (newOverlayAuthStore (ex_db\<lparr>core_auth_cids := [((''cid1'', 2), ''tx'')]\<rparr>)) ex_takeover) = None \<and>
   fst (requireRegisteredSignature ex_stream ex_scan ex_node 6000000000 ''cid1'' [] (ex_param ''0xthief'')) = Refused 401 \<and>
   fst (requireRegisteredSignature ex_stream ex_scan ex_taken 6000000000 ''cid1'' [] (ex_param ''0xthief'')) = Allowed"
proof (intro conjI)
  show "fst (validateManageEntityAuth (\<lambda>em. Some (me_Signer em)) ex_members
     (RulesetAt (Some dev_schedule) 1) (overlayAuthStore dbAuthStore)
     (newOverlayAuthStore (ex_db\<lparr>core_auth_cids := [((''cid1'', 2), ''tx'')]\<rparr>)) ex_takeover) = None"
    by code_simp
  show "fst (requireRegisteredSignature ex_stream ex_scan ex_node 6000000000 ''cid1'' [] (ex_param ''0xthief'')) = Refused 401"
    by code_simp
  have m: "unmarshal_track ex_members (me_Metadata ex_takeover) =
      Some \<lparr>tm_CID = ''meta1'', tm_AccessAuthorities = [''0xThief''], tm_TrackCid = ''cid1''\<rparr>"
    "EqualFold (me_EntityType ex_takeover) ''Track''" "EqualFold ''0xthief'' ''0xThief''" by code_simp+
  show "fst (requireRegisteredSignature ex_stream ex_scan ex_taken 6000000000 ''cid1'' [] (ex_param ''0xthief'')) = Allowed"
    by (rule recording_taken_over [OF _ m(2) _ m(1), where tdb = "mn_db ex_node" and adb = ex_db and
          rules = "RulesetAt (Some dev_schedule) 1" and unmarshal = ex_members and
          authority = "''0xThief''" and sig = "ex_signed ''0xthief''"])
      (simp_all add: ex_scan_def ex_node_def ex_param_parsed ex_signed_def ex_sigdata_def ex_taken_def ex_takeover_def cache_get_def m(3)
        signature_age_def second_def)
qed

end
