(* ===== verification/Sla_Rollups.thy ===== *)
theory Sla_Rollups
  imports Validator_Set
begin

text \<open>
  Service level rollups (\<^verbatim>\<open>pkg/core/server/auditor.go\<close> with its queries): the blocks every
  validator proposed are tallied in \<^verbatim>\<open>sla_node_reports\<close>, a proposer sums them up in a rollup
  transaction once the interval has passed, every node compares it with its own tallies, and
  finalization files the reports under the rollup. \<^verbatim>\<open>ShouldPurgeValidatorForUnderperformance\<close>
  reads them back.

  Times are nanoseconds since the epoch; a protobuf timestamp is the pair of seconds and
  nanoseconds, a column of type timestamp keeps microseconds. Reports of a rollup are compared by
  their two fields.
\<close>

section \<open>Tables\<close>

record SlaRollupRow =
  slr_id :: int
  slr_tx_hash :: string
  slr_block_start :: int
  slr_block_end :: int
  slr_time :: int

record SlaNodeReportRow =
  snr_address :: string
  snr_blocks_proposed :: int
  snr_sla_rollup_id :: "int option"

datatype sla_stmt =
    SLA_Latest
  | SLA_InProgress
  | SLA_ByTime int
  | SLA_CommitRollup
  | SLA_Clear
  | SLA_CommitReport string
  | SLA_Upsert string
  | SLA_Recent string

record sla_db =
  sla_rollups :: "SlaRollupRow list"
  sla_node_reports :: "SlaNodeReportRow list"
  sla_next_id :: int
  sla_fault :: "sla_stmt \<Rightarrow> pg_error option"

definition sla_exec :: "sla_db \<Rightarrow> sla_stmt \<Rightarrow> sla_db \<Rightarrow> pg_error option \<times> sla_db" where
  "sla_exec q stmt q' = (case sla_fault q stmt of Some e \<Rightarrow> (Some e, q) | None \<Rightarrow> (None, q'))"

text \<open>\<^verbatim>\<open>order by time desc\<close>.\<close>

definition by_time_desc :: "SlaRollupRow list \<Rightarrow> SlaRollupRow list" where
  "by_time_desc rows = rev (sort_key slr_time rows)"

definition GetLatestSlaRollup :: "sla_db \<Rightarrow> query_error + SlaRollupRow" where
  "GetLatestSlaRollup q = (case sla_fault q SLA_Latest of
     Some e \<Rightarrow> Inl (QueryFailed e)
   | None \<Rightarrow> (case by_time_desc (sla_rollups q) of [] \<Rightarrow> Inl ErrNoRows | r # _ \<Rightarrow> Inr r))"

definition in_progress :: "SlaNodeReportRow \<Rightarrow> bool" where
  "in_progress r = (snr_sla_rollup_id r = None)"

definition GetInProgressRollupReports :: "sla_db \<Rightarrow> pg_error + SlaNodeReportRow list" where
  "GetInProgressRollupReports q = (case sla_fault q SLA_InProgress of
     Some e \<Rightarrow> Inl e
   | None \<Rightarrow> Inr (sort_key snr_address (filter in_progress (sla_node_reports q))))"

definition GetSlaRollupWithTimestamp :: "sla_db \<Rightarrow> int \<Rightarrow> query_error + SlaRollupRow" where
  "GetSlaRollupWithTimestamp q t = (case sla_fault q (SLA_ByTime t) of
     Some e \<Rightarrow> Inl (QueryFailed e)
   | None \<Rightarrow> (case find (\<lambda>r. slr_time r = t) (sla_rollups q) of None \<Rightarrow> Inl ErrNoRows | Some r \<Rightarrow> Inr r))"

definition CommitSlaRollup :: "sla_db \<Rightarrow> int \<Rightarrow> string \<Rightarrow> int \<Rightarrow> int \<Rightarrow> (pg_error + int) \<times> sla_db" where
  "CommitSlaRollup q t txHash blockStart blockEnd = (case sla_fault q SLA_CommitRollup of
     Some e \<Rightarrow> (Inl e, q)
   | None \<Rightarrow> (Inr (sla_next_id q), q\<lparr>sla_next_id := sla_next_id q + 1,
       sla_rollups := sla_rollups q @ [\<lparr>slr_id = sla_next_id q, slr_tx_hash = txHash,
         slr_block_start = blockStart, slr_block_end = blockEnd, slr_time = t\<rparr>]\<rparr>))"

definition ClearUncommittedSlaNodeReports :: "sla_db \<Rightarrow> pg_error option \<times> sla_db" where
  "ClearUncommittedSlaNodeReports q = sla_exec q SLA_Clear
     (q\<lparr>sla_node_reports := filter (\<lambda>r. \<not> in_progress r) (sla_node_reports q)\<rparr>)"

text \<open>The table has a unique constraint on the address and the rollup.\<close>

definition CommitSlaNodeReport :: "sla_db \<Rightarrow> int \<Rightarrow> string \<Rightarrow> int \<Rightarrow> pg_error option \<times> sla_db" where
  "CommitSlaNodeReport q rollupID address blocksProposed = (case sla_fault q (SLA_CommitReport address) of
     Some e \<Rightarrow> (Some e, q)
   | None \<Rightarrow>
     if \<exists>r\<in>set (sla_node_reports q). snr_address r = address \<and> snr_sla_rollup_id r = Some rollupID
     then (Some unique_violation, q)
     else (None, q\<lparr>sla_node_reports := sla_node_reports q @
       [\<lparr>snr_address = address, snr_blocks_proposed = blocksProposed, snr_sla_rollup_id = Some rollupID\<rparr>]\<rparr>))"

definition bump :: "string \<Rightarrow> SlaNodeReportRow \<Rightarrow> SlaNodeReportRow" where
  "bump address r = (if snr_address r = address \<and> in_progress r
     then r\<lparr>snr_blocks_proposed := snr_blocks_proposed r + 1\<rparr> else r)"

definition UpsertSlaRollupReport :: "sla_db \<Rightarrow> string \<Rightarrow> pg_error option \<times> sla_db" where
  "UpsertSlaRollupReport q address = sla_exec q (SLA_Upsert address)
     (if \<exists>r\<in>set (sla_node_reports q). snr_address r = address \<and> in_progress r
      then q\<lparr>sla_node_reports := map (bump address) (sla_node_reports q)\<rparr>
      else q\<lparr>sla_node_reports := sla_node_reports q @
        [\<lparr>snr_address = address, snr_blocks_proposed = 1, snr_sla_rollup_id = None\<rparr>]\<rparr>)"

definition GetAllRegisteredNodesSorted :: "validator_db \<Rightarrow> pg_error + CoreValidator list" where
  "GetAllRegisteredNodesSorted q = (case val_fault q V_AllSorted of
     Some e \<Rightarrow> Inl e
   | None \<Rightarrow> Inr (sort_key cv_comet_address (filter (\<lambda>r. \<not> cv_jailed r) (core_validators q))))"

definition TotalValidators :: "validator_db \<Rightarrow> pg_error + int" where
  "TotalValidators q = (case val_fault q V_Total of
     Some e \<Rightarrow> Inl e
   | None \<Rightarrow> Inr (int (length (filter (\<lambda>r. \<not> cv_jailed r) (core_validators q)))))"

text \<open>One row for each matching report of a recent rollup, one without a report if there is none.\<close>

definition GetRecentRollupsForNode ::
  "sla_db \<Rightarrow> nat \<Rightarrow> string \<Rightarrow> pg_error + (SlaRollupRow \<times> (string \<times> int) option) list" where
  "GetRecentRollupsForNode q limit address = (case sla_fault q (SLA_Recent address) of
     Some e \<Rightarrow> Inl e
   | None \<Rightarrow> Inr (concat (map (\<lambda>rr.
       (case filter (\<lambda>nr. snr_sla_rollup_id nr = Some (slr_id rr) \<and> snr_address nr = address) (sla_node_reports q) of
          [] \<Rightarrow> [(rr, None)]
        | nrs \<Rightarrow> map (\<lambda>nr. (rr, Some (snr_address nr, snr_blocks_proposed nr))) nrs))
       (rev (take limit (by_time_desc (sla_rollups q)))))))"

section \<open>Rollups\<close>

record SlaNodeReport =
  rep_Address :: string
  rep_NumBlocksProposed :: int

record SlaRollup =
  ru_Timestamp :: "int \<times> int"
  ru_BlockStart :: int
  ru_BlockEnd :: int
  ru_Reports :: "SlaNodeReport list"

definition nanos_per_second :: int where "nanos_per_second = 1000000000"

definition timestamppb_New :: "int \<Rightarrow> int \<times> int" where
  "timestamppb_New t = (t div nanos_per_second, t mod nanos_per_second)"

text \<open>The time of a protobuf timestamp as the column keeps it.\<close>

definition pg_timestamp :: "int \<times> int \<Rightarrow> int" where
  "pg_timestamp ts = (fst ts * nanos_per_second + snd ts) div 1000"

definition shouldProposeNewRollup :: "sla_db \<Rightarrow> int \<Rightarrow> int \<Rightarrow> bool" where
  "shouldProposeNewRollup q slaRollupInterval height = (case GetLatestSlaRollup q of
     Inl (QueryFailed _) \<Rightarrow> False
   | Inl ErrNoRows \<Rightarrow> height - 1 - 0 \<ge> slaRollupInterval
   | Inr latestRollup \<Rightarrow> height - 1 - slr_block_end latestRollup \<ge> slaRollupInterval)"

definition node_report :: "SlaNodeReportRow list \<Rightarrow> CoreValidator \<Rightarrow> SlaNodeReport" where
  "node_report reports v = (case find (\<lambda>r. snr_address r = cv_comet_address v) (rev reports) of
     Some r \<Rightarrow> \<lparr>rep_Address = snr_address r, rep_NumBlocksProposed = snr_blocks_proposed r\<rparr>
   | None \<Rightarrow> \<lparr>rep_Address = cv_comet_address v, rep_NumBlocksProposed = 0\<rparr>)"

definition createRollup :: "sla_db \<Rightarrow> validator_db \<Rightarrow> int \<Rightarrow> int \<Rightarrow> pg_error + SlaRollup" where
  "createRollup q vq timestamp height =
     (let start = (case GetLatestSlaRollup q of Inr r \<Rightarrow> slr_block_end r + 1 | Inl _ \<Rightarrow> 0) in
      case GetInProgressRollupReports q of
        Inl e \<Rightarrow> Inl e
      | Inr reports \<Rightarrow>
        (case GetAllRegisteredNodesSorted vq of
           Inl e \<Rightarrow> Inl e
         | Inr validators \<Rightarrow> Inr \<lparr>ru_Timestamp = timestamppb_New timestamp, ru_BlockStart = start,
             ru_BlockEnd = height - 1, ru_Reports = map (node_report reports) validators\<rparr>))"

definition rollupsMatch :: "SlaRollup \<Rightarrow> SlaRollup \<Rightarrow> bool" where
  "rollupsMatch mine proposed =
     (if fst (ru_Timestamp mine) \<noteq> fst (ru_Timestamp proposed) \<or>
         snd (ru_Timestamp mine) \<noteq> snd (ru_Timestamp proposed) then False
      else if ru_BlockStart mine \<noteq> ru_BlockStart proposed then False
      else if ru_BlockEnd mine \<noteq> ru_BlockEnd proposed then False
      else if ru_Reports mine = [] \<and> ru_Reports proposed = [] then True
      else ru_Reports mine = ru_Reports proposed)"

definition isValidRollup ::
  "sla_db \<Rightarrow> validator_db \<Rightarrow> int \<Rightarrow> int \<Rightarrow> int \<Rightarrow> SlaRollup \<Rightarrow> pg_error + bool" where
  "isValidRollup q vq slaRollupInterval timestamp height rollup =
     (if \<not> shouldProposeNewRollup q slaRollupInterval (height + 1) then Inr False
      else if ru_BlockStart rollup > ru_BlockEnd rollup then Inr False
      else (case createRollup q vq timestamp height of
          Inl e \<Rightarrow> Inl e
        | Inr myRollup \<Rightarrow> Inr (rollupsMatch myRollup rollup)))"

fun commit_reports :: "sla_db \<Rightarrow> int \<Rightarrow> SlaNodeReport list \<Rightarrow> pg_error option \<times> sla_db" where
  "commit_reports q rollupID [] = (None, q)"
| "commit_reports q rollupID (r # rs) =
     (case CommitSlaNodeReport q rollupID (rep_Address r) (rep_NumBlocksProposed r) of
        (Some e, q') \<Rightarrow> (Some e, q')
      | (None, q') \<Rightarrow> commit_reports q' rollupID rs)"

definition finalizeSlaRollup :: "sla_db \<Rightarrow> SlaRollup \<Rightarrow> string \<Rightarrow> pg_error option \<times> sla_db" where
  "finalizeSlaRollup appDb rollup txHash =
     (case GetSlaRollupWithTimestamp appDb (pg_timestamp (ru_Timestamp rollup)) of
        Inr _ \<Rightarrow> (None, appDb)
      | Inl (QueryFailed e) \<Rightarrow> (Some e, appDb)
      | Inl ErrNoRows \<Rightarrow>
        (case CommitSlaRollup appDb (pg_timestamp (ru_Timestamp rollup)) txHash
                (ru_BlockStart rollup) (ru_BlockEnd rollup) of
           (Inl e, q1) \<Rightarrow> (Some e, q1)
         | (Inr rollupID, q1) \<Rightarrow>
           (case ClearUncommittedSlaNodeReports q1 of
              (Some e, q2) \<Rightarrow> (Some e, q2)
            | (None, q2) \<Rightarrow> commit_reports q2 rollupID (ru_Reports rollup))))"

section \<open>Purging\<close>

definition validatorPurgeSLAInterval :: nat where "validatorPurgeSLAInterval = 8"

definition ShouldPurgeValidatorForUnderperformance ::
  "sla_db \<Rightarrow> validator_db \<Rightarrow> int \<Rightarrow> string \<Rightarrow> pg_error + bool" where
  "ShouldPurgeValidatorForUnderperformance q vq validatorPurgeMinValidators validatorAddress =
     (case TotalValidators vq of
        Inl e \<Rightarrow> Inl e
      | Inr totalValidators \<Rightarrow>
        if totalValidators \<le> validatorPurgeMinValidators then Inr False
        else (case GetRecentRollupsForNode q validatorPurgeSLAInterval validatorAddress of
            Inl e \<Rightarrow> Inl e
          | Inr rollups \<Rightarrow>
            if list_all (\<lambda>r. snd r = None) rollups then Inr False
            else Inr (list_all (\<lambda>r. case snd r of None \<Rightarrow> True | Some (_, n) \<Rightarrow> \<not> n > 0) rollups)))"

end
