(* ===== verification/Sla_Laws.thy ===== *)
theory Sla_Laws
  imports Sla_Rollups
begin

text \<open>
  Rollups over a whole chain: every committed rollup starts where the last one ended, and its
  reports count exactly the blocks of its interval.
\<close>

section \<open>Blocks as the auditor sees them\<close>

text \<open>
  A block's rollup transactions with their hashes, its time and proposer, and the validators
  committed before it. The rollups are finalized in order, then the proposer is counted.
\<close>

record sla_block =
  sb_time :: int
  sb_proposer :: string
  sb_validators :: validator_db
  sb_rollups :: "(SlaRollup \<times> string) list"

definition sla_step :: "sla_db \<Rightarrow> sla_block \<Rightarrow> sla_db" where
  "sla_step q b = snd (UpsertSlaRollupReport
     (fold (\<lambda>(rollup, txHash) q. snd (finalizeSlaRollup q rollup txHash)) (sb_rollups b) q) (sb_proposer b))"

definition sla_run :: "sla_db \<Rightarrow> sla_block list \<Rightarrow> sla_db" where
  "sla_run q bs = fold (\<lambda>b q. sla_step q b) bs q"

text \<open>Every rollup was accepted against the state before its block.\<close>

fun sla_accepted :: "int \<Rightarrow> sla_db \<Rightarrow> int \<Rightarrow> sla_block list \<Rightarrow> bool" where
  "sla_accepted interval q height [] = True"
| "sla_accepted interval q height (b # bs) =
     (list_all (\<lambda>r. isValidRollup q (sb_validators b) interval (sb_time b) height (fst r) = Inr True) (sb_rollups b) \<and>
      sla_accepted interval (sla_step q b) (height + 1) bs)"

definition no_sla_history :: sla_db where
  "no_sla_history = \<lparr>sla_rollups = [], sla_node_reports = [], sla_next_id = 1, sla_fault = (\<lambda>_. None)\<rparr>"

definition active_addresses :: "validator_db \<Rightarrow> string list" where
  "active_addresses vq = map cv_comet_address (filter (\<lambda>r. \<not> cv_jailed r) (core_validators vq))"

section \<open>What rollups should say\<close>

text \<open>The blocks from one height to another a node proposed; the first block has height 1.\<close>

definition proposed :: "string list \<Rightarrow> string \<Rightarrow> int \<Rightarrow> int \<Rightarrow> int" where
  "proposed ps a s e = int (card {i. i < length ps \<and> ps ! i = a \<and> s \<le> int i + 1 \<and> int i + 1 \<le> e})"

fun tiled :: "int \<Rightarrow> SlaRollupRow list \<Rightarrow> bool" where
  "tiled s [] = True"
| "tiled s (r # rs) = (slr_block_start r = s \<and> s \<le> slr_block_end r \<and> tiled (slr_block_end r + 1) rs)"

definition next_start :: "SlaRollupRow list \<Rightarrow> int" where
  "next_start rows = (if rows = [] then 0 else slr_block_end (last rows) + 1)"

lemma tiled_snoc: "tiled s (rows @ [r]) \<longleftrightarrow> tiled s rows \<and>
    slr_block_start r = (if rows = [] then s else slr_block_end (last rows) + 1) \<and>
    slr_block_start r \<le> slr_block_end r"
  by (induction rows arbitrary: s) auto

lemma proposed_append: "e \<le> int (length ps) \<Longrightarrow> proposed (ps @ [p]) a s e = proposed ps a s e"
  unfolding proposed_def by (intro arg_cong [where f = "\<lambda>A. int (card A)"]) (auto simp: nth_append)

lemma proposed_last:
  "s \<le> int (length ps) + 1 \<Longrightarrow> proposed (ps @ [p]) a s (1 + int (length ps)) =
    proposed ps a s (int (length ps)) + (if p = a then 1 else 0)"
proof -
  assume s: "s \<le> int (length ps) + 1"
  let ?A = "{i. i < length ps \<and> ps ! i = a \<and> s \<le> int i + 1 \<and> int i + 1 \<le> int (length ps)}"
  have "{i. i < length (ps @ [p]) \<and> (ps @ [p]) ! i = a \<and> s \<le> int i + 1 \<and> int i + 1 \<le> 1 + int (length ps)} =
      ?A \<union> (if p = a then {length ps} else {})"
    using s by (auto simp: nth_append less_Suc_eq)
  moreover have "finite ?A" "length ps \<notin> ?A" by auto
  ultimately show ?thesis by (simp add: proposed_def)
qed

lemma proposed_none: "int (length ps) < s \<Longrightarrow> proposed ps a s e = 0"
  by (auto simp: proposed_def)

section \<open>The invariant\<close>

text \<open>Tallies in progress: one row per address, counting the blocks since the last rollup.\<close>

definition tally :: "SlaNodeReportRow list \<Rightarrow> string \<Rightarrow> int" where
  "tally rows a = (case find (\<lambda>r. snr_address r = a \<and> in_progress r) rows of
     None \<Rightarrow> 0 | Some r \<Rightarrow> snr_blocks_proposed r)"

definition tallies_ok :: "SlaNodeReportRow list \<Rightarrow> string list \<Rightarrow> int \<Rightarrow> bool" where
  "tallies_ok rows ps s \<longleftrightarrow> distinct (map snr_address (filter in_progress rows)) \<and>
     (\<forall>a. tally rows a = proposed ps a s (int (length ps)))"

definition reports_ok :: "sla_db \<Rightarrow> string list \<Rightarrow> bool" where
  "reports_ok q ps \<longleftrightarrow> (\<forall>r\<in>set (sla_rollups q). \<forall>n\<in>set (sla_node_reports q).
     snr_sla_rollup_id n = Some (slr_id r) \<longrightarrow>
     snr_blocks_proposed n = proposed ps (snr_address n) (slr_block_start r) (slr_block_end r))"

definition sla_inv :: "sla_db \<Rightarrow> string list \<Rightarrow> int \<Rightarrow> bool" where
  "sla_inv q ps t \<longleftrightarrow> sla_fault q = (\<lambda>_. None) \<and>
     sorted_wrt (<) (map slr_time (sla_rollups q)) \<and> (\<forall>r\<in>set (sla_rollups q). slr_time r < t) \<and>
     tiled 0 (sla_rollups q) \<and> (\<forall>r\<in>set (sla_rollups q). slr_block_end r \<le> int (length ps)) \<and>
     (\<forall>r\<in>set (sla_rollups q). slr_id r < sla_next_id q) \<and>
     (\<forall>n\<in>set (sla_node_reports q). \<forall>i. snr_sla_rollup_id n = Some i \<longrightarrow> i < sla_next_id q) \<and>
     tallies_ok (sla_node_reports q) ps (next_start (sla_rollups q)) \<and> reports_ok q ps"

lemma sla_inv_start: "sla_inv no_sla_history [] t"
  by (simp add: sla_inv_def no_sla_history_def tallies_ok_def reports_ok_def tally_def proposed_def)

subsection \<open>Reading the latest rollup\<close>

lemma latest_is_last:
  assumes "sla_inv q ps t"
  shows "GetLatestSlaRollup q = (if sla_rollups q = [] then Inl ErrNoRows else Inr (last (sla_rollups q)))"
proof -
  have "sorted (map slr_time (sla_rollups q))"
    using assms by (simp add: sla_inv_def strict_sorted_imp_sorted)
  then have "sort_key slr_time (sla_rollups q) = sla_rollups q" by (rule sort_key_id_if_sorted)
  with assms show ?thesis
    by (cases "sla_rollups q" rule: rev_cases) (simp_all add: GetLatestSlaRollup_def by_time_desc_def sla_inv_def)
qed

lemma tally_distinct:
  assumes "distinct (map snr_address (filter in_progress rows))" "r \<in> set rows" "in_progress r"
  shows "tally rows (snr_address r) = snr_blocks_proposed r"
  using assms
proof (induction rows)
  case (Cons x xs)
  show ?case
  proof (cases "x = r")
    case False
    then have r: "r \<in> set xs" using Cons.prems by simp
    then have "\<not> (snr_address x = snr_address r \<and> in_progress x)"
      using Cons.prems by (force simp: image_iff)
    with Cons r show ?thesis by (auto simp: tally_def split: if_splits)
  qed (use Cons in \<open>simp add: tally_def\<close>)
qed simp

lemma find_SomeD: "find P xs = Some x \<Longrightarrow> x \<in> set xs \<and> P x"
  by (auto simp: find_Some_iff)

lemma node_report_tally:
  assumes "distinct (map snr_address (filter in_progress rows))"
  shows "node_report (sort_key snr_address (filter in_progress rows)) v =
    \<lparr>rep_Address = cv_comet_address v, rep_NumBlocksProposed = tally rows (cv_comet_address v)\<rparr>"
proof (cases "find (\<lambda>r. snr_address r = cv_comet_address v) (rev (sort_key snr_address (filter in_progress rows)))")
  case None
  then have "\<forall>r\<in>set rows. in_progress r \<longrightarrow> snr_address r \<noteq> cv_comet_address v"
    by (auto simp: find_None_iff)
  then have "find (\<lambda>r. snr_address r = cv_comet_address v \<and> in_progress r) rows = None"
    by (auto simp: find_None_iff)
  with None show ?thesis by (simp add: node_report_def tally_def)
next
  case (Some r)
  then have "r \<in> set rows" "in_progress r" "snr_address r = cv_comet_address v"
    by (auto dest!: find_SomeD)
  with Some tally_distinct [OF assms, of r] show ?thesis by (simp add: node_report_def)
qed

subsection \<open>Counting a block\<close>

lemma tally_Cons: "tally (r # rows) a =
    (if snr_address r = a \<and> in_progress r then snr_blocks_proposed r else tally rows a)"
  by (simp add: tally_def)

lemma tally_Nil: "tally [] a = 0"
  by (simp add: tally_def)

lemma bump_simps [simp]:
  "snr_address (bump p r) = snr_address r" "snr_sla_rollup_id (bump p r) = snr_sla_rollup_id r"
  "in_progress (bump p r) = in_progress r"
  by (simp_all add: bump_def in_progress_def)

lemma bump_blocks: "snr_blocks_proposed (bump p r) =
    snr_blocks_proposed r + (if snr_address r = p \<and> in_progress r then 1 else 0)"
  by (simp add: bump_def)

lemma tally_bump:
  "tally (map (bump p) rows) a = tally rows a +
    (if p = a \<and> (\<exists>r\<in>set rows. snr_address r = p \<and> in_progress r) then 1 else 0)"
  by (induction rows) (auto simp: tally_Nil tally_Cons bump_blocks)

lemma tally_snoc:
  "\<forall>r\<in>set rows. \<not> (snr_address r = p \<and> in_progress r) \<Longrightarrow>
    tally (rows @ [\<lparr>snr_address = p, snr_blocks_proposed = 1, snr_sla_rollup_id = None\<rparr>]) a =
    tally rows a + (if p = a then 1 else 0)"
  by (induction rows) (auto simp: tally_Nil tally_Cons in_progress_def)

lemma bump_committed: "snr_sla_rollup_id r = Some i \<Longrightarrow> bump p r = r"
  by (simp add: bump_def in_progress_def)

lemma filter_bump: "filter in_progress (map (bump p) rows) = map (bump p) (filter in_progress rows)"
  by (induction rows) simp_all

lemma count_block:
  assumes I: "sla_inv q ps t"
  shows "sla_inv (snd (UpsertSlaRollupReport q p)) (ps @ [p]) t"
proof -
  let ?rows = "sla_node_reports q"
  let ?s = "next_start (sla_rollups q)"
  have s: "?s \<le> int (length ps) + 1"
    using I by (cases "sla_rollups q" rule: rev_cases) (auto simp: sla_inv_def next_start_def)
  from I have nf: "sla_fault q = (\<lambda>_. None)" and ok: "tallies_ok ?rows ps ?s"
    by (simp_all add: sla_inv_def)
  show ?thesis
  proof (cases "\<exists>r\<in>set ?rows. snr_address r = p \<and> in_progress r")
    case True
    then have u: "snd (UpsertSlaRollupReport q p) = q\<lparr>sla_node_reports := map (bump p) ?rows\<rparr>"
      by (simp add: UpsertSlaRollupReport_def sla_exec_def nf)
    have "tallies_ok (map (bump p) ?rows) (ps @ [p]) ?s"
      using ok True proposed_last [OF s] by (simp add: tallies_ok_def filter_bump comp_def tally_bump)
    moreover have "reports_ok (q\<lparr>sla_node_reports := map (bump p) ?rows\<rparr>) (ps @ [p])"
      using I by (auto simp: sla_inv_def reports_ok_def bump_committed proposed_append)
    ultimately show ?thesis using I by (auto simp: u sla_inv_def)
  next
    case False
    let ?n = "\<lparr>snr_address = p, snr_blocks_proposed = 1, snr_sla_rollup_id = None\<rparr>"
    have u: "snd (UpsertSlaRollupReport q p) = q\<lparr>sla_node_reports := ?rows @ [?n]\<rparr>"
      using False by (simp add: UpsertSlaRollupReport_def sla_exec_def nf)
    have "tallies_ok (?rows @ [?n]) (ps @ [p]) ?s"
      using ok False tally_snoc [of ?rows p] proposed_last [OF s]
      by (auto simp: tallies_ok_def in_progress_def)
    moreover have "reports_ok (q\<lparr>sla_node_reports := ?rows @ [?n]\<rparr>) (ps @ [p])"
      using I by (auto simp: sla_inv_def reports_ok_def proposed_append)
    ultimately show ?thesis using I by (auto simp: u sla_inv_def)
  qed
qed

subsection \<open>Finalizing rollups\<close>

text \<open>An accepted rollup is the one the node itself would make.\<close>

definition expected_rollup :: "sla_db \<Rightarrow> sla_block \<Rightarrow> int \<Rightarrow> SlaRollup \<Rightarrow> bool" where
  "expected_rollup q b height r \<longleftrightarrow> ru_Timestamp r = timestamppb_New (sb_time b) \<and>
     ru_BlockStart r = next_start (sla_rollups q) \<and> ru_BlockEnd r = height - 1 \<and>
     ru_BlockStart r \<le> ru_BlockEnd r \<and>
     map rep_Address (ru_Reports r) = sort (active_addresses (sb_validators b)) \<and>
     (\<forall>n\<in>set (ru_Reports r). rep_NumBlocksProposed n = tally (sla_node_reports q) (rep_Address n))"

lemma map_sort_key: "map f (sort_key f xs) = sort (map f xs)"
  by (rule properties_for_sort [symmetric]) simp_all

lemma accepted_expected:
  assumes I: "sla_inv q ps t" and v: "isValidRollup q (sb_validators b) interval (sb_time b) height r = Inr True"
  shows "expected_rollup q b height r"
proof -
  from I have d: "distinct (map snr_address (filter in_progress (sla_node_reports q)))" and nf: "sla_fault q = (\<lambda>_. None)"
    by (simp_all add: sla_inv_def tallies_ok_def)
  from v obtain mine where c: "createRollup q (sb_validators b) (sb_time b) height = Inr mine"
    and m: "rollupsMatch mine r" and le: "ru_BlockStart r \<le> ru_BlockEnd r"
    by (auto simp: isValidRollup_def split: if_splits sum.splits)
  from m have r: "ru_Timestamp r = ru_Timestamp mine" "ru_BlockStart r = ru_BlockStart mine"
    "ru_BlockEnd r = ru_BlockEnd mine" "ru_Reports r = ru_Reports mine"
    by (auto simp: rollupsMatch_def prod_eq_iff split: if_splits)
  from c have mine: "mine = \<lparr>ru_Timestamp = timestamppb_New (sb_time b), ru_BlockStart = next_start (sla_rollups q),
      ru_BlockEnd = height - 1, ru_Reports = map (node_report (sort_key snr_address (filter in_progress (sla_node_reports q))))
        (sort_key cv_comet_address (filter (\<lambda>r. \<not> cv_jailed r) (core_validators (sb_validators b))))\<rparr>"
    by (auto simp: createRollup_def Let_def GetInProgressRollupReports_def GetAllRegisteredNodesSorted_def nf
        latest_is_last [OF I] next_start_def split: option.splits sum.splits if_splits)
  show ?thesis using le
    by (auto simp: expected_rollup_def r mine node_report_tally [OF d] comp_def active_addresses_def map_sort_key)
qed

lemma commit_reports_result:
  assumes "sla_fault q = (\<lambda>_. None)" "distinct (map rep_Address rs)"
    and "\<forall>n\<in>set (sla_node_reports q). snr_sla_rollup_id n = Some i \<longrightarrow> snr_address n \<notin> set (map rep_Address rs)"
  shows "commit_reports q i rs = (None, q\<lparr>sla_node_reports := sla_node_reports q @
    map (\<lambda>r. \<lparr>snr_address = rep_Address r, snr_blocks_proposed = rep_NumBlocksProposed r, snr_sla_rollup_id = Some i\<rparr>) rs\<rparr>)"
  using assms
proof (induction rs arbitrary: q)
  case (Cons r rs)
  have "CommitSlaNodeReport q i (rep_Address r) (rep_NumBlocksProposed r) = (None, q\<lparr>sla_node_reports := sla_node_reports q @
      [\<lparr>snr_address = rep_Address r, snr_blocks_proposed = rep_NumBlocksProposed r, snr_sla_rollup_id = Some i\<rparr>]\<rparr>)"
    using Cons.prems by (auto simp: CommitSlaNodeReport_def)
  with Cons show ?case by auto
qed simp

lemma tally_committed: "\<forall>r\<in>set rows. \<not> in_progress r \<Longrightarrow> tally rows a = 0"
  by (auto simp: tally_def split: option.splits dest!: find_SomeD)

lemma finalize_first:
  assumes I: "sla_inv q ps t" and e: "expected_rollup q b (int (length ps) + 1) r"
    and t: "t \<le> pg_timestamp (timestamppb_New (sb_time b))" and d: "distinct (active_addresses (sb_validators b))"
  shows "sla_inv (snd (finalizeSlaRollup q r h)) ps (pg_timestamp (timestamppb_New (sb_time b)) + 1)"
    and "\<exists>row\<in>set (sla_rollups (snd (finalizeSlaRollup q r h))). slr_time row = pg_timestamp (timestamppb_New (sb_time b))"
proof -
  let ?t = "pg_timestamp (timestamppb_New (sb_time b))"
  let ?row = "\<lparr>slr_id = sla_next_id q, slr_tx_hash = h, slr_block_start = ru_BlockStart r,
    slr_block_end = ru_BlockEnd r, slr_time = ?t\<rparr>"
  let ?new = "map (\<lambda>n. \<lparr>snr_address = rep_Address n, snr_blocks_proposed = rep_NumBlocksProposed n,
    snr_sla_rollup_id = Some (sla_next_id q)\<rparr>) (ru_Reports r)"
  let ?old = "filter (\<lambda>n. \<not> in_progress n) (sla_node_reports q)"
  from I have nf: "sla_fault q = (\<lambda>_. None)" and lt: "\<forall>r\<in>set (sla_rollups q). slr_time r < t"
    and ids: "\<forall>n\<in>set (sla_node_reports q). \<forall>i. snr_sla_rollup_id n = Some i \<longrightarrow> i < sla_next_id q"
    by (simp_all add: sla_inv_def)
  from e have r: "ru_Timestamp r = timestamppb_New (sb_time b)" "ru_BlockStart r = next_start (sla_rollups q)"
      "ru_BlockEnd r = int (length ps)" "ru_BlockStart r \<le> ru_BlockEnd r"
    and dr: "distinct (map rep_Address (ru_Reports r))"
    and cnt: "\<forall>n\<in>set (ru_Reports r). rep_NumBlocksProposed n = tally (sla_node_reports q) (rep_Address n)"
    using d by (simp_all add: expected_rollup_def)
  from lt t have "find (\<lambda>r. slr_time r = ?t) (sla_rollups q) = None" by (force simp: find_None_iff)
  moreover have "\<forall>n\<in>set ?old. snr_sla_rollup_id n = Some (sla_next_id q) \<longrightarrow> snr_address n \<notin> set (map rep_Address (ru_Reports r))"
    using ids by force
  ultimately have f: "snd (finalizeSlaRollup q r h) = q\<lparr>sla_next_id := sla_next_id q + 1,
      sla_rollups := sla_rollups q @ [?row], sla_node_reports := ?old @ ?new\<rparr>"
    using commit_reports_result [OF _ dr, of "q\<lparr>sla_next_id := sla_next_id q + 1,
      sla_rollups := sla_rollups q @ [?row], sla_node_reports := ?old\<rparr>" "sla_next_id q"]
    by (simp add: finalizeSlaRollup_def r GetSlaRollupWithTimestamp_def CommitSlaRollup_def
        ClearUncommittedSlaNodeReports_def sla_exec_def nf)
  show "\<exists>row\<in>set (sla_rollups (snd (finalizeSlaRollup q r h))). slr_time row = ?t" by (simp add: f)
  have nip: "\<forall>n\<in>set (?old @ ?new). \<not> in_progress n" by (auto simp: in_progress_def)
  then have "filter in_progress (?old @ ?new) = []" by (simp only: filter_empty_conv)
  with tally_committed [OF nip] have "tallies_ok (?old @ ?new) ps (int (length ps) + 1)"
    by (simp only: tallies_ok_def) (simp add: proposed_none)
  then have T: "tallies_ok (?old @ ?new) ps (next_start (sla_rollups q @ [?row]))" by (simp add: next_start_def r)
  have tl: "tally (sla_node_reports q) a = proposed ps a (ru_BlockStart r) (ru_BlockEnd r)" for a
    using I by (simp add: sla_inv_def tallies_ok_def r)
  have R: "reports_ok (q\<lparr>sla_next_id := sla_next_id q + 1,
      sla_rollups := sla_rollups q @ [?row], sla_node_reports := ?old @ ?new\<rparr>) ps"
    using I ids cnt tl unfolding reports_ok_def sla_inv_def by fastforce
  from r have "slr_block_start ?row = (if sla_rollups q = [] then 0 else slr_block_end (last (sla_rollups q)) + 1)"
    by (simp add: next_start_def)
  then have "tiled 0 (sla_rollups q @ [?row])"
    using I r by (simp add: tiled_snoc sla_inv_def)
  with I T R lt t ids show "sla_inv (snd (finalizeSlaRollup q r h)) ps (?t + 1)"
    by (force simp: f sla_inv_def sorted_wrt_append r)
qed

lemma finalize_again:
  assumes "sla_inv q ps t" "ru_Timestamp r = ts" "row \<in> set (sla_rollups q)" "slr_time row = pg_timestamp ts"
  shows "snd (finalizeSlaRollup q r h) = q"
proof -
  from assms(3,4) have "find (\<lambda>r. slr_time r = pg_timestamp ts) (sla_rollups q) \<noteq> None"
    by (auto simp: find_None_iff)
  with assms(1,2) show ?thesis
    by (auto simp: finalizeSlaRollup_def GetSlaRollupWithTimestamp_def sla_inv_def)
qed

lemma finalize_rest:
  assumes "sla_inv q ps t" "row \<in> set (sla_rollups q)" "slr_time row = pg_timestamp ts"
    and "\<forall>x\<in>set rs. ru_Timestamp (fst x) = ts"
  shows "fold (\<lambda>(rollup, txHash) q. snd (finalizeSlaRollup q rollup txHash)) rs q = q"
  using assms(4) by (induction rs) (auto simp: finalize_again [OF assms(1) _ assms(2,3)])

lemma sla_inv_mono: "sla_inv q ps t \<Longrightarrow> t \<le> t' \<Longrightarrow> sla_inv q ps t'"
  by (force simp: sla_inv_def)

lemma step_inv:
  assumes I: "sla_inv q ps t" and t: "t \<le> pg_timestamp (timestamppb_New (sb_time b))"
    and d: "distinct (active_addresses (sb_validators b))"
    and v: "\<forall>x\<in>set (sb_rollups b). isValidRollup q (sb_validators b) interval (sb_time b) (int (length ps) + 1) (fst x) = Inr True"
  shows "sla_inv (sla_step q b) (ps @ [sb_proposer b]) (pg_timestamp (timestamppb_New (sb_time b)) + 1)"
proof (cases "sb_rollups b")
  case Nil
  with count_block [OF sla_inv_mono [OF I]] t show ?thesis by (simp add: sla_step_def)
next
  case (Cons x xs)
  have e: "\<forall>y\<in>set (sb_rollups b). expected_rollup q b (int (length ps) + 1) (fst y)"
    using accepted_expected [OF I] v by blast
  then have ex: "expected_rollup q b (int (length ps) + 1) (fst x)" by (simp add: Cons)
  let ?q = "snd (finalizeSlaRollup q (fst x) (snd x))"
  note first = finalize_first [OF I ex t d, of "snd x"]
  from first(2) obtain row where "row \<in> set (sla_rollups ?q)"
    "slr_time row = pg_timestamp (timestamppb_New (sb_time b))" by blast
  moreover have "\<forall>y\<in>set xs. ru_Timestamp (fst y) = timestamppb_New (sb_time b)"
    using e by (simp add: Cons expected_rollup_def)
  ultimately have "fold (\<lambda>(rollup, txHash) q. snd (finalizeSlaRollup q rollup txHash)) xs ?q = ?q"
    using finalize_rest [OF first(1)] by blast
  with count_block [OF first(1)] show ?thesis by (simp add: sla_step_def Cons case_prod_beta)
qed

lemma run_inv:
  assumes "sla_inv q ps t" "sla_accepted interval q (int (length ps) + 1) bs"
    and "\<forall>b\<in>set bs. t \<le> pg_timestamp (timestamppb_New (sb_time b))"
    and "sorted_wrt (<) (map (\<lambda>b. pg_timestamp (timestamppb_New (sb_time b))) bs)"
    and "\<forall>b\<in>set bs. distinct (active_addresses (sb_validators b))"
  shows "\<exists>t'. sla_inv (sla_run q bs) (ps @ map sb_proposer bs) t'"
  using assms
proof (induction bs arbitrary: q ps t)
  case (Cons b bs)
  let ?t = "pg_timestamp (timestamppb_New (sb_time b)) + 1"
  have "sla_inv (sla_step q b) (ps @ [sb_proposer b]) ?t"
    using Cons.prems by (intro step_inv [OF Cons.prems(1), of _ interval]) (simp_all add: list_all_iff)
  moreover have "sla_accepted interval (sla_step q b) (int (length (ps @ [sb_proposer b])) + 1) bs"
    using Cons.prems by (simp add: algebra_simps)
  ultimately have "\<exists>t'. sla_inv (sla_run (sla_step q b) bs) ((ps @ [sb_proposer b]) @ map sb_proposer bs) t'"
    using Cons.prems by (intro Cons.IH [of "sla_step q b" "ps @ [sb_proposer b]" ?t]) auto
  then show ?case by (simp add: sla_run_def)
qed (auto simp: sla_run_def)

text \<open>
  C31: on a chain whose rollups were all accepted against the state before
  their block, the committed rollups follow each other without gap or overlap, and every report
  filed under one counts exactly the blocks of its interval its node proposed. Block times grow,
  as CometBFT guarantees, and no two active validators share a comet address.
\<close>

theorem rollups_count_blocks:
  assumes "sla_accepted interval no_sla_history 1 bs"
    and "sorted_wrt (<) (map (\<lambda>b. pg_timestamp (timestamppb_New (sb_time b))) bs)"
    and "\<forall>b\<in>set bs. distinct (active_addresses (sb_validators b))"
  shows "tiled 0 (sla_rollups (sla_run no_sla_history bs)) \<and>
    (\<forall>r\<in>set (sla_rollups (sla_run no_sla_history bs)). \<forall>n\<in>set (sla_node_reports (sla_run no_sla_history bs)).
      snr_sla_rollup_id n = Some (slr_id r) \<longrightarrow>
      snr_blocks_proposed n = proposed (map sb_proposer bs) (snr_address n) (slr_block_start r) (slr_block_end r))"
proof -
  let ?ts = "map (\<lambda>b. pg_timestamp (timestamppb_New (sb_time b))) bs"
  have "\<forall>b\<in>set bs. (if ?ts = [] then 0 else hd ?ts) \<le> pg_timestamp (timestamppb_New (sb_time b))"
    using assms(2) by (cases bs) auto
  with run_inv [OF sla_inv_start, of _ bs] assms
  obtain t where "sla_inv (sla_run no_sla_history bs) (map sb_proposer bs) t" by fastforce
  then show ?thesis by (simp add: sla_inv_def reports_ok_def)
qed

text \<open>Three blocks of two validators; the third carries the rollup of the first two, twice.\<close>

definition ex_validator :: "string \<Rightarrow> string \<Rightarrow> CoreValidator" where
  "ex_validator wallet comet = \<lparr>cv_pub_key = [], cv_endpoint = [], cv_eth_address = wallet, cv_comet_address = comet,
     cv_comet_pub_key = [], cv_eth_block = [], cv_node_type = [], cv_sp_id = [], cv_jailed = False\<rparr>"

definition ex_nodes :: "CoreValidator list \<Rightarrow> validator_db" where
  "ex_nodes vs = \<lparr>core_validators = vs, validator_history = [], val_fault = (\<lambda>_. None)\<rparr>"

definition ex_rollup :: SlaRollup where
  "ex_rollup = \<lparr>ru_Timestamp = (3, 0), ru_BlockStart = 0, ru_BlockEnd = 2,
     ru_Reports = [\<lparr>rep_Address = ''A'', rep_NumBlocksProposed = 2\<rparr>, \<lparr>rep_Address = ''B'', rep_NumBlocksProposed = 0\<rparr>]\<rparr>"

definition ex_blocks :: "sla_block list" where
  "ex_blocks = map (\<lambda>(t, p, rs). \<lparr>sb_time = t * 1000000000, sb_proposer = p,
       sb_validators = ex_nodes [ex_validator ''0xb'' ''B'', ex_validator ''0xa'' ''A''], sb_rollups = rs\<rparr>)
     [(1, ''A'', []), (2, ''A'', []), (3, ''B'', [(ex_rollup, ''h1''), (ex_rollup, ''h2'')])]"

theorem rollups_count_blocks_witness:
  "sla_rollups (sla_run no_sla_history ex_blocks) =
     [\<lparr>slr_id = 1, slr_tx_hash = ''h1'', slr_block_start = 0, slr_block_end = 2, slr_time = 3000000\<rparr>] \<and>
   proposed [''A'', ''A'', ''B''] ''A'' 0 2 = 2"
proof
  show r: "sla_rollups (sla_run no_sla_history ex_blocks) =
     [\<lparr>slr_id = 1, slr_tx_hash = ''h1'', slr_block_start = 0, slr_block_end = 2, slr_time = 3000000\<rparr>]"
    by code_simp
  have n: "\<lparr>snr_address = ''A'', snr_blocks_proposed = 2, snr_sla_rollup_id = Some 1\<rparr> \<in>
      set (sla_node_reports (sla_run no_sla_history ex_blocks))" by code_simp
  have "sla_accepted 2 no_sla_history 1 ex_blocks" by code_simp
  moreover have "sorted_wrt (<) (map (\<lambda>b. pg_timestamp (timestamppb_New (sb_time b))) ex_blocks)" by code_simp
  moreover have "\<forall>b\<in>set ex_blocks. distinct (active_addresses (sb_validators b))" by code_simp
  ultimately have exact: "\<forall>r\<in>set (sla_rollups (sla_run no_sla_history ex_blocks)).
      \<forall>n\<in>set (sla_node_reports (sla_run no_sla_history ex_blocks)). snr_sla_rollup_id n = Some (slr_id r) \<longrightarrow>
      snr_blocks_proposed n = proposed (map sb_proposer ex_blocks) (snr_address n) (slr_block_start r) (slr_block_end r)"
    using rollups_count_blocks [of 2 ex_blocks] by blast
  have "\<lparr>slr_id = 1, slr_tx_hash = ''h1'', slr_block_start = 0, slr_block_end = 2, slr_time = 3000000\<rparr> \<in>
      set (sla_rollups (sla_run no_sla_history ex_blocks))" by (simp only: r) simp
  from exact [rule_format, OF this n] have "2 = proposed (map sb_proposer ex_blocks) ''A'' 0 2" by simp
  moreover have "map sb_proposer ex_blocks = [''A'', ''A'', ''B'']" by code_simp
  ultimately show "proposed [''A'', ''A'', ''B''] ''A'' 0 2 = 2" by (simp only:)
qed

section \<open>A shared comet address\<close>

lemma commit_duplicates:
  assumes "sla_fault q = (\<lambda>_. None)"
    and "\<not> distinct (map rep_Address rs) \<or>
      (\<exists>n\<in>set (sla_node_reports q). snr_sla_rollup_id n = Some i \<and> snr_address n \<in> set (map rep_Address rs))"
  shows "fst (commit_reports q i rs) = Some unique_violation"
  using assms
proof (induction rs arbitrary: q)
  case (Cons r rs)
  show ?case
  proof (cases "\<exists>n\<in>set (sla_node_reports q). snr_address n = rep_Address r \<and> snr_sla_rollup_id n = Some i")
    case True
    then show ?thesis using Cons.prems(1) by (simp add: CommitSlaNodeReport_def)
  next
    case False
    let ?q = "q\<lparr>sla_node_reports := sla_node_reports q @ [\<lparr>snr_address = rep_Address r,
      snr_blocks_proposed = rep_NumBlocksProposed r, snr_sla_rollup_id = Some i\<rparr>]\<rparr>"
    have "\<not> distinct (map rep_Address rs) \<or> (\<exists>n\<in>set (sla_node_reports ?q). snr_sla_rollup_id n = Some i \<and>
        snr_address n \<in> set (map rep_Address rs))"
      using Cons.prems(2) False by auto
    then have "fst (commit_reports ?q i rs) = Some unique_violation" using Cons by simp
    then show ?thesis using Cons.prems(1) False by (simp add: CommitSlaNodeReport_def)
  qed
qed simp

lemma node_report_address: "rep_Address (node_report rows v) = cv_comet_address v"
  by (auto simp: node_report_def split: option.splits dest!: find_SomeD)

lemma shared_address_report:
  assumes "isValidRollup q vq interval timestamp height rollup = Inr True" "\<not> distinct (active_addresses vq)"
  shows "\<not> distinct (map rep_Address (ru_Reports rollup))" "ru_Timestamp rollup = timestamppb_New timestamp"
proof -
  from assms(1) obtain mine where c: "createRollup q vq timestamp height = Inr mine" and m: "rollupsMatch mine rollup"
    by (auto simp: isValidRollup_def split: if_splits sum.splits)
  from m have "ru_Reports rollup = ru_Reports mine" by (auto simp: rollupsMatch_def split: if_splits)
  moreover from c have "map rep_Address (ru_Reports mine) = sort (active_addresses vq)"
    by (auto simp: createRollup_def Let_def GetAllRegisteredNodesSorted_def node_report_address comp_def
        active_addresses_def map_sort_key split: sum.splits option.splits)
  ultimately show "\<not> distinct (map rep_Address (ru_Reports rollup))" using assms(2) by simp
  from m have "ru_Timestamp rollup = ru_Timestamp mine" by (auto simp: rollupsMatch_def prod_eq_iff split: if_splits)
  with c show "ru_Timestamp rollup = timestamppb_New timestamp"
    by (auto simp: createRollup_def Let_def split: sum.splits)
qed

lemma built_rollup_valid:
  assumes "shouldProposeNewRollup q interval (height + 1)" "2 \<le> interval" "createRollup q vq timestamp height = Inr rollup"
  shows "isValidRollup q vq interval timestamp height rollup = Inr True"
  using assms
  by (auto simp: isValidRollup_def createRollup_def rollupsMatch_def shouldProposeNewRollup_def Let_def
      split: sum.splits query_error.splits)

text \<open>
  C32: while two active validators share a comet address and the database answers, a
  rollup that is due can be built, every node in the same state accepts it, and filing the reports of any rollup a
  node accepts breaks the unique constraint of the table; the block's database transaction fails with it.
\<close>

theorem shared_comet_address_breaks_rollup:
  assumes "\<not> distinct (active_addresses vq)" "shouldProposeNewRollup q interval (height + 1)" "2 \<le> interval"
    and "sla_fault q = (\<lambda>_. None)" "val_fault vq V_AllSorted = None"
    and "\<forall>r\<in>set (sla_rollups q). slr_time r \<noteq> pg_timestamp (timestamppb_New timestamp)"
  shows "(\<exists>rollup. createRollup q vq timestamp height = Inr rollup \<and>
      isValidRollup q vq interval timestamp height rollup = Inr True) \<and>
    (\<forall>rollup txHash. isValidRollup q vq interval timestamp height rollup = Inr True \<longrightarrow>
      fst (finalizeSlaRollup q rollup txHash) = Some unique_violation)"
proof (rule conjI)
  have "\<exists>rollup. createRollup q vq timestamp height = Inr rollup"
    using assms(4,5) by (simp add: createRollup_def GetInProgressRollupReports_def GetAllRegisteredNodesSorted_def Let_def)
  with built_rollup_valid [OF assms(2,3)] show "\<exists>rollup. createRollup q vq timestamp height = Inr rollup \<and>
      isValidRollup q vq interval timestamp height rollup = Inr True" by blast
  have "fst (finalizeSlaRollup q rollup txHash) = Some unique_violation"
    if "isValidRollup q vq interval timestamp height rollup = Inr True" for rollup txHash
  proof -
    note rep = shared_address_report [OF that assms(1)]
    have "find (\<lambda>r. slr_time r = pg_timestamp (ru_Timestamp rollup)) (sla_rollups q) = None"
      using assms(6) rep(2) by (auto simp: find_None_iff)
    with rep(1) show ?thesis using assms(4)
      by (simp add: finalizeSlaRollup_def GetSlaRollupWithTimestamp_def CommitSlaRollup_def
          ClearUncommittedSlaNodeReports_def sla_exec_def commit_duplicates)
  qed
  then show "\<forall>rollup txHash. isValidRollup q vq interval timestamp height rollup = Inr True \<longrightarrow>
      fst (finalizeSlaRollup q rollup txHash) = Some unique_violation" by blast
qed

definition ex_shared :: SlaRollup where
  "ex_shared = \<lparr>ru_Timestamp = (2, 0), ru_BlockStart = 0, ru_BlockEnd = 1,
     ru_Reports = [\<lparr>rep_Address = ''A'', rep_NumBlocksProposed = 0\<rparr>, \<lparr>rep_Address = ''A'', rep_NumBlocksProposed = 0\<rparr>]\<rparr>"

theorem shared_comet_address_breaks_rollup_witness:
  "isValidRollup no_sla_history (ex_nodes [ex_validator ''0xa'' ''A'', ex_validator ''0xb'' ''A'']) 2 2000000000 2 ex_shared = Inr True \<and>
   fst (finalizeSlaRollup no_sla_history ex_shared ''h'') = Some unique_violation"
proof -
  let ?vq = "ex_nodes [ex_validator ''0xa'' ''A'', ex_validator ''0xb'' ''A'']"
  have "\<not> distinct (active_addresses ?vq)" "shouldProposeNewRollup no_sla_history 2 (2 + 1)" by code_simp+
  moreover have "val_fault ?vq V_AllSorted = None" by (simp add: ex_nodes_def)
  moreover have "sla_fault no_sla_history = (\<lambda>_. None)" "sla_rollups no_sla_history = []" by (simp_all add: no_sla_history_def)
  moreover have "isValidRollup no_sla_history ?vq 2 2000000000 2 ex_shared = Inr True" by code_simp
  ultimately show ?thesis
    using shared_comet_address_breaks_rollup [of ?vq no_sla_history 2 2 2000000000] by simp
qed

section \<open>Purging\<close>

text \<open>A validator is purged only with enough others, a report on record and no block in any recent rollup.\<close>

lemma purge_needs_silence:
  assumes "ShouldPurgeValidatorForUnderperformance q vq minimum a = Inr True"
  shows "minimum < int (length (active_addresses vq)) \<and>
    (\<exists>rs. GetRecentRollupsForNode q 8 a = Inr rs \<and> (\<exists>r\<in>set rs. snd r \<noteq> None) \<and>
      (\<forall>r\<in>set rs. \<forall>x n. snd r = Some (x, n) \<longrightarrow> n \<le> 0))"
  using assms
  by (auto simp: ShouldPurgeValidatorForUnderperformance_def TotalValidators_def validatorPurgeSLAInterval_def
      active_addresses_def list_all_iff split: sum.splits option.splits if_splits)

end
