(* ===== verification/Uploads.thy ===== *)
theory Uploads
  imports Validator_Set Auth_Enforcement
begin

text \<open>
  Transactions that storage nodes submit: plays (\<^verbatim>\<open>plays.go\<close>), content attestations
  (\<^verbatim>\<open>content_attestation.go\<close>), file uploads (\<^verbatim>\<open>files.go\<close>) and operations of the storage
  service (\<^verbatim>\<open>mediorum_operation.go\<close> with \<^verbatim>\<open>pkg/mediorum/opvalidation\<close>), all under
  \<^verbatim>\<open>pkg/core/server\<close> unless a path says otherwise.

  Parameters: protobuf serialization of the signed messages, \<^verbatim>\<open>accounts.TextHash\<close>,
  \<^verbatim>\<open>ulid.ParseStrict\<close>, and whether the data of an operation decodes into the row type of its
  table.
\<close>

section \<open>Messages\<close>

record TrackPlay =
  play_UserId :: string
  play_TrackId :: string
  play_Timestamp :: "int \<times> int"
  play_Signature :: string
  play_City :: string
  play_Region :: string
  play_Country :: string

record FileUpload =
  fu_UploaderAddress :: string
  fu_UploadSignature :: string
  fu_Cid :: string
  fu_UploadId :: string
  fu_TranscodedCid :: string
  fu_ValidatorAddress :: string
  fu_ValidatorSignature :: string

record MediorumOperation =
  op_Ulid :: string
  op_Host :: string
  op_Action :: string
  op_Table :: string
  op_Data :: string

record upload_lib = prims +
  up_TextHash :: "string \<Rightarrow> string"
  marshal_plays :: "TrackPlay list \<Rightarrow> string option"
  marshal_claim :: "int \<Rightarrow> string list \<Rightarrow> string option"
  marshal_upload_signature :: "string \<Rightarrow> string option"
  marshal_operation :: "MediorumOperation \<Rightarrow> string option"
  ulid_ParseStrict :: "string \<Rightarrow> bool"
  decodes_records :: "string \<Rightarrow> string \<Rightarrow> bool"

text \<open>A deterministic rejection with its reason, or a failure local to the node.\<close>

datatype upload_reason =
    NoBody | NoPlays | TooManyPlays | PlayUnsigned nat | TxUnsigned | SignatureNotHex
  | SignatureLength | MarshalError | SignerNotRecovered | NotARegisteredNode string
  | NoUserID | NoCids | EmptyCid | NoValidatorAddress | NoValidatorSignature | ValidatorMismatch
  | DistributionDisabled | NoUploadSignature | NoUploader | NoCid | UploaderMismatch | NoTranscodedCid
  | NotYetActive | ProjectionRejected auth_reason
  | MissingUlid | InvalidUlid | MissingHost | UnknownAction | MissingTable | UnknownTable
  | MissingData | InvalidData | DataTooLarge | NotRegisteredForHost

datatype upload_error = TxRejected upload_reason | UploadFailure pg_error

definition upload_rejected :: "upload_error \<Rightarrow> bool" where
  "upload_rejected e = (case e of TxRejected _ \<Rightarrow> True | UploadFailure _ \<Rightarrow> False)"

section \<open>Plays\<close>

definition MaxPlaysPerTransaction :: nat where "MaxPlaysPerTransaction = 1000"

fun unsigned_play :: "nat \<Rightarrow> TrackPlay list \<Rightarrow> nat option" where
  "unsigned_play i [] = None"
| "unsigned_play i (p # ps) = (if play_Signature p = [] then Some i else unsigned_play (Suc i) ps)"

definition validatePlayTransactionShape :: "TrackPlay list signed \<Rightarrow> upload_error option" where
  "validatePlayTransactionShape stx =
     (let plays = stx_Body stx in
      if plays = [] then Some (TxRejected NoPlays)
      else if length plays > MaxPlaysPerTransaction then Some (TxRejected TooManyPlays)
      else (case unsigned_play 0 plays of
          Some i \<Rightarrow> Some (TxRejected (PlayUnsigned i))
        | None \<Rightarrow> if stx_Signature stx = [] then Some (TxRejected TxUnsigned) else None))"

definition recoverPlaysSigner :: "upload_lib \<Rightarrow> string \<Rightarrow> TrackPlay list \<Rightarrow> upload_error + string" where
  "recoverPlaysSigner lib signature plays = (case hex_decode (TrimPrefix_0x signature) of
     None \<Rightarrow> Inl (TxRejected SignatureNotHex)
   | Some sig \<Rightarrow>
     if length sig \<noteq> 65 then Inl (TxRejected SignatureLength)
     else (case marshal_plays lib plays of
         None \<Rightarrow> Inl (TxRejected MarshalError)
       | Some body \<Rightarrow>
         (case SigToPub lib (up_TextHash lib (Keccak256 lib body)) sig of
            None \<Rightarrow> Inl (TxRejected SignerNotRecovered)
          | Some pub \<Rightarrow> Inr (PubkeyToAddress_Hex lib pub))))"

definition isValidPlayTransaction ::
  "upload_lib \<Rightarrow> validator_db \<Rightarrow> TrackPlay list signed \<Rightarrow> upload_error option" where
  "isValidPlayTransaction lib vq stx = (case validatePlayTransactionShape stx of
     Some e \<Rightarrow> Some e
   | None \<Rightarrow>
     (case recoverPlaysSigner lib (stx_Signature stx) (stx_Body stx) of
        Inl e \<Rightarrow> Some e
      | Inr signer \<Rightarrow>
        (case IsRegisteredNodeEthAddress vq signer of
           Inl e \<Rightarrow> Some (UploadFailure e)
         | Inr registered \<Rightarrow> if \<not> registered then Some (TxRejected (NotARegisteredNode signer)) else None)))"

section \<open>Content attestations\<close>

definition ContentAttestationBytes :: "upload_lib \<Rightarrow> ContentAttestation \<Rightarrow> string option" where
  "ContentAttestationBytes lib ca = marshal_claim lib (ca_UserId ca) (ca_Cids ca)"

definition isValidContentAttestation ::
  "upload_lib \<Rightarrow> validator_db \<Rightarrow> ContentAttestation \<Rightarrow> upload_error option" where
  "isValidContentAttestation lib vq ca =
     (if ca_UserId ca = 0 then Some (TxRejected NoUserID)
      else if ca_Cids ca = [] then Some (TxRejected NoCids)
      else if list_ex (\<lambda>cid. cid = []) (ca_Cids ca) then Some (TxRejected EmptyCid)
      else if ca_ValidatorAddress ca = [] then Some (TxRejected NoValidatorAddress)
      else if ca_ValidatorSignature ca = [] then Some (TxRejected NoValidatorSignature)
      else (case ContentAttestationBytes lib ca of
          None \<Rightarrow> Some (TxRejected MarshalError)
        | Some payload \<Rightarrow>
          (case EthRecover lib (ca_ValidatorSignature ca) payload of
             None \<Rightarrow> Some (TxRejected SignerNotRecovered)
           | Some (_, recovered) \<Rightarrow>
             if \<not> EqualFold recovered (ca_ValidatorAddress ca) then Some (TxRejected ValidatorMismatch)
             else (case IsRegisteredNodeEthAddress vq (ca_ValidatorAddress ca) of
                 Inl e \<Rightarrow> Some (UploadFailure e)
               | Inr registered \<Rightarrow>
                 if \<not> registered then Some (TxRejected (NotARegisteredNode (ca_ValidatorAddress ca))) else None))))"

definition upload_auth_error :: "auth_error \<Rightarrow> upload_error" where
  "upload_auth_error e = (case e of AuthValidation r \<Rightarrow> TxRejected (ProjectionRejected r) | StoreFailure f \<Rightarrow> UploadFailure f)"

text \<open>The signer is looked up in the committed tables, the claims go to those of the block.\<close>

definition finalizeContentAttestation ::
  "upload_lib \<Rightarrow> Rules \<Rightarrow> validator_db \<Rightarrow> auth_db \<Rightarrow> ContentAttestation \<Rightarrow> string \<Rightarrow>
   upload_error option \<times> auth_db" where
  "finalizeContentAttestation lib rules vq qtx ca txHash =
     (if \<not> ContentAuthEnforced rules then (Some (TxRejected NotYetActive), qtx)
      else (case isValidContentAttestation lib vq ca of
          Some e \<Rightarrow> (Some e, qtx)
        | None \<Rightarrow> map_prod (map_option upload_auth_error) id
            (projectContentAttestationCids dbAuthStore qtx (Some ca) txHash)))"

section \<open>File uploads\<close>

record CoreUpload =
  cu_uploader_address :: string
  cu_cid :: string
  cu_transcoded_cid :: string
  cu_upid :: string
  cu_upload_signature :: string
  cu_validator_address :: string
  cu_validator_signature :: string
  cu_tx_hash :: string
  cu_block_height :: int

record upload_db =
  core_uploads :: "CoreUpload list"
  upload_fault :: "string \<Rightarrow> pg_error option"
  upload_plan :: "string \<Rightarrow> nat"

text \<open>
  The query has no order and a cid may have several rows: it returns one of them, which one is up to the database
  (\<open>upload_plan\<close>).
\<close>

definition uploads_of :: "upload_db \<Rightarrow> string \<Rightarrow> CoreUpload list" where
  "uploads_of q cid = filter (\<lambda>u. cu_cid u = cid \<or> cu_transcoded_cid u = cid) (core_uploads q)"

definition GetCoreUpload :: "upload_db \<Rightarrow> string \<Rightarrow> query_error + CoreUpload" where
  "GetCoreUpload q cid = (case upload_fault q cid of
     Some e \<Rightarrow> Inl (QueryFailed e)
   | None \<Rightarrow>
       if uploads_of q cid = [] then Inl ErrNoRows
       else Inr (uploads_of q cid ! (upload_plan q cid mod length (uploads_of q cid))))"

definition InsertFileUpload :: "upload_db \<Rightarrow> CoreUpload \<Rightarrow> pg_error option \<times> upload_db" where
  "InsertFileUpload q u = (case upload_fault q (cu_cid u) of
     Some e \<Rightarrow> (Some e, q) | None \<Rightarrow> (None, q\<lparr>core_uploads := core_uploads q @ [u]\<rparr>))"

definition isValidFileUpload ::
  "upload_lib \<Rightarrow> bool \<Rightarrow> validator_db \<Rightarrow> FileUpload \<Rightarrow> upload_error option" where
  "isValidFileUpload lib programmableDistributionEnabled vq fu =
     (if \<not> programmableDistributionEnabled then Some (TxRejected DistributionDisabled)
      else if fu_UploadSignature fu = [] then Some (TxRejected NoUploadSignature)
      else if fu_UploaderAddress fu = [] then Some (TxRejected NoUploader)
      else if fu_Cid fu = [] then Some (TxRejected NoCid)
      else (case marshal_upload_signature lib (fu_Cid fu) of
          None \<Rightarrow> Some (TxRejected MarshalError)
        | Some sigDataBytes \<Rightarrow>
          (case EthRecover lib (fu_UploadSignature fu) sigDataBytes of
             None \<Rightarrow> Some (TxRejected SignerNotRecovered)
           | Some (_, address) \<Rightarrow>
             if address \<noteq> fu_UploaderAddress fu then Some (TxRejected UploaderMismatch)
             else if fu_TranscodedCid fu = [] then Some (TxRejected NoTranscodedCid)
             else if fu_ValidatorSignature fu = [] then Some (TxRejected NoValidatorSignature)
             else if fu_ValidatorAddress fu = [] then Some (TxRejected NoValidatorAddress)
             else (case marshal_upload_signature lib (fu_TranscodedCid fu) of
                 None \<Rightarrow> Some (TxRejected MarshalError)
               | Some validatorSigDataBytes \<Rightarrow>
                 (case EthRecover lib (fu_ValidatorSignature fu) validatorSigDataBytes of
                    None \<Rightarrow> Some (TxRejected SignerNotRecovered)
                  | Some (_, recoveredValidatorAddress) \<Rightarrow>
                    if \<not> EqualFold recoveredValidatorAddress (fu_ValidatorAddress fu)
                    then Some (TxRejected ValidatorMismatch)
                    else (case GetAllRegisteredNodes vq of
                        Inl e \<Rightarrow> Some (UploadFailure e)
                      | Inr validators \<Rightarrow>
                        if list_ex (\<lambda>v. EqualFold (cv_eth_address v) (fu_ValidatorAddress fu)) validators
                        then None else Some (TxRejected (NotARegisteredNode (fu_ValidatorAddress fu)))))))))"

definition finalizeFileUpload ::
  "upload_lib \<Rightarrow> bool \<Rightarrow> validator_db \<Rightarrow> upload_db \<Rightarrow> FileUpload \<Rightarrow> string \<Rightarrow> int \<Rightarrow>
   upload_error option \<times> upload_db" where
  "finalizeFileUpload lib programmableDistributionEnabled vq qtx fu txHash blockHeight =
     (if \<not> programmableDistributionEnabled then (Some (TxRejected DistributionDisabled), qtx)
      else (case isValidFileUpload lib programmableDistributionEnabled vq fu of
          Some e \<Rightarrow> (Some e, qtx)
        | None \<Rightarrow> map_prod (map_option UploadFailure) id (InsertFileUpload qtx
            \<lparr>cu_uploader_address = fu_UploaderAddress fu, cu_cid = fu_Cid fu, cu_transcoded_cid = fu_TranscodedCid fu,
              cu_upid = fu_UploadId fu, cu_upload_signature = fu_UploadSignature fu,
              cu_validator_address = fu_ValidatorAddress fu, cu_validator_signature = fu_ValidatorSignature fu,
              cu_tx_hash = txHash, cu_block_height = blockHeight\<rparr>)))"

section \<open>Operations of the storage service\<close>

definition mediorumTableTypes :: "string list" where
  "mediorumTableTypes = [''uploads'', ''storage_and_db_sizes'', ''qm_audio_analyses'', ''audio_previews'']"

definition ValidatePayload :: "upload_lib \<Rightarrow> string \<Rightarrow> string \<Rightarrow> string \<Rightarrow> upload_reason option" where
  "ValidatePayload lib action table dat =
     (if action \<notin> {''create'', ''update'', ''delete''} then Some UnknownAction
      else if table = [] then Some MissingTable
      else if table \<notin> set mediorumTableTypes then Some UnknownTable
      else if dat = [] then Some MissingData
      else if \<not> decodes_records lib table dat then Some InvalidData
      else None)"

definition ValidateOperation ::
  "upload_lib \<Rightarrow> string \<Rightarrow> string \<Rightarrow> string \<Rightarrow> string \<Rightarrow> string \<Rightarrow> upload_reason option" where
  "ValidateOperation lib ulidValue host action table dat =
     (if ulidValue = [] then Some MissingUlid
      else if \<not> ulid_ParseStrict lib ulidValue then Some InvalidUlid
      else if host = [] then Some MissingHost
      else ValidatePayload lib action table dat)"

definition MaxCoreOperationDataBytes :: nat where "MaxCoreOperationDataBytes = 64 * 1024"

definition ValidateCorePayloadSize :: "string \<Rightarrow> upload_reason option" where
  "ValidateCorePayloadSize dat = (if length dat > MaxCoreOperationDataBytes then Some DataTooLarge else None)"

definition validateMediorumOperationShape :: "upload_lib \<Rightarrow> MediorumOperation \<Rightarrow> upload_reason option" where
  "validateMediorumOperationShape lib oper =
     ValidateOperation lib (op_Ulid oper) (op_Host oper) (op_Action oper) (op_Table oper) (op_Data oper)"

definition RemoveTrailingSlash :: "string \<Rightarrow> string" where
  "RemoveTrailingSlash s = (if s \<noteq> [] \<and> last s = CHR ''/'' then butlast s else s)"

definition isValidMediorumOperationTx ::
  "upload_lib \<Rightarrow> validator_db \<Rightarrow> MediorumOperation signed \<Rightarrow> upload_error option" where
  "isValidMediorumOperationTx lib vq tx =
     (let oper = stx_Body tx in
      case validateMediorumOperationShape lib oper of
        Some r \<Rightarrow> Some (TxRejected r)
      | None \<Rightarrow>
        if stx_Signature tx = [] then Some (TxRejected TxUnsigned)
        else (case marshal_operation lib oper of
            None \<Rightarrow> Some (TxRejected MarshalError)
          | Some bodyBytes \<Rightarrow>
            (case EthRecover lib (stx_Signature tx) bodyBytes of
               None \<Rightarrow> Some (TxRejected SignerNotRecovered)
             | Some (_, signer) \<Rightarrow>
               (case GetAllRegisteredNodesIncludingJailed vq of
                  Inl e \<Rightarrow> Some (UploadFailure e)
                | Inr nodes \<Rightarrow>
                  if list_ex (\<lambda>node. RemoveTrailingSlash (ToLower (cv_endpoint node)) =
                         RemoveTrailingSlash (ToLower (op_Host oper)) \<and>
                       EqualFold (cv_eth_address node) signer) nodes
                  then None else Some (TxRejected NotRegisteredForHost)))))"

text \<open>The operations handed to the applier, when one is registered; its errors are logged only.\<close>

definition finalizeMediorumOperation ::
  "upload_lib \<Rightarrow> validator_db \<Rightarrow> bool \<Rightarrow> MediorumOperation signed \<Rightarrow> upload_error + MediorumOperation option" where
  "finalizeMediorumOperation lib vq applierRegistered tx = (case isValidMediorumOperationTx lib vq tx of
     Some e \<Rightarrow> Inl e
   | None \<Rightarrow> Inr (if applierRegistered then Some (stx_Body tx) else None))"

section \<open>Claims come from registered nodes\<close>

text \<open>
  A content attestation that is not rejected carries the signature of a registered node, jailed
  or not, over exactly its user and cids, and those are the only claims it adds.
\<close>

lemma attested_by_registered_node:
  assumes "isValidContentAttestation lib vq ca = None"
  shows "\<exists>payload pub signer. marshal_claim lib (ca_UserId ca) (ca_Cids ca) = Some payload \<and>
    EthRecover lib (ca_ValidatorSignature ca) payload = Some (pub, signer) \<and>
    (\<exists>v\<in>set (core_validators vq). EqualFold (cv_eth_address v) signer)"
proof -
  from assms obtain payload pub signer where
    "marshal_claim lib (ca_UserId ca) (ca_Cids ca) = Some payload"
    "EthRecover lib (ca_ValidatorSignature ca) payload = Some (pub, signer)"
    "EqualFold signer (ca_ValidatorAddress ca)"
    "IsRegisteredNodeEthAddress vq (ca_ValidatorAddress ca) = Inr True"
    by (auto simp: isValidContentAttestation_def ContentAttestationBytes_def
        split: if_splits option.splits sum.splits prod.splits)
  then show ?thesis
    by (auto simp: IsRegisteredNodeEthAddress_def EqualFold_def split: option.splits)
qed

end
