(* ===== verification/Releases.thy ===== *)
theory Releases
  imports Uploads
begin

text \<open>
  Transactions of the second format, which carry DDEX messages: \<^verbatim>\<open>transaction_v2.go\<close>,
  \<^verbatim>\<open>ern.go\<close>, \<^verbatim>\<open>mead.go\<close> and \<^verbatim>\<open>pie.go\<close> under \<^verbatim>\<open>pkg/core/server\<close>. A release
  message is modelled by the parts the code reads: header, parties, resources, releases and deals;
  a deal is its text \<^verbatim>\<open>deal.String()\<close>. The messages of the other two kinds are the bytes they
  marshal to.

  Parameters: protobuf serialization of a release message and of its acknowledgment, and
  \<^verbatim>\<open>ethcommon.IsHexAddress\<close>.
\<close>

section \<open>Messages\<close>

record ErnHeader =
  mh_MessageId :: string
  mh_MessageControlType :: "int option"
  mh_SenderProprietaryIds :: "(string \<times> string) list"

text \<open>A sound recording has the location of its file where every message on the way to it is present.\<close>

datatype ErnResource = SoundRecordingResource string "string option" | ImageResource string | OtherResource

datatype ErnRelease = MainRelease string | TrackRelease string | OtherRelease

record NewReleaseMessage =
  ern_MessageHeader :: "ErnHeader option"
  ern_PartyList :: "string list"
  ern_ResourceList :: "ErnResource list"
  ern_ReleaseList :: "ErnRelease list"
  ern_DealList :: "string list"

datatype v2_Message = Message_Ern NewReleaseMessage | Message_Mead "string option" | Message_Pie "string option"
  | Message_None

record EnvelopeHeader =
  eh_ChainId :: string
  eh_Expiration :: int
  eh_Nonce :: string
  eh_From :: string
  eh_To :: string

record v2_Transaction =
  v2_Signature :: string
  v2_Header :: "EnvelopeHeader option"
  v2_Messages :: "v2_Message list"

record release_lib = prims +
  marshal_ern :: "NewReleaseMessage \<Rightarrow> string option"
  marshal_ern_ack :: "string \<Rightarrow> string list \<Rightarrow> string list \<Rightarrow> string list \<Rightarrow> string list \<Rightarrow> string option"
  marshal_address_ack :: "string \<Rightarrow> string option"
  rel_IsHexAddress :: "string \<Rightarrow> bool"

section \<open>Tables\<close>

record CoreErn =
  ce_address :: string
  ce_index :: int
  ce_tx_hash :: string
  ce_sender :: string
  ce_message_control_type :: int
  ce_raw_message :: string
  ce_raw_acknowledgment :: string
  ce_block_height :: int

record ErnEntity =
  ee_address :: string
  ee_ern_address :: string
  ee_entity_type :: string
  ee_entity_index :: int
  ee_tx_hash :: string
  ee_block_height :: int

record AddressedMessage =
  am_address :: string
  am_tx_hash :: string
  am_index :: int
  am_sender :: string
  am_raw_message :: string
  am_raw_acknowledgment :: string
  am_block_height :: int

datatype release_stmt = R_Ern | R_Entity string string | R_Mead | R_Pie

text \<open>The tables of parties, resources, releases and deals are one list, told apart by the entity type.\<close>

record release_db =
  core_ern :: "CoreErn list"
  ern_entities :: "ErnEntity list"
  core_mead :: "AddressedMessage list"
  core_pie :: "AddressedMessage list"
  rel_fault :: "release_stmt \<Rightarrow> pg_error option"

definition InsertCoreERN :: "release_db \<Rightarrow> CoreErn \<Rightarrow> pg_error option \<times> release_db" where
  "InsertCoreERN q r = (case rel_fault q R_Ern of
     Some e \<Rightarrow> (Some e, q) | None \<Rightarrow> (None, q\<lparr>core_ern := core_ern q @ [r]\<rparr>))"

text \<open>In each of the four tables the address is the primary key.\<close>

definition InsertErnEntity :: "release_db \<Rightarrow> ErnEntity \<Rightarrow> pg_error option \<times> release_db" where
  "InsertErnEntity q r = (case rel_fault q (R_Entity (ee_entity_type r) (ee_address r)) of
     Some e \<Rightarrow> (Some e, q)
   | None \<Rightarrow>
     if \<exists>x\<in>set (ern_entities q). ee_entity_type x = ee_entity_type r \<and> ee_address x = ee_address r
     then (Some unique_violation, q)
     else (None, q\<lparr>ern_entities := ern_entities q @ [r]\<rparr>))"

definition InsertCoreMEAD :: "release_db \<Rightarrow> AddressedMessage \<Rightarrow> pg_error option \<times> release_db" where
  "InsertCoreMEAD q r = (case rel_fault q R_Mead of
     Some e \<Rightarrow> (Some e, q) | None \<Rightarrow> (None, q\<lparr>core_mead := core_mead q @ [r]\<rparr>))"

definition InsertCorePIE :: "release_db \<Rightarrow> AddressedMessage \<Rightarrow> pg_error option \<times> release_db" where
  "InsertCorePIE q r = (case rel_fault q R_Pie of
     Some e \<Rightarrow> (Some e, q) | None \<Rightarrow> (None, q\<lparr>core_pie := core_pie q @ [r]\<rparr>))"

section \<open>Validating release messages\<close>

datatype release_error =
    DistributionOff | DuplicateReference string string nat nat | FileUnknown string query_error
  | SenderNotUploader string string string | HeaderNil | WrongChain | Expired
  | ControlTypeNil | ControlTypeUnspecified | ControlTypeUnsupported | BadTxHash | CannotMarshal
  | ReleaseStmtFailed pg_error | NilHeaderPanic

definition OAPNamespace :: string where "OAPNamespace = ''OAP''"

definition getERNOAPMessageSender :: "release_lib \<Rightarrow> NewReleaseMessage \<Rightarrow> string" where
  "getERNOAPMessageSender lib msg = (case ern_MessageHeader msg of
     None \<Rightarrow> []
   | Some mh \<Rightarrow> fold (\<lambda>(namespace, ident) oapAddress.
       if namespace = OAPNamespace \<and> rel_IsHexAddress lib ident then ident else oapAddress)
       (mh_SenderProprietaryIds mh) [])"

definition getERNResourceReference :: "ErnResource \<Rightarrow> string" where
  "getERNResourceReference r = (case r of
     SoundRecordingResource ref _ \<Rightarrow> ref | ImageResource ref \<Rightarrow> ref | OtherResource \<Rightarrow> [])"

definition getERNReleaseReference :: "ErnRelease \<Rightarrow> string" where
  "getERNReleaseReference r = (case r of MainRelease ref \<Rightarrow> ref | TrackRelease ref \<Rightarrow> ref | OtherRelease \<Rightarrow> [])"

text \<open>The map of the references seen so far, with the position of each.\<close>

fun find_duplicate :: "(string \<times> nat) list \<Rightarrow> nat \<Rightarrow> string list \<Rightarrow> (string \<times> nat \<times> nat) option" where
  "find_duplicate seen i [] = None"
| "find_duplicate seen i (ref # refs) = (case map_of seen ref of
     Some firstIndex \<Rightarrow> Some (ref, firstIndex + 1, i + 1)
   | None \<Rightarrow> find_duplicate ((ref, i) # seen) (Suc i) refs)"

definition validateUniqueERNReferences :: "string \<Rightarrow> string list \<Rightarrow> release_error option" where
  "validateUniqueERNReferences entityType refs = (case find_duplicate [] 0 refs of
     None \<Rightarrow> None | Some (ref, a, b) \<Rightarrow> Some (DuplicateReference entityType ref a b))"

definition validateUniqueERNEntityReferences :: "NewReleaseMessage \<Rightarrow> release_error option" where
  "validateUniqueERNEntityReferences msg =
     (case validateUniqueERNReferences ''party'' (ern_PartyList msg) of
        Some e \<Rightarrow> Some e
      | None \<Rightarrow>
        (case validateUniqueERNReferences ''resource'' (map getERNResourceReference (ern_ResourceList msg)) of
           Some e \<Rightarrow> Some e
         | None \<Rightarrow>
           (case validateUniqueERNReferences ''release'' (map getERNReleaseReference (ern_ReleaseList msg)) of
              Some e \<Rightarrow> Some e
            | None \<Rightarrow> validateUniqueERNReferences ''deal'' (ern_DealList msg))))"

fun check_resources :: "upload_db \<Rightarrow> string \<Rightarrow> ErnResource list \<Rightarrow> release_error option" where
  "check_resources q ernSender [] = None"
| "check_resources q ernSender (r # rs) = (case r of
     SoundRecordingResource _ (Some uri) \<Rightarrow>
       (case GetCoreUpload q uri of
          Inl e \<Rightarrow> Some (FileUnknown uri e)
        | Inr upload \<Rightarrow>
          if cu_uploader_address upload \<noteq> ernSender
          then Some (SenderNotUploader ernSender (cu_uploader_address upload) uri)
          else check_resources q ernSender rs)
   | _ \<Rightarrow> check_resources q ernSender rs)"

definition validateERNNewMessage ::
  "release_lib \<Rightarrow> bool \<Rightarrow> upload_db \<Rightarrow> NewReleaseMessage \<Rightarrow> release_error option" where
  "validateERNNewMessage lib programmableDistributionEnabled q msg =
     (if \<not> programmableDistributionEnabled then Some DistributionOff
      else (case validateUniqueERNEntityReferences msg of
          Some e \<Rightarrow> Some e
        | None \<Rightarrow> check_resources q (getERNOAPMessageSender lib msg) (ern_ResourceList msg)))"

text \<open>\<^verbatim>\<open>validateERNUpdateMessage\<close>, \<^verbatim>\<open>validateERNTakedownMessage\<close> and the checks of the other two kinds
  accept every message.\<close>

definition validate_ern :: "release_lib \<Rightarrow> bool \<Rightarrow> upload_db \<Rightarrow> NewReleaseMessage \<Rightarrow> release_error option" where
  "validate_ern lib programmableDistributionEnabled q ern = (case ern_MessageHeader ern of
     None \<Rightarrow> Some ControlTypeNil
   | Some mh \<Rightarrow> (case mh_MessageControlType mh of
       None \<Rightarrow> Some ControlTypeNil
     | Some t \<Rightarrow>
       if t = 1 \<or> t = 4 then validateERNNewMessage lib programmableDistributionEnabled q ern
       else if t = 2 \<or> t = 3 then None
       else Some ControlTypeUnsupported))"

fun validate_messages :: "release_lib \<Rightarrow> bool \<Rightarrow> upload_db \<Rightarrow> v2_Message list \<Rightarrow> release_error option" where
  "validate_messages lib enabled q [] = None"
| "validate_messages lib enabled q (m # ms) =
     (case (case m of Message_Ern ern \<Rightarrow> validate_ern lib enabled q ern | _ \<Rightarrow> None) of
        Some e \<Rightarrow> Some e
      | None \<Rightarrow> validate_messages lib enabled q ms)"

definition validateV2Transaction ::
  "release_lib \<Rightarrow> string \<Rightarrow> bool \<Rightarrow> upload_db \<Rightarrow> int \<Rightarrow> v2_Transaction \<Rightarrow> release_error option" where
  "validateV2Transaction lib chainID enabled q currentHeight tx = (case v2_Header tx of
     None \<Rightarrow> Some HeaderNil
   | Some header \<Rightarrow>
     if eh_ChainId header \<noteq> chainID then Some WrongChain
     else if eh_Expiration header < currentHeight then Some Expired
     else validate_messages lib enabled q (v2_Messages tx))"

section \<open>Finalizing messages\<close>

fun insert_entities ::
  "release_db \<Rightarrow> string \<Rightarrow> string \<Rightarrow> string \<Rightarrow> int \<Rightarrow> int \<Rightarrow> string list \<Rightarrow> pg_error option \<times> release_db" where
  "insert_entities q entityType ernAddress txhash height i [] = (None, q)"
| "insert_entities q entityType ernAddress txhash height i (address # addresses) =
     (case InsertErnEntity q \<lparr>ee_address = address, ee_ern_address = ernAddress, ee_entity_type = entityType,
             ee_entity_index = i + 1, ee_tx_hash = txhash, ee_block_height = height\<rparr> of
        (Some e, q') \<Rightarrow> (Some e, q')
      | (None, q') \<Rightarrow> insert_entities q' entityType ernAddress txhash height (i + 1) addresses)"

definition and_then :: "pg_error option \<times> release_db \<Rightarrow> (release_db \<Rightarrow> pg_error option \<times> release_db) \<Rightarrow>
   pg_error option \<times> release_db" where
  "and_then r k = (case r of (Some e, q) \<Rightarrow> (Some e, q) | (None, q) \<Rightarrow> k q)"

definition stored :: "pg_error option \<times> release_db \<Rightarrow> release_error option \<times> release_db" where
  "stored r = map_prod (map_option ReleaseStmtFailed) id r"

definition ern_message_id :: "NewReleaseMessage \<Rightarrow> string \<Rightarrow> int \<Rightarrow> string" where
  "ern_message_id ern txhash messageIndex = (case ern_MessageHeader ern of
     Some mh \<Rightarrow> if mh_MessageId mh \<noteq> [] then mh_MessageId mh else txhash @ '':'' @ FormatInt messageIndex
   | None \<Rightarrow> txhash @ '':'' @ FormatInt messageIndex)"

definition finalizeERNNewMessage ::
  "release_lib \<Rightarrow> string \<Rightarrow> release_db \<Rightarrow> int \<Rightarrow> string \<Rightarrow> int \<Rightarrow> NewReleaseMessage \<Rightarrow> int \<Rightarrow> string \<Rightarrow>
   release_error option \<times> release_db" where
  "finalizeERNNewMessage lib chainID qtx height txhash messageIndex ern controlType sender =
     (case HexToBytes txhash of
        None \<Rightarrow> (Some BadTxHash, qtx)
      | Some txhashBytes \<Rightarrow>
        (let ernAddress = CreateERNAddress lib txhashBytes chainID height messageIndex (ern_message_id ern txhash messageIndex);
             parties = map (CreatePartyAddress lib txhashBytes chainID height messageIndex) (ern_PartyList ern);
             resources = map (\<lambda>r. CreateResourceAddress lib txhashBytes chainID height messageIndex
               (getERNResourceReference r)) (ern_ResourceList ern);
             releases = map (\<lambda>r. CreateReleaseAddress lib txhashBytes chainID height messageIndex
               (getERNReleaseReference r)) (ern_ReleaseList ern);
             deals = map (CreateDealAddress lib txhashBytes chainID height messageIndex) (ern_DealList ern)
         in case marshal_ern lib ern of
              None \<Rightarrow> (Some CannotMarshal, qtx)
            | Some rawMessage \<Rightarrow>
              (case marshal_ern_ack lib ernAddress parties resources releases deals of
                 None \<Rightarrow> (Some CannotMarshal, qtx)
               | Some rawAcknowledgment \<Rightarrow>
                 stored (and_then (InsertCoreERN qtx \<lparr>ce_address = ernAddress, ce_index = messageIndex,
                     ce_tx_hash = txhash, ce_sender = sender, ce_message_control_type = controlType,
                     ce_raw_message = rawMessage, ce_raw_acknowledgment = rawAcknowledgment, ce_block_height = height\<rparr>)
                   (\<lambda>q1. and_then (insert_entities q1 ''party'' ernAddress txhash height 0 parties)
                   (\<lambda>q2. and_then (insert_entities q2 ''resource'' ernAddress txhash height 0 resources)
                   (\<lambda>q3. and_then (insert_entities q3 ''release'' ernAddress txhash height 0 releases)
                   (\<lambda>q4. insert_entities q4 ''deal'' ernAddress txhash height 0 deals))))))))"

definition finalizeERN ::
  "release_lib \<Rightarrow> string \<Rightarrow> bool \<Rightarrow> upload_db \<Rightarrow> release_db \<Rightarrow> int \<Rightarrow> string \<Rightarrow> int \<Rightarrow> string \<Rightarrow>
   NewReleaseMessage \<Rightarrow> release_error option \<times> release_db" where
  "finalizeERN lib chainID enabled q qtx height txhash messageIndex sender ern = (case ern_MessageHeader ern of
     None \<Rightarrow> (Some NilHeaderPanic, qtx)
   | Some mh \<Rightarrow> (case mh_MessageControlType mh of
       None \<Rightarrow> (Some ControlTypeNil, qtx)
     | Some t \<Rightarrow>
       if t = 1 \<or> t = 4 then
         (case validateERNNewMessage lib enabled q ern of
            Some e \<Rightarrow> (Some e, qtx)
          | None \<Rightarrow> finalizeERNNewMessage lib chainID qtx height txhash messageIndex ern t sender)
       else if t = 2 \<or> t = 3 then (None, qtx)
       else if t = 0 then (Some ControlTypeUnspecified, qtx)
       else (Some ControlTypeUnsupported, qtx)))"

definition addressed_message ::
  "release_lib \<Rightarrow> string \<Rightarrow> int \<Rightarrow> string \<Rightarrow> int \<Rightarrow> string option \<Rightarrow> string \<Rightarrow> release_error + AddressedMessage" where
  "addressed_message lib chainID height txhash messageIndex raw sender = (case HexToBytes txhash of
     None \<Rightarrow> Inl BadTxHash
   | Some txhashBytes \<Rightarrow>
     (let address = CreateAddress lib txhashBytes chainID height messageIndex [] in
      case raw of
        None \<Rightarrow> Inl CannotMarshal
      | Some rawMessage \<Rightarrow>
        (case marshal_address_ack lib address of
           None \<Rightarrow> Inl CannotMarshal
         | Some ack \<Rightarrow> Inr \<lparr>am_address = address, am_tx_hash = txhash, am_index = messageIndex, am_sender = sender,
             am_raw_message = rawMessage, am_raw_acknowledgment = ack, am_block_height = height\<rparr>)))"

definition finalizeMEADNewMessage ::
  "release_lib \<Rightarrow> string \<Rightarrow> release_db \<Rightarrow> int \<Rightarrow> string \<Rightarrow> int \<Rightarrow> string option \<Rightarrow> string \<Rightarrow>
   release_error option \<times> release_db" where
  "finalizeMEADNewMessage lib chainID qtx height txhash messageIndex mead sender =
     (case addressed_message lib chainID height txhash messageIndex mead sender of
        Inl e \<Rightarrow> (Some e, qtx) | Inr m \<Rightarrow> stored (InsertCoreMEAD qtx m))"

definition finalizePIENewMessage ::
  "release_lib \<Rightarrow> string \<Rightarrow> release_db \<Rightarrow> int \<Rightarrow> string \<Rightarrow> int \<Rightarrow> string option \<Rightarrow> string \<Rightarrow>
   release_error option \<times> release_db" where
  "finalizePIENewMessage lib chainID qtx height txhash messageIndex pie sender =
     (case addressed_message lib chainID height txhash messageIndex pie sender of
        Inl e \<Rightarrow> (Some e, qtx) | Inr m \<Rightarrow> stored (InsertCorePIE qtx m))"

fun finalize_messages ::
  "release_lib \<Rightarrow> string \<Rightarrow> bool \<Rightarrow> upload_db \<Rightarrow> release_db \<Rightarrow> int \<Rightarrow> string \<Rightarrow> string \<Rightarrow> int \<Rightarrow>
   v2_Message list \<Rightarrow> release_error option \<times> release_db" where
  "finalize_messages lib chainID enabled q qtx height txhash sender i [] = (None, qtx)"
| "finalize_messages lib chainID enabled q qtx height txhash sender i (m # ms) =
     (case (case m of
          Message_Ern ern \<Rightarrow> finalizeERN lib chainID enabled q qtx height txhash i sender ern
        | Message_Mead mead \<Rightarrow> finalizeMEADNewMessage lib chainID qtx height txhash i mead sender
        | Message_Pie pie \<Rightarrow> finalizePIENewMessage lib chainID qtx height txhash i pie sender
        | Message_None \<Rightarrow> (None, qtx)) of
        (Some e, q') \<Rightarrow> (Some e, q')
      | (None, q') \<Rightarrow> finalize_messages lib chainID enabled q q' height txhash sender (i + 1) ms)"

definition finalizeV2Transaction ::
  "release_lib \<Rightarrow> string \<Rightarrow> bool \<Rightarrow> upload_db \<Rightarrow> release_db \<Rightarrow> int \<Rightarrow> v2_Transaction \<Rightarrow> string \<Rightarrow>
   release_error option \<times> release_db" where
  "finalizeV2Transaction lib chainID enabled q qtx height tx txhash = (case v2_Header tx of
     None \<Rightarrow> (Some NilHeaderPanic, qtx)
   | Some header \<Rightarrow>
     if eh_ChainId header \<noteq> chainID then (Some WrongChain, qtx)
     else if eh_Expiration header < height then (Some Expired, qtx)
     else finalize_messages lib chainID enabled q qtx height txhash (eh_From header) 0 (v2_Messages tx))"

end
