(* ===== verification/Release_Laws.thy ===== *)
theory Release_Laws
  imports Releases
begin

text \<open>
  What validating a release message guarantees: exactly which messages pass, and that the check
  looks at neither the signature of the transaction nor the sender in its header.
\<close>

section \<open>Which messages pass\<close>

lemma find_duplicate_None:
  "find_duplicate seen i refs = None \<longleftrightarrow> distinct refs \<and> set refs \<inter> fst ` set seen = {}"
proof (induction refs arbitrary: seen i)
  case (Cons r refs)
  show ?case
  proof (cases "map_of seen r")
    case None
    then have "r \<notin> fst ` set seen" by (simp add: map_of_eq_None_iff)
    with None show ?thesis by (auto simp: Cons)
  next
    case (Some n)
    then have "r \<in> fst ` set seen" using map_of_SomeD by (force simp: image_iff)
    with Some show ?thesis by auto
  qed
qed simp

lemma validateUniqueERNReferences_None [simp]:
  "validateUniqueERNReferences t refs = None \<longleftrightarrow> distinct refs"
  using find_duplicate_None [of "[]" 0 refs]
  by (cases "find_duplicate [] 0 refs") (auto simp: validateUniqueERNReferences_def)

lemma check_resources_None:
  "check_resources q sender rs = None \<longleftrightarrow> (\<forall>ref uri. SoundRecordingResource ref (Some uri) \<in> set rs \<longrightarrow>
     (\<exists>u. GetCoreUpload q uri = Inr u \<and> cu_uploader_address u = sender))"
proof (induction rs)
  case (Cons r rs)
  then show ?case by (cases r) (auto split: option.split sum.split)
qed simp

lemma GetCoreUpload_in: "GetCoreUpload q cid = Inr u \<Longrightarrow> u \<in> set (uploads_of q cid)"
  by (auto simp: GetCoreUpload_def split: option.splits if_splits)

lemma GetCoreUpload_some:
  "upload_fault q cid = None \<Longrightarrow> uploads_of q cid \<noteq> [] \<Longrightarrow> \<exists>u\<in>set (uploads_of q cid). GetCoreUpload q cid = Inr u"
  by (simp add: GetCoreUpload_def)

text \<open>The sender a message declares: its last proprietary identifier of the network's namespace that is an address.\<close>

definition declared_senders :: "release_lib \<Rightarrow> NewReleaseMessage \<Rightarrow> string list" where
  "declared_senders lib msg = (case ern_MessageHeader msg of None \<Rightarrow> [] | Some mh \<Rightarrow>
     map snd (filter (\<lambda>(namespace, ident). namespace = OAPNamespace \<and> rel_IsHexAddress lib ident) (mh_SenderProprietaryIds mh)))"

lemma sender_is_last: "getERNOAPMessageSender lib msg = last ([] # declared_senders lib msg)"
proof (cases "ern_MessageHeader msg")
  case (Some mh)
  have "fold (\<lambda>(namespace, ident) oapAddress. if namespace = ns \<and> ok ident then ident else oapAddress) ids a =
      last (a # map snd (filter (\<lambda>(namespace, ident). namespace = ns \<and> ok ident) ids))" for ns :: string and ids and a :: string and ok
    by (induction ids arbitrary: a) (auto split: if_splits)
  with Some show ?thesis unfolding getERNOAPMessageSender_def declared_senders_def by simp
qed (simp add: getERNOAPMessageSender_def declared_senders_def)

definition audio_files :: "NewReleaseMessage \<Rightarrow> string set" where
  "audio_files msg = {uri. \<exists>ref. SoundRecordingResource ref (Some uri) \<in> set (ern_ResourceList msg)}"

definition unique_references :: "NewReleaseMessage \<Rightarrow> bool" where
  "unique_references msg \<longleftrightarrow> distinct (ern_PartyList msg) \<and> distinct (map getERNResourceReference (ern_ResourceList msg)) \<and>
     distinct (map getERNReleaseReference (ern_ReleaseList msg)) \<and> distinct (ern_DealList msg)"

lemma validateERNNewMessage_None:
  "validateERNNewMessage lib enabled q msg = None \<longleftrightarrow> enabled \<and> unique_references msg \<and>
     check_resources q (getERNOAPMessageSender lib msg) (ern_ResourceList msg) = None"
  by (auto simp: validateERNNewMessage_def validateUniqueERNEntityReferences_def unique_references_def split: option.split_asm)
     (auto simp: validateERNNewMessage_def validateUniqueERNEntityReferences_def unique_references_def split: option.split)

text \<open>
  C40: a valid new release was submitted with distribution enabled, repeats no reference among its
  parties, resources, releases or deals, and names only audio files that its declared sender has uploaded. A
  release that does all this is valid when the database answers and nobody else has uploaded the same files.
\<close>

theorem release_needs_uploads:
  defines "sender \<equiv> \<lambda>lib msg. last ([] # declared_senders lib msg)"
  shows "(validateERNNewMessage lib enabled q msg = None \<longrightarrow> enabled \<and> unique_references msg \<and>
      (\<forall>uri\<in>audio_files msg. \<exists>u\<in>set (core_uploads q). (cu_cid u = uri \<or> cu_transcoded_cid u = uri) \<and>
        cu_uploader_address u = sender lib msg)) \<and>
    (enabled \<and> unique_references msg \<and> (\<forall>uri\<in>audio_files msg. upload_fault q uri = None \<and>
        (\<exists>u\<in>set (core_uploads q). cu_cid u = uri \<or> cu_transcoded_cid u = uri) \<and>
        (\<forall>u\<in>set (core_uploads q). cu_cid u = uri \<or> cu_transcoded_cid u = uri \<longrightarrow> cu_uploader_address u = sender lib msg)) \<longrightarrow>
      validateERNNewMessage lib enabled q msg = None)"
proof ((rule conjI; rule impI), goal_cases)
  case 1
  then have "\<forall>uri\<in>audio_files msg. \<exists>u. GetCoreUpload q uri = Inr u \<and> cu_uploader_address u = sender lib msg"
    by (auto simp: validateERNNewMessage_None check_resources_None audio_files_def sender_def sender_is_last)
  moreover have "enabled" "unique_references msg" using 1 by (simp_all add: validateERNNewMessage_None)
  ultimately show ?case using GetCoreUpload_in by (fastforce simp: uploads_of_def)
next
  case 2
  have "\<exists>u. GetCoreUpload q uri = Inr u \<and> cu_uploader_address u = sender lib msg" if "uri \<in> audio_files msg" for uri
  proof -
    have "upload_fault q uri = None" using 2 that by simp
    moreover have "uploads_of q uri \<noteq> []" and by_sender: "\<forall>u\<in>set (uploads_of q uri). cu_uploader_address u = sender lib msg"
      using 2 that by (auto simp: uploads_of_def filter_empty_conv)
    ultimately obtain u where "u \<in> set (uploads_of q uri)" "GetCoreUpload q uri = Inr u" using GetCoreUpload_some by blast
    with by_sender show ?thesis by simp
  qed
  moreover have "getERNOAPMessageSender lib msg = sender lib msg" by (simp only: sender_is_last sender_def)
  ultimately have "check_resources q (getERNOAPMessageSender lib msg) (ern_ResourceList msg) = None"
    unfolding check_resources_None audio_files_def by auto
  then show ?case using 2 by (simp add: validateERNNewMessage_None)
qed

definition ex_release :: NewReleaseMessage where
  "ex_release = \<lparr>ern_MessageHeader = Some \<lparr>mh_MessageId = ''m'', mh_MessageControlType = Some 1,
      mh_SenderProprietaryIds = [(OAPNamespace, ''0xa''), (''other'', ''x'')]\<rparr>,
     ern_PartyList = [''p''], ern_ResourceList = [SoundRecordingResource ''r1'' (Some ''cid1''), ImageResource ''r2''],
     ern_ReleaseList = [MainRelease ''a''], ern_DealList = [''d'']\<rparr>"

definition ex_upload :: "string \<Rightarrow> CoreUpload" where
  "ex_upload a = \<lparr>cu_uploader_address = a, cu_cid = ''orig'', cu_transcoded_cid = ''cid1'', cu_upid = [], cu_upload_signature = [],
     cu_validator_address = [], cu_validator_signature = [], cu_tx_hash = [], cu_block_height = 1\<rparr>"

definition ex_release_lib :: release_lib where
  "ex_release_lib = \<lparr>Sha256 = (\<lambda>s. s), Keccak256 = (\<lambda>s. s), ecdsa_Sign = (\<lambda>_ _. None), SigToPub = (\<lambda>_ _. None),
     ecdsa_Public = (\<lambda>s. s), PubkeyToAddress_Hex = (\<lambda>s. s), CompressPubkey = (\<lambda>s. s), marshal_ern = (\<lambda>_. None),
     marshal_ern_ack = (\<lambda>_ _ _ _ _. None), marshal_address_ack = (\<lambda>_. None), rel_IsHexAddress = (\<lambda>s. take 2 s = ''0x'')\<rparr>"

definition ex_uploaded :: upload_db where
  "ex_uploaded = \<lparr>core_uploads = [ex_upload ''0xa'', ex_upload ''0xa''], upload_fault = (\<lambda>_. None), upload_plan = (\<lambda>_. 1)\<rparr>"

theorem release_needs_uploads_witness:
  "validateERNNewMessage ex_release_lib True ex_uploaded ex_release = None"
proof -
  have "audio_files ex_release = {''cid1''}" by (auto simp: audio_files_def ex_release_def)
  moreover have "last ([] # declared_senders ex_release_lib ex_release) = ''0xa''" by code_simp
  moreover have "unique_references ex_release" by code_simp
  ultimately show ?thesis using release_needs_uploads [of ex_release_lib True ex_uploaded ex_release]
    by (simp add: ex_uploaded_def ex_upload_def)
qed

section \<open>Who sent it\<close>

text \<open>The transaction with another signature and another sender in its header.\<close>

definition forge :: "string \<Rightarrow> string \<Rightarrow> v2_Transaction \<Rightarrow> v2_Transaction" where
  "forge signature from tx = tx\<lparr>v2_Signature := signature,
     v2_Header := map_option (\<lambda>h. h\<lparr>eh_From := from\<rparr>) (v2_Header tx)\<rparr>"

lemma forged_valid:
  "validateV2Transaction lib chainID enabled q height (forge signature from tx) =
    validateV2Transaction lib chainID enabled q height tx"
  by (simp add: validateV2Transaction_def forge_def split: option.split)

end
