(* ===== verification/Eip712.thy ===== *)
theory Eip712
  imports Signing Auth_Enforcement
begin

text \<open>
  EIP-712 signatures of ManageEntity transactions, \<^verbatim>\<open>pkg/core/server/eip712.go\<close>: the typed
  data both directions build, signing, and recovery of the signer the authorization rules check.

  Parameters: \<^verbatim>\<open>TypedData.HashStruct\<close> at the two struct types the file uses, and
  go-ethereum's \<^verbatim>\<open>crypto.Ecrecover\<close> and \<^verbatim>\<open>crypto.UnmarshalPubkey\<close>.
\<close>

section \<open>Typed data\<close>

record TypedDataDomain =
  dom_Name :: string
  dom_Version :: string
  dom_ChainId :: int
  dom_VerifyingContract :: string

record TypedDataMessage =
  msg_userId :: string
  msg_entityType :: string
  msg_entityId :: string
  msg_action :: string
  msg_metadata :: string
  msg_nonce :: string

record eip712_lib = prims +
  HashDomain :: "TypedDataDomain \<Rightarrow> string option"
  HashMessage :: "TypedDataMessage \<Rightarrow> string option"
  Ecrecover :: "string \<Rightarrow> string \<Rightarrow> string option"
  UnmarshalPubkey :: "string \<Rightarrow> string option"

record eip712_config =
  AcdcEntityManagerAddress :: string
  AcdcChainID :: int

datatype eip712_error =
    DomainHashFailed | MessageHashFailed | SigningFailed | EcrecoverFailed | PubkeyInvalid
  | SignatureIndexPanic

text \<open>
  \<^verbatim>\<open>toBytes\<close> drops the error of \<^verbatim>\<open>hex.DecodeString\<close>, which then has returned the
  bytes before the first bad pair.
\<close>

fun hex_decode_prefix :: "string \<Rightarrow> string" where
  "hex_decode_prefix (a # b # cs) = (case (hex_digit a, hex_digit b) of
     (Some x, Some y) \<Rightarrow> char_of (16 * x + y) # hex_decode_prefix cs
   | _ \<Rightarrow> [])"
| "hex_decode_prefix _ = []"

definition toBytes :: "string \<Rightarrow> string" where
  "toBytes str = hex_decode_prefix (TrimPrefix_0x str)"

text \<open>\<^verbatim>\<open>copy(nonce[:], toBytes(em.Nonce))\<close> into a zeroed array of 32 bytes.\<close>

definition nonce_array :: "string \<Rightarrow> string" where
  "nonce_array nonce = (let bs = take 32 (toBytes nonce) in bs @ replicate (32 - length bs) NUL)"

definition typed_domain :: "eip712_config \<Rightarrow> TypedDataDomain" where
  "typed_domain cfg = \<lparr>dom_Name = ''Entity Manager'', dom_Version = ''1'',
     dom_ChainId = int64 (AcdcChainID cfg), dom_VerifyingContract = AcdcEntityManagerAddress cfg\<rparr>"

definition typed_message :: "ManageEntityLegacy \<Rightarrow> TypedDataMessage" where
  "typed_message em = \<lparr>msg_userId = FormatInt (me_UserId em), msg_entityType = me_EntityType em,
     msg_entityId = FormatInt (me_EntityId em), msg_action = me_Action em,
     msg_metadata = me_Metadata em, msg_nonce = nonce_array (me_Nonce em)\<rparr>"

definition typed_sighash ::
  "'z eip712_lib_scheme \<Rightarrow> TypedDataDomain \<Rightarrow> TypedDataMessage \<Rightarrow> eip712_error + string" where
  "typed_sighash lib domn msg = (case HashDomain lib domn of
     None \<Rightarrow> Inl DomainHashFailed
   | Some domainSeparator \<Rightarrow> (case HashMessage lib msg of
        None \<Rightarrow> Inl MessageHashFailed
      | Some typedDataHash \<Rightarrow>
          Inr (Keccak256 lib ([CHR 0x19, CHR 0x01] @ domainSeparator @ typedDataHash))))"

section \<open>Recovering and signing\<close>

text \<open>The recovery id is a byte, shifted with wrap-around.\<close>

definition shift_recovery_id :: "int \<Rightarrow> string \<Rightarrow> string" where
  "shift_recovery_id d signature = signature[64 := char_of ((of_char (signature ! 64) + d) mod 256)]"

definition recoverPublicKey ::
  "'z eip712_lib_scheme \<Rightarrow> string \<Rightarrow> TypedDataDomain \<Rightarrow> TypedDataMessage \<Rightarrow> eip712_error + string" where
  "recoverPublicKey lib signature domn msg = (case typed_sighash lib domn msg of
     Inl e \<Rightarrow> Inl e
   | Inr sighash \<Rightarrow>
     (case Ecrecover lib sighash
        (if length signature > 64 then shift_recovery_id (- 27) signature else signature) of
        None \<Rightarrow> Inl EcrecoverFailed
      | Some pubkeyBytes \<Rightarrow> Inr pubkeyBytes))"

definition RecoverPubkeyFromCoreTx ::
  "'z eip712_lib_scheme \<Rightarrow> eip712_config \<Rightarrow> ManageEntityLegacy \<Rightarrow> eip712_error + string \<times> string" where
  "RecoverPubkeyFromCoreTx lib cfg em =
     (case recoverPublicKey lib (toBytes (me_Signature em)) (typed_domain cfg) (typed_message em) of
        Inl e \<Rightarrow> Inl e
      | Inr pubkeyBytes \<Rightarrow> (case UnmarshalPubkey lib pubkeyBytes of
           None \<Rightarrow> Inl PubkeyInvalid
         | Some pubkey \<Rightarrow> Inr (PubkeyToAddress_Hex lib pubkey, pubkey)))"

definition InjectSigner ::
  "'z eip712_lib_scheme \<Rightarrow> eip712_config \<Rightarrow> ManageEntityLegacy \<Rightarrow> eip712_error + ManageEntityLegacy" where
  "InjectSigner lib cfg em = (case RecoverPubkeyFromCoreTx lib cfg em of
     Inl e \<Rightarrow> Inl e
   | Inr (address, _) \<Rightarrow> Inr (em\<lparr>me_Signer := address\<rparr>))"

definition SignManageEntity ::
  "'z eip712_lib_scheme \<Rightarrow> eip712_config \<Rightarrow> ManageEntityLegacy \<Rightarrow> string \<Rightarrow>
   eip712_error + ManageEntityLegacy" where
  "SignManageEntity lib cfg em privateKey =
     (case typed_sighash lib (typed_domain cfg) (typed_message em) of
        Inl e \<Rightarrow> Inl e
      | Inr sighash \<Rightarrow> (case ecdsa_Sign lib sighash privateKey of
           None \<Rightarrow> Inl SigningFailed
         | Some signature \<Rightarrow>
             if length signature \<le> 64 then Inl SignatureIndexPanic
             else Inr (em\<lparr>me_Signature := ''0x'' @ hex_encode (shift_recovery_id 27 signature)\<rparr>)))"

text \<open>What \<^const>\<open>validateManageEntityAuth\<close> calls: the address, or nothing for any error.\<close>

definition recovered_signer ::
  "'z eip712_lib_scheme \<Rightarrow> eip712_config \<Rightarrow> ManageEntityLegacy \<Rightarrow> string option" where
  "recovered_signer lib cfg em = (case RecoverPubkeyFromCoreTx lib cfg em of
     Inl _ \<Rightarrow> None | Inr (address, _) \<Rightarrow> Some address)"

section \<open>Signing and recovering agree\<close>

text \<open>
  Documented behaviour of go-ethereum: signatures have 65 bytes, and from the signature over a
  hash \<^verbatim>\<open>Ecrecover\<close> gives a serialization of the signer's public key.
\<close>

definition ecrecover_inverts_signing :: "'z eip712_lib_scheme \<Rightarrow> bool" where
  "ecrecover_inverts_signing lib \<longleftrightarrow> (\<forall>h k s. ecdsa_Sign lib h k = Some s \<longrightarrow>
     length s = 65 \<and> (\<exists>bs. Ecrecover lib h s = Some bs \<and> UnmarshalPubkey lib bs = Some (ecdsa_Public lib k)))"

lemma hex_decode_prefix_encode: "hex_decode_prefix (hex_encode bs @ cs) = bs @ hex_decode_prefix cs"
proof (induction bs)
  case (Cons b bs)
  have "0 \<le> (of_char b :: int) div 16" "(of_char b :: int) div 16 < 16"
    using of_char_int_bounds [of b] by auto
  moreover have "char_of (16 * ((of_char b :: int) div 16) + of_char b mod 16) = b"
    by (simp add: mult_div_mod_eq)
  ultimately show ?case using Cons by (simp add: hex_encode_def)
qed (simp add: hex_encode_def)

lemma toBytes_encode [simp]: "toBytes (''0x'' @ hex_encode bs) = bs"
  using hex_decode_prefix_encode [of bs "[]"] by (simp add: toBytes_def TrimPrefix_0x_def has_0x_def)

lemma toBytes_junk:
  "toBytes (''0x'' @ hex_encode bs @ cs) = bs @ hex_decode_prefix cs"
  by (simp add: toBytes_def TrimPrefix_0x_def has_0x_def hex_decode_prefix_encode)

lemma shift_back: "64 < length s \<Longrightarrow> shift_recovery_id (- 27) (shift_recovery_id 27 s) = s"
  using of_char_int_bounds [of "s ! 64"]
  by (simp add: shift_recovery_id_def of_char_of_int mod_simps)

lemma length_shift [simp]: "length (shift_recovery_id d s) = length s"
  by (simp add: shift_recovery_id_def)

lemma typed_message_signature [simp]:
  "typed_message (em\<lparr>me_Signature := s\<rparr>) = typed_message em"
  "typed_message (em\<lparr>me_Signer := s\<rparr>) = typed_message em"
  by (simp_all add: typed_message_def)

lemma signed_recovers:
  assumes "ecrecover_inverts_signing lib" "SignManageEntity lib cfg em key = Inr em'"
    "hex_decode_prefix junk = []"
  shows "RecoverPubkeyFromCoreTx lib cfg (em'\<lparr>me_Signature := me_Signature em' @ junk\<rparr>) =
    Inr (PrivKeyToAddress lib key, ecdsa_Public lib key)"
proof -
  from assms(2) obtain h s where h: "typed_sighash lib (typed_domain cfg) (typed_message em) = Inr h"
    and s: "ecdsa_Sign lib h key = Some s"
    and em': "em' = em\<lparr>me_Signature := ''0x'' @ hex_encode (shift_recovery_id 27 s)\<rparr>"
    by (auto simp: SignManageEntity_def split: sum.splits option.splits if_splits)
  from assms(1) s obtain bs where "length s = 65" "Ecrecover lib h s = Some bs"
    "UnmarshalPubkey lib bs = Some (ecdsa_Public lib key)"
    unfolding ecrecover_inverts_signing_def by blast
  moreover have "toBytes (me_Signature em' @ junk) = shift_recovery_id 27 s"
    using toBytes_junk [of "shift_recovery_id 27 s" junk] assms(3) em' by simp
  ultimately show ?thesis
    using em' h by (simp add: RecoverPubkeyFromCoreTx_def recoverPublicKey_def shift_back PrivKeyToAddress_def)
qed

section \<open>Signed messages can be presented again\<close>

lemma authorized_other_grant:
  assumes "authorized v u s" "\<And>g. v_grants v k = Some g \<Longrightarrow> Revoked g"
  shows "authorized (v\<lparr>v_grants := (v_grants v)(k \<mapsto> g')\<rparr>) u s"
  using assms by (auto simp: authorized_def live_app_def wallet_active_def)

lemma grant_create_view:
  assumes "canonicalAuthEntityType (EntityType tx) = Some ''Grant''"
    "canonicalAuthAction (Action tx) = Some ''Create''" "\<not> Migration tx"
    "ToLower (metaString tx ''grantee_address'') = grantee" "grantee \<noteq> []"
    "authorized v (UserID tx) (Signer tx)" "live_app v grantee"
    "\<And>g. v_grants v (grantee, UserID tx) = Some g \<Longrightarrow> Revoked g"
  shows "applyAuthProjection viewAuthStore v tx rules =
    (None, v\<lparr>v_grants := (v_grants v)((grantee, UserID tx) \<mapsto> \<lparr>Approved = Some True, Revoked = False\<rparr>)\<rparr>)"
proof -
  have "validateAuthSigner viewAuthStore v (UserID tx) (Signer tx) = None"
    using assms(6) by (simp add: validateAuthSigner_view)
  then show ?thesis using assms
    by (auto simp: applyAuthProjection_def projectGrantCreate_def live_app_def split: option.split)
qed

lemma grant_delete_view:
  assumes "canonicalAuthEntityType (EntityType tx) = Some ''Grant''"
    "canonicalAuthAction (Action tx) = Some ''Delete''"
    "ToLower (metaString tx ''grantee_address'') = grantee" "grantee \<noteq> []"
    "authorized v (UserID tx) (Signer tx)"
    "v_grants v (grantee, UserID tx) = Some g" "\<not> Revoked g"
  shows "applyAuthProjection viewAuthStore v tx rules =
    (None, v\<lparr>v_grants := (v_grants v)((grantee, UserID tx) \<mapsto> \<lparr>Approved = Approved g, Revoked = True\<rparr>)\<rparr>)"
proof -
  have "validateAuthSigner viewAuthStore v (UserID tx) (Signer tx) = None"
    using assms(5) by (simp add: validateAuthSigner_view)
  then show ?thesis using assms
    by (auto simp: applyAuthProjection_def projectGrantDelete_def Let_def)
qed

lemma enforced_if_projected:
  assumes "recover em = Some a" "EqualFold a (me_Signer em)" "me_EntityType em \<noteq> ''Track''"
    "db_wf q" "unique_wallets (db_view q)"
    "fst (applyAuthProjection viewAuthStore (db_view q) (authTxFromManageEntity unmarshal em) rules) = None"
  shows "fst (validateManageEntityAuth recover unmarshal rules (overlayAuthStore dbAuthStore)
    (newOverlayAuthStore q) em) = None"
proof -
  let ?tx = "authTxFromManageEntity unmarshal em"
  have "fst (applyAuthProjection (overlayAuthStore dbAuthStore) (newOverlayAuthStore q) ?tx rules) = None"
    using ov.sim_live [OF ov_wf_new [OF assms(4,5)], of ?tx rules] assms(6)
    by (simp add: sim_def ov_fresh_new authTxFromManageEntity_def)
  then show ?thesis using assms(1-3)
    by (simp add: validateManageEntityAuth_def validateTrackContentAuth_def authTxFromManageEntity_def
        Let_def case_prod_unfold)
qed

text \<open>
  C39: a signed message stays valid for ever. The nonce is signed but no
  state records it, so the message with which a user once granted a developer app access is
  accepted again after the user has revoked the grant, even with text appended to its signature,
  and finalizing it makes the grant live and approved again.
\<close>

theorem replayed_grant_revives:
  assumes "ecrecover_inverts_signing lib" "SignManageEntity lib cfg em key = Inr create"
    "EqualFold (PrivKeyToAddress lib key) (me_Signer em)" "hex_decode_prefix junk = []"
    "db_wf q" "unique_wallets (db_view q)"
    "authTxFromManageEntity unmarshal create = tx"
    "canonicalAuthEntityType (EntityType tx) = Some ''Grant''"
    "canonicalAuthAction (Action tx) = Some ''Create''"
    "ToLower (metaString tx ''grantee_address'') = grantee" "grantee \<noteq> []"
    "authorized (db_view q) (UserID tx) (Signer tx)" "live_app (db_view q) grantee"
    "v_grants (db_view q) (grantee, UserID tx) = None"
    "canonicalAuthEntityType (EntityType revoke) = Some ''Grant''"
    "canonicalAuthAction (Action revoke) = Some ''Delete''"
    "ToLower (metaString revoke ''grantee_address'') = grantee"
    "authorized (db_view q) (UserID revoke) (Signer revoke)" "UserID revoke = UserID tx"
    "projectManageEntityAuthState (projectManageEntityAuthState q tx rules) revoke rules = q2"
  shows "v_grants (db_view q2) (grantee, UserID tx) = Some \<lparr>Approved = Some True, Revoked = True\<rparr> \<and>
    fst (validateManageEntityAuth (recovered_signer lib cfg) unmarshal rules
      (overlayAuthStore dbAuthStore) (newOverlayAuthStore q2)
      (create\<lparr>me_Signature := me_Signature create @ junk\<rparr>)) = None \<and>
    v_grants (db_view (projectManageEntityAuthState q2 tx rules)) (grantee, UserID tx) =
      Some \<lparr>Approved = Some True, Revoked = False\<rparr>"
proof -
  let ?v = "db_view q" and ?k = "(grantee, UserID tx)" and ?on = "\<lparr>Approved = Some True, Revoked = False\<rparr>"
  let ?em = "create\<lparr>me_Signature := me_Signature create @ junk\<rparr>"
  let ?q1 = "projectManageEntityAuthState q tx rules"
  have live: "\<not> Migration tx" using assms(7) by (auto simp: authTxFromManageEntity_def)
  have v1: "db_view ?q1 = ?v\<lparr>v_grants := (v_grants ?v)(?k \<mapsto> ?on)\<rparr>"
    using grant_create_view [OF assms(8,9) live assms(10-13), of rules] assms(14)
    by (simp add: db_project [OF assms(5)] del: db_view_sels)
  have wf1: "db_wf ?q1" by (rule db_project [OF assms(5)])
  have "authorized (db_view ?q1) (UserID revoke) (Signer revoke)"
    unfolding v1 using assms(14,18) by (intro authorized_other_grant) (auto simp del: db_view_sels)
  then have v2: "db_view q2 = ?v\<lparr>v_grants := (v_grants ?v)(?k \<mapsto> ?on\<lparr>Revoked := True\<rparr>)\<rparr>"
    using grant_delete_view [OF assms(15,16,17,11), of "db_view ?q1" ?on rules] v1 assms(19,20)
    by (simp add: db_project [OF wf1, of revoke rules, unfolded assms(20)] del: db_view_sels)
  have wf2: "db_wf q2" using db_project [OF wf1, of revoke rules] assms(20) by simp
  have "authorized (db_view q2) (UserID tx) (Signer tx)"
    unfolding v2 using assms(12,14) by (intro authorized_other_grant) (auto simp del: db_view_sels)
  then have again: "applyAuthProjection viewAuthStore (db_view q2) tx rules =
      (None, (db_view q2)\<lparr>v_grants := (v_grants (db_view q2))(?k \<mapsto> ?on)\<rparr>)"
    using v2 assms(13)
    by (intro grant_create_view [OF assms(8,9) live assms(10,11)]) (auto simp: live_app_def simp del: db_view_sels)
  have signer: "recovered_signer lib cfg ?em = Some (PrivKeyToAddress lib key)"
    by (simp add: recovered_signer_def signed_recovers [OF assms(1,2,4)])
  have "me_Signer ?em = me_Signer em"
    using assms(2) by (auto simp: SignManageEntity_def split: sum.splits option.splits if_splits)
  moreover have "authTxFromManageEntity unmarshal ?em = tx" using assms(7) by (simp add: authTxFromManageEntity_def)
  moreover have "me_EntityType ?em \<noteq> ''Track''" using assms(7,8) by (auto simp: authTxFromManageEntity_def)
  moreover have "unique_wallets (db_view q2)" using assms(6) v2 by (simp add: unique_wallets_def del: db_view_sels)
  ultimately have "fst (validateManageEntityAuth (recovered_signer lib cfg) unmarshal rules
      (overlayAuthStore dbAuthStore) (newOverlayAuthStore q2) ?em) = None"
    using again assms(3) wf2 signer by (intro enforced_if_projected [where a = "PrivKeyToAddress lib key"]) simp_all
  then show ?thesis using v2 again by (simp add: db_project [OF wf2] del: db_view_sels)
qed

text \<open>User 1 grants app \<open>0xd\<close> access, revokes it, and the first message is submitted again.\<close>

definition ex_eip712 :: eip712_lib where
  "ex_eip712 = \<lparr>Sha256 = rev, Keccak256 = rev,
     ecdsa_Sign = (\<lambda>h k. if k = [] then None else Some (replicate 65 CHR ''s'')),
     SigToPub = (\<lambda>h s. Some ''0xa''), ecdsa_Public = (\<lambda>k. ''0xa''),
     PubkeyToAddress_Hex = (\<lambda>k. k), CompressPubkey = (\<lambda>k. k),
     HashDomain = (\<lambda>d. Some (dom_Name d)), HashMessage = (\<lambda>m. Some (msg_action m)),
     Ecrecover = (\<lambda>h s. Some s), UnmarshalPubkey = (\<lambda>bs. Some ''0xa'')\<rparr>"

definition ex_eip712_config :: eip712_config where
  "ex_eip712_config = \<lparr>AcdcEntityManagerAddress = ''0xe'', AcdcChainID = 31524\<rparr>"

definition ex_app_db :: auth_db where
  "ex_app_db = ex_db\<lparr>core_auth_developer_apps := [(''0xd'', \<lparr>db_app_user_id = 2, db_app_is_deleted = False\<rparr>)]\<rparr>"

definition ex_grant_meta :: "string \<Rightarrow> meta option" where
  "ex_grant_meta s = Some [(''grantee_address'', JStr s)]"

definition ex_grant :: ManageEntityLegacy where
  "ex_grant = \<lparr>me_UserId = 1, me_EntityType = ''Grant'', me_EntityId = 0, me_Action = ''Create'',
     me_Metadata = ''0xd'', me_Signature = [], me_Signer = ''0xa'', me_Nonce = ''0x01''\<rparr>"

abbreviation ex_grant_tx :: authTx where
  "ex_grant_tx \<equiv> ex_tx 1 ''Grant'' 0 ''Create'' ''0xa'' [(''grantee_address'', JStr ''0xd'')]"

abbreviation ex_ungrant_tx :: authTx where
  "ex_ungrant_tx \<equiv> ex_tx 1 ''Grant'' 0 ''Delete'' ''0xa'' [(''grantee_address'', JStr ''0xd'')]"

definition ex_grant_signature :: string where
  "ex_grant_signature = ''0x'' @ hex_encode (shift_recovery_id 27 (replicate 65 CHR ''s''))"

lemma ex_eip712_recovers: "ecrecover_inverts_signing ex_eip712"
  by (simp add: ecrecover_inverts_signing_def ex_eip712_def)

lemma ex_grant_signed:
  "SignManageEntity ex_eip712 ex_eip712_config ex_grant ''k'' = Inr (ex_grant\<lparr>me_Signature := ex_grant_signature\<rparr>)"
  by (simp add: SignManageEntity_def typed_sighash_def ex_eip712_def ex_grant_signature_def)

lemma ex_app_db_ok:
  "db_wf ex_app_db" "unique_wallets (db_view ex_app_db)" "live_app (db_view ex_app_db) ''0xd''"
  "authorized (db_view ex_app_db) 1 ''0xa''" "v_grants (db_view ex_app_db) (''0xd'', 1) = None"
  by (auto simp: db_wf_def keyed_def ex_app_db_def ex_db_def empty_auth_db_def unique_wallets_def
      live_app_def authorized_def row_defs split: if_splits)

theorem replayed_grant_revives_witness:
  "let q2 = projectManageEntityAuthState (projectManageEntityAuthState ex_app_db ex_grant_tx no_rules)
       ex_ungrant_tx no_rules
   in v_grants (db_view q2) (''0xd'', 1) = Some \<lparr>Approved = Some True, Revoked = True\<rparr> \<and>
      v_grants (db_view (projectManageEntityAuthState q2 ex_grant_tx no_rules)) (''0xd'', 1) =
        Some \<lparr>Approved = Some True, Revoked = False\<rparr>"
proof -
  have "ToLower ''0xd'' = ''0xd''" by code_simp
  then have meta: "ToLower (metaString ex_grant_tx ''grantee_address'') = ''0xd''"
    "ToLower (metaString ex_ungrant_tx ''grantee_address'') = ''0xd''"
    by (simp_all add: metaString_def ex_tx_def)
  have tx: "authTxFromManageEntity ex_grant_meta (ex_grant\<lparr>me_Signature := ex_grant_signature\<rparr>) = ex_grant_tx"
    by (simp add: authTxFromManageEntity_def ex_grant_def ex_tx_def parseAuthMetadata_def ex_grant_meta_def)
  have signer: "EqualFold (PrivKeyToAddress ex_eip712 ''k'') (me_Signer ex_grant)"
    by (simp add: PrivKeyToAddress_def ex_eip712_def  ex_grant_def)
  have types: "canonicalAuthEntityType ''Grant'' = Some ''Grant''"
    "canonicalAuthAction ''Create'' = Some ''Create''" "canonicalAuthAction ''Delete'' = Some ''Delete''"
    by code_simp+
  have u: "UserID (ex_tx u t i a s m) = u" "Signer (ex_tx u t i a s m) = s"
    "EntityType (ex_tx u t i a s m) = t" "Action (ex_tx u t i a s m) = a" for u t i a s m
    by (simp_all add: ex_tx_def)
  show ?thesis
    using replayed_grant_revives [OF ex_eip712_recovers ex_grant_signed signer _ ex_app_db_ok(1,2) tx,
        where junk = "''zz''" and grantee = "''0xd''" and revoke = ex_ungrant_tx and rules = no_rules]
      ex_app_db_ok(3,4,5) meta types
    by (simp add: u Let_def hex_digit_def del: db_view_sels)
qed

end
