(* ===== verification/Transactions.thy ===== *)
theory Transactions
  imports Sla_Rollups Attestations Storage_Proofs Reward_State Track_Access Releases Eip712
begin

text \<open>
  The transactions of the chain as one type: \<^verbatim>\<open>SignedTransaction\<close> with its \<^verbatim>\<open>oneof\<close>, whose
  absence is \<open>Tx_None\<close>, and the checks that look at nothing but the message. The body of a
  release in the first format is never read and kept as its bytes.
\<close>

datatype tx_body =
    Tx_None
  | Tx_Plays "TrackPlay list"
  | Tx_ValidatorRegistration ValidatorRegistrationLegacy
  | Tx_SlaRollup SlaRollup
  | Tx_ManageEntity ManageEntityLegacy
  | Tx_ValidatorDeregistration ValidatorMisbehaviorDeregistration
  | Tx_StorageProof StorageProof
  | Tx_StorageProofVerification StorageProofVerification
  | Tx_Attestation Attestation
  | Tx_Release string
  | Tx_Reward RewardMessage
  | Tx_FileUpload FileUpload
  | Tx_RewardPool RewardPoolMessage
  | Tx_ManageEntityMigration ManageEntityLegacy
  | Tx_MediorumOperation MediorumOperation
  | Tx_ContentAttestation ContentAttestation

type_synonym SignedTransaction = "tx_body signed"

text \<open>The transaction as the handler of its kind sees it.\<close>

definition with_body :: "'a signed \<Rightarrow> 'b \<Rightarrow> 'b signed" where
  "with_body tx b = \<lparr>stx_Signature = stx_Signature tx, stx_RequestId = stx_RequestId tx, stx_Body = b\<rparr>"

datatype check_error =
    TxNil | TxNoBody | MigrationSubmitted | LegacyRegistrationSubmitted | PlaysMalformed upload_error
  | ProofNoProvers | ProofNoAddress | ProofNoHeight | VerificationNoHeight | VerificationNoProof
  | AttestationNoBody | OperationMalformed upload_reason

definition validateSignedTransactionForCheckTx ::
  "upload_lib \<Rightarrow> SignedTransaction option \<Rightarrow> check_error option" where
  "validateSignedTransactionForCheckTx lib msg = (case msg of
     None \<Rightarrow> Some TxNil
   | Some tx \<Rightarrow> (case stx_Body tx of
       Tx_None \<Rightarrow> Some TxNoBody
     | Tx_ManageEntityMigration _ \<Rightarrow> Some MigrationSubmitted
     | Tx_ValidatorRegistration _ \<Rightarrow> Some LegacyRegistrationSubmitted
     | Tx_Plays plays \<Rightarrow> map_option PlaysMalformed (validatePlayTransactionShape (with_body tx plays))
     | Tx_StorageProof sp \<Rightarrow>
         if sp_ProverAddresses sp = [] then Some ProofNoProvers
         else if sp_Address sp = [] then Some ProofNoAddress
         else if sp_Height sp = 0 then Some ProofNoHeight
         else None
     | Tx_StorageProofVerification spv \<Rightarrow>
         if spv_Height spv = 0 then Some VerificationNoHeight
         else if spv_Proof spv = [] then Some VerificationNoProof
         else None
     | Tx_Attestation att \<Rightarrow> if att_Body att = None then Some AttestationNoBody else None
     | Tx_MediorumOperation op \<Rightarrow> map_option OperationMalformed (validateMediorumOperationShape lib op)
     | _ \<Rightarrow> None))"

datatype admission_error = MigrationNotAdmissible | LegacyRegistrationNotAdmissible

definition mempoolAdmissible :: "SignedTransaction option \<Rightarrow> admission_error option" where
  "mempoolAdmissible tx = (case tx of
     None \<Rightarrow> None
   | Some t \<Rightarrow> (case stx_Body t of
       Tx_ManageEntityMigration _ \<Rightarrow> Some MigrationNotAdmissible
     | Tx_ValidatorRegistration _ \<Rightarrow> Some LegacyRegistrationNotAdmissible
     | _ \<Rightarrow> None))"

lemma admissible_bodies:
  "mempoolAdmissible (Some tx) = None \<longleftrightarrow>
    (\<forall>em. stx_Body tx \<noteq> Tx_ManageEntityMigration em) \<and> (\<forall>vr. stx_Body tx \<noteq> Tx_ValidatorRegistration vr)"
  by (simp add: mempoolAdmissible_def split: tx_body.split)

lemma checked_is_admissible:
  "validateSignedTransactionForCheckTx lib (Some tx) = None \<Longrightarrow> mempoolAdmissible (Some tx) = None"
  by (auto simp: validateSignedTransactionForCheckTx_def admissible_bodies)

definition validateMediorumOperationSubmissionSize :: "MediorumOperation option \<Rightarrow> upload_reason option" where
  "validateMediorumOperationSubmissionSize op = (case op of
     None \<Rightarrow> None | Some op \<Rightarrow> ValidateCorePayloadSize (op_Data op))"

end
