(* ===== verification/Mempool.thy ===== *)
theory Mempool
  imports Transactions
begin

text \<open>
  The mempool, \<^verbatim>\<open>pkg/core/server/mempool.go\<close>: a doubly linked list of transactions and an index
  from transaction hash to list element. An element of \<^verbatim>\<open>container/list\<close> is its identity with
  the value it holds; the identity of a new element is a counter. Every operation holds the
  mutex, so operations are atomic. A broadcast is the list of requests it sends.
\<close>

section \<open>State and operations\<close>

record MempoolTransaction =
  Deadline :: int
  mp_Tx :: "SignedTransaction option"
  mp_Txv2 :: "v2_Transaction option"

type_synonym element = "nat \<times> MempoolTransaction"

record Mempool =
  deque :: "element list"
  txMap :: "(string, element) table"
  next_element :: nat
  maxMempoolTransactions :: int

datatype mempool_error = NotAdmissible admission_error | ErrFullMempool

definition NewMempool :: "int \<Rightarrow> Mempool" where
  "NewMempool maxTransactions =
     \<lparr>deque = [], txMap = [], next_element = 0, maxMempoolTransactions = maxTransactions\<rparr>"

text \<open>\<^verbatim>\<open>list.Remove\<close> and \<^verbatim>\<open>delete\<close> on the index.\<close>

definition list_Remove :: "element \<Rightarrow> element list \<Rightarrow> element list" where
  "list_Remove e d = filter (\<lambda>x. fst x \<noteq> fst e) d"

definition drop_element :: "string \<Rightarrow> element \<Rightarrow> Mempool \<Rightarrow> Mempool" where
  "drop_element key e m = m\<lparr>deque := list_Remove e (deque m), txMap := AList.delete key (txMap m)\<rparr>"

fun get_batch :: "element list \<Rightarrow> int \<Rightarrow> int \<Rightarrow> MempoolTransaction list" where
  "get_batch [] batchSize currentBlock = []"
| "get_batch ((_, tx) # es) batchSize currentBlock =
     (if batchSize \<le> 0 then []
      else if Deadline tx \<le> currentBlock then get_batch es batchSize currentBlock
      else tx # get_batch es (batchSize - 1) currentBlock)"

definition GetBatch :: "Mempool \<Rightarrow> int \<Rightarrow> int \<Rightarrow> MempoolTransaction list" where
  "GetBatch m batchSize currentBlock = get_batch (deque m) batchSize currentBlock"

datatype loop_panic = NilElement

text \<open>
  The loop of \<^verbatim>\<open>GetAll\<close> takes the front of the list anew in every round, and never moves on;
  calling \<^verbatim>\<open>Next\<close> on the missing front of an empty list dereferences nil.
\<close>

partial_function (option) get_all ::
  "element list \<Rightarrow> MempoolTransaction list \<Rightarrow> (loop_panic + MempoolTransaction list) option" where
  "get_all d batch = (case d of
     [] \<Rightarrow> Some (Inl NilElement)
   | e # rest \<Rightarrow> if rest \<noteq> [] then get_all d (batch @ [snd e]) else Some (Inr batch))"

definition GetAll :: "Mempool \<Rightarrow> (loop_panic + MempoolTransaction list) option" where
  "GetAll m = get_all (deque m) []"

definition RemoveBatch :: "string list \<Rightarrow> Mempool \<Rightarrow> Mempool" where
  "RemoveBatch ids m = fold (\<lambda>key m. case map_of (txMap m) key of
     Some e \<Rightarrow> drop_element key e m | None \<Rightarrow> m) ids m"

definition RemoveExpiredTransactions :: "int \<Rightarrow> Mempool \<Rightarrow> Mempool" where
  "RemoveExpiredTransactions blockNum m = fold (\<lambda>(key, e) m.
     if Deadline (snd e) \<le> blockNum then drop_element key e m else m) (txMap m) m"

definition MempoolSize :: "Mempool \<Rightarrow> nat \<times> nat" where
  "MempoolSize m = (length (txMap m), length (deque m))"

definition addMempoolTransaction ::
  "string \<Rightarrow> MempoolTransaction \<Rightarrow> Mempool \<Rightarrow> mempool_error option \<times> Mempool" where
  "addMempoolTransaction key tx m = (case mempoolAdmissible (mp_Tx tx) of
     Some e \<Rightarrow> (Some (NotAdmissible e), m)
   | None \<Rightarrow>
     if int (length (txMap m)) \<ge> maxMempoolTransactions m then (Some ErrFullMempool, m)
     else if map_of (txMap m) key \<noteq> None then (None, m)
     else (let element = (next_element m, tx) in
       (None, m\<lparr>deque := deque m @ [element], txMap := AList.update key element (txMap m),
         next_element := Suc (next_element m)\<rparr>)))"

section \<open>Gossip\<close>

record ForwardTransactionRequest =
  fwd_Transaction :: "SignedTransaction option"
  fwd_Transactionv2 :: "v2_Transaction option"
  fwd_ChainId :: string

definition broadcastMempoolTransaction ::
  "string \<Rightarrow> string list \<Rightarrow> MempoolTransaction \<Rightarrow> (string \<times> ForwardTransactionRequest) list" where
  "broadcastMempoolTransaction chainID peers tx =
     (case mp_Tx tx of
        Some t \<Rightarrow> (case stx_Body t of
            Tx_SlaRollup _ \<Rightarrow> []
          | _ \<Rightarrow> map (\<lambda>peer. (peer, \<lparr>fwd_Transaction = Some t, fwd_Transactionv2 = None, fwd_ChainId = chainID\<rparr>)) peers)
      | None \<Rightarrow> (case mp_Txv2 tx of
            Some t2 \<Rightarrow> map (\<lambda>peer. (peer, \<lparr>fwd_Transaction = None, fwd_Transactionv2 = Some t2, fwd_ChainId = chainID\<rparr>)) peers
          | None \<Rightarrow> []))"

definition forwardChainIDRequired :: "string list" where
  "forwardChainIDRequired = [''openaudio-devnet'', ''audius-devnet'', ''audius-mainnet-beta'']"

definition ForwardChainIDRequired :: "string \<Rightarrow> bool" where
  "ForwardChainIDRequired chainID \<longleftrightarrow> chainID \<in> set forwardChainIDRequired"

datatype forward_error = ForwardNamesNoChain | ForwardFromOtherChain string

definition checkForwardChainID :: "string \<Rightarrow> string \<Rightarrow> forward_error option" where
  "checkForwardChainID ownChainID forwardedChainID =
     (if forwardedChainID = [] then
        (if ForwardChainIDRequired ownChainID then Some ForwardNamesNoChain else None)
      else if ownChainID \<noteq> [] \<and> forwardedChainID \<noteq> ownChainID then Some (ForwardFromOtherChain forwardedChainID)
      else None)"

section \<open>The contract of the mempool\<close>

text \<open>
  The promise to the rest of the node: a bounded queue of transactions under distinct keys, in
  the order of their arrival.
\<close>

locale tx_queue =
  fixes ok :: "'m \<Rightarrow> bool" and queue :: "'m \<Rightarrow> (string \<times> MempoolTransaction) list" and cap :: "'m \<Rightarrow> int"
    and add :: "string \<Rightarrow> MempoolTransaction \<Rightarrow> 'm \<Rightarrow> mempool_error option \<times> 'm"
    and remove :: "string list \<Rightarrow> 'm \<Rightarrow> 'm"
    and expire :: "int \<Rightarrow> 'm \<Rightarrow> 'm"
    and batch :: "'m \<Rightarrow> int \<Rightarrow> int \<Rightarrow> MempoolTransaction list"
  assumes keys: "ok m \<Longrightarrow> distinct (map fst (queue m))"
    and bounded: "ok m \<Longrightarrow> int (length (queue m)) \<le> max 0 (cap m)"
    and add_ok: "ok m \<Longrightarrow> ok (snd (add k tx m))"
    and add_cap: "ok m \<Longrightarrow> cap (snd (add k tx m)) = cap m"
    and add_refused: "ok m \<Longrightarrow> fst (add k tx m) \<noteq> None \<Longrightarrow> queue (snd (add k tx m)) = queue m"
    and add_done: "ok m \<Longrightarrow> fst (add k tx m) = None \<Longrightarrow>
      queue (snd (add k tx m)) = (if k \<in> fst ` set (queue m) then queue m else queue m @ [(k, tx)])"
    and add_error: "ok m \<Longrightarrow> fst (add k tx m) = (case mempoolAdmissible (mp_Tx tx) of
      Some e \<Rightarrow> Some (NotAdmissible e)
    | None \<Rightarrow> if int (length (queue m)) \<ge> cap m then Some ErrFullMempool else None)"
    and remove_ok: "ok m \<Longrightarrow> ok (remove ks m)"
    and remove_cap: "ok m \<Longrightarrow> cap (remove ks m) = cap m"
    and remove_queue: "ok m \<Longrightarrow> queue (remove ks m) = filter (\<lambda>e. fst e \<notin> set ks) (queue m)"
    and expire_ok: "ok m \<Longrightarrow> ok (expire n m)"
    and expire_cap: "ok m \<Longrightarrow> cap (expire n m) = cap m"
    and expire_queue: "ok m \<Longrightarrow> queue (expire n m) = filter (\<lambda>e. Deadline (snd e) > n) (queue m)"
    and batch_queue: "ok m \<Longrightarrow> batch m n h =
      map snd (take (nat n) (filter (\<lambda>e. Deadline (snd e) > h) (queue m)))"
begin

lemma added_once: "ok m \<Longrightarrow> fst (add k tx m) = None \<Longrightarrow> k \<in> fst ` set (queue (snd (add k tx m)))"
  by (simp add: add_done)

lemma removed_not_proposed:
  "ok m \<Longrightarrow> tx \<in> set (batch (remove ks m) n h) \<Longrightarrow>
    \<exists>k. (k, tx) \<in> set (queue m) \<and> k \<notin> set ks \<and> Deadline tx > h"
  by (auto simp: batch_queue remove_ok remove_queue dest!: in_set_takeD)

lemma batch_bounded: "ok m \<Longrightarrow> length (batch m n h) \<le> nat n"
  by (simp add: batch_queue)

end

section \<open>The mempool keeps it\<close>

definition mempool_queue :: "Mempool \<Rightarrow> (string \<times> MempoolTransaction) list" where
  "mempool_queue m = map (\<lambda>(k, e). (k, snd e)) (txMap m)"

text \<open>The index has exactly the elements of the list, in its order, and no element occurs twice.\<close>

definition mempool_ok :: "Mempool \<Rightarrow> bool" where
  "mempool_ok m \<longleftrightarrow> map snd (txMap m) = deque m \<and> keyed (txMap m) \<and> distinct (map fst (deque m)) \<and>
     (\<forall>e\<in>set (deque m). fst e < next_element m) \<and> int (length (txMap m)) \<le> max 0 (maxMempoolTransactions m)"

lemma mempool_ok_new: "mempool_ok (NewMempool n)"
  by (simp add: mempool_ok_def NewMempool_def)

lemma queue_keys: "fst ` set (mempool_queue m) = fst ` set (txMap m)" "map fst (mempool_queue m) = map fst (txMap m)"
  by (force simp: mempool_queue_def, simp add: mempool_queue_def comp_def case_prod_unfold)

lemma same_element:
  assumes "mempool_ok m" "map_of (txMap m) k = Some e" "(k', e') \<in> set (txMap m)"
  shows "fst e' = fst e \<longleftrightarrow> k' = k"
proof -
  have k: "(k, e) \<in> set (txMap m)" using assms(2) by (rule map_of_SomeD)
  have "distinct (map (\<lambda>x. fst (snd x)) (txMap m))"
    using assms(1) by (auto simp: mempool_ok_def simp flip: map_map comp_def [of fst snd])
  then have "inj_on (\<lambda>x. fst (snd x)) (set (txMap m))" by (simp add: distinct_map)
  from inj_onD [OF this, of "(k', e')" "(k, e)"] have "fst e' = fst e \<Longrightarrow> (k', e') = (k, e)"
    using k assms(3) by simp
  moreover have "k' = k \<Longrightarrow> e' = e"
    using assms by (auto simp: mempool_ok_def keyed_lookup)
  ultimately show ?thesis by auto
qed

lemma drop_element_filter:
  assumes "mempool_ok m" "map_of (txMap m) k = Some e"
  shows "deque (drop_element k e m) = map snd (filter (\<lambda>x. fst x \<noteq> k) (txMap m))"
    "txMap (drop_element k e m) = filter (\<lambda>x. fst x \<noteq> k) (txMap m)"
proof -
  show 1: "txMap (drop_element k e m) = filter (\<lambda>x. fst x \<noteq> k) (txMap m)"
    by (auto simp: drop_element_def AList.delete_eq intro!: filter_cong)
  have "deque (drop_element k e m) = filter (\<lambda>x. fst x \<noteq> fst e) (map snd (txMap m))"
    using assms(1) by (simp add: drop_element_def list_Remove_def mempool_ok_def)
  also have "\<dots> = map snd (filter (\<lambda>x. fst x \<noteq> k) (txMap m))"
    unfolding filter_map comp_def
    using same_element [OF assms] by (intro arg_cong [where f = "map snd"] filter_cong) auto
  finally show "deque (drop_element k e m) = map snd (filter (\<lambda>x. fst x \<noteq> k) (txMap m))" .
qed

lemma distinct_filtered: "distinct (map f xs) \<Longrightarrow> distinct (map f (filter P xs))"
  by (induction xs) auto

lemma mempool_ok_filter:
  assumes "mempool_ok m" "txMap m' = filter P (txMap m)" "deque m' = map snd (txMap m')"
    "next_element m' = next_element m" "maxMempoolTransactions m' = maxMempoolTransactions m"
  shows "mempool_ok m'"
proof -
  have len: "int (length (filter P (txMap m))) \<le> max 0 (maxMempoolTransactions m)"
    using assms(1) length_filter_le [of P "txMap m"] unfolding mempool_ok_def by linarith
  have "distinct (map (\<lambda>x. fst (snd x)) (filter P (txMap m)))"
    using assms(1) by (intro distinct_filtered) (auto simp: mempool_ok_def simp flip: map_map comp_def [of fst snd])
  moreover have "\<forall>x\<in>set (txMap m). fst (snd x) < next_element m"
  proof -
    have "set (deque m) = snd ` set (txMap m)"
      using assms(1) unfolding mempool_ok_def by (metis set_map)
    then show ?thesis using assms(1) unfolding mempool_ok_def by simp
  qed
  ultimately show ?thesis using assms len
    by (auto simp: mempool_ok_def keyed_def distinct_filtered comp_def)
qed

lemma drop_element_ok:
  assumes "mempool_ok m" "map_of (txMap m) k = Some e"
  shows "mempool_ok (drop_element k e m)"
  by (rule mempool_ok_filter [OF assms(1) drop_element_filter(2) [OF assms]])
     (simp_all only: drop_element_filter [OF assms], simp_all add: drop_element_def)

lemma drop_element_caps [simp]: "maxMempoolTransactions (drop_element k e m) = maxMempoolTransactions m"
  by (simp add: drop_element_def)

lemma RemoveBatch_filter:
  "mempool_ok m \<Longrightarrow> mempool_ok (RemoveBatch ks m) \<and>
    txMap (RemoveBatch ks m) = filter (\<lambda>x. fst x \<notin> set ks) (txMap m) \<and>
    maxMempoolTransactions (RemoveBatch ks m) = maxMempoolTransactions m"
proof (induction ks arbitrary: m)
  case (Cons k ks)
  show ?case
  proof (cases "map_of (txMap m) k")
    case None
    then have "\<forall>x\<in>set (txMap m). fst x \<noteq> k" by (auto simp: map_of_eq_None_iff)
    with None Cons show ?thesis by (auto simp: RemoveBatch_def intro!: filter_cong)
  next
    case (Some e)
    with Cons.IH [OF drop_element_ok [OF Cons.prems Some]] drop_element_filter [OF Cons.prems Some]
    show ?thesis by (auto simp: RemoveBatch_def intro!: filter_cong)
  qed
qed (simp add: RemoveBatch_def)

lemma expired_fold:
  "mempool_ok m \<Longrightarrow> distinct (map fst es) \<Longrightarrow> set es \<subseteq> set (txMap m) \<Longrightarrow>
    m' = fold (\<lambda>(key, e) m. if Deadline (snd e) \<le> n then drop_element key e m else m) es m \<Longrightarrow>
    mempool_ok m' \<and> maxMempoolTransactions m' = maxMempoolTransactions m \<and>
    txMap m' = filter (\<lambda>x. \<not> (x \<in> set es \<and> Deadline (snd (snd x)) \<le> n)) (txMap m)"
proof (induction es arbitrary: m)
  case (Cons x es)
  obtain k e where x: "x = (k, e)" by (cases x)
  have look: "map_of (txMap m) k = Some e"
    using Cons.prems(1,3) x by (auto simp: mempool_ok_def keyed_lookup)
  show ?case
  proof (cases "Deadline (snd e) \<le> n")
    case True
    note drop = drop_element_filter(2) [OF Cons.prems(1) look]
    have only: "fst y = k \<longleftrightarrow> y = x" if "y \<in> set (txMap m)" for y
    proof -
      have "keyed (txMap m)" using Cons.prems(1) by (simp add: mempool_ok_def)
      from keyed_lookup [OF this, of "fst y" "snd y"] that
      have "map_of (txMap m) (fst y) = Some (snd y)" by simp
      then show ?thesis using look x by (auto simp: prod_eq_iff)
    qed
    have same: "(fst y \<noteq> k \<and> \<not> (y \<in> set es \<and> Deadline (snd (snd y)) \<le> n)) =
        (\<not> (y \<in> set (x # es) \<and> Deadline (snd (snd y)) \<le> n))" if "y \<in> set (txMap m)" for y
      using only [OF that] True x by (cases y) auto
    have "set es \<subseteq> set (txMap (drop_element k e m))" using Cons.prems(2,3) x drop by auto
    with Cons.IH [OF drop_element_ok [OF Cons.prems(1) look]] Cons.prems(2,4) True x
    have "mempool_ok m'" "maxMempoolTransactions m' = maxMempoolTransactions m"
      "txMap m' = filter (\<lambda>y. \<not> (y \<in> set es \<and> Deadline (snd (snd y)) \<le> n)) (txMap (drop_element k e m))"
      by auto
    moreover have "filter (\<lambda>y. \<not> (y \<in> set es \<and> Deadline (snd (snd y)) \<le> n)) (txMap (drop_element k e m)) =
        filter (\<lambda>y. \<not> (y \<in> set (x # es) \<and> Deadline (snd (snd y)) \<le> n)) (txMap m)"
      unfolding drop filter_filter by (rule filter_cong [OF refl same])
    ultimately show ?thesis by simp
  next
    case False
    with Cons x show ?thesis by (auto intro!: filter_cong)
  qed
qed simp

lemma RemoveExpired_filter:
  assumes "mempool_ok m"
  shows "mempool_ok (RemoveExpiredTransactions n m)"
    "txMap (RemoveExpiredTransactions n m) = filter (\<lambda>x. Deadline (snd (snd x)) > n) (txMap m)"
    "maxMempoolTransactions (RemoveExpiredTransactions n m) = maxMempoolTransactions m"
proof -
  have "distinct (map fst (txMap m))" using assms by (simp add: mempool_ok_def keyed_def)
  from expired_fold [OF assms this subset_refl refl, of n]
  show "mempool_ok (RemoveExpiredTransactions n m)"
    "txMap (RemoveExpiredTransactions n m) = filter (\<lambda>x. Deadline (snd (snd x)) > n) (txMap m)"
    "maxMempoolTransactions (RemoveExpiredTransactions n m) = maxMempoolTransactions m"
    by (auto simp: RemoveExpiredTransactions_def intro!: filter_cong)
qed

lemma get_batch_take:
  "get_batch es n h = take (nat n) (filter (\<lambda>tx. Deadline tx > h) (map snd es))"
proof (induction es n h rule: get_batch.induct)
  case (2 i tx es n h)
  show ?case
  proof (cases "n \<le> 0")
    case False
    then have "nat n = Suc (nat (n - 1))" by linarith
    with False 2 show ?thesis by auto
  qed simp
qed simp

lemma update_new: "map_of t k = None \<Longrightarrow> AList.update k v t = t @ [(k, v)]"
  by (induction t) (auto split: if_splits)

lemma add_cases:
  assumes "mempool_ok m"
  shows "mempool_ok (snd (addMempoolTransaction k tx m))"
    "maxMempoolTransactions (snd (addMempoolTransaction k tx m)) = maxMempoolTransactions m"
    "fst (addMempoolTransaction k tx m) \<noteq> None \<Longrightarrow> snd (addMempoolTransaction k tx m) = m"
    "fst (addMempoolTransaction k tx m) = None \<Longrightarrow> mempool_queue (snd (addMempoolTransaction k tx m)) =
      (if k \<in> fst ` set (mempool_queue m) then mempool_queue m else mempool_queue m @ [(k, tx)])"
proof -
  have new: "AList.update k e (txMap m) = txMap m @ [(k, e)]" if "map_of (txMap m) k = None" for e
    using that by (rule update_new)
  have fresh: "next_element m \<notin> fst ` set (deque m)" using assms by (auto simp: mempool_ok_def)
  have kd: "keyed (AList.update k e (txMap m))" for e using assms by (simp add: mempool_ok_def)
  show "mempool_ok (snd (addMempoolTransaction k tx m))"
  proof (cases "map_of (txMap m) k")
    case None
    have "keyed (txMap m @ [(k, next_element m, tx)])" using kd [of "(next_element m, tx)"] new [OF None] by simp
    with assms fresh None new [OF None] show ?thesis
      by (auto simp: addMempoolTransaction_def mempool_ok_def Let_def less_Suc_eq split: option.split)
  qed (use assms in \<open>auto simp: addMempoolTransaction_def split: option.split\<close>)
  show "maxMempoolTransactions (snd (addMempoolTransaction k tx m)) = maxMempoolTransactions m"
    by (simp add: addMempoolTransaction_def Let_def split: option.split)
  show "fst (addMempoolTransaction k tx m) \<noteq> None \<Longrightarrow> snd (addMempoolTransaction k tx m) = m"
    by (auto simp: addMempoolTransaction_def Let_def split: option.splits if_splits)
  have "map_of (txMap m) k = None \<longleftrightarrow> k \<notin> fst ` set (mempool_queue m)"
    by (simp add: queue_keys map_of_eq_None_iff)
  then show "fst (addMempoolTransaction k tx m) = None \<Longrightarrow> mempool_queue (snd (addMempoolTransaction k tx m)) =
      (if k \<in> fst ` set (mempool_queue m) then mempool_queue m else mempool_queue m @ [(k, tx)])"
    using new by (auto simp: addMempoolTransaction_def Let_def mempool_queue_def split: option.splits if_splits)
qed

lemma queue_filter:
  "txMap m' = filter (\<lambda>x. P (fst x) (snd (snd x))) (txMap m) \<Longrightarrow>
    mempool_queue m' = filter (\<lambda>x. P (fst x) (snd x)) (mempool_queue m)"
  by (simp add: mempool_queue_def filter_map comp_def case_prod_unfold)

lemma queue_txs:
  assumes "mempool_ok m"
  shows "map snd (deque m) = map snd (mempool_queue m)"
proof -
  have "deque m = map snd (txMap m)" using assms by (simp add: mempool_ok_def)
  then show ?thesis by (simp add: mempool_queue_def comp_def case_prod_unfold)
qed

interpretation mp: tx_queue mempool_ok mempool_queue maxMempoolTransactions addMempoolTransaction
  RemoveBatch RemoveExpiredTransactions GetBatch
proof
  fix m k tx ks n h
  assume ok: "mempool_ok m"
  show "distinct (map fst (mempool_queue m))" using ok by (simp add: queue_keys mempool_ok_def keyed_def)
  show "int (length (mempool_queue m)) \<le> max 0 (maxMempoolTransactions m)"
    using ok by (simp add: mempool_ok_def mempool_queue_def)
  show "mempool_ok (snd (addMempoolTransaction k tx m))"
    "maxMempoolTransactions (snd (addMempoolTransaction k tx m)) = maxMempoolTransactions m"
    using add_cases [OF ok] by auto
  show "fst (addMempoolTransaction k tx m) = (case mempoolAdmissible (mp_Tx tx) of
      Some e \<Rightarrow> Some (NotAdmissible e)
    | None \<Rightarrow> if int (length (mempool_queue m)) \<ge> maxMempoolTransactions m then Some ErrFullMempool else None)"
    by (simp add: addMempoolTransaction_def mempool_queue_def Let_def split: option.split)
  show "mempool_ok (RemoveBatch ks m)" "maxMempoolTransactions (RemoveBatch ks m) = maxMempoolTransactions m"
    "mempool_ok (RemoveExpiredTransactions n m)"
    "maxMempoolTransactions (RemoveExpiredTransactions n m) = maxMempoolTransactions m"
    using RemoveBatch_filter [OF ok] RemoveExpired_filter [OF ok] by auto
  show "mempool_queue (RemoveBatch ks m) = filter (\<lambda>e. fst e \<notin> set ks) (mempool_queue m)"
    using RemoveBatch_filter [OF ok, of ks] by (intro queue_filter) simp
  show "mempool_queue (RemoveExpiredTransactions n m) = filter (\<lambda>e. Deadline (snd e) > n) (mempool_queue m)"
    using RemoveExpired_filter [OF ok, of n] by (intro queue_filter) simp
  show "GetBatch m n h = map snd (take (nat n) (filter (\<lambda>e. Deadline (snd e) > h) (mempool_queue m)))"
    by (simp add: GetBatch_def get_batch_take queue_txs [OF ok] filter_map take_map comp_def)
next
  fix m k tx
  assume "mempool_ok m"
  from add_cases [OF this, of k tx]
  show "fst (addMempoolTransaction k tx m) \<noteq> None \<Longrightarrow>
      mempool_queue (snd (addMempoolTransaction k tx m)) = mempool_queue m"
    "fst (addMempoolTransaction k tx m) = None \<Longrightarrow> mempool_queue (snd (addMempoolTransaction k tx m)) =
      (if k \<in> fst ` set (mempool_queue m) then mempool_queue m else mempool_queue m @ [(k, tx)])"
    by auto
qed

section \<open>Reading the whole list\<close>

lemma get_all_short:
  assumes "get_all d batch = Some r"
  shows "length d \<le> 1"
  by (rule get_all.raw_induct [OF _ assms, of "\<lambda>d b r. length d \<le> 1"])
     (fastforce split: list.splits if_splits)

text \<open>
  C35: reading the whole mempool panics when the mempool is empty, returns an empty list when
  it holds exactly one transaction, and never returns when it holds more, with the mutex held.
\<close>

theorem reading_all_terminates_iff:
  "GetAll m = (case deque m of [] \<Rightarrow> Some (Inl NilElement) | [e] \<Rightarrow> Some (Inr []) | e # e' # es \<Rightarrow> None)"
proof (cases "deque m" rule: remdups_adj.cases)
  case (3 e e' es)
  then show ?thesis using get_all_short [of "deque m" "[]"] by (cases "GetAll m") (auto simp: GetAll_def)
qed (simp_all add: GetAll_def get_all.simps)

section \<open>Runs of the mempool\<close>

text \<open>The operations of the node on the mempool, and a bounded queue as their specification.\<close>

datatype mempool_op =
    Add string MempoolTransaction
  | Remove "string list"
  | Expire int
  | Batch int int

datatype mempool_result = Added "mempool_error option" | Removed | Batched "MempoolTransaction list"

fun mempool_step :: "mempool_op \<Rightarrow> Mempool \<Rightarrow> mempool_result \<times> Mempool" where
  "mempool_step (Add key tx) m = apfst Added (addMempoolTransaction key tx m)"
| "mempool_step (Remove ids) m = (Removed, RemoveBatch ids m)"
| "mempool_step (Expire blockNum) m = (Removed, RemoveExpiredTransactions blockNum m)"
| "mempool_step (Batch batchSize currentBlock) m = (Batched (GetBatch m batchSize currentBlock), m)"

fun queue_step ::
  "int \<Rightarrow> mempool_op \<Rightarrow> (string \<times> MempoolTransaction) list \<Rightarrow>
   mempool_result \<times> (string \<times> MempoolTransaction) list" where
  "queue_step n (Add key tx) q = (case mempoolAdmissible (mp_Tx tx) of
     Some e \<Rightarrow> (Added (Some (NotAdmissible e)), q)
   | None \<Rightarrow> if int (length q) \<ge> n then (Added (Some ErrFullMempool), q)
     else (Added None, if key \<in> fst ` set q then q else q @ [(key, tx)]))"
| "queue_step n (Remove ids) q = (Removed, filter (\<lambda>e. fst e \<notin> set ids) q)"
| "queue_step n (Expire blockNum) q = (Removed, filter (\<lambda>e. Deadline (snd e) > blockNum) q)"
| "queue_step n (Batch batchSize currentBlock) q =
     (Batched (map snd (take (nat batchSize) (filter (\<lambda>e. Deadline (snd e) > currentBlock) q))), q)"

fun run :: "('o \<Rightarrow> 's \<Rightarrow> 'r \<times> 's) \<Rightarrow> 'o list \<Rightarrow> 's \<Rightarrow> 'r list \<times> 's" where
  "run step [] s = ([], s)"
| "run step (x # xs) s = (let (r, s1) = step x s; (rs, s2) = run step xs s1 in (r # rs, s2))"

lemma step_refines:
  assumes "mempool_ok m"
  shows "fst (mempool_step x m) = fst (queue_step (maxMempoolTransactions m) x (mempool_queue m)) \<and>
    mempool_queue (snd (mempool_step x m)) = snd (queue_step (maxMempoolTransactions m) x (mempool_queue m)) \<and>
    mempool_ok (snd (mempool_step x m)) \<and>
    maxMempoolTransactions (snd (mempool_step x m)) = maxMempoolTransactions m"
proof (cases x)
  case (Add k tx)
  then show ?thesis
    using mp.add_error [OF assms, of k tx] mp.add_done [OF assms, of k tx] mp.add_refused [OF assms, of k tx]
      mp.add_ok [OF assms, of k tx] mp.add_cap [OF assms, of k tx]
    by (auto split: option.splits if_splits)
qed (simp_all add: assms mp.remove_queue mp.remove_ok mp.remove_cap mp.expire_queue mp.expire_ok
  mp.expire_cap mp.batch_queue)

lemma run_refines:
  "mempool_ok m \<Longrightarrow> fst (run mempool_step xs m) = fst (run (queue_step (maxMempoolTransactions m)) xs (mempool_queue m)) \<and>
    mempool_queue (snd (run mempool_step xs m)) = snd (run (queue_step (maxMempoolTransactions m)) xs (mempool_queue m)) \<and>
    mempool_ok (snd (run mempool_step xs m)) \<and>
    maxMempoolTransactions (snd (run mempool_step xs m)) = maxMempoolTransactions m"
proof (induction xs arbitrary: m)
  case (Cons x xs)
  note step = step_refines [OF Cons.prems, of x]
  from Cons.IH [OF step [THEN conjunct2, THEN conjunct2, THEN conjunct1]] step show ?case
    by (simp add: Let_def case_prod_unfold)
qed simp

text \<open>
  C7: whatever operations run on a new mempool, it answers as a bounded
  first-in first-out queue with distinct keys does, its list and its index have the same number
  of entries, and that number never exceeds the configured maximum.
\<close>

theorem mempool_refines_queue:
  "let (results, m) = run mempool_step xs (NewMempool n);
       (results', q) = run (queue_step n) xs []
   in results = results' \<and> map snd (deque m) = map snd q \<and> distinct (map fst q) \<and>
      MempoolSize m = (length q, length q) \<and> int (length q) \<le> max 0 n"
proof -
  let ?m = "snd (run mempool_step xs (NewMempool n))"
  from run_refines [OF mempool_ok_new, of xs n]
  have r: "fst (run mempool_step xs (NewMempool n)) = fst (run (queue_step n) xs [])"
    "mempool_queue ?m = snd (run (queue_step n) xs [])" "mempool_ok ?m" "maxMempoolTransactions ?m = n"
    by (simp_all add: NewMempool_def mempool_queue_def)
  have "length (deque ?m) = length (mempool_queue ?m)" using queue_txs [OF r(3)] map_eq_imp_length_eq by blast
  then have "MempoolSize ?m = (length (mempool_queue ?m), length (mempool_queue ?m))"
    by (simp add: MempoolSize_def mempool_queue_def)
  then show ?thesis
    using r queue_txs [OF r(3)] mp.keys [OF r(3)] mp.bounded [OF r(3)] by (simp add: case_prod_unfold)
qed

end
