(* ===== verification/Proposals.thy ===== *)
theory Proposals
  imports Mempool
begin

text \<open>
  Building and checking proposals, \<^verbatim>\<open>pkg/core/server/abci.go\<close>: \<^verbatim>\<open>CheckTx\<close>,
  \<^verbatim>\<open>PrepareProposal\<close>, \<^verbatim>\<open>ProcessProposal\<close> and the checks of one transaction they share, with the two
  transactions a proposer adds itself (\<^verbatim>\<open>createRollupTx\<close>, \<^verbatim>\<open>createDeregisterTransaction\<close>).

  The record \<open>node_env\<close> is what does not change: the libraries of the components, the configuration
  and protobuf serialization of whole transactions. The record \<open>node_db\<close> is the committed database.
  A misbehaving validator of a block is its raw address bytes; times are nanoseconds.
\<close>

section \<open>The node\<close>

record node_env =
  env_crypto :: crypto
  env_pos :: pos_crypto
  env_rewards :: reward_lib
  env_uploads :: upload_lib
  env_releases :: release_lib
  env_eip712 :: eip712_lib
  env_eip712_config :: eip712_config
  env_config :: core_config
  ProgrammableDistributionEnabled :: bool
  SlaRollupInterval :: int
  env_EthereumKey :: string
  json_Unmarshal_meta :: "string \<Rightarrow> meta option"
  json_Unmarshal_track :: "string \<Rightarrow> (string \<times> json) list option"
  proto_Unmarshal_v1 :: "string \<Rightarrow> SignedTransaction option"
  proto_Unmarshal_v2 :: "string \<Rightarrow> v2_Transaction option"
  proto_Marshal_v1 :: "SignedTransaction \<Rightarrow> string option"
  proto_Marshal_v2 :: "v2_Transaction \<Rightarrow> string option"
  proto_Marshal_dereg :: "ValidatorMisbehaviorDeregistration \<Rightarrow> string option"
  protowire_SizeBytes :: "nat \<Rightarrow> int"

record node_db =
  db_validators :: validator_db
  db_auth :: auth_db
  db_tracks :: track_db
  db_pos :: pos_db
  db_rewards :: reward_db
  db_sla :: sla_db
  db_uploads :: upload_db
  db_releases :: release_db

abbreviation env_ChainID :: "node_env \<Rightarrow> string" where
  "env_ChainID env \<equiv> cfg_ChainID (env_config env)"

section \<open>Checks of one transaction\<close>

definition isValidSignedTransaction :: "node_env \<Rightarrow> string \<Rightarrow> SignedTransaction option" where
  "isValidSignedTransaction env tx = proto_Unmarshal_v1 env tx"

text \<open>\<open>currentHeight\<close> is the height in the cache of the node.\<close>

definition isValidV2Transaction :: "node_env \<Rightarrow> int \<Rightarrow> string \<Rightarrow> v2_Transaction option" where
  "isValidV2Transaction env currentHeight tx = (case proto_Unmarshal_v2 env tx of
     None \<Rightarrow> None
   | Some msg \<Rightarrow> (case v2_Header msg of
       None \<Rightarrow> None
     | Some header \<Rightarrow>
       if eh_ChainId header \<noteq> env_ChainID env then None
       else if eh_Expiration header < currentHeight then None
       else Some msg))"

definition CheckTx :: "node_env \<Rightarrow> string \<Rightarrow> int" where
  "CheckTx env tx = (case isValidSignedTransaction env tx of
     None \<Rightarrow> 1
   | Some msg \<Rightarrow>
     if validateSignedTransactionForCheckTx (env_uploads env) (Some msg) \<noteq> None then 1 else 0)"

text \<open>
  The verdict on a transaction of a proposal: valid or not, or a failure of this node that leaves
  it open. The overlay carries the authorization effects of the transactions accepted so far.
\<close>

definition validateBlockTx ::
  "node_env \<Rightarrow> node_db \<Rightarrow> int \<Rightarrow> Rules \<Rightarrow> auth_db overlay \<Rightarrow> int \<Rightarrow> int \<Rightarrow> string list \<Rightarrow> string \<Rightarrow>
   (pg_error + bool) \<times> auth_db overlay" where
  "validateBlockTx env db currentHeight rules authOverlay blockTime blockHeight misbehavior tx =
     (let keep = (\<lambda>valid. (Inr valid, authOverlay)) in
      case isValidSignedTransaction env tx of
        None \<Rightarrow> (case isValidV2Transaction env currentHeight tx of
            None \<Rightarrow> keep False
          | Some v2Tx \<Rightarrow> keep (validateV2Transaction (env_releases env) (env_ChainID env)
              (ProgrammableDistributionEnabled env) (db_uploads db) blockHeight v2Tx = None))
      | Some signedTx \<Rightarrow> (case stx_Body signedTx of
            Tx_Plays _ \<Rightarrow> keep True
          | Tx_ManageEntity em \<Rightarrow>
              if AuthEnforced rules then
                (case validateManageEntityAuth (recovered_signer (env_eip712 env) (env_eip712_config env))
                        (json_Unmarshal_meta env) rules (overlayAuthStore dbAuthStore) authOverlay em of
                   (Some (EnforcementFailure e), ov) \<Rightarrow> (Inl e, ov)
                 | (Some (AuthRejectionError _), ov) \<Rightarrow> (Inr False, ov)
                 | (None, ov) \<Rightarrow> (Inr True, ov))
              else keep True
          | Tx_ManageEntityMigration _ \<Rightarrow> keep (\<not> AuthEnforced rules)
          | Tx_Attestation att \<Rightarrow> keep (isValidAttestation (env_crypto env) (env_config env) (db_validators db)
              (with_body signedTx att) blockHeight = None)
          | Tx_ValidatorRegistration _ \<Rightarrow> keep False
          | Tx_ValidatorDeregistration vd \<Rightarrow> keep (isValidDeregisterMisbehavingNodeTx (env_crypto env)
              (db_validators db) (with_body signedTx vd) misbehavior = None)
          | Tx_SlaRollup rollup \<Rightarrow> (isValidRollup (db_sla db) (db_validators db) (SlaRollupInterval env)
              blockTime blockHeight rollup, authOverlay)
          | Tx_StorageProof sp \<Rightarrow> keep (isValidStorageProofTx (env_crypto env) (env_pos env) (db_validators db)
              (db_pos db) (with_body signedTx sp) blockHeight False = None)
          | Tx_StorageProofVerification spv \<Rightarrow> keep (isValidStorageProofVerificationTx (db_pos db) spv blockHeight = None)
          | Tx_Release _ \<Rightarrow> keep True
          | Tx_Reward reward \<Rightarrow>
              keep (isValidRewardTransaction (env_rewards env) (db_rewards db) (Some reward) blockHeight = None)
          | Tx_ContentAttestation ca \<Rightarrow>
              if ContentAuthEnforced rules then
                (case isValidContentAttestation (env_uploads env) (db_validators db) ca of
                   None \<Rightarrow> keep True
                 | Some (UploadFailure e) \<Rightarrow> (Inl e, authOverlay)
                 | Some (TxRejected _) \<Rightarrow> keep False)
              else keep True
          | Tx_FileUpload fu \<Rightarrow> keep (isValidFileUpload (env_uploads env) (ProgrammableDistributionEnabled env)
              (db_validators db) fu = None)
          | Tx_RewardPool pool \<Rightarrow>
              keep (isValidRewardPoolTransaction (env_rewards env) (db_rewards db) (Some pool) blockHeight = None)
          | Tx_MediorumOperation oper \<Rightarrow>
              keep (isValidMediorumOperationTx (env_uploads env) (db_validators db) (with_body signedTx oper) = None)
          | Tx_None \<Rightarrow> keep True))"

fun validate_txs ::
  "('o \<Rightarrow> string \<Rightarrow> (pg_error + bool) \<times> 'o) \<Rightarrow> 'o \<Rightarrow> string list \<Rightarrow> pg_error + bool" where
  "validate_txs check authOverlay [] = Inr True"
| "validate_txs check authOverlay (tx # txs) = (case check authOverlay tx of
     (Inl e, _) \<Rightarrow> Inl e
   | (Inr False, _) \<Rightarrow> Inr False
   | (Inr True, authOverlay') \<Rightarrow> validate_txs check authOverlay' txs)"

definition newProposalAuthOverlay :: "node_db \<Rightarrow> auth_db overlay" where
  "newProposalAuthOverlay db = newOverlayAuthStore (db_auth db)"

definition validateBlockTxs ::
  "node_env \<Rightarrow> node_db \<Rightarrow> int \<Rightarrow> int \<Rightarrow> int \<Rightarrow> string list \<Rightarrow> string list \<Rightarrow> pg_error + bool" where
  "validateBlockTxs env db currentHeight blockTime blockHeight misbehavior txs =
     validate_txs (\<lambda>ov. validateBlockTx env db currentHeight (rules_at (env_config env) blockHeight) ov
       blockTime blockHeight misbehavior) (newProposalAuthOverlay db) txs"

datatype proposal_status = UNKNOWN | ACCEPT | REJECT

definition ProcessProposal ::
  "node_env \<Rightarrow> node_db \<Rightarrow> int \<Rightarrow> int \<Rightarrow> int \<Rightarrow> string list \<Rightarrow> string list \<Rightarrow> proposal_status" where
  "ProcessProposal env db currentHeight time height misbehavior txs =
     (case validateBlockTxs env db currentHeight time height misbehavior txs of
        Inl _ \<Rightarrow> UNKNOWN | Inr False \<Rightarrow> REJECT | Inr True \<Rightarrow> ACCEPT)"

section \<open>Building a proposal\<close>

definition createRollupTx :: "node_env \<Rightarrow> node_db \<Rightarrow> int \<Rightarrow> int \<Rightarrow> string option" where
  "createRollupTx env db ts height = (case createRollup (db_sla db) (db_validators db) ts height of
     Inl _ \<Rightarrow> None
   | Inr rollup \<Rightarrow> proto_Marshal_v1 env
       \<lparr>stx_Signature = [], stx_RequestId = [], stx_Body = Tx_SlaRollup rollup\<rparr>)"

text \<open>\<open>uuid\<close> is the request id the proposer draws.\<close>

definition createDeregisterTransaction :: "node_env \<Rightarrow> node_db \<Rightarrow> string \<Rightarrow> string \<Rightarrow> string option" where
  "createDeregisterTransaction env db uuid address =
     (let addr = comet_Address (env_crypto env) address in
      case GetRegisteredNodeByCometAddress (db_validators db) addr of
        Inl _ \<Rightarrow> None
      | Inr node \<Rightarrow> (case base64_decode (cv_comet_pub_key node) of
          None \<Rightarrow> None
        | Some pubkeyEnc \<Rightarrow>
          (let dereg = \<lparr>vmd_CometAddress = addr, vmd_PubKey = pubkeyEnc\<rparr> in
           case proto_Marshal_dereg env dereg of
             None \<Rightarrow> None
           | Some txBytes \<Rightarrow> (case EthSign (env_crypto env) (env_EthereumKey env) txBytes of
               None \<Rightarrow> None
             | Some sig \<Rightarrow> proto_Marshal_v1 env
                 \<lparr>stx_Signature = sig, stx_RequestId = uuid, stx_Body = Tx_ValidatorDeregistration dereg\<rparr>))))"

definition validateProposerPolicy :: "node_env \<Rightarrow> node_db \<Rightarrow> SignedTransaction option \<Rightarrow> upload_error option" where
  "validateProposerPolicy env db tx = (case tx of
     Some t \<Rightarrow> (case stx_Body t of
         Tx_Plays plays \<Rightarrow> isValidPlayTransaction (env_uploads env) (db_validators db) (with_body t plays)
       | _ \<Rightarrow> None)
   | None \<Rightarrow> None)"

text \<open>Serializing a missing message gives no bytes and no error.\<close>

definition marshal_mempool_tx :: "node_env \<Rightarrow> MempoolTransaction \<Rightarrow> string option" where
  "marshal_mempool_tx env tx = (case mp_Txv2 tx of
     Some t2 \<Rightarrow> proto_Marshal_v2 env t2
   | None \<Rightarrow> (case mp_Tx tx of Some t \<Rightarrow> proto_Marshal_v1 env t | None \<Rightarrow> Some []))"

fun select_txs ::
  "('o \<Rightarrow> string \<Rightarrow> (pg_error + bool) \<times> 'o) \<Rightarrow> (MempoolTransaction \<Rightarrow> string option) \<Rightarrow>
   (MempoolTransaction \<Rightarrow> bool) \<Rightarrow> 'o \<Rightarrow> MempoolTransaction list \<Rightarrow> string list" where
  "select_txs check marshal declined authOverlay [] = []"
| "select_txs check marshal declined authOverlay (tx # txs) = (case marshal tx of
     None \<Rightarrow> select_txs check marshal declined authOverlay txs
   | Some txBytes \<Rightarrow>
     if declined tx then select_txs check marshal declined authOverlay txs
     else (case check authOverlay txBytes of
         (Inr True, authOverlay') \<Rightarrow> txBytes # select_txs check marshal declined authOverlay' txs
       | (_, authOverlay') \<Rightarrow> select_txs check marshal declined authOverlay' txs))"

definition proposalTxWireCost :: "node_env \<Rightarrow> nat \<Rightarrow> int" where
  "proposalTxWireCost env txLen = 1 + protowire_SizeBytes env txLen"

fun cap_txs :: "(nat \<Rightarrow> int) \<Rightarrow> int \<Rightarrow> int \<Rightarrow> string list \<Rightarrow> string list" where
  "cap_txs wireCost maxTxBytes remaining [] = []"
| "cap_txs wireCost maxTxBytes remaining (tx # txs) =
     (let cost = wireCost (length tx) in
      if cost > maxTxBytes then cap_txs wireCost maxTxBytes remaining txs
      else if cost > remaining then []
      else tx # cap_txs wireCost maxTxBytes (remaining - cost) txs)"

definition capProposalTxs :: "node_env \<Rightarrow> string list \<Rightarrow> int \<Rightarrow> string list" where
  "capProposalTxs env txs maxTxBytes =
     (if maxTxBytes \<le> 0 then txs else cap_txs (proposalTxWireCost env) maxTxBytes maxTxBytes txs)"

text \<open>The transactions the proposer adds itself.\<close>

definition proposer_txs ::
  "node_env \<Rightarrow> node_db \<Rightarrow> (string \<Rightarrow> string) \<Rightarrow> int \<Rightarrow> int \<Rightarrow> string list \<Rightarrow> string list" where
  "proposer_txs env db uuid time height misbehavior =
     (if shouldProposeNewRollup (db_sla db) (SlaRollupInterval env) height
      then (case createRollupTx env db time height of None \<Rightarrow> [] | Some tx \<Rightarrow> [tx]) else []) @
     List.map_filter (\<lambda>mb. createDeregisterTransaction env db (uuid mb) mb) misbehavior"

definition mempool_txs ::
  "node_env \<Rightarrow> node_db \<Rightarrow> Mempool \<Rightarrow> int \<Rightarrow> int \<Rightarrow> int \<Rightarrow> string list \<Rightarrow> string list" where
  "mempool_txs env db mempl currentHeight time height misbehavior =
     (let batch = (if shouldProposeNewRollup (db_sla db) (SlaRollupInterval env) height then 1000 - 1 else 1000);
          rules = rules_at (env_config env) height
      in select_txs (\<lambda>ov. validateBlockTx env db currentHeight rules ov time height misbehavior)
           (marshal_mempool_tx env) (\<lambda>tx. validateProposerPolicy env db (mp_Tx tx) \<noteq> None)
           (newProposalAuthOverlay db) (GetBatch mempl batch height))"

definition PrepareProposal ::
  "node_env \<Rightarrow> node_db \<Rightarrow> Mempool \<Rightarrow> (string \<Rightarrow> string) \<Rightarrow> int \<Rightarrow> int \<Rightarrow> int \<Rightarrow> string list \<Rightarrow> int \<Rightarrow> string list" where
  "PrepareProposal env db mempl uuid currentHeight time height misbehavior maxTxBytes =
     (let proposalTxs = proposer_txs env db uuid time height misbehavior @
            mempool_txs env db mempl currentHeight time height misbehavior
      in capProposalTxs env proposalTxs maxTxBytes)"

end
