(* ===== verification/Submission.thy ===== *)
theory Submission
  imports Proposals
begin

text \<open>
  How transactions reach the mempool: \<^verbatim>\<open>validateV1Transaction\<close> (\<^verbatim>\<open>abci.go\<close>), and the endpoints
  \<^verbatim>\<open>SendTransaction\<close> and \<^verbatim>\<open>ForwardTransaction\<close> (\<^verbatim>\<open>connect.go\<close>) up to the point where the transaction is in
  the mempool. Waiting for its block and building the receipt is not modelled.
\<close>

section \<open>Admission checks\<close>

datatype v1_error =
    V1_Attestation val_error
  | V1_Plays upload_error
  | V1_Auth enforcement_error
  | V1_Reward reward_error
  | V1_OperationSize upload_reason
  | V1_Operation upload_error
  | V1_ContentAuthInactive
  | V1_Content upload_error

definition validateV1Transaction ::
  "node_env \<Rightarrow> node_db \<Rightarrow> int \<Rightarrow> SignedTransaction \<Rightarrow> v1_error option" where
  "validateV1Transaction env db currentHeight signedTx =
     (let rules = rules_at (env_config env) (currentHeight + 1) in
      case stx_Body signedTx of
        Tx_Attestation att \<Rightarrow>
          (case boundAttestationSignatures (env_config env) att of
             Some e \<Rightarrow> Some (V1_Attestation e)
           | None \<Rightarrow>
             if AttestationDomainEnforced rules
             then map_option V1_Attestation (isValidAttestation (env_crypto env) (env_config env) (db_validators db)
               (with_body signedTx att) (currentHeight + 1))
             else None)
      | Tx_Plays plays \<Rightarrow> map_option V1_Plays
          (isValidPlayTransaction (env_uploads env) (db_validators db) (with_body signedTx plays))
      | Tx_ManageEntity em \<Rightarrow>
          if AuthEnforced rules
          then map_option V1_Auth (fst (validateManageEntityAuth
            (recovered_signer (env_eip712 env) (env_eip712_config env)) (json_Unmarshal_meta env) rules
            (overlayAuthStore dbAuthStore) (newProposalAuthOverlay db) em))
          else None
      | Tx_Reward reward \<Rightarrow>
          map_option V1_Reward (isValidRewardTransaction (env_rewards env) (db_rewards db) (Some reward) currentHeight)
      | Tx_RewardPool pool \<Rightarrow>
          map_option V1_Reward (isValidRewardPoolTransaction (env_rewards env) (db_rewards db) (Some pool) currentHeight)
      | Tx_MediorumOperation oper \<Rightarrow>
          (case validateMediorumOperationSubmissionSize (Some oper) of
             Some e \<Rightarrow> Some (V1_OperationSize e)
           | None \<Rightarrow> map_option V1_Operation (isValidMediorumOperationTx (env_uploads env) (db_validators db)
               (with_body signedTx oper)))
      | Tx_ContentAttestation ca \<Rightarrow>
          if \<not> ContentAuthEnforced rules then Some V1_ContentAuthInactive
          else map_option V1_Content (isValidContentAttestation (env_uploads env) (db_validators db) ca)
      | _ \<Rightarrow> None)"

section \<open>The endpoints\<close>

datatype submit_error =
    ForwardRefused forward_error
  | DistributionNotEnabled
  | V2OutsideDev
  | SubmittedSignerNotRecoverable eip712_error
  | SubmittedUnmarshalable
  | InvalidV1 v1_error
  | InvalidV2 release_error
  | OperationTooLarge upload_reason
  | LocalRpcNotReady
  | NoTransactionGiven
  | NilTransactionPanic
  | MempoolRefused mempool_error

definition uses_distribution :: "SignedTransaction option \<Rightarrow> v2_Transaction option \<Rightarrow> bool" where
  "uses_distribution tx txv2 \<longleftrightarrow>
     (case tx of Some t \<Rightarrow> (case stx_Body t of Tx_FileUpload _ \<Rightarrow> True | _ \<Rightarrow> False) | None \<Rightarrow> False) \<or>
     (case txv2 of Some t2 \<Rightarrow> list_ex (\<lambda>m. case m of Message_Ern _ \<Rightarrow> True | _ \<Rightarrow> False) (v2_Messages t2) | None \<Rightarrow> False)"

text \<open>The recovered signer replaces the one the message names, in place.\<close>

definition inject_signer :: "node_env \<Rightarrow> SignedTransaction \<Rightarrow> eip712_error + SignedTransaction" where
  "inject_signer env tx = (case stx_Body tx of
     Tx_ManageEntity em \<Rightarrow> (case InjectSigner (env_eip712 env) (env_eip712_config env) em of
         Inl e \<Rightarrow> Inl e
       | Inr em' \<Rightarrow> Inr (with_body tx (Tx_ManageEntity em')))
   | _ \<Rightarrow> Inr tx)"

definition operation_of :: "SignedTransaction option \<Rightarrow> MediorumOperation option" where
  "operation_of tx = (case tx of
     Some t \<Rightarrow> (case stx_Body t of Tx_MediorumOperation oper \<Rightarrow> Some oper | _ \<Rightarrow> None) | None \<Rightarrow> None)"

definition mempool_entry :: "int \<Rightarrow> SignedTransaction option \<Rightarrow> v2_Transaction option \<Rightarrow> MempoolTransaction option" where
  "mempool_entry deadline tx txv2 = (case tx of
     Some t \<Rightarrow> Some \<lparr>Deadline = deadline, mp_Tx = Some t, mp_Txv2 = None\<rparr>
   | None \<Rightarrow> (case txv2 of
       Some t2 \<Rightarrow> Some \<lparr>Deadline = deadline, mp_Tx = None, mp_Txv2 = Some t2\<rparr>
     | None \<Rightarrow> None))"

text \<open>The hash of a second-format transaction, and that it is valid.\<close>

definition check_v2 :: "node_env \<Rightarrow> node_db \<Rightarrow> int \<Rightarrow> v2_Transaction \<Rightarrow> submit_error + string" where
  "check_v2 env db currentHeight t2 = (case proto_Marshal_v2 env t2 of
     None \<Rightarrow> Inl SubmittedUnmarshalable
   | Some txBytes \<Rightarrow>
     (case validateV2Transaction (env_releases env) (env_ChainID env) (ProgrammableDistributionEnabled env)
             (db_uploads db) currentHeight t2 of
        Some e \<Rightarrow> Inl (InvalidV2 e)
      | None \<Rightarrow> Inr (ToTxHashFromBytes (env_crypto env) txBytes)))"

text \<open>
  The same for the first format: the hash and the transaction with its signer. A missing
  transaction serializes to nothing and is then dereferenced.
\<close>

definition check_v1 ::
  "node_env \<Rightarrow> node_db \<Rightarrow> int \<Rightarrow> SignedTransaction option \<Rightarrow> submit_error + string \<times> SignedTransaction" where
  "check_v1 env db currentHeight tx = (case tx of
     None \<Rightarrow> Inl NilTransactionPanic
   | Some t \<Rightarrow> (case inject_signer env t of
       Inl e \<Rightarrow> Inl (SubmittedSignerNotRecoverable e)
     | Inr t' \<Rightarrow> (case proto_Marshal_v1 env t' of
         None \<Rightarrow> Inl SubmittedUnmarshalable
       | Some txBytes \<Rightarrow> (case validateV1Transaction env db currentHeight t' of
           Some e \<Rightarrow> Inl (InvalidV1 e)
         | None \<Rightarrow> Inr (ToTxHashFromBytes (env_crypto env) txBytes, t')))))"

definition enqueue ::
  "string \<Rightarrow> MempoolTransaction \<Rightarrow> Mempool \<Rightarrow> (submit_error + string) \<times> Mempool" where
  "enqueue txhash entry m = (case addMempoolTransaction txhash entry m of
     (Some e, m') \<Rightarrow> (Inl (MempoolRefused e), m')
   | (None, m') \<Rightarrow> (Inr txhash, m'))"

text \<open>The error or the hash, the mempool, and the requests sent to peers.\<close>

definition SendTransaction ::
  "node_env \<Rightarrow> string \<Rightarrow> node_db \<Rightarrow> int \<Rightarrow> string list \<Rightarrow> SignedTransaction option \<Rightarrow> v2_Transaction option \<Rightarrow>
   Mempool \<Rightarrow> (submit_error + string) \<times> Mempool \<times> (string \<times> ForwardTransactionRequest) list" where
  "SendTransaction env environment db currentHeight peers tx txv2 m =
     (let refuse = (\<lambda>e. (Inl e, m, []));
          admit = (\<lambda>txhash t. case mempool_entry (currentHeight + 10) t txv2 of
            None \<Rightarrow> (Inr txhash, m, [])
          | Some entry \<Rightarrow> (case enqueue txhash entry m of (r, m') \<Rightarrow>
              (r, m', if mempoolAdmissible (mp_Tx entry) = None
                then broadcastMempoolTransaction (env_ChainID env) peers entry else [])))
      in if \<not> ProgrammableDistributionEnabled env \<and> uses_distribution tx txv2 then refuse DistributionNotEnabled
         else (case txv2 of
             Some t2 \<Rightarrow>
               if environment \<noteq> ''dev'' then refuse V2OutsideDev
               else (case check_v2 env db currentHeight t2 of
                   Inl e \<Rightarrow> refuse e
                 | Inr txhash \<Rightarrow> admit txhash tx)
           | None \<Rightarrow>
               (case check_v1 env db currentHeight tx of
                  Inl e \<Rightarrow> refuse e
                | Inr (txhash, t) \<Rightarrow> admit txhash (Some t))))"

definition ForwardTransaction ::
  "node_env \<Rightarrow> string \<Rightarrow> node_db \<Rightarrow> int \<Rightarrow> bool \<Rightarrow> int \<Rightarrow> ForwardTransactionRequest \<Rightarrow> Mempool \<Rightarrow>
   (submit_error + string) \<times> Mempool" where
  "ForwardTransaction env environment db currentHeight rpcReady blockStoreHeight req m =
     (let refuse = (\<lambda>e. (Inl e, m)); tx = fwd_Transaction req; txv2 = fwd_Transactionv2 req;
          admit = (\<lambda>txhash t.
            if \<not> rpcReady then refuse LocalRpcNotReady
            else (case mempool_entry (blockStoreHeight + 10) t txv2 of
              None \<Rightarrow> refuse NoTransactionGiven
            | Some entry \<Rightarrow> enqueue txhash entry m))
      in case checkForwardChainID (env_ChainID env) (fwd_ChainId req) of
           Some e \<Rightarrow> refuse (ForwardRefused e)
         | None \<Rightarrow>
           if \<not> ProgrammableDistributionEnabled env \<and> uses_distribution tx txv2 then refuse DistributionNotEnabled
           else (case txv2 of
               Some t2 \<Rightarrow>
                 (case check_v2 env db currentHeight t2 of
                    Inl e \<Rightarrow> refuse e
                  | Inr txhash \<Rightarrow> if environment \<noteq> ''dev'' then refuse V2OutsideDev else admit txhash tx)
             | None \<Rightarrow>
                 (case validateMediorumOperationSubmissionSize (operation_of tx) of
                    Some e \<Rightarrow> refuse (OperationTooLarge e)
                  | None \<Rightarrow>
                    (case check_v1 env db currentHeight tx of
                       Inl e \<Rightarrow> refuse e
                     | Inr (txhash, t) \<Rightarrow> admit txhash (Some t)))))"

end
