(* ===== verification/Blocks.thy ===== *)
theory Blocks
  imports Proposals
begin

text \<open>
  Executing a block, \<^verbatim>\<open>pkg/core/server/abci.go\<close>: \<^verbatim>\<open>finalizeTransaction\<close>, \<^verbatim>\<open>FinalizeBlock\<close> with the savepoint
  of a release transaction, and \<^verbatim>\<open>Commit\<close>. The database of a block in progress and the committed one
  are two values; \<open>Commit\<close> makes the former the latter. A statement that fails leaves the tables it
  writes as they were and is logged where the code logs it; that PostgreSQL then refuses every further
  statement of the same transaction shows only in the result of the commit, which is an input.
\<close>

section \<open>Tables of blocks and transactions\<close>

record CoreBlock =
  cb_Height :: int
  cb_ChainID :: string
  cb_Hash :: string
  cb_Proposer :: string
  cb_CreatedAt :: int

record CoreTransaction =
  ct_BlockID :: int
  ct_Index :: int
  ct_TxHash :: string
  ct_Transaction :: string
  ct_CreatedAt :: int

record CoreTxStat =
  st_TxType :: string
  st_TxHash :: string
  st_BlockHeight :: int
  st_CreatedAt :: int

datatype chain_stmt = C_StoreBlock int | C_StoreTransaction int int | C_TxStat string | C_AppState int | C_LatestBlock

record chain_db =
  chain_node :: node_db
  core_blocks :: "CoreBlock list"
  core_transactions :: "CoreTransaction list"
  core_tx_stats :: "CoreTxStat list"
  core_app_state :: "(int \<times> string) list"
  chain_fault :: "chain_stmt \<Rightarrow> pg_error option"

definition chain_exec :: "chain_db \<Rightarrow> chain_stmt \<Rightarrow> bool \<Rightarrow> chain_db \<Rightarrow> pg_error option \<times> chain_db" where
  "chain_exec q stmt duplicate q' = (case chain_fault q stmt of
     Some e \<Rightarrow> (Some e, q)
   | None \<Rightarrow> if duplicate then (Some unique_violation, q) else (None, q'))"

text \<open>The hash of a stored block is also what the checks of storage proofs read.\<close>

definition StoreBlock :: "chain_db \<Rightarrow> CoreBlock \<Rightarrow> pg_error option \<times> chain_db" where
  "StoreBlock q b = chain_exec q (C_StoreBlock (cb_Height b))
     (\<exists>x\<in>set (core_blocks q). cb_Height x = cb_Height b \<and> cb_ChainID x = cb_ChainID b)
     (q\<lparr>core_blocks := core_blocks q @ [b],
        chain_node := (chain_node q)\<lparr>db_pos := (db_pos (chain_node q))\<lparr>core_block_hashes :=
          insert_new (cb_Height b) (cb_Hash b) (core_block_hashes (db_pos (chain_node q)))\<rparr>\<rparr>\<rparr>)"

definition StoreTransaction :: "chain_db \<Rightarrow> CoreTransaction \<Rightarrow> pg_error option \<times> chain_db" where
  "StoreTransaction q t = chain_exec q (C_StoreTransaction (ct_BlockID t) (ct_Index t))
     (\<exists>x\<in>set (core_transactions q). ct_BlockID x = ct_BlockID t \<and> ct_Index x = ct_Index t)
     (q\<lparr>core_transactions := core_transactions q @ [t]\<rparr>)"

definition InsertTxStat :: "chain_db \<Rightarrow> CoreTxStat \<Rightarrow> pg_error option \<times> chain_db" where
  "InsertTxStat q s = chain_exec q (C_TxStat (st_TxHash s)) False
     (if \<exists>x\<in>set (core_tx_stats q). st_TxHash x = st_TxHash s then q
      else q\<lparr>core_tx_stats := core_tx_stats q @ [s]\<rparr>)"

definition UpsertAppState :: "chain_db \<Rightarrow> int \<Rightarrow> string \<Rightarrow> pg_error option \<times> chain_db" where
  "UpsertAppState q height appHash = chain_exec q (C_AppState height)
     ((height, appHash) \<in> set (core_app_state q))
     (q\<lparr>core_app_state := core_app_state q @ [(height, appHash)]\<rparr>)"

section \<open>Finalizing one transaction\<close>

record FinalizeBlockRequest =
  req_Height :: int
  req_Hash :: string
  req_ProposerAddress :: string
  req_Time :: int
  req_Misbehavior :: "string list"
  req_Txs :: "string list"

datatype finalize_error =
    FinalizeValidator val_error
  | FinalizeRollup pg_error
  | FinalizeProof pos_error
  | FinalizeReward reward_error
  | FinalizeUpload upload_error
  | UnhandledEvent

text \<open>
  The error, the message name of the returned interface value, the tables and what is handed to the
  storage service. A handler with a concrete result type returns a nil pointer of that type along with
  its error, and as an interface value that is not nil.
\<close>

record finalized =
  fin_error :: "finalize_error option"
  fin_message :: "string option"
  fin_db :: node_db
  fin_operations :: "MediorumOperation list"

definition typed_result :: "string \<Rightarrow> finalize_error option \<times> node_db \<Rightarrow> finalized" where
  "typed_result name r = \<lparr>fin_error = fst r, fin_message = Some name, fin_db = snd r, fin_operations = []\<rparr>"

definition message_result :: "string \<Rightarrow> finalize_error option \<times> node_db \<Rightarrow> finalized" where
  "message_result name r = \<lparr>fin_error = fst r, fin_message = (if fst r = None then Some name else None),
     fin_db = snd r, fin_operations = []\<rparr>"

definition silent_result :: "finalize_error option \<times> node_db \<Rightarrow> finalized" where
  "silent_result r = \<lparr>fin_error = fst r, fin_message = None, fin_db = snd r, fin_operations = []\<rparr>"

definition finalizeTransaction ::
  "node_env \<Rightarrow> bool \<Rightarrow> node_db \<Rightarrow> node_db \<Rightarrow> FinalizeBlockRequest \<Rightarrow> SignedTransaction \<Rightarrow> string \<Rightarrow> finalized" where
  "finalizeTransaction env applierRegistered db qtx req msg txHash =
     (let height = req_Height req;
          rules = rules_at (env_config env) height;
          me_result = (\<lambda>name ((tracks, auth), _). message_result name (None, qtx\<lparr>db_tracks := tracks, db_auth := auth\<rparr>));
          val_result = (\<lambda>(e, q). (map_option FinalizeValidator e, qtx\<lparr>db_validators := q\<rparr>));
          pos_result = (\<lambda>(e, q). (map_option FinalizeProof e, qtx\<lparr>db_pos := q\<rparr>));
          reward_result = (\<lambda>(e, q). (map_option FinalizeReward e, qtx\<lparr>db_rewards := q\<rparr>))
      in case stx_Body msg of
        Tx_Plays plays \<Rightarrow> typed_result ''TrackPlays'' (None, qtx)
      | Tx_ManageEntity em \<Rightarrow> me_result ''ManageEntityLegacy'' (finalizeManageEntity (json_Unmarshal_track env)
          (json_Unmarshal_meta env) rules (db_tracks qtx, db_auth qtx) em)
      | Tx_ManageEntityMigration em \<Rightarrow> me_result ''ManageEntityLegacyMigration'' (finalizeManageEntityMigration
          (json_Unmarshal_track env) (json_Unmarshal_meta env) (db_tracks qtx, db_auth qtx) em)
      | Tx_Attestation att \<Rightarrow> typed_result ''SignedTransaction'' (val_result (finalizeAttestation (env_crypto env)
          (env_config env) (db_validators db) (db_validators qtx) (with_body msg att) height))
      | Tx_ValidatorRegistration vr \<Rightarrow> typed_result ''ValidatorRegistrationLegacy'' (val_result
          (finalizeLegacyRegisterNode (env_crypto env) (env_config env) (db_validators qtx) (with_body msg vr) height))
      | Tx_ValidatorDeregistration vd \<Rightarrow> typed_result ''ValidatorMisbehaviorDeregistration'' (val_result
          (finalizeDeregisterMisbehavingNode (env_crypto env) (db_validators db) (db_validators qtx)
            (with_body msg vd) (req_Misbehavior req)))
      | Tx_SlaRollup rollup \<Rightarrow> (case finalizeSlaRollup (db_sla qtx) rollup txHash of (e, q) \<Rightarrow>
          typed_result ''SlaRollup'' (map_option FinalizeRollup e, qtx\<lparr>db_sla := q\<rparr>))
      | Tx_StorageProof sp \<Rightarrow> typed_result ''StorageProof'' (pos_result (finalizeStorageProof (env_crypto env)
          (env_pos env) (db_validators db) (db_pos db) (db_pos qtx) (with_body msg sp) height))
      | Tx_StorageProofVerification spv \<Rightarrow> typed_result ''StorageProofVerification'' (pos_result
          (finalizeStorageProofVerification (env_pos env) (db_validators db) (db_pos db) (db_pos qtx) spv height))
      | Tx_Release _ \<Rightarrow> typed_result ''SignedTransaction'' (None, qtx)
      | Tx_Reward reward \<Rightarrow> message_result ''RewardMessage'' (reward_result
          (finalizeRewardTransaction (env_rewards env) (db_rewards qtx) height (Some reward) txHash))
      | Tx_RewardPool pool \<Rightarrow> message_result ''RewardPoolMessage'' (reward_result
          (finalizeRewardPoolTransaction (env_rewards env) (db_rewards qtx) height (Some pool)))
      | Tx_ContentAttestation ca \<Rightarrow> (case finalizeContentAttestation (env_uploads env) rules (db_validators db)
            (db_auth qtx) ca txHash of (e, q) \<Rightarrow>
          silent_result (map_option FinalizeUpload e, qtx\<lparr>db_auth := q\<rparr>))
      | Tx_FileUpload fu \<Rightarrow> (case finalizeFileUpload (env_uploads env) (ProgrammableDistributionEnabled env)
            (db_validators db) (db_uploads qtx) fu txHash height of (e, q) \<Rightarrow>
          silent_result (map_option FinalizeUpload e, qtx\<lparr>db_uploads := q\<rparr>))
      | Tx_MediorumOperation oper \<Rightarrow> (case finalizeMediorumOperation (env_uploads env) (db_validators db)
            applierRegistered (with_body msg oper) of
          Inl e \<Rightarrow> message_result ''MediorumOperation'' (Some (FinalizeUpload e), qtx)
        | Inr applied \<Rightarrow> (message_result ''MediorumOperation'' (None, qtx))
            \<lparr>fin_operations := (case applied of None \<Rightarrow> [] | Some oper \<Rightarrow> [oper])\<rparr>)
      | Tx_None \<Rightarrow> silent_result (Some UnhandledEvent, qtx))"

section \<open>The loop over a block\<close>

text \<open>The state of the loop: the results, the validator updates, the hashes to be dropped from the mempool.\<close>

record block_run =
  run_db :: chain_db
  run_results :: "int list"
  run_updates :: "(string, ValidatorUpdate) table"
  run_finalizedTxs :: "string list"
  run_operations :: "MediorumOperation list"

definition dereg_address :: "SignedTransaction \<Rightarrow> string" where
  "dereg_address tx = (case stx_Body tx of
     Tx_Attestation att \<Rightarrow> (case att_Body att of Some (AttDeregistration vd) \<Rightarrow> vd_CometAddress vd | _ \<Rightarrow> [])
   | Tx_ValidatorDeregistration vd \<Rightarrow> vmd_CometAddress vd
   | _ \<Rightarrow> [])"

text \<open>The updates after a transaction without error, and the validator history.\<close>

definition register_update ::
  "node_env \<Rightarrow> validator_db \<Rightarrow> string \<Rightarrow> string \<Rightarrow> int \<Rightarrow> (string, ValidatorUpdate) table \<Rightarrow>
   (string, ValidatorUpdate) table" where
  "register_update env qtx cometAddress pubKey pw updates =
     (case registeredNodeValidatorUpdate (env_crypto env) qtx cometAddress pubKey pw of
        None \<Rightarrow> updates | Some (vrAddr, upd) \<Rightarrow> insert_new vrAddr upd updates)"

definition remove_update ::
  "node_env \<Rightarrow> bool \<Rightarrow> string \<Rightarrow> (string, ValidatorUpdate) table \<Rightarrow> (string, ValidatorUpdate) table" where
  "remove_update env emit pubKey updates = (if emit
     then AList.update (ed25519_Address (env_crypto env) pubKey) \<lparr>vu_Power = 0, vu_PubKeyBytes = pubKey\<rparr> updates
     else updates)"

definition after_success ::
  "node_env \<Rightarrow> node_db \<Rightarrow> node_db \<Rightarrow> FinalizeBlockRequest \<Rightarrow> bool \<Rightarrow> SignedTransaction \<Rightarrow>
   (string, ValidatorUpdate) table \<Rightarrow> (string, ValidatorUpdate) table \<times> node_db" where
  "after_success env db qtx req emit tx updates = (case stx_Body tx of
     Tx_ValidatorRegistration vr \<Rightarrow>
       (register_update env (db_validators qtx) (vrl_CometAddress vr) (vrl_PubKey vr) (vrl_Power vr) updates, qtx)
   | Tx_Attestation att \<Rightarrow> (case att_Body att of
         Some (AttRegistration vr) \<Rightarrow>
           (case registeredNodeValidatorUpdate (env_crypto env) (db_validators qtx) (vr_CometAddress vr)
                   (vr_PubKey vr) (vr_Power vr) of
              None \<Rightarrow> (updates, qtx)
            | Some (vrAddr, upd) \<Rightarrow> (insert_new vrAddr upd updates, qtx\<lparr>db_validators :=
                snd (appendRegistrationToValidatorHistory (db_validators qtx) vr (req_Time req) (req_Height req))\<rparr>))
       | Some (AttDeregistration vd) \<Rightarrow>
           (remove_update env emit (vd_PubKey vd) updates, qtx\<lparr>db_validators :=
             snd (appendDeregistrationToValidatorHistory (db_validators db) (db_validators qtx) vd
               (req_Time req) (req_Height req))\<rparr>)
       | None \<Rightarrow> (updates, qtx))
   | Tx_ValidatorDeregistration vd \<Rightarrow> (remove_update env emit (vmd_PubKey vd) updates, qtx)
   | _ \<Rightarrow> (updates, qtx))"

definition store_tx :: "FinalizeBlockRequest \<Rightarrow> nat \<Rightarrow> string \<Rightarrow> string \<Rightarrow> chain_db \<Rightarrow> chain_db" where
  "store_tx req i txhash tx q = snd (StoreTransaction q \<lparr>ct_BlockID = req_Height req, ct_Index = int32 (int i),
     ct_TxHash = txhash, ct_Transaction = tx, ct_CreatedAt = req_Time req\<rparr>)"

definition persistTxStat ::
  "(string \<Rightarrow> string) \<Rightarrow> string option \<Rightarrow> string \<Rightarrow> FinalizeBlockRequest \<Rightarrow> chain_db \<Rightarrow> chain_db" where
  "persistTxStat strcase_ToSnake tx txhash req q = (case tx of
     None \<Rightarrow> q
   | Some name \<Rightarrow> snd (InsertTxStat q \<lparr>st_TxType = strcase_ToSnake name, st_TxHash = txhash,
       st_BlockHeight = req_Height req, st_CreatedAt = req_Time req\<rparr>))"

text \<open>
  \<^verbatim>\<open>withBlockSavepoint\<close>: on an error the savepoint rolls back and the tables are as before. Beginning,
  rolling back and releasing a savepoint are taken to succeed.
\<close>

definition withBlockSavepoint :: "('s \<Rightarrow> 'e option \<times> 's) \<Rightarrow> 's \<Rightarrow> 'e option \<times> 's" where
  "withBlockSavepoint f q = (case f q of (Some e, _) \<Rightarrow> (Some e, q) | (None, q') \<Rightarrow> (None, q'))"

record node_state =
  st_env :: node_env
  st_snake :: "string \<Rightarrow> string"
  st_applierRegistered :: bool
  st_currentHeight :: int

definition finalize_one ::
  "node_state \<Rightarrow> node_db \<Rightarrow> FinalizeBlockRequest \<Rightarrow> nat \<Rightarrow> string \<Rightarrow> block_run \<Rightarrow> block_run" where
  "finalize_one s db req i tx r =
     (let env = st_env s; q = run_db r; txhash = ToTxHashFromBytes (env_crypto env) tx in
      case isValidSignedTransaction env tx of
        Some signedTx \<Rightarrow>
          (let emit = deregistrationNeedsValidatorUpdate (db_validators (chain_node q)) (dereg_address signedTx);
               fin = finalizeTransaction env (st_applierRegistered s) db (chain_node q) req signedTx txhash;
               (updates, node) = (if fin_error fin = None
                 then after_success env db (fin_db fin) req emit signedTx (run_updates r)
                 else (run_updates r, fin_db fin))
           in r\<lparr>run_db := persistTxStat (st_snake s) (fin_message fin) txhash req
                  (store_tx req i txhash tx (q\<lparr>chain_node := node\<rparr>)),
                run_results := run_results r @ [if fin_error fin = None then 0 else 2],
                run_updates := updates,
                run_finalizedTxs := run_finalizedTxs r @ [txhash],
                run_operations := run_operations r @ fin_operations fin\<rparr>)
      | None \<Rightarrow> (case isValidV2Transaction env (st_currentHeight s) tx of
          Some v2Tx \<Rightarrow>
            (let (err, releases) = withBlockSavepoint (\<lambda>q. finalizeV2Transaction (env_releases env) (env_ChainID env)
                   (ProgrammableDistributionEnabled env) (db_uploads db) q (req_Height req) v2Tx txhash)
                   (db_releases (chain_node q))
             in r\<lparr>run_db := store_tx req i txhash tx (q\<lparr>chain_node := (chain_node q)\<lparr>db_releases := releases\<rparr>\<rparr>),
                  run_results := run_results r @ [if err = None then 0 else 2],
                  run_finalizedTxs := run_finalizedTxs r @ [txhash]\<rparr>)
        | None \<Rightarrow> r\<lparr>run_results := run_results r @ [1]\<rparr>))"

fun finalize_all ::
  "node_state \<Rightarrow> node_db \<Rightarrow> FinalizeBlockRequest \<Rightarrow> nat \<Rightarrow> string list \<Rightarrow> block_run \<Rightarrow> block_run" where
  "finalize_all s db req i [] r = r"
| "finalize_all s db req i (tx # txs) r = finalize_all s db req (Suc i) txs (finalize_one s db req i tx r)"

definition serializeAppState :: "'z prims_scheme \<Rightarrow> string \<Rightarrow> string list \<Rightarrow> string" where
  "serializeAppState pr prevHash txs = Sha256 pr (prevHash @ concat txs)"

section \<open>Blocks\<close>

record retain_config =
  cfg_Archive :: bool
  cfg_ServeSnapshots :: bool
  cfg_RetainHeight :: int

record server =
  srv_db :: chain_db
  srv_onGoingBlock :: "chain_db option"
  srv_finalizedTxs :: "string list"
  srv_lastRetainHeight :: int
  srv_mempl :: Mempool

record FinalizeBlockResponse =
  resp_TxResults :: "int list"
  resp_AppHash :: string
  resp_ValidatorUpdates :: "ValidatorUpdate list"
  resp_Operations :: "MediorumOperation list"

text \<open>
  The routine that removes expired transactions runs concurrently; here it runs before the next
  operation on the mempool. The order of the validator updates is that of a Go map, so the list stands
  for a set. Whether a storage challenge starts depends on the hash alone and touches no table.
\<close>

definition FinalizeBlock ::
  "node_state \<Rightarrow> FinalizeBlockRequest \<Rightarrow> server \<Rightarrow> FinalizeBlockResponse \<times> server" where
  "FinalizeBlock s req srv =
     (let env = st_env s;
          db = chain_node (srv_db srv);
          q1 = snd (StoreBlock (srv_db srv) \<lparr>cb_Height = req_Height req, cb_ChainID = env_ChainID env,
                 cb_Hash = hex_encode (req_Hash req), cb_Proposer = hex_encode (req_ProposerAddress req),
                 cb_CreatedAt = req_Time req\<rparr>);
          r = finalize_all s db req 0 (req_Txs req)
                \<lparr>run_db = q1, run_results = [], run_updates = [], run_finalizedTxs = [], run_operations = []\<rparr>;
          nextAppHash = serializeAppState (env_crypto env) [] (req_Txs req);
          q2 = snd (UpsertAppState (run_db r) (req_Height req) nextAppHash);
          sla = snd (UpsertSlaRollupReport (db_sla (chain_node q2)) (comet_Address (env_crypto env) (req_ProposerAddress req)));
          q3 = q2\<lparr>chain_node := (chain_node q2)\<lparr>db_sla := sla\<rparr>\<rparr>
      in (\<lparr>resp_TxResults = run_results r, resp_AppHash = nextAppHash,
           resp_ValidatorUpdates = map snd (run_updates r), resp_Operations = run_operations r\<rparr>,
          srv\<lparr>srv_onGoingBlock := Some q3,
              srv_finalizedTxs := srv_finalizedTxs srv @ run_finalizedTxs r,
              srv_mempl := (if req_Height req mod 100 = 0
                then RemoveExpiredTransactions (req_Height req) (srv_mempl srv) else srv_mempl srv)\<rparr>))"

text \<open>\<open>snapshots\<close> are the heights in the cache, newest first, if the cache has any entry.\<close>

definition GetLatestBlock :: "chain_db \<Rightarrow> query_error + CoreBlock" where
  "GetLatestBlock q = (case chain_fault q C_LatestBlock of
     Some e \<Rightarrow> Inl (QueryFailed e)
   | None \<Rightarrow> (case rev (sort_key cb_Height (core_blocks q)) of [] \<Rightarrow> Inl ErrNoRows | b # _ \<Rightarrow> Inr b))"

definition calculateLowestRetainHeight ::
  "retain_config \<Rightarrow> int list option \<Rightarrow> chain_db \<Rightarrow> int \<Rightarrow> int" where
  "calculateLowestRetainHeight cfg snapshots q lastSetRetain =
     (if cfg_Archive cfg then 0
      else (case GetLatestBlock q of
          Inl _ \<Rightarrow> 0
        | Inr latestBlock \<Rightarrow>
          (let window = (let latestHeight = cb_Height latestBlock; retainWindow = cfg_RetainHeight cfg in
             if retainWindow \<le> 0 \<or> latestHeight \<le> retainWindow then 0
             else if latestHeight - retainWindow \<le> lastSetRetain then 0
             else latestHeight - retainWindow)
           in if cfg_ServeSnapshots cfg then
                (case snapshots of
                   Some (h # hs) \<Rightarrow>
                     (let retainFromSnapshots = max 1 (last (h # hs) - 100) in
                      if retainFromSnapshots > lastSetRetain then retainFromSnapshots else 0)
                 | _ \<Rightarrow> window)
              else window)))"

datatype commit_outcome = CommitDone | CommitTxClosed | CommitFailed pg_error

definition commitInProgressTx :: "commit_outcome \<Rightarrow> server \<Rightarrow> pg_error option \<times> server" where
  "commitInProgressTx outcome srv = (case srv_onGoingBlock srv of
     None \<Rightarrow> (None, srv)
   | Some q \<Rightarrow> (case outcome of
       CommitDone \<Rightarrow> (None, srv\<lparr>srv_db := q, srv_onGoingBlock := None\<rparr>)
     | CommitTxClosed \<Rightarrow> (None, srv\<lparr>srv_onGoingBlock := None\<rparr>)
     | CommitFailed e \<Rightarrow> (Some e, srv)))"

text \<open>The error or the retain height, the transactions subscribers hear of, and the node.\<close>

definition Commit ::
  "retain_config \<Rightarrow> int list option \<Rightarrow> commit_outcome \<Rightarrow> server \<Rightarrow> (pg_error + int) \<times> string list \<times> server" where
  "Commit cfg snapshots outcome srv = (case commitInProgressTx outcome srv of
     (Some e, srv1) \<Rightarrow> (Inl e, [], srv1)
   | (None, srv1) \<Rightarrow>
     (let published = srv_finalizedTxs srv1;
          srv2 = srv1\<lparr>srv_mempl := RemoveBatch published (srv_mempl srv1), srv_finalizedTxs := []\<rparr>;
          h = calculateLowestRetainHeight cfg snapshots (srv_db srv2) (srv_lastRetainHeight srv2)
      in (Inr (if h > 0 then h else 0), published,
          if h > 0 then srv2\<lparr>srv_lastRetainHeight := h\<rparr> else srv2)))"

end
