(* ===== verification/Block_Laws.thy ===== *)
theory Block_Laws
  imports Blocks
begin

text \<open>
  What executing and committing a block guarantees: one result per transaction, the mempool rid of
  every executed transaction, a retain height that only grows, and a failed release that leaves no row.
\<close>

section \<open>The results of a block\<close>

definition recognized :: "node_state \<Rightarrow> string \<Rightarrow> bool" where
  "recognized s tx \<longleftrightarrow> isValidSignedTransaction (st_env s) tx \<noteq> None \<or>
     isValidV2Transaction (st_env s) (st_currentHeight s) tx \<noteq> None"

lemma finalize_one_hash:
  "run_finalizedTxs (finalize_one s db req i tx r) = run_finalizedTxs r @
     (if recognized s tx then [ToTxHashFromBytes (env_crypto (st_env s)) tx] else [])"
  by (auto simp: finalize_one_def recognized_def Let_def case_prod_unfold split: option.split)

lemma finalize_one_result: "length (run_results (finalize_one s db req i tx r)) = Suc (length (run_results r))"
  by (auto simp: finalize_one_def Let_def case_prod_unfold split: option.split)

lemma finalize_all_hashes:
  "run_finalizedTxs (finalize_all s db req i txs r) = run_finalizedTxs r @
     map (ToTxHashFromBytes (env_crypto (st_env s))) (filter (recognized s) txs)"
  by (induction txs arbitrary: i r) (simp_all add: finalize_one_hash)

lemma finalize_all_results:
  "length (run_results (finalize_all s db req i txs r)) = length (run_results r) + length txs"
  by (induction txs arbitrary: i r) (simp_all add: finalize_one_result)

lemma one_result_per_tx: "length (resp_TxResults (fst (FinalizeBlock s req srv))) = length (req_Txs req)"
  by (simp add: FinalizeBlock_def Let_def finalize_all_results)

lemma block_hashes:
  "srv_finalizedTxs (snd (FinalizeBlock s req srv)) = srv_finalizedTxs srv @
     map (ToTxHashFromBytes (env_crypto (st_env s))) (filter (recognized s) (req_Txs req))"
  by (simp add: FinalizeBlock_def Let_def finalize_all_hashes)

lemma finalize_keeps_queue:
  assumes "mempool_ok (srv_mempl srv)"
  shows "mempool_ok (srv_mempl (snd (FinalizeBlock s req srv)))"
    "set (mempool_queue (srv_mempl (snd (FinalizeBlock s req srv)))) \<subseteq> set (mempool_queue (srv_mempl srv))"
  using assms by (auto simp: FinalizeBlock_def Let_def mp.expire_ok mp.expire_queue)

section \<open>Executed transactions leave the mempool\<close>

text \<open>Every entry of the mempool is under the hash of the bytes a proposal would carry.\<close>

definition keyed_by_hash :: "node_env \<Rightarrow> Mempool \<Rightarrow> bool" where
  "keyed_by_hash env m \<longleftrightarrow> (\<forall>k tx. (k, tx) \<in> set (mempool_queue m) \<longrightarrow>
     (\<exists>b. marshal_mempool_tx env tx = Some b \<and> k = ToTxHashFromBytes (env_crypto env) b))"

lemma select_txs_marshals: "b \<in> set (select_txs check marshal declined ov txs) \<Longrightarrow> \<exists>tx\<in>set txs. marshal tx = Some b"
proof (induction txs arbitrary: ov)
  case (Cons tx txs)
  show ?case
  proof (cases "marshal tx")
    case None
    with Cons show ?thesis by auto
  next
    case (Some x)
    obtain r ov' where r: "check ov x = (r, ov')" by force
    with Some Cons.prems have "b = x \<or> (\<exists>ov. b \<in> set (select_txs check marshal declined ov txs))"
      by (auto split: if_splits sum.splits bool.splits)
    with Some Cons.IH show ?thesis by auto
  qed
qed simp

lemma proposed_from_queue:
  assumes "mempool_ok m" "b \<in> set (mempool_txs env db m currentHeight time height misbehavior)"
  shows "\<exists>k tx. (k, tx) \<in> set (mempool_queue m) \<and> marshal_mempool_tx env tx = Some b"
proof -
  from assms(2) obtain n tx where tx: "tx \<in> set (GetBatch m n height)" "marshal_mempool_tx env tx = Some b"
    unfolding mempool_txs_def Let_def by (auto dest: select_txs_marshals)
  have "set (GetBatch m n height) \<subseteq> snd ` set (mempool_queue m)"
    unfolding mp.batch_queue [OF assms(1)] by (auto dest!: in_set_takeD)
  with tx(1) obtain e where "e \<in> set (mempool_queue m)" "snd e = tx" by blast
  with tx(2) show ?thesis by (cases e) auto
qed

lemma commit_mempool:
  "Commit cfg snapshots outcome srv = (r, published, srv') \<Longrightarrow>
    srv_mempl srv' = (case r of Inl _ \<Rightarrow> srv_mempl srv | Inr _ \<Rightarrow> RemoveBatch (srv_finalizedTxs srv) (srv_mempl srv))"
  by (auto simp: Commit_def commitInProgressTx_def Let_def split: option.splits commit_outcome.splits prod.splits)

lemma commit_queue:
  assumes "mempool_ok (srv_mempl srv)" "Commit cfg snapshots outcome srv = (r, published, srv')"
  shows "mempool_ok (srv_mempl srv')" "set (mempool_queue (srv_mempl srv')) \<subseteq> set (mempool_queue (srv_mempl srv))"
    "r = Inr h \<Longrightarrow> mempool_queue (srv_mempl srv') =
      filter (\<lambda>e. fst e \<notin> set (srv_finalizedTxs srv)) (mempool_queue (srv_mempl srv))"
  using assms(1) unfolding commit_mempool [OF assms(2)]
  by (cases r; simp add: mp.remove_ok mp.remove_queue; blast?)+

lemma block_leaves_keys:
  assumes "mempool_ok (srv_mempl srv)"
    "FinalizeBlock s req srv = (resp, srv1)" "Commit cfg snapshots outcome srv1 = (Inr h, published, srv2)"
    "tx \<in> set (req_Txs req)" "recognized s tx"
  shows "ToTxHashFromBytes (env_crypto (st_env s)) tx \<notin> fst ` set (mempool_queue (srv_mempl srv2))"
proof -
  have srv1: "srv1 = snd (FinalizeBlock s req srv)" using assms(2) by simp
  have m1: "mempool_ok (srv_mempl srv1)" unfolding srv1 by (rule finalize_keeps_queue [OF assms(1)])
  have "ToTxHashFromBytes (env_crypto (st_env s)) tx \<in> set (srv_finalizedTxs srv1)"
    unfolding srv1 block_hashes using assms(4,5) by simp
  then show ?thesis unfolding commit_queue(3) [OF m1 assms(3) refl] by auto
qed

section \<open>Pruning\<close>

lemma retain_advances:
  "calculateLowestRetainHeight cfg snapshots q lastSetRetain \<noteq> 0 \<Longrightarrow>
    calculateLowestRetainHeight cfg snapshots q lastSetRetain > lastSetRetain"
  by (auto simp: calculateLowestRetainHeight_def Let_def split: sum.splits option.splits list.splits if_splits)

lemma retain_keeps_snapshots:
  "cfg_ServeSnapshots cfg \<Longrightarrow> snapshots = Some hs \<Longrightarrow> hs \<noteq> [] \<Longrightarrow> 100 < last hs \<Longrightarrow>
    calculateLowestRetainHeight cfg snapshots q lastSetRetain \<le> last hs - 100"
  by (cases hs) (auto simp: calculateLowestRetainHeight_def Let_def split: sum.splits)

section \<open>Failing transactions\<close>

lemma savepoint_rolls_back: "fst (withBlockSavepoint f q) \<noteq> None \<Longrightarrow> snd (withBlockSavepoint f q) = q"
  by (auto simp: withBlockSavepoint_def split: prod.splits option.splits)

end
