(* ===== verification/Submission_Laws.thy ===== *)
theory Submission_Laws
  imports Submission Block_Laws
begin

text \<open>
  The two ways into the mempool admit the same transactions, gossip carries a submitted transaction to
  every peer in the same state, and the mempool stays keyed by hash.
\<close>

section \<open>Forwarding is submitting\<close>

lemma check_v1_size:
  "check_v1 env db height tx = Inr (k, t) \<Longrightarrow> validateMediorumOperationSubmissionSize (operation_of tx) = None"
  by (auto simp: check_v1_def operation_of_def inject_signer_def validateV1Transaction_def Let_def
      validateMediorumOperationSubmissionSize_def split: option.splits sum.splits tx_body.splits)

text \<open>
  C36: a node admits a transaction a peer forwards exactly when the request names an acceptable
  chain, the node's own endpoint is ready, and the node would admit the same transaction from a client, under the same
  hash. With both, a transaction that gets the same deadline leaves the same mempool.
\<close>

theorem forwarding_matches_submission:
  assumes "SendTransaction env environment db height peers (fwd_Transaction req) (fwd_Transactionv2 req) m = (sent, m1, requests)"
    "ForwardTransaction env environment db height rpcReady blockStoreHeight req m = (forwarded, m2)"
  shows "(\<forall>k. forwarded = Inr k \<longleftrightarrow>
      sent = Inr k \<and> rpcReady \<and> checkForwardChainID (env_ChainID env) (fwd_ChainId req) = None) \<and>
    (checkForwardChainID (env_ChainID env) (fwd_ChainId req) = None \<and> rpcReady \<and> blockStoreHeight = height \<longrightarrow> m2 = m1)"
proof -
  have deadline: "r = r'" if "enqueue k \<lparr>Deadline = h, mp_Tx = t, mp_Txv2 = t2\<rparr> m = (r, m')"
      "enqueue k \<lparr>Deadline = h', mp_Tx = t, mp_Txv2 = t2\<rparr> m = (r', m'')" for k h h' t t2 r r' m' m''
    using that by (auto simp: enqueue_def addMempoolTransaction_def Let_def split: option.splits prod.splits if_splits)
  show ?thesis
  proof (cases "fwd_Transactionv2 req")
    case (Some t2)
    then show ?thesis using assms
      by (auto simp: SendTransaction_def ForwardTransaction_def mempool_entry_def Let_def dest: deadline
          split: if_splits sum.splits option.splits prod.splits)
  next
    case None
    then show ?thesis using assms check_v1_size [of env db height "fwd_Transaction req"]
      by (auto simp: SendTransaction_def ForwardTransaction_def mempool_entry_def Let_def dest: deadline
          split: if_splits sum.splits option.splits prod.splits)
  qed
qed

section \<open>Gossip\<close>

lemma inject_signer_again:
  assumes "inject_signer env t = Inr t'"
  shows "inject_signer env t' = Inr t'"
proof (cases "stx_Body t")
  case (Tx_ManageEntity em)
  have recover: "RecoverPubkeyFromCoreTx lib cfg (em\<lparr>me_Signer := a\<rparr>) = RecoverPubkeyFromCoreTx lib cfg em" for lib cfg a
    by (simp add: RecoverPubkeyFromCoreTx_def)
  show ?thesis using assms Tx_ManageEntity
    by (auto simp: inject_signer_def InjectSigner_def with_body_def recover split: sum.splits prod.splits)
qed (use assms in \<open>auto simp: inject_signer_def\<close>)

lemma check_v1_again: "check_v1 env db height tx = Inr (k, t) \<Longrightarrow> check_v1 env db height (Some t) = Inr (k, t)"
  by (auto simp: check_v1_def dest: inject_signer_again split: option.splits sum.splits)

lemma forward_accepted:
  assumes "mempool_ok m" "int (length (mempool_queue m)) < maxMempoolTransactions m" "mempoolAdmissible (mp_Tx entry) = None"
    "ForwardTransaction env environment db height True blockStoreHeight req m = enqueue k entry m"
  shows "\<exists>m'. ForwardTransaction env environment db height True blockStoreHeight req m = (Inr k, m') \<and>
    k \<in> fst ` set (mempool_queue m')"
proof -
  have added: "fst (addMempoolTransaction k entry m) = None" using mp.add_error [OF assms(1), of k entry] assms(2,3) by simp
  with assms(4) have "ForwardTransaction env environment db height True blockStoreHeight req m =
      (Inr k, snd (addMempoolTransaction k entry m))"
    by (simp add: enqueue_def case_prod_unfold split: option.split)
  with mp.added_once [OF assms(1) added] show ?thesis by blast
qed

lemma gossip_v1:
  assumes "SendTransaction env environment db height peers (Some tx) None m = (Inr k, m1, requests)"
    "\<And>rollup. stx_Body tx \<noteq> Tx_SlaRollup rollup" "peer \<in> set peers"
    "mempool_ok m2" "int (length (mempool_queue m2)) < maxMempoolTransactions m2" "env_ChainID env \<noteq> []"
  shows "\<exists>req m2'. (peer, req) \<in> set requests \<and>
    ForwardTransaction env environment db height True blockStoreHeight req m2 = (Inr k, m2') \<and>
    k \<in> fst ` set (mempool_queue m2')"
proof -
  let ?e = "\<lambda>t h. \<lparr>Deadline = h + 10, mp_Tx = Some t, mp_Txv2 = None\<rparr>"
  from assms(1) obtain t where check: "check_v1 env db height (Some tx) = Inr (k, t)"
    and entry: "fst (addMempoolTransaction k (?e t height) m) = None"
    and sent: "requests = broadcastMempoolTransaction (env_ChainID env) peers (?e t height)"
    and dist: "\<not> (\<not> ProgrammableDistributionEnabled env \<and> uses_distribution (Some tx) None)"
    by (auto simp: SendTransaction_def mempool_entry_def Let_def enqueue_def addMempoolTransaction_def
        split: if_splits sum.splits option.splits prod.splits)
  have adm: "mempoolAdmissible (Some t) = None"
    using entry by (simp add: addMempoolTransaction_def split: option.splits)
  from check have kinds: "stx_Body t = stx_Body tx \<or> (\<exists>em em'. stx_Body tx = Tx_ManageEntity em \<and> stx_Body t = Tx_ManageEntity em')"
    by (auto simp: check_v1_def inject_signer_def with_body_def split: sum.splits option.splits tx_body.splits)
  let ?req = "\<lparr>fwd_Transaction = Some t, fwd_Transactionv2 = None, fwd_ChainId = env_ChainID env\<rparr>"
  have "\<forall>rollup. stx_Body t \<noteq> Tx_SlaRollup rollup" using kinds assms(2) by auto
  then have req: "(peer, ?req) \<in> set requests"
    using assms(3) unfolding sent broadcastMempoolTransaction_def by (auto split: tx_body.split)
  have "uses_distribution (Some t) None = uses_distribution (Some tx) None"
    using kinds by (auto simp: uses_distribution_def)
  with dist check_v1_again [OF check] check_v1_size [OF check_v1_again [OF check]]
  have "ForwardTransaction env environment db height True blockStoreHeight ?req m2 = enqueue k (?e t blockStoreHeight) m2"
    by (auto simp: ForwardTransaction_def checkForwardChainID_def assms(6) mempool_entry_def Let_def)
  from forward_accepted [OF assms(4,5) _ this] req adm show ?thesis by fastforce
qed

lemma gossip_v2:
  assumes "SendTransaction env environment db height peers None (Some tx) m = (Inr k, m1, requests)" "peer \<in> set peers"
    "mempool_ok m2" "int (length (mempool_queue m2)) < maxMempoolTransactions m2" "env_ChainID env \<noteq> []"
  shows "\<exists>req m2'. (peer, req) \<in> set requests \<and>
    ForwardTransaction env environment db height True blockStoreHeight req m2 = (Inr k, m2') \<and>
    k \<in> fst ` set (mempool_queue m2')"
proof -
  let ?e = "\<lambda>h. \<lparr>Deadline = h + 10, mp_Tx = None, mp_Txv2 = Some tx\<rparr>"
  from assms(1) have check: "check_v2 env db height tx = Inr k" "environment = ''dev''"
    and entry: "fst (addMempoolTransaction k (?e height) m) = None"
    and dist: "\<not> (\<not> ProgrammableDistributionEnabled env \<and> uses_distribution None (Some tx))"
    by (auto simp: SendTransaction_def mempool_entry_def Let_def enqueue_def
        split: if_splits sum.splits option.splits prod.splits)
  have adm: "mempoolAdmissible None = None"
    using entry by (simp add: addMempoolTransaction_def split: option.splits)
  from assms(1) check dist adm have sent: "requests = broadcastMempoolTransaction (env_ChainID env) peers (?e height)"
    by (auto simp: SendTransaction_def mempool_entry_def Let_def split: prod.splits if_splits)
  let ?req = "\<lparr>fwd_Transaction = None, fwd_Transactionv2 = Some tx, fwd_ChainId = env_ChainID env\<rparr>"
  have req: "(peer, ?req) \<in> set requests" using assms(2) unfolding sent broadcastMempoolTransaction_def by simp
  have "ForwardTransaction env environment db height True blockStoreHeight ?req m2 = enqueue k (?e blockStoreHeight) m2"
    using check dist by (auto simp: ForwardTransaction_def checkForwardChainID_def assms(5) mempool_entry_def Let_def)
  from forward_accepted [OF assms(3,4) _ this] req adm show ?thesis by fastforce
qed

text \<open>
  C37: a transaction a client submits with success, in either format and other than a rollup, is sent
  to every peer with the identifier of the chain; a peer with the same configuration, tables and height, whose
  endpoint is ready and whose mempool has room, takes it in under the same hash. A rollup is sent to no peer.
\<close>

theorem gossip_reaches_peers:
  assumes "SendTransaction env environment db height peers tx txv2 m = (Inr k, m1, requests)" "tx = None \<or> txv2 = None"
  shows "(\<forall>t rollup. tx = Some t \<and> stx_Body t = Tx_SlaRollup rollup \<longrightarrow> requests = []) \<and>
    ((\<forall>t rollup. tx = Some t \<longrightarrow> stx_Body t \<noteq> Tx_SlaRollup rollup) \<and> peer \<in> set peers \<and> env_ChainID env \<noteq> [] \<and>
      mempool_ok m2 \<and> int (length (mempool_queue m2)) < maxMempoolTransactions m2 \<longrightarrow>
    (\<exists>req m2'. (peer, req) \<in> set requests \<and>
      ForwardTransaction env environment db height True blockStoreHeight req m2 = (Inr k, m2') \<and>
      k \<in> fst ` set (mempool_queue m2')))"
proof (cases tx)
  case None
  with assms(1) obtain t2 where t2: "txv2 = Some t2"
    by (auto simp: SendTransaction_def check_v1_def Let_def split: if_splits option.splits)
  show ?thesis using gossip_v2 [OF assms(1) [unfolded None t2]] None by blast
next
  case (Some t)
  with assms(2) have t2: "txv2 = None" by simp
  have "requests = []" if "stx_Body t = Tx_SlaRollup rollup" for rollup
    using assms(1) that unfolding Some t2 SendTransaction_def
    by (auto simp: check_v1_def inject_signer_def mempool_entry_def broadcastMempoolTransaction_def Let_def
        split: if_splits sum.splits option.splits prod.splits)
  then show ?thesis using gossip_v1 [OF assms(1) [unfolded Some t2]] Some by blast
qed

section \<open>Keys\<close>

lemma enqueue_keys:
  assumes "mempool_ok m" "keyed_by_hash env m" "marshal_mempool_tx env entry = Some b"
    "enqueue (ToTxHashFromBytes (env_crypto env) b) entry m = (r, m')"
  shows "mempool_ok m' \<and> keyed_by_hash env m'"
proof -
  let ?k = "ToTxHashFromBytes (env_crypto env) b"
  have m': "m' = snd (addMempoolTransaction ?k entry m)"
    using assms(4) by (auto simp: enqueue_def split: prod.splits option.splits)
  have "set (mempool_queue m') \<subseteq> insert (?k, entry) (set (mempool_queue m))"
    unfolding m' using mp.add_done [OF assms(1), of ?k entry] mp.add_refused [OF assms(1), of ?k entry]
    by (cases "fst (addMempoolTransaction ?k entry m)") auto
  then show ?thesis using assms(1-3) mp.add_ok [OF assms(1), of ?k entry] m'
    unfolding keyed_by_hash_def by blast
qed

text \<open>A submission of one transaction, in either format, keeps the mempool keyed by hash.\<close>

lemma check_v1_hash:
  "check_v1 env db height tx = Inr (k, t) \<Longrightarrow> \<exists>b. proto_Marshal_v1 env t = Some b \<and> k = ToTxHashFromBytes (env_crypto env) b"
  by (auto simp: check_v1_def split: option.splits sum.splits)

lemma check_v2_hash:
  "check_v2 env db height t2 = Inr k \<Longrightarrow> \<exists>b. proto_Marshal_v2 env t2 = Some b \<and> k = ToTxHashFromBytes (env_crypto env) b"
  by (auto simp: check_v2_def split: option.splits)

lemma submission_enqueues:
  assumes "tx = None \<or> txv2 = None" "SendTransaction env environment db height peers tx txv2 m = (r, m', requests)"
  shows "m' = m \<or> (\<exists>b entry. marshal_mempool_tx env entry = Some b \<and>
    enqueue (ToTxHashFromBytes (env_crypto env) b) entry m = (r, m'))"
proof (cases "m' = m")
  case False
  show ?thesis
  proof (cases txv2)
    case None
    with assms(2) False obtain k t where "check_v1 env db height tx = Inr (k, t)"
      "enqueue k \<lparr>Deadline = height + 10, mp_Tx = Some t, mp_Txv2 = None\<rparr> m = (r, m')"
      by (auto simp: SendTransaction_def Let_def mempool_entry_def split: if_splits sum.splits prod.splits)
    with check_v1_hash show ?thesis by (fastforce simp: marshal_mempool_tx_def)
  next
    case (Some t2)
    with assms False obtain k where "check_v2 env db height t2 = Inr k"
      "enqueue k \<lparr>Deadline = height + 10, mp_Tx = None, mp_Txv2 = Some t2\<rparr> m = (r, m')"
      by (auto simp: SendTransaction_def Let_def mempool_entry_def split: if_splits sum.splits prod.splits)
    with check_v2_hash show ?thesis by (fastforce simp: marshal_mempool_tx_def)
  qed
qed simp

lemma submission_keeps_keys:
  assumes "mempool_ok m" "keyed_by_hash env m" "tx = None \<or> txv2 = None"
    "SendTransaction env environment db height peers tx txv2 m = (r, m', requests)"
  shows "mempool_ok m' \<and> keyed_by_hash env m'"
  using submission_enqueues [OF assms(3,4)] enqueue_keys [OF assms(1,2)] assms(1,2) by blast

lemma forwarded_enqueues:
  assumes "fwd_Transaction req = None \<or> fwd_Transactionv2 req = None"
    "ForwardTransaction env environment db height rpcReady blockStoreHeight req m = (r, m')"
  shows "m' = m \<or> (\<exists>b entry. marshal_mempool_tx env entry = Some b \<and>
    enqueue (ToTxHashFromBytes (env_crypto env) b) entry m = (r, m'))"
proof (cases "m' = m")
  case False
  show ?thesis
  proof (cases "fwd_Transactionv2 req")
    case None
    with assms(2) False obtain k t where "check_v1 env db height (fwd_Transaction req) = Inr (k, t)"
      "enqueue k \<lparr>Deadline = blockStoreHeight + 10, mp_Tx = Some t, mp_Txv2 = None\<rparr> m = (r, m')"
      by (auto simp: ForwardTransaction_def Let_def mempool_entry_def split: if_splits sum.splits prod.splits option.splits)
    with check_v1_hash show ?thesis by (fastforce simp: marshal_mempool_tx_def)
  next
    case (Some t2)
    with assms False obtain k where "check_v2 env db height t2 = Inr k"
      "enqueue k \<lparr>Deadline = blockStoreHeight + 10, mp_Tx = None, mp_Txv2 = Some t2\<rparr> m = (r, m')"
      by (auto simp: ForwardTransaction_def Let_def mempool_entry_def split: if_splits sum.splits prod.splits option.splits)
    with check_v2_hash show ?thesis by (fastforce simp: marshal_mempool_tx_def)
  qed
qed simp

lemma forwarding_keeps_keys:
  assumes "mempool_ok m" "keyed_by_hash env m" "fwd_Transaction req = None \<or> fwd_Transactionv2 req = None"
    "ForwardTransaction env environment db height rpcReady blockStoreHeight req m = (r, m')"
  shows "mempool_ok m' \<and> keyed_by_hash env m'"
  using forwarded_enqueues [OF assms(3,4)] enqueue_keys [OF assms(1,2)] assms(1,2) by blast

end
