(* ===== verification/Node_Runs.thy ===== *)
theory Node_Runs
  imports Submission_Laws
begin

text \<open>
  The life of a node as interleaved calls of its endpoints and of the consensus engine: a client
  submits, a peer forwards, a block is executed, a block is committed. The height the node has cached
  may differ from call to call.
\<close>

text \<open>What a call admitted into the mempool, by its hash. A request carries one transaction, in one of the two formats.\<close>

definition admitted :: "submit_error + string \<Rightarrow> string list" where
  "admitted r = (case r of Inr k \<Rightarrow> [k] | Inl _ \<Rightarrow> [])"

inductive node_step :: "node_env \<Rightarrow> string \<Rightarrow> string list \<Rightarrow> server \<Rightarrow> server \<Rightarrow> bool" for env environment where
  submit: "SendTransaction env environment db height peers tx txv2 (srv_mempl srv) = (r, m, requests) \<Longrightarrow>
    tx = None \<or> txv2 = None \<Longrightarrow> node_step env environment (admitted r) srv (srv\<lparr>srv_mempl := m\<rparr>)"
| forwarded: "ForwardTransaction env environment db height rpcReady blockStoreHeight req (srv_mempl srv) = (r, m) \<Longrightarrow>
    fwd_Transaction req = None \<or> fwd_Transactionv2 req = None \<Longrightarrow>
    node_step env environment (admitted r) srv (srv\<lparr>srv_mempl := m\<rparr>)"
| finalize: "FinalizeBlock s req srv = (resp, srv') \<Longrightarrow> st_env s = env \<Longrightarrow> node_step env environment [] srv srv'"
| commit: "Commit cfg snapshots outcome srv = (r, published, srv') \<Longrightarrow> node_step env environment [] srv srv'"

text \<open>A run, with the hashes admitted in it.\<close>

inductive node_run :: "node_env \<Rightarrow> string \<Rightarrow> string list \<Rightarrow> server \<Rightarrow> server \<Rightarrow> bool" for env environment where
  stay: "node_run env environment [] srv srv"
| step: "node_run env environment ks srv srv1 \<Longrightarrow> node_step env environment k srv1 srv2 \<Longrightarrow>
    node_run env environment (ks @ k) srv srv2"

definition started :: "chain_db \<Rightarrow> int \<Rightarrow> server" where
  "started db n = \<lparr>srv_db = db, srv_onGoingBlock = None, srv_finalizedTxs = [], srv_lastRetainHeight = 0,
     srv_mempl = NewMempool n\<rparr>"

inductive_cases node_stepE: "node_step env environment k srv srv'"

text \<open>The mempool stays well formed and keyed by hash.\<close>

lemma keyed_subset:
  "keyed_by_hash env m \<Longrightarrow> set (mempool_queue m') \<subseteq> set (mempool_queue m) \<Longrightarrow> keyed_by_hash env m'"
  unfolding keyed_by_hash_def by blast

lemma enqueued_keys:
  assumes "mempool_ok m" "enqueue k entry m = (r, m')"
  shows "fst ` set (mempool_queue m') \<subseteq> set (admitted r) \<union> fst ` set (mempool_queue m)"
  using assms mp.add_done [OF assms(1), of k entry] mp.add_refused [OF assms(1), of k entry]
  by (auto simp: enqueue_def admitted_def split: prod.splits option.splits)

lemma node_step_mempool:
  assumes "node_step env environment ks srv srv'" "mempool_ok (srv_mempl srv)" "keyed_by_hash env (srv_mempl srv)"
  shows "mempool_ok (srv_mempl srv') \<and> keyed_by_hash env (srv_mempl srv') \<and>
    fst ` set (mempool_queue (srv_mempl srv')) \<subseteq> set ks \<union> fst ` set (mempool_queue (srv_mempl srv))"
  using assms(1)
proof cases
  case (submit db height peers tx txv2 r m requests)
  have "fst ` set (mempool_queue m) \<subseteq> set (admitted r) \<union> fst ` set (mempool_queue (srv_mempl srv))"
    using submission_enqueues [OF submit(4,3)] enqueued_keys [OF assms(2)] by blast
  with submission_keeps_keys [OF assms(2,3) submit(4,3)] show ?thesis unfolding submit(1,2) by simp
next
  case (forwarded db height rpcReady blockStoreHeight req r m)
  have "fst ` set (mempool_queue m) \<subseteq> set (admitted r) \<union> fst ` set (mempool_queue (srv_mempl srv))"
    using forwarded_enqueues [OF forwarded(4,3)] enqueued_keys [OF assms(2)] by blast
  with forwarding_keeps_keys [OF assms(2,3) forwarded(4,3)] show ?thesis unfolding forwarded(1,2) by simp
next
  case (finalize s req resp)
  have "srv' = snd (FinalizeBlock s req srv)" unfolding finalize(2) by simp
  with finalize_keeps_queue [OF assms(2), of s req] keyed_subset [OF assms(3)] show ?thesis by blast
next
  case (commit cfg snapshots outcome r published)
  show ?thesis using commit_queue(1,2) [OF assms(2) commit(2)] keyed_subset [OF assms(3)] by blast
qed

lemma node_run_mempool:
  assumes "node_run env environment ks srv srv'" "mempool_ok (srv_mempl srv)" "keyed_by_hash env (srv_mempl srv)"
  shows "mempool_ok (srv_mempl srv') \<and> keyed_by_hash env (srv_mempl srv') \<and>
    fst ` set (mempool_queue (srv_mempl srv')) \<subseteq> set ks \<union> fst ` set (mempool_queue (srv_mempl srv))"
  using assms
proof (induction rule: node_run.induct)
  case (step ks srv srv1 k srv2)
  from step.IH [OF step.prems] have m1: "mempool_ok (srv_mempl srv1)" "keyed_by_hash env (srv_mempl srv1)"
    "fst ` set (mempool_queue (srv_mempl srv1)) \<subseteq> set ks \<union> fst ` set (mempool_queue (srv_mempl srv))" by blast+
  from node_step_mempool [OF step.hyps(2) m1(1,2)] m1(3) show ?case
    unfolding set_append by (elim conjE, intro conjI; (assumption | blast))
qed simp

lemma started_mempool: "mempool_ok (srv_mempl (started db n)) \<and> keyed_by_hash env (srv_mempl (started db n))"
proof -
  have "mempool_queue (NewMempool n) = []" by (simp add: NewMempool_def mempool_queue_def)
  then show ?thesis by (simp add: keyed_by_hash_def mempool_ok_new started_def)
qed


end
