(* ===== verification/Auth_Reliability.thy ===== *)
theory Auth_Reliability
  imports Auth_Enforcement
begin

text \<open>
  Without failing statements the authorization rules are a function of the transaction alone: on
  a store whose reads and writes succeed, every verdict is a rule's, and a rejected transaction
  leaves the overlay of a proposal as it was. This is what makes a proposal that was built by
  skipping rejected transactions pass the same checks again.
\<close>

section \<open>Stores that do not fail\<close>

definition answers :: "pg_error + 'a \<Rightarrow> bool" where
  "answers r \<longleftrightarrow> (\<exists>x. r = Inr x)"

definition succeeds :: "('s \<Rightarrow> bool) \<Rightarrow> 's auth_write \<Rightarrow> bool" where
  "succeeds ok w \<longleftrightarrow> fst w = None \<and> ok (snd w)"

locale reliable_store =
  fixes ops :: "'s authStore" and ok :: "'s \<Rightarrow> bool"
  assumes reads: "ok s \<Longrightarrow> answers (GetUser ops s u)" "ok s \<Longrightarrow> answers (GetUserIDByWallet ops s w)"
      "ok s \<Longrightarrow> answers (WalletExists ops s w)" "ok s \<Longrightarrow> answers (ActiveWalletExists ops s w)"
      "ok s \<Longrightarrow> answers (HandleExists ops s h)" "ok s \<Longrightarrow> answers (GetGrant ops s g u)"
      "ok s \<Longrightarrow> answers (GetApp ops s a)" "ok s \<Longrightarrow> answers (GetEntity ops s t i)"
      "ok s \<Longrightarrow> answers (IsCidClaimedByUser ops s c u)" "ok s \<Longrightarrow> answers (CidIsClaimed ops s c)"
    and writes: "ok s \<Longrightarrow> succeeds ok (InsertUser ops s u w h d)" "ok s \<Longrightarrow> succeeds ok (SetUserHandle ops s u h)"
      "ok s \<Longrightarrow> succeeds ok (SetUserDeactivated ops s u d)" "ok s \<Longrightarrow> succeeds ok (UpsertGrant ops s g u b d)"
      "ok s \<Longrightarrow> succeeds ok (UpsertApp ops s a u)" "ok s \<Longrightarrow> succeeds ok (SetAppDeleted ops s a)"
      "ok s \<Longrightarrow> succeeds ok (InsertEntity ops s t i u d)" "ok s \<Longrightarrow> succeeds ok (SetEntityDeleted ops s t i)"
      "ok s \<Longrightarrow> succeeds ok (InsertCid ops s c u x)"

definition by_rule :: "auth_error option \<Rightarrow> bool" where
  "by_rule e \<longleftrightarrow> (\<forall>f. e \<noteq> Some (StoreFailure f))"

definition reliable :: "('s \<Rightarrow> bool) \<Rightarrow> 's outcome \<Rightarrow> bool" where
  "reliable ok r \<longleftrightarrow> by_rule (fst r) \<and> ok (snd r)"

lemma by_rule_intros:
  "by_rule None" "by_rule (Some (AuthValidation why))"
  "answers r \<Longrightarrow> (\<And>x. by_rule (k x)) \<Longrightarrow> by_rule (chk_read r k)"
  "by_rule a \<Longrightarrow> by_rule b \<Longrightarrow> by_rule (if c then a else b)"
  "by_rule a \<Longrightarrow> (\<And>y. by_rule (g y)) \<Longrightarrow> by_rule (case z of None \<Rightarrow> a | Some y \<Rightarrow> g y)"
  by (auto simp: by_rule_def answers_def chk_read_def split: option.split)

lemma reliable_intros:
  "ok st \<Longrightarrow> by_rule e \<Longrightarrow> reliable ok (e, st)"
  "ok st \<Longrightarrow> reliable ok (reject st why)"
  "succeeds ok w \<Longrightarrow> reliable ok (ret_write w)"
  "answers r \<Longrightarrow> (\<And>x. reliable ok (k x)) \<Longrightarrow> reliable ok (try_read r st k)"
  "ok st \<Longrightarrow> by_rule chk \<Longrightarrow> reliable ok m \<Longrightarrow> reliable ok (try_check chk st m)"
  "succeeds ok w \<Longrightarrow> (\<And>s. ok s \<Longrightarrow> reliable ok (f s)) \<Longrightarrow> reliable ok (try_write w f)"
  "reliable ok m \<Longrightarrow> (\<And>s. ok s \<Longrightarrow> reliable ok (f s)) \<Longrightarrow> reliable ok (then_do m f)"
  "reliable ok m \<Longrightarrow> reliable ok m' \<Longrightarrow> reliable ok (if c then m else m')"
  "(z = None \<Longrightarrow> reliable ok m) \<Longrightarrow> (\<And>y. z = Some y \<Longrightarrow> reliable ok (g y)) \<Longrightarrow> reliable ok (case z of None \<Rightarrow> m | Some y \<Rightarrow> g y)"
  by (auto simp: reliable_def by_rule_def answers_def succeeds_def seq_defs then_do_def
      split: sum.splits option.splits prod.splits)

context reliable_store
begin

lemma signer_by_rule: "ok s \<Longrightarrow> by_rule (validateAuthSigner ops s u sg)"
  unfolding validateAuthSigner_def Let_def by (intro by_rule_intros reads)

lemma content_by_rule: "ok s \<Longrightarrow> by_rule (validateTrackContentAuth ops s tx rules)"
proof -
  assume ok: "ok s"
  have "by_rule (check_cids ops s tx rules ks)" for ks
    by (induction ks) (auto simp: Let_def intro!: by_rule_intros reads ok)
  then show ?thesis by (auto simp: validateTrackContentAuth_def intro!: by_rule_intros)
qed

lemma cids_reliable:
  "ok s \<Longrightarrow> reliable ok (insert_cids ops s u h cs)"
  "ok s \<Longrightarrow> reliable ok (assert_cids ops s u cs)"
  by (induction cs arbitrary: s) (auto intro!: reliable_intros by_rule_intros reads writes)

lemma grant_delete_reliable:
  assumes "ok s"
  shows "reliable ok (projectGrantDelete ops s tx)"
proof -
  have "by_rule (Some e)" if "validateAuthSigner ops s u sg = Some e" for u sg e
    using signer_by_rule [OF assms, of u sg] that by simp
  then show ?thesis
    unfolding projectGrantDelete_def Let_def by (auto intro!: reliable_intros reads writes assms)
qed

lemma project_reliable:
  assumes "ok s"
  shows "reliable ok (projectUserCreate ops s tx)" "reliable ok (projectUserUpdate ops s tx)"
    "reliable ok (projectEntityCreate ops s tx t)" "reliable ok (projectEntityDelete ops s tx t)"
    "reliable ok (projectGrantCreate ops s tx)"
    "reliable ok (projectGrantApproveReject ops s tx b)" "reliable ok (projectAppCreate ops s tx)"
    "reliable ok (projectAppDelete ops s tx)" "reliable ok (projectMigratedTrackCids ops s tx)"
    "reliable ok (projectAssertedTrackCids ops s tx rules)"
  unfolding project_defs projectMigratedTrackCids_def projectAssertedTrackCids_def Let_def
  by (auto split: option.split json.split intro!: reliable_intros by_rule_intros reads writes cids_reliable
      signer_by_rule assms)

lemma apply_reliable: "ok s \<Longrightarrow> reliable ok (applyAuthProjection ops s tx rules)"
  unfolding applyAuthProjection_def
  by (intro signer_by_rule reliable_intros by_rule_intros project_reliable grant_delete_reliable; assumption?)

end

section \<open>The overlay of a proposal\<close>

definition on_sound_base :: "auth_db overlay \<Rightarrow> bool" where
  "on_sound_base ov \<longleftrightarrow> (\<forall>stmt. pg_fault (ov_base ov) stmt = None)"

lemma on_sound_base_frame: "on_sound_base ov \<Longrightarrow> ov_base ov' = ov_base ov \<Longrightarrow> on_sound_base ov'"
  by (simp add: on_sound_base_def)

lemma on_sound_base_new: "db_wf q \<Longrightarrow> on_sound_base (newOverlayAuthStore q)"
  by (simp add: on_sound_base_def newOverlayAuthStore_def db_wf_def)

lemma sound_base_reads:
  assumes "\<And>stmt. pg_fault q stmt = None"
  shows "answers (GetUser dbAuthStore q u)" "answers (GetUserIDByWallet dbAuthStore q w)"
    "answers (WalletExists dbAuthStore q w)" "answers (ActiveWalletExists dbAuthStore q w)"
    "answers (HandleExists dbAuthStore q h)" "answers (GetGrant dbAuthStore q g u)"
    "answers (GetApp dbAuthStore q a)" "answers (GetEntity dbAuthStore q t i)"
    "answers (IsCidClaimedByUser dbAuthStore q c u)" "answers (CidIsClaimed dbAuthStore q c)"
  by (auto simp: answers_def store_defs assms split: option.split sum.split query_error.split)

lemma overlay_reads:
  assumes "on_sound_base ov"
  shows "answers (GetUser (overlayAuthStore dbAuthStore) ov u)"
    "answers (GetUserIDByWallet (overlayAuthStore dbAuthStore) ov w)"
    "answers (WalletExists (overlayAuthStore dbAuthStore) ov w)"
    "answers (ActiveWalletExists (overlayAuthStore dbAuthStore) ov w)"
    "answers (HandleExists (overlayAuthStore dbAuthStore) ov h)"
    "answers (GetGrant (overlayAuthStore dbAuthStore) ov g u)"
    "answers (GetApp (overlayAuthStore dbAuthStore) ov a)"
    "answers (GetEntity (overlayAuthStore dbAuthStore) ov t i)"
    "answers (IsCidClaimedByUser (overlayAuthStore dbAuthStore) ov c u)"
    "answers (CidIsClaimed (overlayAuthStore dbAuthStore) ov c)"
proof -
  have "pg_fault (ov_base ov) stmt = None" for stmt using assms by (simp add: on_sound_base_def)
  note base = sound_base_reads [OF this]
  have inr: "answers (Inr x)" for x by (simp add: answers_def)
  show "answers (GetUser (overlayAuthStore dbAuthStore) ov u)"
    "answers (GetUserIDByWallet (overlayAuthStore dbAuthStore) ov w)"
    "answers (WalletExists (overlayAuthStore dbAuthStore) ov w)"
    "answers (ActiveWalletExists (overlayAuthStore dbAuthStore) ov w)"
    "answers (HandleExists (overlayAuthStore dbAuthStore) ov h)"
    "answers (GetGrant (overlayAuthStore dbAuthStore) ov g u)"
    "answers (GetApp (overlayAuthStore dbAuthStore) ov a)"
    "answers (GetEntity (overlayAuthStore dbAuthStore) ov t i)"
    "answers (IsCidClaimedByUser (overlayAuthStore dbAuthStore) ov c u)"
    "answers (CidIsClaimed (overlayAuthStore dbAuthStore) ov c)"
    using base by (auto simp: overlay_defs inr split: option.split)
qed

lemma overlay_writes:
  assumes "on_sound_base ov"
  shows "succeeds on_sound_base (InsertUser (overlayAuthStore dbAuthStore) ov u w h d)"
    "succeeds on_sound_base (SetUserHandle (overlayAuthStore dbAuthStore) ov u h)"
    "succeeds on_sound_base (SetUserDeactivated (overlayAuthStore dbAuthStore) ov u d)"
    "succeeds on_sound_base (UpsertGrant (overlayAuthStore dbAuthStore) ov g u b d)"
    "succeeds on_sound_base (UpsertApp (overlayAuthStore dbAuthStore) ov a u)"
    "succeeds on_sound_base (SetAppDeleted (overlayAuthStore dbAuthStore) ov a)"
    "succeeds on_sound_base (InsertEntity (overlayAuthStore dbAuthStore) ov t i u d)"
    "succeeds on_sound_base (SetEntityDeleted (overlayAuthStore dbAuthStore) ov t i)"
    "succeeds on_sound_base (InsertCid (overlayAuthStore dbAuthStore) ov c u x)"
proof -
  have "pg_fault (ov_base ov) stmt = None" for stmt using assms by (simp add: on_sound_base_def)
  note base = sound_base_reads(1,7,8) [OF this, unfolded answers_def]
  note frame = on_sound_base_frame [OF assms]
  show "succeeds on_sound_base (SetUserHandle (overlayAuthStore dbAuthStore) ov u h)"
    "succeeds on_sound_base (SetUserDeactivated (overlayAuthStore dbAuthStore) ov u d)"
    using base(1) [of u] by (auto simp: succeeds_def overlay_defs frame assms split: option.split)
  show "succeeds on_sound_base (SetAppDeleted (overlayAuthStore dbAuthStore) ov a)"
    using base(2) [of a] by (auto simp: succeeds_def overlay_defs frame assms split: option.split)
  show "succeeds on_sound_base (SetEntityDeleted (overlayAuthStore dbAuthStore) ov t i)"
    using base(3) [of t i] by (auto simp: succeeds_def overlay_defs frame assms split: option.split)
qed (auto simp: succeeds_def overlay_defs assms on_sound_base_frame [OF assms] split: option.split)

interpretation ovr: reliable_store "overlayAuthStore dbAuthStore" on_sound_base
  by (unfold_locales; (rule overlay_reads overlay_writes; assumption))

lemma enforcement_reliable:
  assumes "on_sound_base ov"
    and r: "r = validateManageEntityAuth recover unmarshal rules (overlayAuthStore dbAuthStore) ov em"
  shows "fst r \<noteq> Some (EnforcementFailure f)" "fst r \<noteq> None \<Longrightarrow> snd r = ov" "on_sound_base (snd r)"
proof -
  let ?tx = "authTxFromManageEntity unmarshal em"
  let ?p = "applyAuthProjection (overlayAuthStore dbAuthStore) ov ?tx rules"
  have c: "by_rule (validateTrackContentAuth (overlayAuthStore dbAuthStore) ov ?tx rules)"
    by (rule ovr.content_by_rule [OF assms(1)])
  have p: "by_rule (fst ?p)" "on_sound_base (snd ?p)"
    using ovr.apply_reliable [OF assms(1), of ?tx rules] by (auto simp: reliable_def)
  have clean: "fst ?p = Some e \<Longrightarrow> snd ?p = ov" for e
    using applyAuthProjection_clean [of ov "overlayAuthStore dbAuthStore" ?tx rules] p(1)
    by (cases e) (simp_all add: rejection_clean_def by_rule_def)
  show "fst r \<noteq> Some (EnforcementFailure f)" "fst r \<noteq> None \<Longrightarrow> snd r = ov" "on_sound_base (snd r)"
    using c p clean assms(1) unfolding r validateManageEntityAuth_def by_rule_def enforce_def
    by (auto simp: Let_def case_prod_unfold split: option.splits auth_error.splits if_splits)
qed

end
