(* ===== verification/Proposal_Laws.thy ===== *)
theory Proposal_Laws
  imports Proposals Auth_Reliability
begin

text \<open>
  Proposals that are built and proposals that are accepted: what an honest proposer builds fits
  the block and is accepted by every node in the same state, except for a deregistration of a
  validator that is already jailed.
\<close>

section \<open>Staying within the budget\<close>

abbreviation wire_cost :: "(nat \<Rightarrow> int) \<Rightarrow> string list \<Rightarrow> int" where
  "wire_cost cost txs \<equiv> (\<Sum>tx\<leftarrow>txs. cost (length tx))"

lemma cap_txs_fits: "0 \<le> remaining \<Longrightarrow> wire_cost cost (cap_txs cost budget remaining txs) \<le> remaining"
proof (induction txs arbitrary: remaining)
  case (Cons tx txs)
  show ?case
  proof (cases "cost (length tx) > budget \<or> cost (length tx) > remaining")
    case False
    with Cons.IH [of "remaining - cost (length tx)"] show ?thesis by (simp add: Let_def)
  qed (use Cons in \<open>auto simp: Let_def\<close>)
qed simp

lemma cap_txs_subseq: "subseq (cap_txs cost budget remaining txs) txs"
  by (induction txs arbitrary: remaining) (auto simp: Let_def)

lemma cap_txs_prefix:
  "\<forall>tx\<in>set txs. cost (length tx) \<le> budget \<Longrightarrow> \<exists>rest. txs = cap_txs cost budget remaining txs @ rest"
  by (induction txs arbitrary: remaining) (auto simp: Let_def)

lemma cap_txs_longest:
  assumes "\<forall>tx\<in>set txs. cost (length tx) \<le> budget" "txs = xs @ rest"
    "length (cap_txs cost budget remaining txs) < length xs" "\<And>n. 0 \<le> cost n"
  shows "wire_cost cost xs > remaining"
  using assms(1-3)
proof (induction xs arbitrary: txs remaining)
  case (Cons x xs)
  have nonneg: "0 \<le> wire_cost cost xs" by (rule sum_list_nonneg) (auto intro: assms(4))
  show ?case
  proof (cases "cost (length x) > remaining")
    case False
    with Cons.prems have "length (cap_txs cost budget (remaining - cost (length x)) (xs @ rest)) < length xs"
      by (auto simp: Let_def)
    from Cons.IH [OF _ refl this] Cons.prems show ?thesis by simp
  qed (use nonneg in simp)
qed simp

lemma cap_txs_keeps:
  assumes "\<And>n. 0 \<le> cost n" "wire_cost cost xs \<le> remaining" "remaining \<le> budget"
  shows "set xs \<subseteq> set (cap_txs cost budget remaining (xs @ ys))"
  using assms(2,3)
proof (induction xs arbitrary: remaining)
  case (Cons x xs)
  have "0 \<le> wire_cost cost xs" by (rule sum_list_nonneg) (auto intro: assms(1))
  with Cons.prems have "cost (length x) \<le> remaining" "wire_cost cost xs \<le> remaining - cost (length x)"
    by simp_all
  moreover have "remaining - cost (length x) \<le> budget" using Cons.prems(2) assms(1) [of "length x"] by linarith
  ultimately show ?case using Cons.IH Cons.prems(2) by (auto simp: Let_def)
qed simp

text \<open>
  C34: a proposal never exceeds the bytes CometBFT allots to it, keeps the order
  of its transactions, and when no transaction alone exceeds the budget it is the longest prefix
  that fits.
\<close>

theorem proposal_fits_budget:
  assumes "0 < maxTxBytes" "\<And>n. 0 \<le> protowire_SizeBytes env n"
    "proposalTxs = proposer_txs env db uuid time height misbehavior @
      mempool_txs env db mempl currentHeight time height misbehavior"
    "txs = PrepareProposal env db mempl uuid currentHeight time height misbehavior maxTxBytes"
  shows "wire_cost (proposalTxWireCost env) txs \<le> maxTxBytes \<and> subseq txs proposalTxs \<and>
    ((\<forall>tx\<in>set proposalTxs. proposalTxWireCost env (length tx) \<le> maxTxBytes) \<longrightarrow>
      (\<exists>rest. proposalTxs = txs @ rest) \<and>
      (\<forall>xs rest. proposalTxs = xs @ rest \<and> wire_cost (proposalTxWireCost env) xs \<le> maxTxBytes \<longrightarrow>
        length xs \<le> length txs))"
proof -
  have txs: "txs = cap_txs (proposalTxWireCost env) maxTxBytes maxTxBytes proposalTxs"
    using assms by (simp add: PrepareProposal_def capProposalTxs_def Let_def)
  have "0 \<le> proposalTxWireCost env n" for n using assms(2) by (simp add: proposalTxWireCost_def)
  then have "wire_cost (proposalTxWireCost env) xs > maxTxBytes"
    if "\<forall>tx\<in>set proposalTxs. proposalTxWireCost env (length tx) \<le> maxTxBytes"
      "proposalTxs = xs @ rest" "length txs < length xs" for xs rest
    using cap_txs_longest [OF that(1,2)] that(3) txs by simp
  moreover have "wire_cost (proposalTxWireCost env) txs \<le> maxTxBytes"
    unfolding txs using assms(1) by (intro cap_txs_fits) simp
  moreover have "subseq txs proposalTxs" unfolding txs by (rule cap_txs_subseq)
  moreover have "\<exists>rest. proposalTxs = txs @ rest"
    if "\<forall>tx\<in>set proposalTxs. proposalTxWireCost env (length tx) \<le> maxTxBytes"
    using cap_txs_prefix [OF that] txs by simp
  ultimately show ?thesis by (metis linorder_not_less)
qed

section \<open>Checking what was selected\<close>

text \<open>A check whose invalid verdicts leave the overlay alone.\<close>

definition steady :: "('o \<Rightarrow> bool) \<Rightarrow> ('o \<Rightarrow> string \<Rightarrow> (pg_error + bool) \<times> 'o) \<Rightarrow> bool" where
  "steady ok check \<longleftrightarrow> (\<forall>ov tx. ok ov \<longrightarrow> ok (snd (check ov tx)) \<and>
     (fst (check ov tx) \<noteq> Inr True \<longrightarrow> snd (check ov tx) = ov))"

lemma select_txs_valid:
  assumes "steady ok check"
  shows "ok ov \<Longrightarrow> validate_txs check ov (select_txs check marshal declined ov txs) = Inr True"
proof (induction txs arbitrary: ov)
  case (Cons tx txs)
  show ?case
  proof (cases "marshal tx")
    case (Some b)
    obtain r ov' where r: "check ov b = (r, ov')" by force
    with assms Cons.prems have "ok ov'" "r \<noteq> Inr True \<Longrightarrow> ov' = ov"
      unfolding steady_def by (metis fst_conv snd_conv)+
    with r Some Cons show ?thesis by (auto split: sum.split bool.split)
  qed (use Cons in simp)
qed simp

lemma validate_prefix: "validate_txs check ov (xs @ ys) = Inr True \<Longrightarrow> validate_txs check ov xs = Inr True"
  by (induction xs arbitrary: ov) (auto split: prod.splits sum.splits bool.splits)

lemma validate_neutral:
  "\<forall>x\<in>set xs. check ov x = (Inr True, ov) \<Longrightarrow> validate_txs check ov (xs @ ys) = validate_txs check ov ys"
  by (induction xs) auto

lemma validate_all:
  "validate_txs check ov xs = Inr True \<Longrightarrow> x \<in> set xs \<Longrightarrow> \<exists>ov'. fst (check ov' x) = Inr True"
proof (induction xs arbitrary: ov)
  case (Cons a xs)
  obtain r ov1 where r: "check ov a = (r, ov1)" by force
  with Cons.prems(1) have "r = Inr True" "validate_txs check ov1 xs = Inr True"
    by (auto split: sum.splits bool.splits)
  with Cons.IH [of ov1] Cons.prems(2) r show ?case by (metis fst_conv set_ConsD)
qed simp

lemma validateBlockTx_steady:
  "steady on_sound_base (\<lambda>ov. validateBlockTx env db currentHeight rules ov time height misbehavior)"
proof -
  have "on_sound_base (snd (validateBlockTx env db currentHeight rules ov time height misbehavior tx)) \<and>
    (fst (validateBlockTx env db currentHeight rules ov time height misbehavior tx) \<noteq> Inr True \<longrightarrow>
      snd (validateBlockTx env db currentHeight rules ov time height misbehavior tx) = ov)"
    if ok: "on_sound_base ov" for ov tx
  proof (cases "isValidSignedTransaction env tx")
    case (Some stx)
    have em: "fst r \<noteq> Some (EnforcementFailure f)" "fst r \<noteq> None \<Longrightarrow> snd r = ov" "on_sound_base (snd r)"
      if "r = validateManageEntityAuth (recovered_signer (env_eip712 env) (env_eip712_config env))
        (json_Unmarshal_meta env) rules (overlayAuthStore dbAuthStore) ov em" for r em f
      using enforcement_reliable [OF ok that] by blast+
    show ?thesis
    proof (cases "stx_Body stx")
      case (Tx_ManageEntity x)
      with Some ok em [OF refl, of x] show ?thesis
        by (auto simp: validateBlockTx_def Let_def split: prod.splits option.splits enforcement_error.splits)
    qed (use Some ok in \<open>auto simp: validateBlockTx_def Let_def split: option.splits upload_error.splits\<close>)
  qed (use ok in \<open>auto simp: validateBlockTx_def Let_def split: option.splits\<close>)
  then show ?thesis by (simp add: steady_def)
qed

section \<open>An honest proposal\<close>

text \<open>Documented behaviour of protobuf: the bytes of a message parse to that message.\<close>

definition proto_v1_roundtrips :: "node_env \<Rightarrow> bool" where
  "proto_v1_roundtrips env \<longleftrightarrow>
     (\<forall>tx b. proto_Marshal_v1 env tx = Some b \<longrightarrow> proto_Unmarshal_v1 env b = Some tx)"

text \<open>The row of a misbehaving validator, if there is one, is not jailed and holds the key of its address.\<close>

definition deregisterable :: "node_env \<Rightarrow> node_db \<Rightarrow> string \<Rightarrow> bool" where
  "deregisterable env db mb \<longleftrightarrow> (let addr = comet_Address (env_crypto env) mb in
     \<forall>node key. GetRegisteredNodeByCometAddress (db_validators db) addr = Inr node \<and>
       base64_decode (cv_comet_pub_key node) = Some key \<longrightarrow>
       \<not> cv_jailed node \<and> length key = ed25519_PubKeySize \<and> ed25519_Address (env_crypto env) key = addr)"

lemma createDeregister_cases:
  assumes "createDeregisterTransaction env db uuid mb = Some tx" "proto_v1_roundtrips env"
  obtains node key sig where
    "GetRegisteredNodeByCometAddress (db_validators db) (comet_Address (env_crypto env) mb) = Inr node"
    "base64_decode (cv_comet_pub_key node) = Some key"
    "\<exists>h. ecdsa_Sign (env_crypto env) h (env_EthereumKey env) = Some sig"
    "isValidSignedTransaction env tx = Some \<lparr>stx_Signature = hex_encode sig, stx_RequestId = uuid,
       stx_Body = Tx_ValidatorDeregistration
         \<lparr>vmd_CometAddress = comet_Address (env_crypto env) mb, vmd_PubKey = key\<rparr>\<rparr>"
  using assms
  by (auto simp: createDeregisterTransaction_def Let_def EthSign_def isValidSignedTransaction_def hex_encode_inj
      proto_v1_roundtrips_def split: sum.splits option.splits) blast

lemma dereg_tx_valid:
  assumes "createDeregisterTransaction env db uuid mb = Some tx" "proto_v1_roundtrips env"
    "deregisterable env db mb" "mb \<in> set misbehavior"
    "\<And>h s. ecdsa_Sign (env_crypto env) h (env_EthereumKey env) = Some s \<Longrightarrow> s \<noteq> []"
  shows "validateBlockTx env db currentHeight rules ov time height misbehavior tx = (Inr True, ov)"
proof -
  obtain node key sig where
    node: "GetRegisteredNodeByCometAddress (db_validators db) (comet_Address (env_crypto env) mb) = Inr node"
      "base64_decode (cv_comet_pub_key node) = Some key"
    and sig: "\<exists>h. ecdsa_Sign (env_crypto env) h (env_EthereumKey env) = Some sig"
    and tx: "isValidSignedTransaction env tx = Some \<lparr>stx_Signature = hex_encode sig, stx_RequestId = uuid,
       stx_Body = Tx_ValidatorDeregistration
         \<lparr>vmd_CometAddress = comet_Address (env_crypto env) mb, vmd_PubKey = key\<rparr>\<rparr>"
    by (rule createDeregister_cases [OF assms(1,2)])
  have "sig \<noteq> []" using sig assms(5) by blast
  moreover have "\<not> cv_jailed node" "length key = ed25519_PubKeySize"
    "ed25519_Address (env_crypto env) key = comet_Address (env_crypto env) mb"
    using assms(3) node by (auto simp: deregisterable_def Let_def)
  moreover have "list_ex (\<lambda>m. comet_Address (env_crypto env) mb = comet_Address (env_crypto env) m) misbehavior"
    using assms(4) by (auto simp: list_ex_iff)
  ultimately show ?thesis using node tx
    by (auto simp: validateBlockTx_def Let_def isValidDeregisterMisbehavingNodeTx_def with_body_def
        ed25519_PubKeySize_def)
qed

lemma rollup_tx_valid:
  assumes "shouldProposeNewRollup (db_sla db) (SlaRollupInterval env) height"
    "createRollupTx env db time height = Some tx" "proto_v1_roundtrips env" "1 \<le> SlaRollupInterval env"
  shows "validateBlockTx env db currentHeight rules ov time height misbehavior tx = (Inr True, ov)"
proof -
  from assms(2,3) obtain rollup where
    rollup: "createRollup (db_sla db) (db_validators db) time height = Inr rollup"
    and tx: "isValidSignedTransaction env tx =
      Some \<lparr>stx_Signature = [], stx_RequestId = [], stx_Body = Tx_SlaRollup rollup\<rparr>"
    by (auto simp: createRollupTx_def isValidSignedTransaction_def proto_v1_roundtrips_def split: sum.splits)
  have "shouldProposeNewRollup (db_sla db) (SlaRollupInterval env) (height + 1)"
    "\<not> ru_BlockStart rollup > ru_BlockEnd rollup"
    using assms(1,4) rollup
    by (auto simp: shouldProposeNewRollup_def createRollup_def Let_def split: sum.splits query_error.splits)
  then have "isValidRollup (db_sla db) (db_validators db) (SlaRollupInterval env) time height rollup = Inr True"
    using rollup by (simp add: isValidRollup_def rollupsMatch_def)
  then show ?thesis using tx by (simp add: validateBlockTx_def Let_def)
qed

lemma in_map_filter: "y \<in> set (List.map_filter f xs) \<longleftrightarrow> (\<exists>x\<in>set xs. f x = Some y)"
  by (induction xs) (auto simp: map_filter_simps split: option.split)

lemma proposer_txs_valid:
  assumes "proto_v1_roundtrips env" "1 \<le> SlaRollupInterval env"
    "\<And>h s. ecdsa_Sign (env_crypto env) h (env_EthereumKey env) = Some s \<Longrightarrow> s \<noteq> []"
    "\<forall>mb\<in>set misbehavior. deregisterable env db mb"
    "tx \<in> set (proposer_txs env db uuid time height misbehavior)"
  shows "validateBlockTx env db currentHeight rules ov time height misbehavior tx = (Inr True, ov)"
proof -
  have "tx \<in> set (case createRollupTx env db time height of None \<Rightarrow> [] | Some tx \<Rightarrow> [tx]) \<longleftrightarrow>
      createRollupTx env db time height = Some tx"
    by (cases "createRollupTx env db time height") auto
  with assms(5) have "shouldProposeNewRollup (db_sla db) (SlaRollupInterval env) height \<and>
      createRollupTx env db time height = Some tx \<or>
    (\<exists>mb\<in>set misbehavior. createDeregisterTransaction env db (uuid mb) mb = Some tx)"
    unfolding proposer_txs_def set_append Un_iff in_map_filter
    by (cases "shouldProposeNewRollup (db_sla db) (SlaRollupInterval env) height") simp_all
  then show ?thesis
  proof
    assume "shouldProposeNewRollup (db_sla db) (SlaRollupInterval env) height \<and>
      createRollupTx env db time height = Some tx"
    then show ?thesis using assms(1,2) by (intro rollup_tx_valid) simp_all
  next
    assume "\<exists>mb\<in>set misbehavior. createDeregisterTransaction env db (uuid mb) mb = Some tx"
    then obtain mb where "mb \<in> set misbehavior" "createDeregisterTransaction env db (uuid mb) mb = Some tx" ..
    then show ?thesis using assms(1,3,4) dereg_tx_valid by blast
  qed
qed

text \<open>
  C3: what an honest proposer builds, every node in the same state accepts:
  no statement fails, the misbehaving validators of the block are not jailed and their rows hold
  their keys, and no transaction alone exceeds the budget.
\<close>

theorem honest_proposal_accepted:
  assumes "db_wf (db_auth db)" "proto_v1_roundtrips env" "1 \<le> SlaRollupInterval env"
    "\<And>h s. ecdsa_Sign (env_crypto env) h (env_EthereumKey env) = Some s \<Longrightarrow> s \<noteq> []"
    "\<forall>mb\<in>set misbehavior. deregisterable env db mb"
    "\<forall>tx\<in>set (proposer_txs env db uuid time height misbehavior @
        mempool_txs env db mempl currentHeight time height misbehavior).
      0 < maxTxBytes \<longrightarrow> proposalTxWireCost env (length tx) \<le> maxTxBytes"
  shows "ProcessProposal env db currentHeight time height misbehavior
    (PrepareProposal env db mempl uuid currentHeight time height misbehavior maxTxBytes) = ACCEPT"
proof -
  let ?own = "proposer_txs env db uuid time height misbehavior"
  let ?mem = "mempool_txs env db mempl currentHeight time height misbehavior"
  let ?check = "\<lambda>ov. validateBlockTx env db currentHeight (rules_at (env_config env) height) ov time height misbehavior"
  let ?ov = "newProposalAuthOverlay db"
  have "on_sound_base ?ov" using assms(1) by (simp add: newProposalAuthOverlay_def on_sound_base_new)
  then have "validate_txs ?check ?ov ?mem = Inr True"
    unfolding mempool_txs_def Let_def by (intro select_txs_valid [OF validateBlockTx_steady])
  then have all: "validate_txs ?check ?ov (?own @ ?mem) = Inr True"
    using proposer_txs_valid [OF assms(2-5)] by (subst validate_neutral) auto
  obtain rest where "?own @ ?mem =
      PrepareProposal env db mempl uuid currentHeight time height misbehavior maxTxBytes @ rest"
    using assms(6) cap_txs_prefix [of "?own @ ?mem" "proposalTxWireCost env" maxTxBytes maxTxBytes]
    by (cases "maxTxBytes \<le> 0") (auto simp: PrepareProposal_def capProposalTxs_def Let_def)
  with all validate_prefix have "validate_txs ?check ?ov
      (PrepareProposal env db mempl uuid currentHeight time height misbehavior maxTxBytes) = Inr True"
    by metis
  then show ?thesis by (simp add: ProcessProposal_def validateBlockTxs_def)
qed

section \<open>A proposal nobody accepts\<close>

text \<open>
  C33: when a block has evidence against a validator that was
  jailed before the evidence arrived, every proposer adds a deregistration of it, which every node
  finds invalid: no proposal for that height is accepted, whoever builds it and whatever is in the
  mempool.
\<close>

theorem jailed_misbehavior_blocks_proposals:
  assumes "proto_v1_roundtrips env" "\<And>n. 0 \<le> protowire_SizeBytes env n"
    "mb \<in> set misbehavior"
    "GetRegisteredNodeByCometAddress (db_validators db) (comet_Address (env_crypto env) mb) = Inr node"
    "cv_jailed node" "createDeregisterTransaction env db (uuid mb) mb = Some tx"
    "0 < maxTxBytes \<Longrightarrow>
      wire_cost (proposalTxWireCost env) (proposer_txs env db uuid time height misbehavior) \<le> maxTxBytes"
  shows "tx \<in> set (PrepareProposal env db mempl uuid currentHeight time height misbehavior maxTxBytes) \<and>
    ProcessProposal env db currentHeight' time height misbehavior
      (PrepareProposal env db mempl uuid currentHeight time height misbehavior maxTxBytes) \<noteq> ACCEPT"
proof
  let ?own = "proposer_txs env db uuid time height misbehavior"
  let ?mem = "mempool_txs env db mempl currentHeight time height misbehavior"
  have own: "tx \<in> set ?own"
    unfolding proposer_txs_def set_append Un_iff in_map_filter using assms(3,6) by blast
  have "0 \<le> proposalTxWireCost env n" for n using assms(2) by (simp add: proposalTxWireCost_def)
  then have "set ?own \<subseteq> set (cap_txs (proposalTxWireCost env) maxTxBytes maxTxBytes (?own @ ?mem))"
    if "0 < maxTxBytes" using cap_txs_keeps assms(7) [OF that] by blast
  with own show member: "tx \<in> set (PrepareProposal env db mempl uuid currentHeight time height misbehavior maxTxBytes)"
    by (auto simp: PrepareProposal_def capProposalTxs_def Let_def)
  have "fst (validateBlockTx env db currentHeight' rules ov time height misbehavior tx) = Inr False" for rules ov
  proof -
    obtain key sig where "isValidSignedTransaction env tx = Some \<lparr>stx_Signature = hex_encode sig,
        stx_RequestId = uuid mb, stx_Body = Tx_ValidatorDeregistration
          \<lparr>vmd_CometAddress = comet_Address (env_crypto env) mb, vmd_PubKey = key\<rparr>\<rparr>"
      by (rule createDeregister_cases [OF assms(6,1)])
    then show ?thesis using assms(4,5)
      by (simp add: validateBlockTx_def isValidDeregisterMisbehavingNodeTx_def with_body_def)
  qed
  with validate_all [OF _ member] show "ProcessProposal env db currentHeight' time height misbehavior
      (PrepareProposal env db mempl uuid currentHeight time height misbehavior maxTxBytes) \<noteq> ACCEPT"
    by (force simp: ProcessProposal_def validateBlockTxs_def split: sum.splits bool.splits)
qed

end
