(* ===== verification/Node_Example.thy ===== *)
theory Node_Example
  imports Proposal_Laws Validator_Laws Storage_Laws Reward_Laws
begin

text \<open>
  A node on which the theorems on proposals and blocks are applied: one registered validator, one
  user who grants an app access, and transactions whose bytes are short names.
\<close>

definition ex_uploads :: upload_lib where
  "ex_uploads = \<lparr>Sha256 = Sha256 ex_prims, Keccak256 = Keccak256 ex_prims, ecdsa_Sign = ecdsa_Sign ex_prims,
     SigToPub = SigToPub ex_prims, ecdsa_Public = ecdsa_Public ex_prims,
     PubkeyToAddress_Hex = PubkeyToAddress_Hex ex_prims, CompressPubkey = CompressPubkey ex_prims,
     up_TextHash = (\<lambda>x. x), marshal_plays = (\<lambda>_. Some ''plays''), marshal_claim = (\<lambda>_ _. Some ''claim''),
     marshal_upload_signature = Some, marshal_operation = (\<lambda>_. Some ''operation''),
     ulid_ParseStrict = (\<lambda>_. True), decodes_records = (\<lambda>_ _. True)\<rparr>"

definition ex_releases :: release_lib where
  "ex_releases = \<lparr>Sha256 = Sha256 ex_prims, Keccak256 = Keccak256 ex_prims, ecdsa_Sign = ecdsa_Sign ex_prims,
     SigToPub = SigToPub ex_prims, ecdsa_Public = ecdsa_Public ex_prims,
     PubkeyToAddress_Hex = PubkeyToAddress_Hex ex_prims, CompressPubkey = CompressPubkey ex_prims,
     marshal_ern = (\<lambda>_. Some ''ern''), marshal_ern_ack = (\<lambda>_ _ _ _ _. Some ''ack''),
     marshal_address_ack = Some, rel_IsHexAddress = (\<lambda>_. True)\<rparr>"

definition ex_key :: string where "ex_key = replicate 32 CHR ''v''"

definition ex_member :: "bool \<Rightarrow> CoreValidator" where
  "ex_member jailed = \<lparr>cv_pub_key = [], cv_endpoint = ''https://v'', cv_eth_address = ''0xv'', cv_comet_address = ''v'',
     cv_comet_pub_key = base64_encode ex_key, cv_eth_block = ''1'', cv_node_type = ''validator'', cv_sp_id = ''1'',
     cv_jailed = jailed\<rparr>"

definition ex_dereg_tx :: SignedTransaction where
  "ex_dereg_tx = \<lparr>stx_Signature = hex_encode ''k'', stx_RequestId = ''id'',
     stx_Body = Tx_ValidatorDeregistration \<lparr>vmd_CometAddress = ''v'', vmd_PubKey = ex_key\<rparr>\<rparr>"

definition ex_grant_signed_tx :: SignedTransaction where
  "ex_grant_signed_tx = \<lparr>stx_Signature = [], stx_RequestId = [],
     stx_Body = Tx_ManageEntity (ex_grant\<lparr>me_Signature := ex_grant_signature\<rparr>)\<rparr>"

definition ex_env :: node_env where
  "ex_env = \<lparr>env_crypto = ex_crypto, env_pos = ex_pos_crypto, env_rewards = ex_lib, env_uploads = ex_uploads,
     env_releases = ex_releases, env_eip712 = ex_eip712, env_eip712_config = ex_eip712_config,
     env_config = ex_config, ProgrammableDistributionEnabled = True, SlaRollupInterval = 100,
     env_EthereumKey = ''k'', json_Unmarshal_meta = ex_grant_meta, json_Unmarshal_track = (\<lambda>_. None),
     proto_Unmarshal_v1 = (\<lambda>b. if b = ''D'' then Some ex_dereg_tx else if b = ''G'' then Some ex_grant_signed_tx else None),
     proto_Unmarshal_v2 = (\<lambda>_. None),
     proto_Marshal_v1 = (\<lambda>tx. if tx = ex_dereg_tx then Some ''D'' else if tx = ex_grant_signed_tx then Some ''G'' else None),
     proto_Marshal_v2 = (\<lambda>_. None), proto_Marshal_dereg = (\<lambda>_. Some ''dereg''),
     protowire_SizeBytes = (\<lambda>n. 1 + int n)\<rparr>"

definition ex_node_db :: "bool \<Rightarrow> node_db" where
  "ex_node_db jailed = \<lparr>db_validators = \<lparr>core_validators = [ex_member jailed], validator_history = [], val_fault = (\<lambda>_. None)\<rparr>,
     db_auth = ex_app_db, db_tracks = \<lparr>sound_recordings = [], management_keys = [], track_fault = (\<lambda>_. None)\<rparr>,
     db_pos = \<lparr>core_block_hashes = [], storage_proofs = [], storage_proof_peers = [], pos_fault = (\<lambda>_. None)\<rparr>,
     db_rewards = \<lparr>core_rewards = [], core_reward_pools = [], launchpad_authority_rm = [], rw_fault = (\<lambda>_. None)\<rparr>,
     db_sla = \<lparr>sla_rollups = [], sla_node_reports = [], sla_next_id = 1, sla_fault = (\<lambda>_. None)\<rparr>,
     db_uploads = \<lparr>core_uploads = [], upload_fault = (\<lambda>_. None), upload_plan = (\<lambda>_. 0)\<rparr>,
     db_releases = \<lparr>core_ern = [], ern_entities = [], core_mead = [], core_pie = [], rel_fault = (\<lambda>_. None)\<rparr>\<rparr>"

definition ex_mempool_of :: "string \<Rightarrow> Mempool" where
  "ex_mempool_of k = snd (addMempoolTransaction k \<lparr>Deadline = 16, mp_Tx = Some ex_grant_signed_tx, mp_Txv2 = None\<rparr>
     (NewMempool 10))"

abbreviation ex_mempool :: Mempool where
  "ex_mempool \<equiv> ex_mempool_of ''hash''"

lemma ex_env_roundtrips: "proto_v1_roundtrips ex_env"
  by (simp add: proto_v1_roundtrips_def ex_env_def)

lemma ex_env_signs: "ecdsa_Sign (env_crypto ex_env) h (env_EthereumKey ex_env) = Some s \<Longrightarrow> s \<noteq> []"
  by (auto simp: ex_env_def ex_crypto_def ex_prims_def)

lemma ex_lookup: "GetRegisteredNodeByCometAddress (db_validators (ex_node_db j)) ''v'' = Inr (ex_member j)"
  by (simp add: GetRegisteredNodeByCometAddress_def val_first_def ex_node_db_def ex_member_def)

lemma ex_addresses: "comet_Address (env_crypto ex_env) ''v'' = ''v''" "ed25519_Address (env_crypto ex_env) ex_key = ''v''"
  by (simp_all add: ex_env_def ex_crypto_def ex_key_def)

lemma ex_dereg_created: "createDeregisterTransaction ex_env (ex_node_db j) ''id'' ''v'' = Some ''D''"
  by (simp add: createDeregisterTransaction_def ex_addresses ex_lookup)
     (simp add: ex_member_def ex_env_def EthSign_def ex_crypto_def ex_prims_def ex_dereg_tx_def)

lemma ex_no_rollup: "\<not> shouldProposeNewRollup (db_sla (ex_node_db j)) (SlaRollupInterval ex_env) 7"
  by (simp add: shouldProposeNewRollup_def GetLatestSlaRollup_def by_time_desc_def ex_node_db_def ex_env_def)

lemma ex_proposer_txs: "proposer_txs ex_env (ex_node_db j) (\<lambda>_. ''id'') 0 7 [''v''] = [''D'']"
  by (simp add: proposer_txs_def ex_no_rollup map_filter_simps ex_dereg_created)

lemma ex_mempool_txs: "mempool_txs ex_env (ex_node_db j) (ex_mempool_of k) 6 0 7 [''v''] = [''G'']"
proof -
  have "GetBatch (ex_mempool_of k) 1000 7 = [\<lparr>Deadline = 16, mp_Tx = Some ex_grant_signed_tx, mp_Txv2 = None\<rparr>]"
    by (simp add: ex_mempool_of_def addMempoolTransaction_def NewMempool_def GetBatch_def Let_def mempoolAdmissible_def
        ex_grant_signed_tx_def)
  moreover have "marshal_mempool_tx ex_env \<lparr>Deadline = 16, mp_Tx = Some ex_grant_signed_tx, mp_Txv2 = None\<rparr> = Some ''G''"
    by (simp add: marshal_mempool_tx_def ex_env_def ex_grant_signed_tx_def ex_dereg_tx_def)
  moreover have "validateProposerPolicy ex_env db (Some ex_grant_signed_tx) = None" for db
    by (simp add: validateProposerPolicy_def ex_grant_signed_tx_def)
  moreover have "validateBlockTx ex_env (ex_node_db j) 6 (rules_at (env_config ex_env) 7) ov 0 7 [''v''] ''G'' = (Inr True, ov)"
    for ov
  proof -
    have "\<not> AuthEnforced (rules_at (env_config ex_env) 7)"
      by (simp add: ex_env_def ex_config_def rules_at_def RulesetAt_def empty_schedule_def activeAt_def)
    moreover have "isValidSignedTransaction ex_env ''G'' = Some ex_grant_signed_tx"
      by (simp add: isValidSignedTransaction_def ex_env_def)
    ultimately show ?thesis by (simp add: validateBlockTx_def ex_grant_signed_tx_def)
  qed
  ultimately show ?thesis by (simp add: mempool_txs_def ex_no_rollup Let_def)
qed

lemma ex_cost: "proposalTxWireCost ex_env n = 2 + int n"
  by (simp add: proposalTxWireCost_def ex_env_def)

theorem proposal_fits_budget_witness:
  "PrepareProposal ex_env (ex_node_db False) ex_mempool (\<lambda>_. ''id'') 6 0 7 [''v''] 5 = [''D''] \<and>
   wire_cost (proposalTxWireCost ex_env) [''D''] \<le> 5"
proof -
  have prep: "PrepareProposal ex_env (ex_node_db False) ex_mempool (\<lambda>_. ''id'') 6 0 7 [''v''] 5 = [''D'']"
    by (simp add: PrepareProposal_def ex_proposer_txs ex_mempool_txs capProposalTxs_def ex_cost)
  have "0 \<le> protowire_SizeBytes ex_env n" for n by (simp add: ex_env_def)
  from proposal_fits_budget [OF _ this refl refl, where maxTxBytes = 5 and db = "ex_node_db False" and
      uuid = "\<lambda>_. ''id''" and time = 0 and height = 7 and misbehavior = "[''v'']" and mempl = ex_mempool and currentHeight = 6]
  show ?thesis unfolding prep by simp
qed

theorem honest_proposal_accepted_witness:
  "PrepareProposal ex_env (ex_node_db False) ex_mempool (\<lambda>_. ''id'') 6 0 7 [''v''] 1000 = [''D'', ''G''] \<and>
   ProcessProposal ex_env (ex_node_db False) 6 0 7 [''v''] [''D'', ''G''] = ACCEPT"
proof -
  have prep: "PrepareProposal ex_env (ex_node_db False) ex_mempool (\<lambda>_. ''id'') 6 0 7 [''v''] 1000 = [''D'', ''G'']"
    by (simp add: PrepareProposal_def ex_proposer_txs ex_mempool_txs capProposalTxs_def ex_cost)
  have "db_wf (db_auth (ex_node_db False))" by (simp add: ex_node_db_def ex_app_db_ok)
  moreover have "1 \<le> SlaRollupInterval ex_env" by (simp add: ex_env_def)
  moreover have "\<forall>mb\<in>set [''v'']. deregisterable ex_env (ex_node_db False) mb"
    by (simp add: deregisterable_def ex_addresses ex_lookup)
       (simp add: ex_member_def ex_key_def ed25519_PubKeySize_def ex_env_def ex_crypto_def)
  ultimately show ?thesis
    using honest_proposal_accepted [OF _ ex_env_roundtrips _ ex_env_signs, where db = "ex_node_db False" and
        misbehavior = "[''v'']" and uuid = "\<lambda>_. ''id''" and time = 0 and height = 7 and mempl = ex_mempool and
        currentHeight = 6 and maxTxBytes = 1000] prep
    by (simp add: ex_proposer_txs ex_mempool_txs ex_cost)
qed

theorem jailed_misbehavior_blocks_proposals_witness:
  "PrepareProposal ex_env (ex_node_db True) ex_mempool (\<lambda>_. ''id'') 6 0 7 [''v''] 1000 = [''D'', ''G''] \<and>
   ProcessProposal ex_env (ex_node_db True) 6 0 7 [''v''] [''D'', ''G''] \<noteq> ACCEPT"
proof -
  have prep: "PrepareProposal ex_env (ex_node_db True) ex_mempool (\<lambda>_. ''id'') 6 0 7 [''v''] 1000 = [''D'', ''G'']"
    by (simp add: PrepareProposal_def ex_proposer_txs ex_mempool_txs capProposalTxs_def ex_cost)
  have "0 \<le> protowire_SizeBytes ex_env n" for n by (simp add: ex_env_def)
  moreover have "cv_jailed (ex_member True)" by (simp add: ex_member_def)
  moreover have "wire_cost (proposalTxWireCost ex_env) (proposer_txs ex_env (ex_node_db True) (\<lambda>_. ''id'') 0 7 [''v'']) \<le> 1000"
    by (simp add: ex_proposer_txs ex_cost)
  ultimately show ?thesis
    using jailed_misbehavior_blocks_proposals [OF ex_env_roundtrips, where mb = "''v''" and
        misbehavior = "[''v'']" and db = "ex_node_db True" and node = "ex_member True" and uuid = "\<lambda>_. ''id''" and
        tx = "''D''" and maxTxBytes = 1000 and time = 0 and height = 7 and mempl = ex_mempool and
        currentHeight = 6 and currentHeight' = 6] prep ex_lookup [of True]
    by (simp add: ex_addresses ex_dereg_created)
qed

end
