(* ===== verification/Run_Example.thy ===== *)
theory Run_Example
  imports Node_Runs Node_Example
begin

text \<open>
  The node of the previous theory takes in the user's grant, proposes it, executes a block with it and
  commits the block.
\<close>

definition ex_hash :: string where
  "ex_hash = ToTxHashFromBytes (env_crypto ex_env) ''G''"

definition ex_start :: server where
  "ex_start = \<lparr>srv_db = \<lparr>chain_node = ex_node_db False, core_blocks = [], core_transactions = [], core_tx_stats = [],
     core_app_state = [], chain_fault = (\<lambda>_. None)\<rparr>, srv_onGoingBlock = None, srv_finalizedTxs = [],
     srv_lastRetainHeight = 0, srv_mempl = NewMempool 10\<rparr>"

definition ex_submitted :: server where
  "ex_submitted = ex_start\<lparr>srv_mempl := ex_mempool_of ex_hash\<rparr>"

definition ex_node :: node_state where
  "ex_node = \<lparr>st_env = ex_env, st_snake = (\<lambda>x. x), st_applierRegistered = False, st_currentHeight = 6\<rparr>"

definition ex_block :: FinalizeBlockRequest where
  "ex_block = \<lparr>req_Height = 7, req_Hash = ''h'', req_ProposerAddress = ''v'', req_Time = 0, req_Misbehavior = [],
     req_Txs = [''G'']\<rparr>"

definition ex_retain :: retain_config where
  "ex_retain = \<lparr>cfg_Archive = True, cfg_ServeSnapshots = False, cfg_RetainHeight = 0\<rparr>"

lemma ex_inject: "inject_signer ex_env ex_grant_signed_tx = Inr ex_grant_signed_tx"
  by (simp add: inject_signer_def ex_grant_signed_tx_def InjectSigner_def RecoverPubkeyFromCoreTx_def
      recoverPublicKey_def typed_sighash_def ex_env_def ex_eip712_def with_body_def ex_grant_def)

lemma ex_not_enforced: "\<not> AuthEnforced (rules_at (env_config ex_env) 7)"
  by (simp add: ex_env_def ex_config_def rules_at_def RulesetAt_def empty_schedule_def activeAt_def)

lemma ex_check: "check_v1 ex_env (ex_node_db j) 6 (Some ex_grant_signed_tx) = Inr (ex_hash, ex_grant_signed_tx)"
proof -
  have "proto_Marshal_v1 ex_env ex_grant_signed_tx = Some ''G''"
    by (simp add: ex_env_def ex_grant_signed_tx_def ex_dereg_tx_def)
  moreover have "validateV1Transaction ex_env (ex_node_db j) 6 ex_grant_signed_tx = None"
    using ex_not_enforced by (simp add: validateV1Transaction_def ex_grant_signed_tx_def)
  ultimately show ?thesis by (simp add: check_v1_def ex_inject ex_hash_def)
qed

lemma ex_distribution: "\<not> (\<not> ProgrammableDistributionEnabled ex_env \<and> P)"
  by (simp add: ex_env_def)

lemma ex_added:
  "addMempoolTransaction k \<lparr>Deadline = 16, mp_Tx = Some ex_grant_signed_tx, mp_Txv2 = None\<rparr> (NewMempool 10) =
    (None, ex_mempool_of k)"
  by (simp add: ex_mempool_of_def addMempoolTransaction_def NewMempool_def mempoolAdmissible_def Let_def
      ex_grant_signed_tx_def)

abbreviation ex_request :: ForwardTransactionRequest where
  "ex_request \<equiv> \<lparr>fwd_Transaction = Some ex_grant_signed_tx, fwd_Transactionv2 = None, fwd_ChainId = env_ChainID ex_env\<rparr>"

lemma ex_sent:
  "SendTransaction ex_env ''dev'' (ex_node_db j) 6 [''https://p''] (Some ex_grant_signed_tx) None (NewMempool 10) =
    (Inr ex_hash, ex_mempool_of ex_hash, [(''https://p'', ex_request)])"
  by (simp add: SendTransaction_def ex_distribution ex_check mempool_entry_def enqueue_def ex_added
      broadcastMempoolTransaction_def mempoolAdmissible_def)
     (simp add: ex_grant_signed_tx_def)

lemma ex_run: "node_run ex_env ''dev'' [ex_hash] (started (srv_db ex_start) 10) ex_submitted"
proof -
  have "node_step ex_env ''dev'' (admitted (Inr ex_hash)) ex_start (ex_start\<lparr>srv_mempl := ex_mempool_of ex_hash\<rparr>)"
  proof (rule node_step.submit)
    show "SendTransaction ex_env ''dev'' (ex_node_db False) 6 [''https://p''] (Some ex_grant_signed_tx) None (srv_mempl ex_start) =
        (Inr ex_hash, ex_mempool_of ex_hash, [(''https://p'', ex_request)])"
      using ex_sent by (simp add: ex_start_def)
  qed simp
  from node_run.step [OF node_run.stay this] show ?thesis
    by (simp add: admitted_def ex_submitted_def started_def ex_start_def)
qed

lemma ex_commits:
  "\<exists>h published. Commit ex_retain None CommitDone (snd (FinalizeBlock ex_node ex_block ex_submitted)) =
    (Inr h, published, snd (snd (Commit ex_retain None CommitDone (snd (FinalizeBlock ex_node ex_block ex_submitted)))))"
  by (simp add: Commit_def commitInProgressTx_def FinalizeBlock_def Let_def)


theorem forwarding_matches_submission_witness:
  "fst (ForwardTransaction ex_env ''dev'' (ex_node_db False) 6 True 6 ex_request (NewMempool 10)) = Inr ex_hash \<and>
   snd (ForwardTransaction ex_env ''dev'' (ex_node_db False) 6 True 6 ex_request (NewMempool 10)) = ex_mempool_of ex_hash \<and>
   fst (ForwardTransaction ex_env ''dev'' (ex_node_db False) 6 True 6 (ex_request\<lparr>fwd_ChainId := ''other''\<rparr>) (NewMempool 10)) \<noteq> Inr ex_hash"
proof -
  have ids: "checkForwardChainID (env_ChainID ex_env) (fwd_ChainId ex_request) = None"
    "checkForwardChainID (env_ChainID ex_env) ''other'' \<noteq> None"
    by (simp_all add: checkForwardChainID_def) (simp_all add: ex_env_def ex_config_def)
  have sent: "SendTransaction ex_env ''dev'' (ex_node_db False) 6 [''https://p''] (fwd_Transaction ex_request)
      (fwd_Transactionv2 ex_request) (NewMempool 10) = (Inr ex_hash, ex_mempool_of ex_hash, [(''https://p'', ex_request)])"
    using ex_sent by simp
  then have other: "SendTransaction ex_env ''dev'' (ex_node_db False) 6 [''https://p'']
      (fwd_Transaction (ex_request\<lparr>fwd_ChainId := ''other''\<rparr>)) (fwd_Transactionv2 (ex_request\<lparr>fwd_ChainId := ''other''\<rparr>))
      (NewMempool 10) = (Inr ex_hash, ex_mempool_of ex_hash, [(''https://p'', ex_request)])" by simp
  from forwarding_matches_submission [OF sent prod.collapse [symmetric], of True 6]
    forwarding_matches_submission [OF other prod.collapse [symmetric], of True 6] ids
  show ?thesis by simp
qed

theorem gossip_reaches_peers_witness:
  "\<exists>req m2'. (''https://p'', req) \<in> set [(''https://p'', ex_request)] \<and>
    ForwardTransaction ex_env ''dev'' (ex_node_db False) 6 True 6 req (NewMempool 5) = (Inr ex_hash, m2') \<and>
    ex_hash \<in> fst ` set (mempool_queue m2')"
proof -
  have "\<forall>t rollup. Some ex_grant_signed_tx = Some t \<longrightarrow> stx_Body t \<noteq> Tx_SlaRollup rollup" by (simp add: ex_grant_signed_tx_def)
  moreover have "int (length (mempool_queue (NewMempool 5))) < maxMempoolTransactions (NewMempool 5)"
    by (simp add: NewMempool_def mempool_queue_def)
  moreover have "env_ChainID ex_env \<noteq> []" by (simp add: ex_env_def ex_config_def)
  moreover have "''https://p'' \<in> set [''https://p'']" by simp
  ultimately show ?thesis
    using gossip_reaches_peers [OF ex_sent, where peer = "''https://p''" and ?m2.0 = "NewMempool 5" and blockStoreHeight = 6] mempool_ok_new by blast
qed

end
