(* ===== verification/Eth_Registry.thy ===== *)
theory Eth_Registry
  imports Signing
begin

text \<open>
  The mirror of the registry contracts a node keeps (\<^verbatim>\<open>pkg/eth\<close>): the tables, the reading of the
  whole registry at start and every two hours, and the handlers of contract events. What the contracts
  answer is the record \<open>eth_chain\<close>; an address is its text \<^verbatim>\<open>Address.Hex()\<close>. Requests for single nodes
  run concurrently, their results are listed here by id; a range over a Go map is in the order of first
  insertion.
\<close>

section \<open>Contracts\<close>

record ServiceEndpointInfo =
  sei_Owner :: string
  sei_Endpoint :: string
  sei_BlockNumber :: int
  sei_DelegateOwnerWallet :: string

record SpDetails =
  spd_DeployerStake :: int
  spd_DeployerCut :: int
  spd_ValidBounds :: bool
  spd_NumberOfEndpoints :: int
  spd_MinAccountStake :: int
  spd_MaxAccountStake :: int

record GovernanceProposal =
  gp_ProposalId :: int
  gp_Proposer :: string
  gp_SubmissionBlockNumber :: int
  gp_TargetContractRegistryKey :: string
  gp_TargetContractAddress :: string
  gp_CallValue :: int
  gp_FunctionSignature :: string
  gp_CallData :: string

datatype contract = ServiceProviderFactory | Staking | ClaimsManager | RewardsManager | Governance | DelegateManager

record eth_chain =
  contract_address :: "contract \<Rightarrow> string option"
  GetTotalServiceTypeProviders :: "string \<Rightarrow> int option"
  GetServiceEndpointInfo :: "string \<Rightarrow> int \<Rightarrow> ServiceEndpointInfo option"
  HeaderByNumber_Time :: "int \<Rightarrow> int option"
  GetServiceProviderDetails :: "string \<Rightarrow> SpDetails option"
  TotalStakedFor :: "string \<Rightarrow> int option"
  TotalStaked :: "int option"
  GetFundsPerRound :: "int option"
  AntiAbuseOracleAddresses :: "string list option"
  GetInProgressProposals :: "int list option"
  GetProposalById :: "int \<Rightarrow> GovernanceProposal option"
  slash_UnpackIntoMap :: "string \<Rightarrow> (string \<times> int) option"

definition ContentNode :: string where "ContentNode = Utf8ToHex ''content-node''"

definition Validator :: string where "Validator = Utf8ToHex ''validator''"

definition zero_address :: string where
  "zero_address = ''0x0000000000000000000000000000000000000000''"

datatype eth_error =
    ContractCallFailed
  | ContractNotBound contract
  | NodeNotFoundOnEth
  | UnknownServiceType
  | EthStore pg_error
  | EthEndpointNotInDb query_error

record Node =
  node_Id :: int
  node_Owner :: string
  node_Endpoint :: string
  node_Type :: string
  node_BlockNumber :: int
  node_DelegateOwnerWallet :: string

definition node_of :: "string \<Rightarrow> int \<Rightarrow> ServiceEndpointInfo \<Rightarrow> Node" where
  "node_of nodeType i info = \<lparr>node_Id = i, node_Owner = sei_Owner info, node_Endpoint = sei_Endpoint info,
     node_Type = nodeType, node_BlockNumber = sei_BlockNumber info,
     node_DelegateOwnerWallet = sei_DelegateOwnerWallet info\<rparr>"

definition GetRegisteredNode :: "eth_chain \<Rightarrow> int \<Rightarrow> string \<Rightarrow> eth_error + Node" where
  "GetRegisteredNode ch i nodeType = (case contract_address ch ServiceProviderFactory of
     None \<Rightarrow> Inl (ContractNotBound ServiceProviderFactory)
   | Some _ \<Rightarrow> (case GetServiceEndpointInfo ch nodeType i of
       None \<Rightarrow> Inl ContractCallFailed
     | Some info \<Rightarrow>
         if sei_DelegateOwnerWallet info = zero_address then Inl NodeNotFoundOnEth
         else Inr (node_of nodeType i info)))"

definition GetAllRegisteredNodesForType :: "eth_chain \<Rightarrow> string \<Rightarrow> eth_error + Node list" where
  "GetAllRegisteredNodesForType ch nodeType = (case contract_address ch ServiceProviderFactory of
     None \<Rightarrow> Inl (ContractNotBound ServiceProviderFactory)
   | Some _ \<Rightarrow> (case GetTotalServiceTypeProviders ch nodeType of
       None \<Rightarrow> Inl ContractCallFailed
     | Some ids \<Rightarrow>
         if list_ex (\<lambda>i. GetServiceEndpointInfo ch nodeType i = None) [1..ids] then Inl ContractCallFailed
         else Inr (List.map_filter (\<lambda>i. case GetServiceEndpointInfo ch nodeType i of
             None \<Rightarrow> None
           | Some info \<Rightarrow> if sei_DelegateOwnerWallet info = zero_address then None
               else Some (node_of nodeType i info)) [1..ids])))"

definition contracts_GetAllRegisteredNodes :: "eth_chain \<Rightarrow> eth_error + Node list" where
  "contracts_GetAllRegisteredNodes ch = (case GetAllRegisteredNodesForType ch ContentNode of
     Inl e \<Rightarrow> Inl e
   | Inr contentNodes \<Rightarrow> (case GetAllRegisteredNodesForType ch Validator of
       Inl e \<Rightarrow> Inl e
     | Inr validators \<Rightarrow> Inr (contentNodes @ validators)))"

definition ServiceTypeToString :: "string \<Rightarrow> string option" where
  "ServiceTypeToString serviceType =
     (if serviceType = ContentNode then Some ''content-node''
      else if serviceType = Validator then Some ''validator''
      else None)"

text \<open>\<^verbatim>\<open>big.Int.Div\<close> is Euclidean, as \<open>div\<close> is for a positive divisor.\<close>

definition WeiToAudio :: "int \<Rightarrow> int" where
  "WeiToAudio wei = wei div 10 ^ 18"

definition AudioToWei :: "int \<Rightarrow> int" where
  "AudioToWei audio = audio * 10 ^ 18"

section \<open>Tables\<close>

record EthRegisteredEndpoint =
  ere_ID :: int
  ere_ServiceType :: string
  ere_Owner :: string
  ere_DelegateWallet :: string
  ere_Endpoint :: string
  ere_Blocknumber :: int
  ere_RegisteredAt :: int

record EthServiceProvider =
  esp_DeployerStake :: int
  esp_DeployerCut :: int
  esp_ValidBounds :: bool
  esp_NumberOfEndpoints :: int
  esp_MinAccountStake :: int
  esp_MaxAccountStake :: int

record EthActiveProposal =
  eap_ID :: int
  eap_Proposer :: string
  eap_SubmissionBlockNumber :: int
  eap_TargetContractRegistryKey :: string
  eap_TargetContractAddress :: string
  eap_CallValue :: int
  eap_FunctionSignature :: string
  eap_CallData :: string

datatype eth_stmt =
    E_Endpoint string
  | E_Endpoints
  | E_EndpointsOf string
  | E_CountWallet string
  | E_ClearEndpoints
  | E_ClearProviders
  | E_ClearOracles
  | E_ClearProposals
  | E_InsertEndpoint int string
  | E_DeleteEndpoint int string
  | E_InsertProvider string
  | E_UpsertProvider string
  | E_UpsertStaked string
  | E_InsertOracle string
  | E_Oracles
  | E_InsertProposal int
  | E_DeleteProposal int
  | E_Proposals
  | E_Begin
  | E_Commit

record eth_db =
  eth_registered_endpoints :: "EthRegisteredEndpoint list"
  eth_service_providers :: "(string, EthServiceProvider) table"
  eth_staked :: "(string, int) table"
  eth_active_proposals :: "EthActiveProposal list"
  eth_anti_abuse_oracles :: "string list"
  eth_fault :: "eth_stmt \<Rightarrow> pg_error option"

definition eth_exec :: "eth_db \<Rightarrow> eth_stmt \<Rightarrow> bool \<Rightarrow> eth_db \<Rightarrow> eth_error + eth_db" where
  "eth_exec q stmt duplicate q' = (case eth_fault q stmt of
     Some e \<Rightarrow> Inl (EthStore e)
   | None \<Rightarrow> if duplicate then Inl (EthStore unique_violation) else Inr q')"

text \<open>The endpoint is no key: with several rows the first one a scan meets is returned.\<close>

definition GetRegisteredEndpoint :: "eth_db \<Rightarrow> string \<Rightarrow> query_error + EthRegisteredEndpoint" where
  "GetRegisteredEndpoint q endpoint = (case eth_fault q (E_Endpoint endpoint) of
     Some e \<Rightarrow> Inl (QueryFailed e)
   | None \<Rightarrow> (case find (\<lambda>r. ere_Endpoint r = endpoint) (eth_registered_endpoints q) of
       None \<Rightarrow> Inl ErrNoRows | Some r \<Rightarrow> Inr r))"

definition GetRegisteredEndpoints :: "eth_db \<Rightarrow> pg_error + EthRegisteredEndpoint list" where
  "GetRegisteredEndpoints q = (case eth_fault q E_Endpoints of
     Some e \<Rightarrow> Inl e | None \<Rightarrow> Inr (eth_registered_endpoints q))"

definition GetRegisteredEndpointsForServiceProvider ::
  "eth_db \<Rightarrow> string \<Rightarrow> pg_error + EthRegisteredEndpoint list" where
  "GetRegisteredEndpointsForServiceProvider q owner = (case eth_fault q (E_EndpointsOf owner) of
     Some e \<Rightarrow> Inl e | None \<Rightarrow> Inr (filter (\<lambda>r. ere_Owner r = owner) (eth_registered_endpoints q)))"

definition GetCountOfEndpointsWithDelegateWallet :: "eth_db \<Rightarrow> string \<Rightarrow> pg_error + nat" where
  "GetCountOfEndpointsWithDelegateWallet q wallet = (case eth_fault q (E_CountWallet wallet) of
     Some e \<Rightarrow> Inl e
   | None \<Rightarrow> Inr (length (filter (\<lambda>r. ere_DelegateWallet r = wallet) (eth_registered_endpoints q))))"

definition GetActiveProposals :: "eth_db \<Rightarrow> pg_error + EthActiveProposal list" where
  "GetActiveProposals q = (case eth_fault q E_Proposals of
     Some e \<Rightarrow> Inl e | None \<Rightarrow> Inr (eth_active_proposals q))"

definition ClearRegisteredEndpoints :: "eth_db \<Rightarrow> eth_error + eth_db" where
  "ClearRegisteredEndpoints q = eth_exec q E_ClearEndpoints False (q\<lparr>eth_registered_endpoints := []\<rparr>)"

definition ClearServiceProviders :: "eth_db \<Rightarrow> eth_error + eth_db" where
  "ClearServiceProviders q = eth_exec q E_ClearProviders False (q\<lparr>eth_service_providers := []\<rparr>)"

definition ClearAntiAbuseOracles :: "eth_db \<Rightarrow> eth_error + eth_db" where
  "ClearAntiAbuseOracles q = eth_exec q E_ClearOracles False (q\<lparr>eth_anti_abuse_oracles := []\<rparr>)"

definition ClearActiveProposals :: "eth_db \<Rightarrow> eth_error + eth_db" where
  "ClearActiveProposals q = eth_exec q E_ClearProposals False (q\<lparr>eth_active_proposals := []\<rparr>)"

definition InsertRegisteredEndpoint :: "EthRegisteredEndpoint \<Rightarrow> eth_db \<Rightarrow> eth_error + eth_db" where
  "InsertRegisteredEndpoint r q = eth_exec q (E_InsertEndpoint (ere_ID r) (ere_ServiceType r))
     (\<exists>x\<in>set (eth_registered_endpoints q). ere_ID x = ere_ID r \<and> ere_ServiceType x = ere_ServiceType r)
     (q\<lparr>eth_registered_endpoints := eth_registered_endpoints q @ [r]\<rparr>)"

definition DeleteRegisteredEndpoint :: "int \<Rightarrow> string \<Rightarrow> string \<Rightarrow> string \<Rightarrow> eth_db \<Rightarrow> eth_error + eth_db" where
  "DeleteRegisteredEndpoint i endpoint owner serviceType q = eth_exec q (E_DeleteEndpoint i serviceType) False
     (q\<lparr>eth_registered_endpoints := filter (\<lambda>r. \<not> (ere_ID r = i \<and> ere_Endpoint r = endpoint \<and>
        ere_Owner r = owner \<and> ere_ServiceType r = serviceType)) (eth_registered_endpoints q)\<rparr>)"

definition InsertServiceProvider :: "string \<Rightarrow> EthServiceProvider \<Rightarrow> eth_db \<Rightarrow> eth_error + eth_db" where
  "InsertServiceProvider address sp q = eth_exec q (E_InsertProvider address)
     (map_of (eth_service_providers q) address \<noteq> None)
     (q\<lparr>eth_service_providers := AList.update address sp (eth_service_providers q)\<rparr>)"

definition UpsertServiceProvider :: "string \<Rightarrow> EthServiceProvider \<Rightarrow> eth_db \<Rightarrow> eth_error + eth_db" where
  "UpsertServiceProvider address sp q = eth_exec q (E_UpsertProvider address) False
     (q\<lparr>eth_service_providers := AList.update address sp (eth_service_providers q)\<rparr>)"

definition UpsertStaked :: "string \<Rightarrow> int \<Rightarrow> eth_db \<Rightarrow> eth_error + eth_db" where
  "UpsertStaked address totalStaked q = eth_exec q (E_UpsertStaked address) False
     (q\<lparr>eth_staked := AList.update address totalStaked (eth_staked q)\<rparr>)"

definition InsertAntiAbuseOracle :: "string \<Rightarrow> eth_db \<Rightarrow> eth_error + eth_db" where
  "InsertAntiAbuseOracle address q = eth_exec q (E_InsertOracle address)
     (address \<in> set (eth_anti_abuse_oracles q))
     (q\<lparr>eth_anti_abuse_oracles := eth_anti_abuse_oracles q @ [address]\<rparr>)"

definition InsertActiveProposal :: "EthActiveProposal \<Rightarrow> eth_db \<Rightarrow> eth_error + eth_db" where
  "InsertActiveProposal p q = eth_exec q (E_InsertProposal (eap_ID p))
     (\<exists>x\<in>set (eth_active_proposals q). eap_ID x = eap_ID p)
     (q\<lparr>eth_active_proposals := eth_active_proposals q @ [p]\<rparr>)"

definition DeleteActiveProposal :: "int \<Rightarrow> eth_db \<Rightarrow> eth_error + eth_db" where
  "DeleteActiveProposal i q = eth_exec q (E_DeleteProposal i) False
     (q\<lparr>eth_active_proposals := filter (\<lambda>p. eap_ID p \<noteq> i) (eth_active_proposals q)\<rparr>)"

section \<open>The service\<close>

record fundingRoundMetadata =
  fr_initialized :: bool
  fr_fundingAmountPerRound :: int
  fr_totalStakedAmount :: int

record EthService =
  eth_tables :: eth_db
  eth_fundingRound :: fundingRoundMetadata
  eth_published :: "EthRegisteredEndpoint list"

definition bound :: "eth_chain \<Rightarrow> contract \<Rightarrow> eth_error + string" where
  "bound ch c = of_option (ContractNotBound c) (contract_address ch c)"

abbreviation call :: "'a option \<Rightarrow> eth_error + 'a" where
  "call \<equiv> of_option ContractCallFailed"

definition endpoint_row :: "Node \<Rightarrow> string \<Rightarrow> int \<Rightarrow> EthRegisteredEndpoint" where
  "endpoint_row node serviceType registeredAt = \<lparr>ere_ID = int32 (int64 (node_Id node)), ere_ServiceType = serviceType,
     ere_Owner = node_Owner node, ere_DelegateWallet = node_DelegateOwnerWallet node,
     ere_Endpoint = node_Endpoint node, ere_Blocknumber = int64 (node_BlockNumber node),
     ere_RegisteredAt = registeredAt\<rparr>"

definition provider_row :: "SpDetails \<Rightarrow> EthServiceProvider" where
  "provider_row d = \<lparr>esp_DeployerStake = int64 (spd_DeployerStake d), esp_DeployerCut = int64 (spd_DeployerCut d),
     esp_ValidBounds = spd_ValidBounds d, esp_NumberOfEndpoints = int32 (int64 (spd_NumberOfEndpoints d)),
     esp_MinAccountStake = int64 (spd_MinAccountStake d), esp_MaxAccountStake = int64 (spd_MaxAccountStake d)\<rparr>"

definition addRegisteredEndpoint ::
  "eth_chain \<Rightarrow> int \<Rightarrow> string \<Rightarrow> string \<Rightarrow> string \<Rightarrow> eth_db \<Rightarrow> eth_error + eth_db" where
  "addRegisteredEndpoint ch spID serviceType endpoint owner q =
     and_then (of_option UnknownServiceType (ServiceTypeToString serviceType)) (\<lambda>st.
     and_then (GetRegisteredNode ch spID serviceType) (\<lambda>node.
     and_then (call (HeaderByNumber_Time ch (node_BlockNumber node))) (\<lambda>blockTime.
     InsertRegisteredEndpoint (endpoint_row (node\<lparr>node_Owner := owner, node_Endpoint := endpoint\<rparr>) st (int64 blockTime)) q)))"

text \<open>The service endpoint published to subscribers has no block number.\<close>

definition deleteAndDeregisterEndpoint ::
  "int \<Rightarrow> string \<Rightarrow> string \<Rightarrow> string \<Rightarrow> eth_db \<Rightarrow> eth_error + eth_db \<times> EthRegisteredEndpoint" where
  "deleteAndDeregisterEndpoint spID serviceType endpoint owner q =
     and_then (of_option UnknownServiceType (ServiceTypeToString serviceType)) (\<lambda>st.
     (case GetRegisteredEndpoint q endpoint of
        Inl e \<Rightarrow> Inl (EthEndpointNotInDb e)
      | Inr ep \<Rightarrow>
          and_then (DeleteRegisteredEndpoint (int32 (int64 spID)) endpoint owner st q) (\<lambda>q'.
          Inr (q', \<lparr>ere_ID = int64 spID, ere_ServiceType = st, ere_Owner = owner,
            ere_DelegateWallet = ere_DelegateWallet ep, ere_Endpoint = endpoint, ere_Blocknumber = 0,
            ere_RegisteredAt = ere_RegisteredAt ep\<rparr>))))"

definition updateServiceProvider :: "eth_chain \<Rightarrow> string \<Rightarrow> eth_db \<Rightarrow> eth_error + eth_db" where
  "updateServiceProvider ch address q =
     and_then (bound ch ServiceProviderFactory) (\<lambda>_.
     and_then (call (GetServiceProviderDetails ch address)) (\<lambda>d.
     UpsertServiceProvider address (provider_row d) q))"

definition updateTotalStakedAmount :: "eth_chain \<Rightarrow> fundingRoundMetadata \<Rightarrow> eth_error + fundingRoundMetadata" where
  "updateTotalStakedAmount ch fr =
     and_then (bound ch Staking) (\<lambda>_.
     and_then (call (TotalStaked ch)) (\<lambda>totalStaked.
     Inr (fr\<lparr>fr_totalStakedAmount := int64 (WeiToAudio totalStaked)\<rparr>)))"

definition proposal_row :: "GovernanceProposal \<Rightarrow> EthActiveProposal" where
  "proposal_row p = \<lparr>eap_ID = int64 (gp_ProposalId p), eap_Proposer = gp_Proposer p,
     eap_SubmissionBlockNumber = int64 (gp_SubmissionBlockNumber p),
     eap_TargetContractRegistryKey = HexToUtf8 (gp_TargetContractRegistryKey p),
     eap_TargetContractAddress = gp_TargetContractAddress p, eap_CallValue = int64 (gp_CallValue p),
     eap_FunctionSignature = gp_FunctionSignature p, eap_CallData = hex_encode (gp_CallData p)\<rparr>"

definition addActiveProposal :: "eth_chain \<Rightarrow> int \<Rightarrow> eth_db \<Rightarrow> eth_error + eth_db" where
  "addActiveProposal ch proposalId q =
     and_then (call (GetProposalById ch proposalId)) (\<lambda>p. InsertActiveProposal (proposal_row p) q)"

text \<open>A failed clearing of the table is not looked at; a proposal that cannot be read is skipped.\<close>

definition refreshInProgressProposals :: "eth_chain \<Rightarrow> eth_db \<Rightarrow> eth_db" where
  "refreshInProgressProposals ch q =
     (let q1 = (case ClearActiveProposals q of Inl _ \<Rightarrow> q | Inr q' \<Rightarrow> q') in
      case (bound ch Governance, GetInProgressProposals ch) of
        (Inr _, Some ids) \<Rightarrow> fold (\<lambda>i q. case addActiveProposal ch i q of Inl _ \<Rightarrow> q | Inr q' \<Rightarrow> q') ids q1
      | _ \<Rightarrow> q1)"

section \<open>Reading the whole registry\<close>

definition hydrate_node ::
  "eth_chain \<Rightarrow> Node \<Rightarrow> eth_db \<times> (string, EthServiceProvider) table \<Rightarrow>
   eth_error + eth_db \<times> (string, EthServiceProvider) table" where
  "hydrate_node ch node s = (case s of (q, sps) \<Rightarrow>
     and_then (of_option UnknownServiceType (ServiceTypeToString (node_Type node))) (\<lambda>st.
     and_then (call (HeaderByNumber_Time ch (node_BlockNumber node))) (\<lambda>blockTime.
     and_then (InsertRegisteredEndpoint (endpoint_row node st (int64 blockTime)) q) (\<lambda>q'.
     if map_of sps (node_Owner node) \<noteq> None then Inr (q', sps)
     else and_then (call (GetServiceProviderDetails ch (node_Owner node))) (\<lambda>d.
       Inr (q', sps @ [(node_Owner node, provider_row d)]))))))"

definition hydrate_provider ::
  "eth_chain \<Rightarrow> string \<times> EthServiceProvider \<Rightarrow> eth_db \<Rightarrow> eth_error + eth_db" where
  "hydrate_provider ch p q = (case p of (address, sp) \<Rightarrow>
     and_then (InsertServiceProvider address sp q) (\<lambda>q'.
     and_then (call (TotalStakedFor ch address)) (\<lambda>wei.
     UpsertStaked address (int64 (WeiToAudio wei)) q')))"

text \<open>Up to the funding data, everything happens in a transaction.\<close>

definition hydrate_tables :: "eth_chain \<Rightarrow> Node list \<Rightarrow> eth_db \<Rightarrow> eth_error + eth_db" where
  "hydrate_tables ch nodes q =
     and_then (ClearRegisteredEndpoints q) (\<lambda>q1.
     and_then (ClearRegisteredEndpoints q1) (\<lambda>q2.
     and_then (ClearServiceProviders q2) (\<lambda>q3.
     and_then (bound ch ServiceProviderFactory) (\<lambda>_.
     and_then (bound ch Staking) (\<lambda>_.
     and_then (bound ch ClaimsManager) (\<lambda>_.
     and_then (for_each (hydrate_node ch) nodes (q3, [])) (\<lambda>(q4, sps).
     for_each (hydrate_provider ch) sps q4)))))))"

definition hydrate_oracles :: "eth_chain \<Rightarrow> eth_db \<Rightarrow> eth_error + eth_db" where
  "hydrate_oracles ch q =
     and_then (bound ch RewardsManager) (\<lambda>_.
     and_then (call (AntiAbuseOracleAddresses ch)) (\<lambda>addrs.
     and_then (ClearAntiAbuseOracles q) (\<lambda>q1.
     for_each InsertAntiAbuseOracle addrs q1)))"

text \<open>
  The amounts in memory are set before the transaction commits. The open proposals are refreshed by a
  concurrent call of \<^const>\<open>refreshInProgressProposals\<close>.
\<close>

definition hydrateEthData :: "eth_chain \<Rightarrow> EthService \<Rightarrow> eth_error option \<times> EthService" where
  "hydrateEthData ch s =
     (let q = eth_tables s; fr = eth_fundingRound s in
      case and_then (contracts_GetAllRegisteredNodes ch) (\<lambda>nodes.
             case eth_fault q E_Begin of Some e \<Rightarrow> Inl (EthStore e) | None \<Rightarrow> hydrate_tables ch nodes q) of
        Inl e \<Rightarrow> (Some e, s)
      | Inr q1 \<Rightarrow> (case updateTotalStakedAmount ch fr of
          Inl e \<Rightarrow> (Some e, s)
        | Inr fr1 \<Rightarrow> (case call (GetFundsPerRound ch) of
            Inl e \<Rightarrow> (Some e, s\<lparr>eth_fundingRound := fr1\<rparr>)
          | Inr funds \<Rightarrow>
            (let fr2 = fr1\<lparr>fr_fundingAmountPerRound := int64 (WeiToAudio funds), fr_initialized := True\<rparr>;
                 s2 = s\<lparr>eth_fundingRound := fr2\<rparr>
             in case hydrate_oracles ch q1 of
                Inl e \<Rightarrow> (Some e, s2)
              | Inr q2 \<Rightarrow> (case eth_fault q E_Commit of
                  Some e \<Rightarrow> (Some (EthStore e), s2)
                | None \<Rightarrow> (None, s2\<lparr>eth_tables := q2\<rparr>))))))"

section \<open>Contract events\<close>

datatype eth_event =
    RegisteredServiceProvider int string string string
  | DeregisteredServiceProvider int string string string
  | EndpointUpdated int string string string string
  | StakeChanged string int
  | ProposalSubmitted int
  | ProposalOutcomeEvaluated int

definition with_tables :: "EthService \<Rightarrow> eth_error + eth_db \<Rightarrow> bool \<times> EthService" where
  "with_tables s r = (case r of Inl _ \<Rightarrow> (False, s) | Inr q \<Rightarrow> (True, s\<lparr>eth_tables := q\<rparr>))"

definition handle_removal :: "int \<Rightarrow> string \<Rightarrow> string \<Rightarrow> string \<Rightarrow> EthService \<Rightarrow> bool \<times> EthService" where
  "handle_removal spID serviceType endpoint owner s =
     (case deleteAndDeregisterEndpoint spID serviceType endpoint owner (eth_tables s) of
        Inl _ \<Rightarrow> (False, s)
      | Inr (q, ep) \<Rightarrow> (True, s\<lparr>eth_tables := q, eth_published := eth_published s @ [ep]\<rparr>))"

text \<open>The cases of the loop of \<^verbatim>\<open>startEthDataManager\<close>: on an error the rest of the case is skipped.\<close>

definition handle_event :: "eth_chain \<Rightarrow> eth_event \<Rightarrow> EthService \<Rightarrow> EthService" where
  "handle_event ch ev s = (case ev of
     RegisteredServiceProvider spID st endpoint owner \<Rightarrow>
       (case with_tables s (addRegisteredEndpoint ch spID st endpoint owner (eth_tables s)) of
          (False, s1) \<Rightarrow> s1
        | (True, s1) \<Rightarrow> snd (with_tables s1 (updateServiceProvider ch owner (eth_tables s1))))
   | DeregisteredServiceProvider spID st endpoint owner \<Rightarrow>
       (case handle_removal spID st endpoint owner s of
          (False, s1) \<Rightarrow> s1
        | (True, s1) \<Rightarrow> snd (with_tables s1 (updateServiceProvider ch owner (eth_tables s1))))
   | EndpointUpdated spID st oldEndpoint newEndpoint owner \<Rightarrow>
       (case handle_removal spID st oldEndpoint owner s of
          (False, s1) \<Rightarrow> s1
        | (True, s1) \<Rightarrow>
          (case with_tables s1 (addRegisteredEndpoint ch spID st newEndpoint owner (eth_tables s1)) of
             (False, s2) \<Rightarrow> s2
           | (True, s2) \<Rightarrow> snd (with_tables s2 (updateServiceProvider ch owner (eth_tables s2)))))
   | StakeChanged user wei \<Rightarrow>
       (case with_tables s (UpsertStaked user (int64 (WeiToAudio wei)) (eth_tables s)) of
          (False, s1) \<Rightarrow> s1
        | (True, s1) \<Rightarrow> (case updateTotalStakedAmount ch (eth_fundingRound s1) of
            Inl _ \<Rightarrow> s1 | Inr fr \<Rightarrow> s1\<lparr>eth_fundingRound := fr\<rparr>))
   | ProposalSubmitted i \<Rightarrow> snd (with_tables s (addActiveProposal ch i (eth_tables s)))
   | ProposalOutcomeEvaluated i \<Rightarrow> snd (with_tables s (DeleteActiveProposal (int64 i) (eth_tables s))))"

section \<open>Requests\<close>

datatype info_error = CodeNotFound | CodeInternal

definition GetRegisteredEndpointInfo :: "eth_db \<Rightarrow> string \<Rightarrow> info_error + EthRegisteredEndpoint" where
  "GetRegisteredEndpointInfo q endpoint = (case GetRegisteredEndpoint q endpoint of
     Inl ErrNoRows \<Rightarrow> Inl CodeNotFound
   | Inl (QueryFailed _) \<Rightarrow> Inl CodeInternal
   | Inr ep \<Rightarrow> Inr ep)"

definition IsDuplicateDelegateWallet :: "eth_db \<Rightarrow> string \<Rightarrow> info_error + bool" where
  "IsDuplicateDelegateWallet q wallet = (case GetCountOfEndpointsWithDelegateWallet q wallet of
     Inl _ \<Rightarrow> Inl CodeInternal | Inr n \<Rightarrow> Inr (n > 1))"

text \<open>The highest open slash proposal against an address, the first one of that amount.\<close>

fun highest_slash :: "eth_chain \<Rightarrow> string \<Rightarrow> string \<Rightarrow> (EthActiveProposal \<times> int) option \<Rightarrow>
  EthActiveProposal list \<Rightarrow> EthActiveProposal option" where
  "highest_slash ch manager address found [] = map_option fst found"
| "highest_slash ch manager address found (prop # props) =
     (if \<not> (take 6 (eap_FunctionSignature prop) = ''slash('') \<or> eap_TargetContractAddress prop \<noteq> manager
      then highest_slash ch manager address found props
      else (case slash_UnpackIntoMap ch (eap_CallData prop) of
          None \<Rightarrow> highest_slash ch manager address found props
        | Some (slashAddr, slashAmount) \<Rightarrow>
            if slashAddr \<noteq> address then highest_slash ch manager address found props
            else (case found of
                None \<Rightarrow> highest_slash ch manager address (Some (prop, slashAmount)) props
              | Some (_, amount) \<Rightarrow>
                  if amount < slashAmount then highest_slash ch manager address (Some (prop, slashAmount)) props
                  else highest_slash ch manager address found props)))"

definition getSlashProposalForAddress :: "eth_chain \<Rightarrow> eth_db \<Rightarrow> string \<Rightarrow> eth_error + EthActiveProposal option" where
  "getSlashProposalForAddress ch q address = (case GetActiveProposals q of
     Inl e \<Rightarrow> Inl (EthStore e)
   | Inr activeProposals \<Rightarrow>
       and_then (bound ch DelegateManager) (\<lambda>manager.
       Inr (highest_slash ch manager address None activeProposals)))"

end
