(* ===== verification/Registry_Bridge.thy ===== *)
theory Registry_Bridge
  imports Attestations Sla_Rollups Eth_Registry
begin

text \<open>
  How the validator set follows the Ethereum registry: the attestation endpoints of
  \<^verbatim>\<open>connect.go\<close>, and the collecting of attestations for the own registration and for the removal or
  jailing of others in \<^verbatim>\<open>registry_bridge.go\<close>. A request to a peer is a call of the function that stands
  for the peer; a range over the set of attestors visits it in the order of the address list. Timers,
  retries and the registration on Ethereum of development nodes are not modelled.
\<close>

section \<open>A node\<close>

record bridge_node =
  bn_crypto :: crypto
  bn_config :: core_config
  bn_validators :: validator_db
  bn_sla :: sla_db
  bn_eth :: eth_db
  bn_currentHeight :: int
  bn_purgeMin :: int
  bn_EthereumKey :: string
  bn_WalletAddress :: string
  bn_NodeEndpoint :: string
  bn_CometPubKey :: string
  bn_ProposerAddress :: string
  bn_genesis :: "string list"
  bn_catchingUp :: bool
  bn_HexToAddress_Hex :: "string \<Rightarrow> string"

definition IsNodeRegisteredOnEthereum :: "eth_db \<Rightarrow> string \<Rightarrow> string \<Rightarrow> int \<Rightarrow> info_error + bool" where
  "IsNodeRegisteredOnEthereum q endpoint delegateWallet ethBlock = (case GetRegisteredEndpointInfo q endpoint of
     Inl CodeNotFound \<Rightarrow> Inr False
   | Inl e \<Rightarrow> Inl e
   | Inr ep \<Rightarrow> Inr (ere_Blocknumber ep = ethBlock \<and> ere_DelegateWallet ep = delegateWallet))"

section \<open>Attesting\<close>

datatype attest_error =
    EmptyAttestation
  | InvalidRegistrationRequest val_error
  | DeadlineOutOfWindow
  | NotRegisteredOnEthereum
  | TemporarilyBlacklisted
  | UnknownCometAddress query_error
  | EthBlockUnreadable
  | StillRegistered
  | AttestationUnavailable
  | AttestationBytes val_error
  | AttestationSigning

definition sign_attestation :: "bridge_node \<Rightarrow> AttestationBody \<Rightarrow> attest_error + string" where
  "sign_attestation n body =
     (case validatorAttestationBytes (bn_crypto n) (bn_config n) body (bn_currentHeight n + 1) of
        Inl e \<Rightarrow> Inl (AttestationBytes e)
      | Inr bytes \<Rightarrow> of_option AttestationSigning (EthSign (bn_crypto n) (bn_EthereumKey n) bytes))"

definition GetRegistrationAttestation :: "bridge_node \<Rightarrow> ValidatorRegistration option \<Rightarrow> attest_error + string" where
  "GetRegistrationAttestation n req = (case req of
     None \<Rightarrow> Inl EmptyAttestation
   | Some reg \<Rightarrow>
     (case validateValidatorRegistration (bn_crypto n) reg of
        Some e \<Rightarrow> Inl (InvalidRegistrationRequest e)
      | None \<Rightarrow>
        if vr_Deadline reg < bn_currentHeight n \<or> vr_Deadline reg > bn_currentHeight n + maxRegistrationAttestationValidity
        then Inl DeadlineOutOfWindow
        else if IsNodeRegisteredOnEthereum (bn_eth n) (vr_Endpoint reg) (vr_DelegateWallet reg) (vr_EthBlock reg) \<noteq> Inr True
        then Inl NotRegisteredOnEthereum
        else if ShouldPurgeValidatorForUnderperformance (bn_sla n) (bn_validators n) (bn_purgeMin n) (vr_CometAddress reg) \<noteq> Inr False
        then Inl TemporarilyBlacklisted
        else sign_attestation n (AttRegistration reg)))"

text \<open>\<^verbatim>\<open>big.Int.SetString(s, 10)\<close>.\<close>

definition big_SetString :: "string \<Rightarrow> int option" where
  "big_SetString s =
     (let neg = (s \<noteq> [] \<and> hd s = CHR ''-'');
          ds = (if s \<noteq> [] \<and> (hd s = CHR ''-'' \<or> hd s = CHR ''+'') then tl s else s)
      in if ds = [] \<or> \<not> list_all is_digit ds then None
         else Some (if neg then - decimal ds else decimal ds))"

definition GetDeregistrationAttestation :: "bridge_node \<Rightarrow> ValidatorDeregistration option \<Rightarrow> attest_error + string" where
  "GetDeregistrationAttestation n req = (case req of
     None \<Rightarrow> Inl EmptyAttestation
   | Some dereg \<Rightarrow>
     (case GetRegisteredNodeByCometAddress (bn_validators n) (vd_CometAddress dereg) of
        Inl e \<Rightarrow> Inl (UnknownCometAddress e)
      | Inr node \<Rightarrow>
        (case big_SetString (cv_eth_block node) of
           None \<Rightarrow> Inl EthBlockUnreadable
         | Some ethBlock \<Rightarrow>
           (case IsNodeRegisteredOnEthereum (bn_eth n) (cv_endpoint node) (cv_eth_address node) (int64 ethBlock) of
              Inl _ \<Rightarrow> Inl AttestationUnavailable
            | Inr registered \<Rightarrow>
              (case ShouldPurgeValidatorForUnderperformance (bn_sla n) (bn_validators n) (bn_purgeMin n) (vd_CometAddress dereg) of
                 Inl _ \<Rightarrow> Inl AttestationUnavailable
               | Inr shouldPurge \<Rightarrow>
                 if registered \<and> \<not> shouldPurge then Inl StillRegistered
                 else sign_attestation n (AttDeregistration dereg))))))"

section \<open>Collecting attestations\<close>

type_synonym ('r) attestor = "'r option \<Rightarrow> attest_error + string"

definition collect :: "(string \<Rightarrow> 'r attestor option) \<Rightarrow> 'r \<Rightarrow> string list \<Rightarrow> string list" where
  "collect peer req addrs = List.map_filter (\<lambda>addr. case peer addr of
     None \<Rightarrow> None
   | Some f \<Rightarrow> (case f (Some req) of Inl _ \<Rightarrow> None | Inr sig \<Rightarrow> Some sig)) addrs"

definition attestors :: "bridge_node \<Rightarrow> string list \<Rightarrow> string \<Rightarrow> int \<Rightarrow> string list" where
  "attestors n addrs key rsize =
     filter (\<lambda>a. a \<in> GetAttestorRendezvous (Sha256 (bn_crypto n)) addrs key rsize) (remdups addrs)"

definition attestation_tx :: "bridge_node \<Rightarrow> string \<Rightarrow> string list \<Rightarrow> AttestationBody \<Rightarrow> val_error + Attestation signed" where
  "attestation_tx n uuid attestations body =
     (let att = \<lparr>att_Signatures = attestations, att_Body = Some body\<rparr> in
      case marshal_attestation (bn_crypto n) att of
        None \<Rightarrow> Inl MarshalFailed
      | Some txBytes \<Rightarrow> (case EthSign (bn_crypto n) (bn_EthereumKey n) txBytes of
          None \<Rightarrow> Inl NoSignature
        | Some sig \<Rightarrow> Inr \<lparr>stx_Signature = sig, stx_RequestId = uuid, stx_Body = att\<rparr>))"

section \<open>The own registration\<close>

datatype register_error =
    DuplicateCheckFailed
  | StillSyncing
  | NoPeersToAttest
  | RegisterStore pg_error
  | RegisterTx val_error
  | RegisterEth info_error
  | RegisterLookup pg_error

definition own_registration :: "bridge_node \<Rightarrow> int \<Rightarrow> string \<Rightarrow> ValidatorRegistration" where
  "own_registration n ethBlock spID = \<lparr>vr_DelegateWallet = bn_HexToAddress_Hex n (bn_WalletAddress n),
     vr_Endpoint = bn_NodeEndpoint n, vr_NodeType = HexToUtf8 Validator, vr_SpId = spID, vr_EthBlock = ethBlock,
     vr_CometAddress = bn_ProposerAddress n, vr_PubKey = bn_CometPubKey n,
     vr_Power = ValidatorVotingPower (bn_config n), vr_Deadline = bn_currentHeight n + 120\<rparr>"

text \<open>The transaction to submit, nothing for a duplicate wallet, or an error.\<close>

definition registerSelfOnComet ::
  "bridge_node \<Rightarrow> (string, ValidatorRegistration attestor) table \<Rightarrow> string \<Rightarrow> int \<Rightarrow> string \<Rightarrow>
   register_error + Attestation signed option" where
  "registerSelfOnComet n peers uuid ethBlock spID =
     (case IsDuplicateDelegateWallet (bn_eth n) (bn_WalletAddress n) of
        Inl _ \<Rightarrow> Inl DuplicateCheckFailed
      | Inr True \<Rightarrow> Inr None
      | Inr False \<Rightarrow>
        if bn_catchingUp n then Inl StillSyncing
        else if bn_ProposerAddress n \<notin> set (bn_genesis n) \<and> peers = [] then Inl NoPeersToAttest
        else (case GetAllEthAddressesOfRegisteredNodes (bn_validators n) of
            Inl e \<Rightarrow> Inl (RegisterStore e)
          | Inr addrs \<Rightarrow>
            (let reg = own_registration n ethBlock spID;
                 attestations = collect (map_of peers) reg
                   (attestors n addrs (be_uint64 ethBlock) (AttRegistrationRSize (bn_config n)))
             in case attestation_tx n uuid attestations (AttRegistration reg) of
                  Inl e \<Rightarrow> Inl (RegisterTx e)
                | Inr tx \<Rightarrow> Inr (Some tx))))"

definition isSelfAlreadyRegistered :: "bridge_node \<Rightarrow> bool" where
  "isSelfAlreadyRegistered n = (case GetNodeByEndpoint (bn_validators n) (bn_NodeEndpoint n) of
     Inl _ \<Rightarrow> False
   | Inr r \<Rightarrow> \<not> cv_jailed r \<and> cv_eth_address r = bn_WalletAddress n)"

definition RegisterSelf ::
  "bridge_node \<Rightarrow> (string, ValidatorRegistration attestor) table \<Rightarrow> string \<Rightarrow> register_error + Attestation signed option" where
  "RegisterSelf n peers uuid =
     (if isSelfAlreadyRegistered n then Inr None
      else (case GetRegisteredEndpointInfo (bn_eth n) (bn_NodeEndpoint n) of
          Inl CodeNotFound \<Rightarrow> Inr None
        | Inl e \<Rightarrow> Inl (RegisterEth e)
        | Inr ep \<Rightarrow>
          (let register = registerSelfOnComet n peers uuid (ere_Blocknumber ep) (FormatInt (ere_ID ep)) in
           case GetNodeByEndpoint (bn_validators n) (bn_NodeEndpoint n) of
             Inl ErrNoRows \<Rightarrow> register
           | Inl (QueryFailed e) \<Rightarrow> Inl (RegisterLookup e)
           | Inr nodeRecord \<Rightarrow> if cv_jailed nodeRecord then register else Inr None)))"

text \<open>Hours; the wait between two runs of the watchdog.\<close>

definition nextWatchdogInterval :: "int \<Rightarrow> int" where
  "nextWatchdogInterval prev = (let next = prev + 1 in if next > 24 then 24 else next)"

section \<open>Removing and jailing others\<close>

text \<open>
  \<^verbatim>\<open>removeValidator\<close> and \<^verbatim>\<open>jailValidator\<close> differ in the flag only. The node asks itself where it is
  one of the attestors.
\<close>

definition deregister_tx ::
  "bridge_node \<Rightarrow> (string, ValidatorDeregistration attestor) table \<Rightarrow> string \<Rightarrow> bool \<Rightarrow> string \<Rightarrow> Attestation signed option" where
  "deregister_tx n peers uuid remove ethAddress =
     (case GetRegisteredNodeByEthAddress (bn_validators n) ethAddress of
        Inl _ \<Rightarrow> None
      | Inr node \<Rightarrow>
        (case GetAllEthAddressesOfRegisteredNodes (bn_validators n) of
           Inl _ \<Rightarrow> None
         | Inr addrs \<Rightarrow>
           (case base64_decode (cv_comet_pub_key node) of
              None \<Rightarrow> None
            | Some pubKey \<Rightarrow>
              (let filteredAddrs = swap_remove ethAddress addrs;
                   dereg = \<lparr>vd_CometAddress = cv_comet_address node, vd_PubKey = pubKey,
                     vd_Deadline = bn_currentHeight n + 120, vd_Remove = remove\<rparr>;
                   peer = (\<lambda>a. if a = bn_WalletAddress n then Some (GetDeregistrationAttestation n) else map_of peers a);
                   attestations = collect peer dereg
                     (attestors n filteredAddrs pubKey (AttDeregistrationRSize (bn_config n)))
               in case attestation_tx n uuid attestations (AttDeregistration dereg) of
                    Inl _ \<Rightarrow> None | Inr tx \<Rightarrow> Some tx))))"

definition removeValidator ::
  "bridge_node \<Rightarrow> (string, ValidatorDeregistration attestor) table \<Rightarrow> string \<Rightarrow> string \<Rightarrow> Attestation signed option" where
  "removeValidator n peers uuid = deregister_tx n peers uuid True"

definition jailValidator ::
  "bridge_node \<Rightarrow> (string, ValidatorDeregistration attestor) table \<Rightarrow> string \<Rightarrow> string \<Rightarrow> Attestation signed option" where
  "jailValidator n peers uuid = deregister_tx n peers uuid False"

text \<open>
  One round of the warden: the wallets it tries to remove and to jail, at most one of each. The
  active validators are read again after the removal, from the node as it then is.
\<close>

definition warden_removal :: "bridge_node \<Rightarrow> string option" where
  "warden_removal n =
     (case (GetAllRegisteredNodesIncludingJailed (bn_validators n), GetRegisteredEndpoints (bn_eth n)) of
        (Inr allValidators, Inr eps) \<Rightarrow>
          map_option cv_eth_address (find (\<lambda>v. cv_eth_address v \<notin> ere_DelegateWallet ` set eps) allValidators)
      | _ \<Rightarrow> None)"

definition warden_jailing :: "bridge_node \<Rightarrow> string option" where
  "warden_jailing n =
     (case GetAllRegisteredNodes (bn_validators n) of
        Inl _ \<Rightarrow> None
      | Inr active \<Rightarrow> map_option cv_eth_address (find (\<lambda>v.
          ShouldPurgeValidatorForUnderperformance (bn_sla n) (bn_validators n) (bn_purgeMin n) (cv_comet_address v) = Inr True) active))"

end
