(* ===== verification/Eth_Laws.thy ===== *)
theory Eth_Laws
  imports Eth_Registry
begin

text \<open>
  The tables of the registry mirror: reading the registry is all or nothing and gives exactly the
  registered nodes, and the event handlers keep the table equal to the registry.
\<close>

section \<open>Sequences of steps\<close>

lemma eth_exec_Inr: "eth_exec q stmt d q' = Inr q'' \<longleftrightarrow> eth_fault q stmt = None \<and> \<not> d \<and> q'' = q'"
  by (auto simp: eth_exec_def split: option.split)

lemmas step_simps = and_then_Inr of_option_Inr eth_exec_Inr

lemma map_of_rev_distinct: "distinct (map fst xs) \<Longrightarrow> map_of (rev xs) = map_of xs"
  by (rule map_of_inject_set [THEN iffD2]) (simp_all add: rev_map [symmetric])

section \<open>Reading the whole registry\<close>

text \<open>The row of a registered node.\<close>

definition row_of :: "eth_chain \<Rightarrow> Node \<Rightarrow> EthRegisteredEndpoint" where
  "row_of ch node = endpoint_row node (the (ServiceTypeToString (node_Type node)))
     (int64 (the (HeaderByNumber_Time ch (node_BlockNumber node))))"

lemma insert_endpoint_sels:
  assumes "InsertRegisteredEndpoint r q = Inr q'"
  shows "eth_registered_endpoints q' = eth_registered_endpoints q @ [r]"
    "eth_service_providers q' = eth_service_providers q"
  using assms by (auto simp: InsertRegisteredEndpoint_def step_simps)

lemma hydrate_nodes:
  assumes "for_each (hydrate_node ch) nodes (q, []) = Inr (q', sps)"
  shows "eth_registered_endpoints q' = eth_registered_endpoints q @ map (row_of ch) nodes \<and>
    eth_service_providers q' = eth_service_providers q \<and> distinct (map fst sps) \<and>
    (\<forall>a. map_of sps a = (if a \<in> node_Owner ` set nodes then map_option provider_row (GetServiceProviderDetails ch a) else None)) \<and>
    (\<forall>n\<in>set nodes. GetServiceProviderDetails ch (node_Owner n) \<noteq> None)"
proof -
  let ?P = "\<lambda>dn (q', sps). eth_registered_endpoints q' = eth_registered_endpoints q @ map (row_of ch) dn \<and>
    eth_service_providers q' = eth_service_providers q \<and> distinct (map fst sps) \<and>
    (\<forall>a. map_of sps a = (if a \<in> node_Owner ` set dn then map_option provider_row (GetServiceProviderDetails ch a) else None)) \<and>
    (\<forall>n\<in>set dn. GetServiceProviderDetails ch (node_Owner n) \<noteq> None)"
  have "?P nodes (q', sps)"
  proof (rule for_each_induct [OF assms, where P = ?P])
    fix node dn t t' assume IH: "?P dn t" and step: "hydrate_node ch node t = Inr t'"
    obtain q1 sps1 q2 sps2 where t: "t = (q1, sps1)" "t' = (q2, sps2)" by (cases t, cases t') auto
    from step [unfolded t] obtain st bt where
      st: "ServiceTypeToString (node_Type node) = Some st" "HeaderByNumber_Time ch (node_BlockNumber node) = Some bt"
      and ins: "InsertRegisteredEndpoint (endpoint_row node st (int64 bt)) q1 = Inr q2"
      and sps: "(map_of sps1 (node_Owner node) \<noteq> None \<and> sps2 = sps1) \<or>
        (map_of sps1 (node_Owner node) = None \<and> (\<exists>d. GetServiceProviderDetails ch (node_Owner node) = Some d \<and>
          sps2 = sps1 @ [(node_Owner node, provider_row d)]))"
      by (auto simp: hydrate_node_def step_simps split: if_splits)
    have row: "row_of ch node = endpoint_row node st (int64 bt)" using st by (simp add: row_of_def)
    from sps show "?P (dn @ [node]) t'"
    proof (elim disjE conjE exE)
      assume "map_of sps1 (node_Owner node) \<noteq> None" "sps2 = sps1"
      then have "node_Owner node \<in> node_Owner ` set dn" using IH unfolding t by (auto split: if_splits)
      then show ?thesis using IH insert_endpoint_sels [OF ins] row \<open>sps2 = sps1\<close> unfolding t by (auto simp: image_iff)
    next
      fix d assume d: "map_of sps1 (node_Owner node) = None" "GetServiceProviderDetails ch (node_Owner node) = Some d"
        "sps2 = sps1 @ [(node_Owner node, provider_row d)]"
      have "map_of sps2 a = (if a = node_Owner node then Some (provider_row d) else map_of sps1 a)" for a
        using d(1) unfolding d(3) by (auto simp: map_add_def split: option.split)
      moreover have "node_Owner node \<notin> fst ` set sps1" using d(1) by (metis map_of_eq_None_iff)
      then have "distinct (map fst sps2)" using IH unfolding t d(3) by simp
      ultimately show ?thesis using IH insert_endpoint_sels [OF ins] row d(2) unfolding t by auto
    qed
  qed auto
  then show ?thesis by simp
qed

lemma hydrate_providers:
  assumes "for_each (hydrate_provider ch) sps q = Inr q'"
  shows "eth_registered_endpoints q' = eth_registered_endpoints q \<and>
    map_of (eth_service_providers q') = map_of (eth_service_providers q) ++ map_of (rev sps)"
proof (rule for_each_induct [OF assms, where P = "\<lambda>dn t. eth_registered_endpoints t = eth_registered_endpoints q \<and>
    map_of (eth_service_providers t) = map_of (eth_service_providers q) ++ map_of (rev dn)"])
  fix x dn t t'
  assume IH: "eth_registered_endpoints t = eth_registered_endpoints q \<and>
    map_of (eth_service_providers t) = map_of (eth_service_providers q) ++ map_of (rev dn)"
    and "hydrate_provider ch x t = Inr t'"
  then show "eth_registered_endpoints t' = eth_registered_endpoints q \<and>
    map_of (eth_service_providers t') = map_of (eth_service_providers q) ++ map_of (rev (dn @ [x]))"
    by (cases x) (auto simp: hydrate_provider_def InsertServiceProvider_def UpsertStaked_def step_simps update_conv')
qed simp

lemma hydrate_oracles_sels:
  assumes "hydrate_oracles ch q = Inr q'"
  shows "eth_registered_endpoints q' = eth_registered_endpoints q \<and> eth_service_providers q' = eth_service_providers q \<and>
    Some (eth_anti_abuse_oracles q') = AntiAbuseOracleAddresses ch"
proof -
  from assms obtain addrs q1 where a: "AntiAbuseOracleAddresses ch = Some addrs"
    "ClearAntiAbuseOracles q = Inr q1" "for_each InsertAntiAbuseOracle addrs q1 = Inr q'"
    by (auto simp: hydrate_oracles_def step_simps)
  from a(2) have q1: "q1 = q\<lparr>eth_anti_abuse_oracles := []\<rparr>" by (auto simp: ClearAntiAbuseOracles_def step_simps)
  from for_each_induct [OF a(3), where P = "\<lambda>dn t. t = q\<lparr>eth_anti_abuse_oracles := dn\<rparr>"] q1
  have "q' = q\<lparr>eth_anti_abuse_oracles := addrs\<rparr>" by (auto simp: InsertAntiAbuseOracle_def step_simps)
  with a(1) show ?thesis by simp
qed

text \<open>
  C18: reading the registry either succeeds, and then the tables hold exactly one
  row per registered node, in order, the details of exactly the owners of registered nodes and the
  current oracles, or fails and leaves every table as it was.
\<close>

theorem hydrate_mirrors_registry:
  assumes "hydrateEthData ch s = (r, s')"
  shows "case r of
      Some e \<Rightarrow> eth_tables s' = eth_tables s
    | None \<Rightarrow> (\<exists>nodes. contracts_GetAllRegisteredNodes ch = Inr nodes \<and>
        eth_registered_endpoints (eth_tables s') = map (row_of ch) nodes \<and>
        (\<forall>owner. map_of (eth_service_providers (eth_tables s')) owner =
          (if owner \<in> node_Owner ` set nodes then map_option provider_row (GetServiceProviderDetails ch owner) else None)) \<and>
        Some (eth_anti_abuse_oracles (eth_tables s')) = AntiAbuseOracleAddresses ch)"
proof (cases r)
  case (Some e)
  with assms show ?thesis
    by (auto simp: hydrateEthData_def Let_def split: sum.splits option.splits)
next
  case None
  with assms obtain nodes q1 q2 where nodes: "contracts_GetAllRegisteredNodes ch = Inr nodes"
    and tables: "hydrate_tables ch nodes (eth_tables s) = Inr q1" and orc: "hydrate_oracles ch q1 = Inr q2"
    and s': "eth_tables s' = q2"
    by (auto simp: hydrateEthData_def Let_def and_then_def split: sum.splits option.splits)
  let ?q3 = "(eth_tables s)\<lparr>eth_registered_endpoints := [], eth_service_providers := []\<rparr>"
  from tables obtain q4 sps where n: "for_each (hydrate_node ch) nodes (?q3, []) = Inr (q4, sps)"
    and p: "for_each (hydrate_provider ch) sps q4 = Inr q1"
    by (auto simp: hydrate_tables_def step_simps ClearRegisteredEndpoints_def ClearServiceProviders_def)
  note hn = hydrate_nodes [OF n]
  have "map_of (rev sps) = map_of sps" using hn by (intro map_of_rev_distinct) blast
  with hn hydrate_providers [OF p] hydrate_oracles_sels [OF orc] s' nodes None
  show ?thesis by simp
qed

section \<open>Contract events\<close>

text \<open>What a contract event says about the registered nodes.\<close>

inductive registry_step :: "Node set \<Rightarrow> eth_event \<Rightarrow> Node set \<Rightarrow> bool" where
  registered: "\<forall>m\<in>N. (node_Id m, node_Type m) \<noteq> (node_Id n, node_Type n) \<Longrightarrow>
    registry_step N (RegisteredServiceProvider (node_Id n) (node_Type n) (node_Endpoint n) (node_Owner n)) (insert n N)"
| deregistered: "n \<in> N \<Longrightarrow>
    registry_step N (DeregisteredServiceProvider (node_Id n) (node_Type n) (node_Endpoint n) (node_Owner n)) (N - {n})"
| updated: "n \<in> N \<Longrightarrow> n' = n\<lparr>node_Endpoint := endpoint, node_BlockNumber := block\<rparr> \<Longrightarrow>
    registry_step N (EndpointUpdated (node_Id n) (node_Type n) (node_Endpoint n) endpoint (node_Owner n)) (insert n' (N - {n}))"

text \<open>The contracts answer for exactly these nodes, and the ids fit a column of 32 bits.\<close>

definition answers :: "eth_chain \<Rightarrow> Node set \<Rightarrow> bool" where
  "answers ch N \<longleftrightarrow> (\<forall>n\<in>N. GetRegisteredNode ch (node_Id n) (node_Type n) = Inr n \<and>
     ServiceTypeToString (node_Type n) \<noteq> None \<and> HeaderByNumber_Time ch (node_BlockNumber n) \<noteq> None \<and>
     0 < node_Id n \<and> node_Id n < 2 ^ 31)"

definition mirrors :: "eth_chain \<Rightarrow> Node set \<Rightarrow> eth_db \<Rightarrow> bool" where
  "mirrors ch N q \<longleftrightarrow> set (eth_registered_endpoints q) = row_of ch ` N"

lemma answersE:
  assumes "answers ch N" "n \<in> N"
  obtains st t where "GetRegisteredNode ch (node_Id n) (node_Type n) = Inr n" "ServiceTypeToString (node_Type n) = Some st"
    "HeaderByNumber_Time ch (node_BlockNumber n) = Some t" "0 < node_Id n" "node_Id n < 2 ^ 31"
  using assms unfolding answers_def by blast

lemma ServiceTypeToString_inj:
  "ServiceTypeToString a = Some st \<Longrightarrow> ServiceTypeToString b = Some st \<Longrightarrow> a = b"
  by (auto simp: ServiceTypeToString_def split: if_splits)

lemma row_key:
  assumes "answers ch N" "m \<in> N" "answers ch' M" "n \<in> M"
    "ere_ID (row_of ch m) = ere_ID (row_of ch' n)" "ere_ServiceType (row_of ch m) = ere_ServiceType (row_of ch' n)"
  shows "node_Id m = node_Id n \<and> node_Type m = node_Type n"
proof -
  have "int32 (int64 x) = x" if "0 < x" "x < 2 ^ 31" for x using that by (simp add: int32_def int64_def)
  moreover obtain st where m: "ServiceTypeToString (node_Type m) = Some st" "0 < node_Id m" "node_Id m < 2 ^ 31"
    using answersE [OF assms(1,2)] by metis
  moreover obtain st' where n: "ServiceTypeToString (node_Type n) = Some st'" "0 < node_Id n" "node_Id n < 2 ^ 31"
    using answersE [OF assms(3,4)] by metis
  ultimately have "node_Id m = node_Id n" using assms(5) by (simp add: row_of_def endpoint_row_def)
  with m n show ?thesis using assms(6) ServiceTypeToString_inj
    by (auto simp: row_of_def endpoint_row_def)
qed

lemma answers_inj: "answers ch N \<Longrightarrow> m \<in> N \<Longrightarrow> n \<in> N \<Longrightarrow>
    (node_Id m, node_Type m) = (node_Id n, node_Type n) \<Longrightarrow> m = n"
  unfolding answers_def by (metis Inr_inject prod.inject)

lemma add_endpoint_done:
  assumes "answers ch' (insert n N)" "answers ch N" "eth_fault q = (\<lambda>_. None)"
    "set (eth_registered_endpoints q) = row_of ch ` N"
    "\<forall>m\<in>N. (node_Id m, node_Type m) \<noteq> (node_Id n, node_Type n)"
  shows "addRegisteredEndpoint ch' (node_Id n) (node_Type n) (node_Endpoint n) (node_Owner n) q =
    Inr (q\<lparr>eth_registered_endpoints := eth_registered_endpoints q @ [row_of ch' n]\<rparr>)"
proof -
  from assms(1) obtain st t where n: "GetRegisteredNode ch' (node_Id n) (node_Type n) = Inr n"
    "ServiceTypeToString (node_Type n) = Some st" "HeaderByNumber_Time ch' (node_BlockNumber n) = Some t"
    using answersE [OF assms(1) insertI1] by metis
  have row: "row_of ch' n = endpoint_row n st (int64 t)" using n by (simp add: row_of_def)
  have new: "\<not> (\<exists>x\<in>set (eth_registered_endpoints q). ere_ID x = ere_ID (row_of ch' n) \<and> ere_ServiceType x = ere_ServiceType (row_of ch' n))"
    using row_key [OF assms(2) _ assms(1)] assms(4,5) by fastforce
  have "n\<lparr>node_Owner := node_Owner n, node_Endpoint := node_Endpoint n\<rparr> = n" by simp
  then show ?thesis using n new assms(3)
    by (simp add: addRegisteredEndpoint_def and_then_def of_option_def InsertRegisteredEndpoint_def eth_exec_def row)
qed

lemma removal_done:
  assumes "answers ch N" "n \<in> N" "eth_fault (eth_tables s) = (\<lambda>_. None)"
    "set (eth_registered_endpoints (eth_tables s)) = row_of ch ` N"
  shows "\<exists>s'. handle_removal (node_Id n) (node_Type n) (node_Endpoint n) (node_Owner n) s = (True, s') \<and>
    eth_fault (eth_tables s') = (\<lambda>_. None) \<and>
    set (eth_registered_endpoints (eth_tables s')) = row_of ch ` (N - {n})"
proof -
  let ?q = "eth_tables s"
  from assms(1,2) obtain st where st: "ServiceTypeToString (node_Type n) = Some st"
    using answersE by metis
  have row: "ere_ID (row_of ch n) = int32 (int64 (node_Id n))" "ere_Endpoint (row_of ch n) = node_Endpoint n"
    "ere_Owner (row_of ch n) = node_Owner n" "ere_ServiceType (row_of ch n) = st"
    using st by (simp_all add: row_of_def endpoint_row_def)
  have "row_of ch n \<in> set (eth_registered_endpoints ?q)" using assms(2,4) by simp
  then have "find (\<lambda>r. ere_Endpoint r = node_Endpoint n) (eth_registered_endpoints ?q) \<noteq> None"
    using row(2) by (auto simp: find_None_iff)
  then obtain ep where ep: "GetRegisteredEndpoint ?q (node_Endpoint n) = Inr ep"
    using assms(3) by (auto simp: GetRegisteredEndpoint_def split: option.splits)
  have only: "\<not> (ere_ID (row_of ch m) = int32 (int64 (node_Id n)) \<and> ere_Endpoint (row_of ch m) = node_Endpoint n \<and>
      ere_Owner (row_of ch m) = node_Owner n \<and> ere_ServiceType (row_of ch m) = st) \<longleftrightarrow> m \<noteq> n" if "m \<in> N" for m
    using row_key [OF assms(1) that assms(1,2)] answers_inj [OF assms(1) that assms(2)] row by auto
  have "set (filter (\<lambda>r. \<not> (ere_ID r = int32 (int64 (node_Id n)) \<and> ere_Endpoint r = node_Endpoint n \<and>
      ere_Owner r = node_Owner n \<and> ere_ServiceType r = st)) (eth_registered_endpoints ?q)) = row_of ch ` (N - {n})"
    unfolding set_filter assms(4) using only by auto
  then show ?thesis using ep st assms(3)
    by (simp add: handle_removal_def deleteAndDeregisterEndpoint_def and_then_def of_option_def
        DeleteRegisteredEndpoint_def eth_exec_def)
qed

text \<open>The block times of the nodes that stay do not change.\<close>

lemma with_tables_Inr: "with_tables s (Inr q) = (True, s\<lparr>eth_tables := q\<rparr>)"
  by (simp add: with_tables_def)

lemma provider_keeps_endpoints:
  "eth_registered_endpoints (eth_tables s) = eth_registered_endpoints q \<Longrightarrow>
    eth_registered_endpoints (eth_tables (snd (with_tables s (updateServiceProvider ch owner q)))) = eth_registered_endpoints q"
  by (auto simp: with_tables_def updateServiceProvider_def UpsertServiceProvider_def and_then_def eth_exec_def
      split: sum.split option.split)

text \<open>
  C19: when the handler of a contract event runs with working statements, a table that
  mirrored the registry before the event mirrors it after.
\<close>

theorem events_track_registry:
  assumes "registry_step N ev N'" "answers ch N" "answers ch' N'" "mirrors ch N (eth_tables s)"
    "eth_fault (eth_tables s) = (\<lambda>_. None)"
    "\<forall>n\<in>N. HeaderByNumber_Time ch' (node_BlockNumber n) = HeaderByNumber_Time ch (node_BlockNumber n)"
  shows "mirrors ch' N' (eth_tables (handle_event ch' ev s))"
proof -
  have same: "row_of ch' ` M = row_of ch ` M" if "M \<subseteq> N" for M
    using assms(6) that by (intro image_cong) (auto simp: row_of_def)
  note m = assms(4) [unfolded mirrors_def]
  from assms(1) show ?thesis
  proof cases
    case (registered n)
    note add = add_endpoint_done [OF assms(3) [unfolded registered(2)] assms(2,5) m registered(3)]
    show ?thesis unfolding mirrors_def registered handle_event_def
      by (simp add: add with_tables_Inr provider_keeps_endpoints m same)
  next
    case (deregistered n)
    obtain s' where s': "handle_removal (node_Id n) (node_Type n) (node_Endpoint n) (node_Owner n) s = (True, s')"
      "set (eth_registered_endpoints (eth_tables s')) = row_of ch ` (N - {n})"
      using removal_done [OF assms(2) deregistered(3) assms(5) m] by blast
    show ?thesis unfolding mirrors_def deregistered handle_event_def
      by (simp add: s' provider_keeps_endpoints same)
  next
    case (updated n n' block endpoint)
    obtain s' where s': "handle_removal (node_Id n) (node_Type n) (node_Endpoint n) (node_Owner n) s = (True, s')"
      "eth_fault (eth_tables s') = (\<lambda>_. None)"
      "set (eth_registered_endpoints (eth_tables s')) = row_of ch ` (N - {n})"
      using removal_done [OF assms(2) updated(3) assms(5) m] by blast
    have sub: "answers ch (N - {n})" using assms(2) by (auto simp: answers_def)
    have "\<forall>m\<in>N - {n}. (node_Id m, node_Type m) \<noteq> (node_Id n', node_Type n')"
      using answers_inj [OF assms(2) _ updated(3)] unfolding updated(4) by auto
    note add = add_endpoint_done [OF assms(3) [unfolded updated(2)] sub s'(2,3) this]
    have n': "node_Id n' = node_Id n" "node_Type n' = node_Type n" "node_Owner n' = node_Owner n" "node_Endpoint n' = endpoint"
      unfolding updated(4) by simp_all
    show ?thesis unfolding mirrors_def updated(1,2) handle_event_def
      using add n' s' by (simp add: with_tables_Inr provider_keeps_endpoints same)
  qed
qed

end
