(* ===== verification/Registry_Laws.thy ===== *)
theory Registry_Laws
  imports Registry_Bridge Validator_Laws Eth_Laws
begin

text \<open>
  The validator set and the Ethereum registry: what an attestation of a registration or
  deregistration vouches for, that a registered node's own registration passes validation, and that
  a validator enters the set only if enough validators saw it on Ethereum.
\<close>

section \<open>Attestations\<close>

lemma sign_attestation_Inr:
  assumes "sign_attestation n body = Inr sig" "recovery_inverts_signing (bn_crypto n)"
  shows "\<exists>payload pk. validatorAttestationBytes (bn_crypto n) (bn_config n) body (bn_currentHeight n + 1) = Inr payload \<and>
    EthRecover (bn_crypto n) sig payload = Some (pk, PrivKeyToAddress (bn_crypto n) (bn_EthereumKey n))"
  using assms eth_recovers by (fastforce simp: sign_attestation_def of_option_Inr split: sum.splits)

lemma registration_attestation_sound:
  assumes "GetRegistrationAttestation n (Some reg) = Inr sig"
  shows "IsNodeRegisteredOnEthereum (bn_eth n) (vr_Endpoint reg) (vr_DelegateWallet reg) (vr_EthBlock reg) = Inr True"
    "ShouldPurgeValidatorForUnderperformance (bn_sla n) (bn_validators n) (bn_purgeMin n) (vr_CometAddress reg) = Inr False"
    "bn_currentHeight n \<le> vr_Deadline reg" "vr_Deadline reg \<le> bn_currentHeight n + maxRegistrationAttestationValidity"
    "sign_attestation n (AttRegistration reg) = Inr sig"
  using assms by (auto simp: GetRegistrationAttestation_def split: option.splits if_splits)

text \<open>A validator whose node is still on Ethereum is only attested away for underperformance.\<close>

lemma deregistration_attestation_sound:
  assumes "GetDeregistrationAttestation n (Some dereg) = Inr sig"
  shows "\<exists>node b. GetRegisteredNodeByCometAddress (bn_validators n) (vd_CometAddress dereg) = Inr node \<and>
    big_SetString (cv_eth_block node) = Some b \<and>
    (IsNodeRegisteredOnEthereum (bn_eth n) (cv_endpoint node) (cv_eth_address node) (int64 b) = Inr False \<or>
     ShouldPurgeValidatorForUnderperformance (bn_sla n) (bn_validators n) (bn_purgeMin n) (vd_CometAddress dereg) = Inr True)"
  using assms by (auto simp: GetDeregistrationAttestation_def split: option.splits sum.splits if_splits)

text \<open>The flag that asks for removal instead of jailing plays no role in what is attested.\<close>

lemma removal_flag_unchecked:
  assumes "GetDeregistrationAttestation n (Some dereg) = Inr sig"
    "\<And>d. validatorAttestationBytes (bn_crypto n) (bn_config n) (AttDeregistration d) (bn_currentHeight n + 1) \<noteq> Inl MarshalFailed"
    "\<And>h. ecdsa_Sign (bn_crypto n) h (bn_EthereumKey n) \<noteq> None"
  shows "\<exists>sig'. GetDeregistrationAttestation n (Some (dereg\<lparr>vd_Remove := True\<rparr>)) = Inr sig'"
proof -
  obtain payload where "validatorAttestationBytes (bn_crypto n) (bn_config n) (AttDeregistration dereg) (bn_currentHeight n + 1) = Inr payload"
    using assms(1) by (auto simp: GetDeregistrationAttestation_def sign_attestation_def
        split: option.splits sum.splits if_splits)
  with assms(2) [of "dereg\<lparr>vd_Remove := True\<rparr>"] obtain payload' where
    "validatorAttestationBytes (bn_crypto n) (bn_config n) (AttDeregistration (dereg\<lparr>vd_Remove := True\<rparr>)) (bn_currentHeight n + 1) = Inr payload'"
    by (auto simp: validatorAttestationBytes_def split: if_splits option.splits)
  then have "\<exists>sig'. sign_attestation n (AttDeregistration (dereg\<lparr>vd_Remove := True\<rparr>)) = Inr sig'"
    using assms(3) by (auto simp: sign_attestation_def EthSign_def of_option_def split: option.split)
  with assms(1) show ?thesis
    by (auto simp: GetDeregistrationAttestation_def split: option.splits sum.splits if_splits)
qed

section \<open>Collecting\<close>

lemma collect_all:
  assumes "\<And>a. a \<in> set as \<Longrightarrow> \<exists>f sig. peer a = Some f \<and> f (Some req) = Inr sig \<and> Q a sig"
  shows "list_all2 Q as (collect peer req as)"
  using assms
proof (induction as)
  case (Cons a as)
  then obtain f sig where "peer a = Some f" "f (Some req) = Inr sig" "Q a sig" by (meson list.set_intros(1))
  with Cons show ?case by (simp add: collect_def map_filter_simps)
qed (simp add: collect_def map_filter_simps)

lemma recoverSigners_all:
  "list_all2 (\<lambda>a sig. \<exists>pk. EthRecover cr sig d = Some (pk, a)) as sigs \<Longrightarrow> recoverSigners cr sigs d = Inr as"
proof (induction as sigs rule: list_all2_induct)
  case (Cons a as sig sigs)
  then show ?case by (auto simp: recoverSigners_def split: if_splits)
qed (simp add: recoverSigners_def)

lemma attestors_set: "set (attestors n addrs key rsize) = GetAttestorRendezvous (Sha256 (bn_crypto n)) addrs key rsize"
  using GetAttestorRendezvous_subset by (fastforce simp: attestors_def)

lemma attestors_length:
  "0 \<le> rsize \<Longrightarrow> int (length (attestors n addrs key rsize)) \<le> rsize"
proof -
  assume "0 \<le> rsize"
  have "distinct (attestors n addrs key rsize)" by (simp add: attestors_def)
  then have "length (attestors n addrs key rsize) = card (GetAttestorRendezvous (Sha256 (bn_crypto n)) addrs key rsize)"
    using distinct_card attestors_set by metis
  with card_GetAttestorRendezvous [of "Sha256 (bn_crypto n)" addrs key rsize] \<open>0 \<le> rsize\<close> show ?thesis by linarith
qed

section \<open>Registering\<close>

text \<open>A peer in the right state to attest a registration that is to be valid at a height.\<close>

definition willing :: "bridge_node \<Rightarrow> ValidatorRegistration \<Rightarrow> int \<Rightarrow> string \<Rightarrow> bridge_node \<Rightarrow> bool" where
  "willing n reg height a m \<longleftrightarrow> bn_crypto m = bn_crypto n \<and> bn_config m = bn_config n \<and>
     PrivKeyToAddress (bn_crypto n) (bn_EthereumKey m) = a \<and> 
     (\<forall>payload. validatorAttestationBytes (bn_crypto n) (bn_config n) (AttRegistration reg) height = Inr payload \<longrightarrow>
        EthSign (bn_crypto n) (bn_EthereumKey m) payload \<noteq> None) \<and>
     IsNodeRegisteredOnEthereum (bn_eth m) (vr_Endpoint reg) (vr_DelegateWallet reg) (vr_EthBlock reg) = Inr True \<and>
     ShouldPurgeValidatorForUnderperformance (bn_sla m) (bn_validators m) (bn_purgeMin m) (vr_CometAddress reg) = Inr False \<and>
     bn_currentHeight m \<le> vr_Deadline reg \<and> vr_Deadline reg \<le> bn_currentHeight m + maxRegistrationAttestationValidity \<and>
     AttestationDomainEnforced (rules_at (bn_config n) (bn_currentHeight m + 1)) =
       AttestationDomainEnforced (rules_at (bn_config n) height)"

lemma payload_same_rules:
  "AttestationDomainEnforced (rules_at cfg h) = AttestationDomainEnforced (rules_at cfg h') \<Longrightarrow>
    validatorAttestationBytes cr cfg body h = validatorAttestationBytes cr cfg body h'"
  by (simp add: validatorAttestationBytes_def)

lemma willing_attests:
  assumes "willing n reg height a m" "validateValidatorRegistration (bn_crypto n) reg = None"
    "recovery_inverts_signing (bn_crypto n)"
    "validatorAttestationBytes (bn_crypto n) (bn_config n) (AttRegistration reg) height = Inr payload"
  shows "\<exists>sig pk. GetRegistrationAttestation m (Some reg) = Inr sig \<and> EthRecover (bn_crypto n) sig payload = Some (pk, a)"
proof -
  note w = assms(1) [unfolded willing_def]
  have "validatorAttestationBytes (bn_crypto n) (bn_config n) (AttRegistration reg) (bn_currentHeight m + 1) = Inr payload"
    using assms(4) payload_same_rules w by metis
  moreover obtain s where "EthSign (bn_crypto n) (bn_EthereumKey m) payload = Some s" using w assms(4) by blast
  ultimately have "sign_attestation m (AttRegistration reg) = Inr s"
    using w by (simp add: sign_attestation_def of_option_def)
  then obtain sig where sig: "sign_attestation m (AttRegistration reg) = Inr sig" by blast
  have "GetRegistrationAttestation m (Some reg) = sign_attestation m (AttRegistration reg)"
    using w assms(2) by (simp add: GetRegistrationAttestation_def)
  moreover have "\<exists>pk. EthRecover (bn_crypto n) sig payload = Some (pk, a)"
    using sign_attestation_Inr [OF sig] w assms(3) \<open>validatorAttestationBytes _ _ _ (bn_currentHeight m + 1) = _\<close> by auto
  ultimately show ?thesis using sig by simp
qed

text \<open>What the chain asks of a registration besides the attestations.\<close>

lemma registration_valid:
  assumes "validateValidatorRegistration cr vr = None" "stx_Signature tx \<noteq> []"
    "marshal_attestation cr (stx_Body tx) = Some bs" "EthRecover cr (stx_Signature tx) bs = Some (pk, vr_DelegateWallet vr)"
    "vr_Power vr = ValidatorVotingPower cfg" "length (vr_PubKey vr) = ed25519_PubKeySize"
    "ed25519_Address cr (vr_PubKey vr) = vr_CometAddress vr" "val_fault q = (\<lambda>_. None)"
    "\<And>r. r \<in> set (core_validators q) \<Longrightarrow> cv_comet_address r = vr_CometAddress vr \<Longrightarrow> cv_jailed r"
    "height \<le> vr_Deadline vr" "vr_Deadline vr \<le> height + maxRegistrationAttestationValidity"
    "attestationHasEnoughSigners cr q signers (be_uint64 (vr_EthBlock vr)) (AttRegistrationRSize cfg) (AttRegistrationMin cfg) [] = Inr True"
  shows "isValidRegisterNodeAttestation cr cfg q tx vr signers height = None"
proof -
  have "vr_PubKey vr \<noteq> []" using assms(6) by (auto simp: ed25519_PubKeySize_def)
  moreover have "(case GetRegisteredNodeByCometAddress q (vr_CometAddress vr) of
      Inr existing \<Rightarrow> if \<not> cv_jailed existing then Some CometAddressTaken else None
    | Inl ErrNoRows \<Rightarrow> None | Inl (QueryFailed e) \<Rightarrow> Some (ValidatorStoreFailure e)) = None"
    using assms(8,9) by (auto simp: GetRegisteredNodeByCometAddress_def val_first_def find_Some_iff split: option.split)
  ultimately show ?thesis using assms by (simp add: isValidRegisterNodeAttestation_def del: not_None_eq)
qed

lemma collected_quorum:
  assumes "val_fault q = (\<lambda>_. None)" "distinct (active_addresses q)" "[] \<notin> set (active_addresses q)"
    "0 \<le> needed" "needed \<le> rsize" "Sha256 cr = Sha256 (bn_crypto n)"
  shows "attestationHasEnoughSigners cr q (attestors n (active_addresses q) key rsize) key rsize needed [] = Inr True"
proof -
  have "remove1 [] (active_addresses q) = active_addresses q" using assms(3) by (simp add: remove1_idem)
  then have "attestationHasEnoughSigners cr q (attestors n (active_addresses q) key rsize) key rsize needed [] =
      Inr (min (int (length (active_addresses q))) needed \<le> int (card (GetAttestorRendezvous (Sha256 cr) (active_addresses q) key rsize)))"
    using quorum_exact [of q cr "attestors n (active_addresses q) key rsize" key rsize needed "[]"] assms(1,6)
    by (simp add: attestors_set)
  then show ?thesis using card_GetAttestorRendezvous_distinct [OF assms(2), of "Sha256 cr" key rsize] assms(4,5) by simp
qed

text \<open>
  C17: the registration transaction a node builds for itself is valid for every
  block up to its deadline, on the validator table it was built from, when
    \<^item> every active validator is reachable, runs the same configuration, can sign with the key of its
      address, sees the node on Ethereum with this endpoint, wallet and block, would not purge it for
      underperformance, and replies at a height within the window of the deadline and under the
      same rule for the signed bytes as the block (\<^const>\<open>willing\<close>);
    \<^item> the registration is well formed, the node's key and addresses belong together, and recovery
      inverts signing;
    \<^item> no active validator has its comet address, the active addresses are distinct and not empty,
      and no statement on the table fails;
    \<^item> the quorum is at least zero and at most the number of attestors asked, and the deadline is at
      most the longest validity ahead of the block.
\<close>

theorem self_registration_accepted:
  fixes n :: bridge_node
  defines "cr \<equiv> bn_crypto n" and "cfg \<equiv> bn_config n" and "q \<equiv> bn_validators n"
  assumes "registerSelfOnComet n peers uuid ethBlock spID = Inr (Some tx)"
    "reg = own_registration n ethBlock spID" "validateValidatorRegistration cr reg = None"
    "recovery_inverts_signing cr" "\<And>h k s. ecdsa_Sign cr h k = Some s \<Longrightarrow> s \<noteq> []"
    "PrivKeyToAddress cr (bn_EthereumKey n) = vr_DelegateWallet reg"
    "ed25519_Address cr (bn_CometPubKey n) = bn_ProposerAddress n" "length (bn_CometPubKey n) = ed25519_PubKeySize"
    "val_fault q = (\<lambda>_. None)" "distinct (active_addresses q)" "[] \<notin> set (active_addresses q)"
    "\<And>r. r \<in> set (core_validators q) \<Longrightarrow> cv_comet_address r = bn_ProposerAddress n \<Longrightarrow> cv_jailed r"
    "0 \<le> AttRegistrationMin cfg" "AttRegistrationMin cfg \<le> AttRegistrationRSize cfg"
    "\<And>a. a \<in> set (active_addresses q) \<Longrightarrow> \<exists>m. map_of peers a = Some (GetRegistrationAttestation m) \<and> willing n reg height a m"
    "height \<le> vr_Deadline reg" "vr_Deadline reg \<le> height + maxRegistrationAttestationValidity"
    "validatorAttestationBytes cr cfg (AttRegistration reg) height = Inr payload"
  shows "isValidAttestation cr cfg q tx height = None"
proof -
  let ?as = "attestors n (active_addresses q) (be_uint64 ethBlock) (AttRegistrationRSize cfg)"
  let ?sigs = "collect (map_of peers) reg ?as"
  let ?att = "\<lparr>att_Signatures = ?sigs, att_Body = Some (AttRegistration reg)\<rparr>"
  have "GetAllEthAddressesOfRegisteredNodes q = Inr (active_addresses q)"
    using assms(12) by (simp add: GetAllEthAddressesOfRegisteredNodes_def active_addresses_def)
  with assms(4,5) obtain bs sig where tx: "tx = \<lparr>stx_Signature = sig, stx_RequestId = uuid, stx_Body = ?att\<rparr>"
    and bs: "marshal_attestation cr ?att = Some bs" "EthSign cr (bn_EthereumKey n) bs = Some sig"
    unfolding cr_def cfg_def q_def
    by (auto simp: registerSelfOnComet_def attestation_tx_def Let_def split: sum.splits bool.splits if_splits option.splits)
  have "list_all2 (\<lambda>a sg. \<exists>pk. EthRecover cr sg payload = Some (pk, a)) ?as ?sigs"
  proof (rule collect_all)
    fix a assume "a \<in> set ?as"
    then have "a \<in> set (active_addresses q)" by (simp add: attestors_def)
    with assms(18) obtain m where "map_of peers a = Some (GetRegistrationAttestation m)" "willing n reg height a m" by blast
    with willing_attests [OF _ assms(6,7,21) [unfolded cr_def cfg_def]]
    show "\<exists>f sg. map_of peers a = Some f \<and> f (Some reg) = Inr sg \<and> (\<exists>pk. EthRecover cr sg payload = Some (pk, a))"
      unfolding cr_def by blast
  qed
  note signers = recoverSigners_all [OF this] and len = list_all2_lengthD [OF this]
  have "int (length ?sigs) \<le> AttRegistrationRSize cfg"
    using attestors_length [of "AttRegistrationRSize cfg" n] assms(16,17) len by (metis order_trans)
  then have bounded: "boundAttestationSignatures cfg ?att = None" by (simp add: boundAttestationSignatures_def)
  have "sig \<noteq> []" using bs(2) assms(8) by (auto simp: EthSign_def hex_encode_def)
  moreover have "EthRecover cr sig bs = Some (ecdsa_Public cr (bn_EthereumKey n), vr_DelegateWallet reg)"
    using eth_recovers [OF assms(7) bs(2)] assms(9) by simp
  moreover have "attestationHasEnoughSigners cr q ?as (be_uint64 (vr_EthBlock reg)) (AttRegistrationRSize cfg) (AttRegistrationMin cfg) [] = Inr True"
    using collected_quorum [OF assms(12,13,14,16,17), of cr n] by (simp add: assms(5) own_registration_def cr_def)
  ultimately have "isValidRegisterNodeAttestation cr cfg q tx reg ?as height = None"
    using assms(6,10-12,15,19,20) bs(1) unfolding tx
    by (intro registration_valid) (simp_all add: assms(5) own_registration_def cfg_def)
  then show ?thesis using assms(21) signers bounded by (simp add: isValidAttestation_def tx Let_def)
qed

section \<open>Only nodes on Ethereum become validators\<close>

definition attest :: "bridge_node \<Rightarrow> AttestationBody \<Rightarrow> attest_error + string" where
  "attest m body = (case body of
     AttRegistration reg \<Rightarrow> GetRegistrationAttestation m (Some reg)
   | AttDeregistration dereg \<Rightarrow> GetDeregistrationAttestation m (Some dereg))"

text \<open>
  The log of the replies some validators gave: the node when it replied, the request and the
  signature.
\<close>

type_synonym reply = "bridge_node \<times> AttestationBody \<times> string"

definition is_reply_log :: "crypto \<Rightarrow> reply list \<Rightarrow> bool" where
  "is_reply_log cr replies \<longleftrightarrow> list_all (\<lambda>(m, body, sig). bn_crypto m = cr \<and> attest m body = Inr sig \<and>
     int (length (cfg_ChainID (bn_config m))) < 2 ^ 64) replies"

text \<open>A reply in the log that was signed with the key of an address and signed these bytes.\<close>

definition reply_signed :: "crypto \<Rightarrow> reply list \<Rightarrow> string \<Rightarrow> string \<Rightarrow> bool" where
  "reply_signed cr replies a payload \<longleftrightarrow> list_ex (\<lambda>(m, body, sig). PrivKeyToAddress cr (bn_EthereumKey m) = a \<and>
     validatorAttestationBytes cr (bn_config m) body (bn_currentHeight m + 1) = Inr payload) replies"

text \<open>
  Signatures that are not forged, for one attestation: where it carries a signature over its payload
  that recovers to one of the addresses, the owner of the address signed this payload in a reply.
\<close>

definition unforged :: "crypto \<Rightarrow> reply list \<Rightarrow> string set \<Rightarrow> Attestation \<Rightarrow> string \<Rightarrow> bool" where
  "unforged cr replies honest att payload \<longleftrightarrow> (\<forall>a\<in>attested_by cr att payload \<inter> honest. reply_signed cr replies a payload)"

text \<open>No protobuf encoding starts with a zero byte: field numbers start at one.\<close>

definition starts_with_tag :: "crypto \<Rightarrow> bool" where
  "starts_with_tag cr \<longleftrightarrow> (\<forall>b rest. marshal_body cr b \<noteq> Some (nul # rest))"

text \<open>Deterministic protobuf encoding determines a message of a given type.\<close>

definition encodes_bodies :: "crypto \<Rightarrow> bool" where
  "encodes_bodies cr \<longleftrightarrow> (\<forall>b b'. body_FullName b = body_FullName b' \<longrightarrow>
     marshal_body_det cr b = marshal_body_det cr b' \<longrightarrow> marshal_body_det cr b \<noteq> None \<longrightarrow> b = b')"

lemma signed_payload:
  assumes "encodes_bodies cr" "starts_with_tag cr" "int (length chainID) < 2 ^ 64" "int (length (cfg_ChainID cfg)) < 2 ^ 64"
    "domainSeparatedAttestationBytes cr chainID body = Some payload"
    "validatorAttestationBytes cr cfg body' h = Inr payload"
  shows "cfg_ChainID cfg = chainID \<and> body' = body"
proof -
  have "\<exists>rest. payload = nul # rest"
    using assms(5) by (auto simp: domainSeparatedAttestationBytes_def attestation_domain_def split: option.splits)
  with assms(2,6) have d: "domainSeparatedAttestationBytes cr (cfg_ChainID cfg) body' = Some payload"
    by (auto simp: validatorAttestationBytes_def starts_with_tag_def split: if_splits option.splits)
  from domain_separation [OF this assms(5)] assms(3,4)
  have same: "cfg_ChainID cfg = chainID" "body_FullName body' = body_FullName body"
    "marshal_body_det cr body' = marshal_body_det cr body" by simp_all
  moreover have "marshal_body_det cr body' \<noteq> None"
    using d by (auto simp: domainSeparatedAttestationBytes_def split: option.splits)
  ultimately show ?thesis using assms(1) unfolding encodes_bodies_def by blast
qed

text \<open>The validators of the log that saw a node on Ethereum and replied to its registration on a chain.\<close>

definition saw_on_ethereum :: "crypto \<Rightarrow> reply list \<Rightarrow> string \<Rightarrow> ValidatorRegistration \<Rightarrow> string set" where
  "saw_on_ethereum cr replies chainID vr =
     {a. \<exists>m sig. (m, AttRegistration vr, sig) \<in> set replies \<and> PrivKeyToAddress cr (bn_EthereumKey m) = a \<and>
        cfg_ChainID (bn_config m) = chainID \<and>
        IsNodeRegisteredOnEthereum (bn_eth m) (vr_Endpoint vr) (vr_DelegateWallet vr) (vr_EthBlock vr) = Inr True}"

lemma reply_saw_node:
  assumes "encodes_bodies cr" "starts_with_tag cr" "is_reply_log cr replies" "int (length chainID) < 2 ^ 64"
    "domainSeparatedAttestationBytes cr chainID (AttRegistration vr) = Some payload" "reply_signed cr replies a payload"
  shows "a \<in> saw_on_ethereum cr replies chainID vr"
proof -
  from assms(6) obtain m body sig where r: "(m, body, sig) \<in> set replies" "PrivKeyToAddress cr (bn_EthereumKey m) = a"
    "validatorAttestationBytes cr (bn_config m) body (bn_currentHeight m + 1) = Inr payload"
    by (auto simp: reply_signed_def list_ex_iff)
  with assms(3) have l: "attest m body = Inr sig" "int (length (cfg_ChainID (bn_config m))) < 2 ^ 64"
    by (auto simp: is_reply_log_def list_all_iff)
  from signed_payload [OF assms(1,2,4) l(2) assms(5) r(3)]
  have b: "cfg_ChainID (bn_config m) = chainID" "body = AttRegistration vr" by simp_all
  with l(1) have "GetRegistrationAttestation m (Some vr) = Inr sig" by (simp add: attest_def)
  with registration_attestation_sound(1) b r show ?thesis unfolding saw_on_ethereum_def by blast
qed

text \<open>
  C8: take a registration the chain accepts under domain separation, a
  set of honest addresses, and the log of the replies their attestation endpoints gave, such that
  the honest signatures it carries are not forged: each recovers, over the payload, to an address
  whose owner signed this payload in a reply. Then the registration is backed by the required number of
  active validators, and all of them but the dishonest ones replied to this very registration when they saw
  the node on Ethereum, with this endpoint, wallet and block, and on this chain.
\<close>

theorem registered_only_from_ethereum:
  assumes "isValidAttestation cr cfg q tx height = None" "att_Body (stx_Body tx) = Some (AttRegistration vr)"
    "AttestationDomainEnforced (rules_at cfg height)" "int (length (cfg_ChainID cfg)) < 2 ^ 64"
    "encodes_bodies cr" "starts_with_tag cr" "is_reply_log cr replies"
    "\<And>payload. validatorAttestationBytes cr cfg (AttRegistration vr) height = Inr payload \<Longrightarrow>
       unforged cr replies honest (stx_Body tx) payload"
  defines "active \<equiv> remove1 [] (active_addresses q)"
  shows "min (int (length active)) (AttRegistrationMin cfg) \<le>
    int (card (set active \<inter> honest \<inter> saw_on_ethereum cr replies (cfg_ChainID cfg) vr)) + int (card (set active - honest))"
proof -
  let ?saw = "set active \<inter> honest \<inter> saw_on_ethereum cr replies (cfg_ChainID cfg) vr"
  from registration_quorum [OF assms(1,2)] obtain payload where
    p: "validatorAttestationBytes cr cfg (AttRegistration vr) height = Inr payload"
    and quorum: "min (int (length active)) (AttRegistrationMin cfg) \<le>
      int (card (attested_by cr (stx_Body tx) payload \<inter> set active))"
    unfolding active_def by blast
  from p assms(3) have d: "domainSeparatedAttestationBytes cr (cfg_ChainID cfg) (AttRegistration vr) = Some payload"
    by (auto simp: validatorAttestationBytes_def split: if_splits option.splits)
  have "attested_by cr (stx_Body tx) payload \<inter> set active \<subseteq> ?saw \<union> (set active - honest)"
    using assms(8) [OF p] reply_saw_node [OF assms(5-7,4) d] by (auto simp: unforged_def)
  then have "card (attested_by cr (stx_Body tx) payload \<inter> set active) \<le> card (?saw \<union> (set active - honest))"
    by (intro card_mono) auto
  also have "\<dots> \<le> card ?saw + card (set active - honest)" by (rule card_Un_le)
  finally show ?thesis using quorum by linarith
qed

end
