(* ===== verification/Bridge_Example.thy ===== *)
theory Bridge_Example
  imports Registry_Laws
begin

text \<open>
  One validator, \<open>0xa\<close>, attests the registration of a second node, \<open>0xw\<close>, that is on Ethereum. The
  signature scheme knows the two signatures of the example only.
\<close>

definition ex_node_info :: ServiceEndpointInfo where
  "ex_node_info = \<lparr>sei_Owner = ''0xo'', sei_Endpoint = ''https://w'', sei_BlockNumber = 5, sei_DelegateOwnerWallet = ''0xw''\<rparr>"

definition ex_details :: SpDetails where
  "ex_details = \<lparr>spd_DeployerStake = 200000, spd_DeployerCut = 0, spd_ValidBounds = True, spd_NumberOfEndpoints = 1,
     spd_MinAccountStake = 0, spd_MaxAccountStake = 0\<rparr>"

definition ex_chain :: eth_chain where
  "ex_chain = \<lparr>contract_address = (\<lambda>_. Some ''0xc''), GetTotalServiceTypeProviders = (\<lambda>t. Some (if t = Validator then 1 else 0)),
     GetServiceEndpointInfo = (\<lambda>t i. if t = Validator \<and> i = 1 then Some ex_node_info else None),
     HeaderByNumber_Time = (\<lambda>_. Some 100), GetServiceProviderDetails = (\<lambda>_. Some ex_details),
     TotalStakedFor = (\<lambda>_. Some 0), TotalStaked = Some 0, GetFundsPerRound = Some 0,
     AntiAbuseOracleAddresses = Some [''0xaao''], GetInProgressProposals = Some [], GetProposalById = (\<lambda>_. None),
     slash_UnpackIntoMap = (\<lambda>_. None)\<rparr>"

definition ex_eth_service :: EthService where
  "ex_eth_service = \<lparr>eth_tables = \<lparr>eth_registered_endpoints = [], eth_service_providers = [], eth_staked = [],
       eth_active_proposals = [], eth_anti_abuse_oracles = [], eth_fault = (\<lambda>_. None)\<rparr>,
     eth_fundingRound = \<lparr>fr_initialized = False, fr_fundingAmountPerRound = 0, fr_totalStakedAmount = 0\<rparr>, eth_published = []\<rparr>"

lemma ex_types: "Validator \<noteq> ContentNode" "ServiceTypeToString Validator = Some ''validator''"
  by code_simp+

definition ex_eth_node :: Node where
  "ex_eth_node = \<lparr>node_Id = 1, node_Owner = ''0xo'', node_Endpoint = ''https://w'', node_Type = Validator,
     node_BlockNumber = 5, node_DelegateOwnerWallet = ''0xw''\<rparr>"

lemma ex_all_nodes: "contracts_GetAllRegisteredNodes ex_chain = Inr [ex_eth_node]"
  using ex_types by (simp add: contracts_GetAllRegisteredNodes_def GetAllRegisteredNodesForType_def ex_chain_def
      map_filter_simps ex_node_info_def zero_address_def node_of_def ex_eth_node_def)

theorem hydrate_mirrors_registry_witness:
  "fst (hydrateEthData ex_chain ex_eth_service) = None \<and>
   eth_registered_endpoints (eth_tables (snd (hydrateEthData ex_chain ex_eth_service))) = [row_of ex_chain ex_eth_node]"
proof -
  have ok: "fst (hydrateEthData ex_chain ex_eth_service) = None" by code_simp
  from hydrate_mirrors_registry [OF prod.collapse [symmetric], of ex_chain ex_eth_service] ok show ?thesis
    by (simp add: ex_all_nodes)
qed

theorem events_track_registry_witness:
  "mirrors ex_chain {ex_eth_node} (eth_tables (handle_event ex_chain
     (RegisteredServiceProvider 1 Validator ''https://w'' ''0xo'') ex_eth_service))"
proof -
  have "registry_step {} (RegisteredServiceProvider 1 Validator ''https://w'' ''0xo'') {ex_eth_node}"
    using registry_step.registered [of "{}" ex_eth_node] by (simp add: ex_eth_node_def)
  moreover have "answers ex_chain {}" by (simp add: answers_def)
  moreover have "answers ex_chain {ex_eth_node}"
    using ex_types by (simp add: answers_def GetRegisteredNode_def ex_chain_def ex_eth_node_def ex_node_info_def
        zero_address_def node_of_def)
  moreover have "mirrors ex_chain {} (eth_tables ex_eth_service)" "eth_fault (eth_tables ex_eth_service) = (\<lambda>_. None)"
    by (simp_all add: mirrors_def ex_eth_service_def)
  ultimately show ?thesis by (rule events_track_registry) simp
qed

section \<open>A registration\<close>

definition ex_reg :: ValidatorRegistration where
  "ex_reg = \<lparr>vr_DelegateWallet = ''0xw'', vr_Endpoint = ''https://w'', vr_NodeType = ''validator'', vr_SpId = ''1'',
     vr_EthBlock = 5, vr_CometAddress = ''W'', vr_PubKey = replicate 32 CHR ''W'', vr_Power = 10, vr_Deadline = 130\<rparr>"

definition ex_payload :: string where
  "ex_payload = attestation_domain @ be_uint64 16 @ ''openaudio-devnet'' @ ''core.v1.ValidatorRegistration'' @ [nul] @ ''r''"

definition ex_reg_crypto :: crypto where
  "ex_reg_crypto = \<lparr>Sha256 = (\<lambda>x. x), Keccak256 = (\<lambda>x. x),
     ecdsa_Sign = (\<lambda>h k. Some ((if k = ''a'' then CHR ''A'' else CHR ''W'') # h)),
     SigToPub = (\<lambda>h s. if s = CHR ''A'' # h then Some ''0xa'' else if s = CHR ''W'' # h then Some ''0xw'' else None),
     ecdsa_Public = (\<lambda>k. if k = ''a'' then ''0xa'' else ''0xw''), PubkeyToAddress_Hex = (\<lambda>k. k), CompressPubkey = (\<lambda>k. k),
     ed25519_Address = take 1, comet_Address = take 1,
     url_Parse = (\<lambda>_. Some \<lparr>u_Scheme = ''https'', u_Hostname = ''w'', u_HasUser = False, u_RawQuery = [], u_Fragment = []\<rparr>),
     marshal_body = (\<lambda>_. None), marshal_body_det = (\<lambda>b. if b = AttRegistration ex_reg then Some ''r'' else None),
     marshal_attestation = (\<lambda>_. Some ''att''), marshal_attestation_tx = (\<lambda>_. Some ''tx''), marshal_legacy = (\<lambda>_. None)\<rparr>"

definition ex_reg_config :: core_config where
  "ex_reg_config = \<lparr>cfg_ChainID = ''openaudio-devnet'', cfg_Upgrades = Some dev_schedule, AttRegistrationRSize = 15,
     AttRegistrationMin = 5, AttDeregistrationRSize = 15, AttDeregistrationMin = 5, ValidatorVotingPower = 10\<rparr>"

definition ex_reg_db :: validator_db where
  "ex_reg_db = \<lparr>core_validators = [\<lparr>cv_pub_key = [], cv_endpoint = ''https://a'', cv_eth_address = ''0xa'', cv_comet_address = ''A'',
       cv_comet_pub_key = [], cv_eth_block = ''1'', cv_node_type = ''validator'', cv_sp_id = ''2'', cv_jailed = False\<rparr>],
     validator_history = [], val_fault = (\<lambda>_. None)\<rparr>"

definition ex_bridge :: "string \<Rightarrow> bridge_node" where
  "ex_bridge key = \<lparr>bn_crypto = ex_reg_crypto, bn_config = ex_reg_config, bn_validators = ex_reg_db,
     bn_sla = \<lparr>sla_rollups = [], sla_node_reports = [], sla_next_id = 1, sla_fault = (\<lambda>_. None)\<rparr>,
     bn_eth = (eth_tables ex_eth_service)\<lparr>eth_registered_endpoints := [\<lparr>ere_ID = 1, ere_ServiceType = ''validator'',
       ere_Owner = ''0xo'', ere_DelegateWallet = ''0xw'', ere_Endpoint = ''https://w'', ere_Blocknumber = 5, ere_RegisteredAt = 100\<rparr>]\<rparr>,
     bn_currentHeight = 10, bn_purgeMin = 3, bn_EthereumKey = key, bn_WalletAddress = ''0xw'', bn_NodeEndpoint = ''https://w'',
     bn_CometPubKey = replicate 32 CHR ''W'', bn_ProposerAddress = ''W'', bn_genesis = [], bn_catchingUp = False,
     bn_HexToAddress_Hex = (\<lambda>x. x)\<rparr>"

definition ex_reg_tx :: "Attestation signed" where
  "ex_reg_tx = \<lparr>stx_Signature = hex_encode ''Watt'', stx_RequestId = ''id'',
     stx_Body = \<lparr>att_Signatures = [hex_encode (CHR ''A'' # ex_payload)], att_Body = Some (AttRegistration ex_reg)\<rparr>\<rparr>"

lemma ex_own_registration: "own_registration (ex_bridge k) 5 ''1'' = ex_reg"
proof -
  have "HexToUtf8 Validator = ''validator''" by code_simp
  then show ?thesis by (simp add: own_registration_def ex_bridge_def ex_reg_def ex_reg_config_def)
qed

lemma ex_separated:
  "domainSeparatedAttestationBytes ex_reg_crypto ''openaudio-devnet'' (AttRegistration ex_reg) = Some ex_payload"
  by (simp add: domainSeparatedAttestationBytes_def ex_reg_crypto_def ex_payload_def body_FullName_def)

lemma ex_payload_bytes: "validatorAttestationBytes ex_reg_crypto ex_reg_config (AttRegistration ex_reg) 11 = Inr ex_payload"
proof -
  have "AttestationDomainEnforced (rules_at ex_reg_config 11)" by code_simp
  then show ?thesis using ex_separated by (simp add: validatorAttestationBytes_def ex_reg_config_def)
qed

lemma ex_reg_valid: "validateValidatorRegistration ex_reg_crypto ex_reg = None"
proof -
  have "ParseInt64 ''1'' = Some 1" by code_simp
  then show ?thesis by (simp add: validateValidatorRegistration_def validateValidatorEndpoint_def ex_reg_crypto_def ex_reg_def
        ed25519_PubKeySize_def)
qed

lemma ex_on_ethereum: "IsNodeRegisteredOnEthereum (bn_eth (ex_bridge k)) ''https://w'' ''0xw'' 5 = Inr True"
  by (simp add: IsNodeRegisteredOnEthereum_def GetRegisteredEndpointInfo_def GetRegisteredEndpoint_def ex_bridge_def ex_eth_service_def)

lemma ex_attested: "GetRegistrationAttestation (ex_bridge ''a'') (Some ex_reg) = Inr (hex_encode (CHR ''A'' # ex_payload))"
proof -
  have "ShouldPurgeValidatorForUnderperformance (bn_sla (ex_bridge ''a'')) ex_reg_db 3 ''W'' = Inr False"
    by (simp add: ShouldPurgeValidatorForUnderperformance_def TotalValidators_def ex_reg_db_def)
  moreover have "sign_attestation (ex_bridge ''a'') (AttRegistration ex_reg) = Inr (hex_encode (CHR ''A'' # ex_payload))"
    using ex_payload_bytes by (simp add: sign_attestation_def ex_bridge_def of_option_def EthSign_def)
      (simp add: ex_reg_crypto_def)
  ultimately show ?thesis using ex_reg_valid ex_on_ethereum
    by (simp add: GetRegistrationAttestation_def ex_reg_def maxRegistrationAttestationValidity_def)
      (simp add: ex_bridge_def)
qed

abbreviation ex_peers :: "(string, ValidatorRegistration attestor) table" where
  "ex_peers \<equiv> [(''0xa'', GetRegistrationAttestation (ex_bridge ''a''))]"

lemma ex_active: "active_addresses ex_reg_db = [''0xa'']"
  by (simp add: active_addresses_def ex_reg_db_def)

lemma ex_registers: "registerSelfOnComet (ex_bridge ''w'') ex_peers ''id'' 5 ''1'' = Inr (Some ex_reg_tx)"
proof -
  have b: "bn_crypto (ex_bridge ''w'') = ex_reg_crypto" "bn_config (ex_bridge ''w'') = ex_reg_config"
    "bn_validators (ex_bridge ''w'') = ex_reg_db" "bn_EthereumKey (ex_bridge ''w'') = ''w''"
    "bn_catchingUp (ex_bridge ''w'') = False"
    by (simp_all add: ex_bridge_def)
  have "IsDuplicateDelegateWallet (bn_eth (ex_bridge ''w'')) (bn_WalletAddress (ex_bridge ''w'')) = Inr False"
    by (simp add: IsDuplicateDelegateWallet_def GetCountOfEndpointsWithDelegateWallet_def ex_bridge_def ex_eth_service_def)
  moreover have "GetAllEthAddressesOfRegisteredNodes ex_reg_db = Inr [''0xa'']"
    by (simp add: GetAllEthAddressesOfRegisteredNodes_def ex_reg_db_def)
  moreover have "attestors (ex_bridge ''w'') [''0xa''] key 15 = [''0xa'']" for key
    by (simp add: attestors_def GetAttestorRendezvous_def node_tuples_def)
  moreover have "marshal_attestation ex_reg_crypto att = Some ''att''" "EthSign ex_reg_crypto ''w'' ''att'' = Some (hex_encode ''Watt'')" for att
    by (simp_all add: ex_reg_crypto_def EthSign_def)
  moreover have "AttRegistrationRSize ex_reg_config = 15" by (simp add: ex_reg_config_def)
  ultimately show ?thesis
    by (simp add: registerSelfOnComet_def b ex_own_registration collect_def map_filter_simps ex_attested attestation_tx_def
        ex_reg_tx_def Let_def)
qed

lemma ex_willing: "willing (ex_bridge ''w'') ex_reg 11 ''0xa'' (ex_bridge ''a'')"
proof -
  have "ShouldPurgeValidatorForUnderperformance (bn_sla (ex_bridge ''a'')) ex_reg_db 3 ''W'' = Inr False"
    by (simp add: ShouldPurgeValidatorForUnderperformance_def TotalValidators_def ex_reg_db_def)
  moreover have "PrivKeyToAddress ex_reg_crypto ''a'' = ''0xa''" "EthSign ex_reg_crypto ''a'' ex_payload \<noteq> None"
    by (simp_all add: PrivKeyToAddress_def EthSign_def ex_reg_crypto_def)
  moreover have "bn_crypto (ex_bridge k) = ex_reg_crypto" "bn_config (ex_bridge k) = ex_reg_config"
    "bn_EthereumKey (ex_bridge k) = k" "bn_currentHeight (ex_bridge k) = 10" "bn_validators (ex_bridge k) = ex_reg_db"
    "bn_purgeMin (ex_bridge k) = 3" for k
    by (simp_all add: ex_bridge_def)
  moreover have "vr_Endpoint ex_reg = ''https://w''" "vr_DelegateWallet ex_reg = ''0xw''" "vr_EthBlock ex_reg = 5"
    "vr_CometAddress ex_reg = ''W''" "vr_Deadline ex_reg = 130"
    by (simp_all add: ex_reg_def)
  ultimately show ?thesis using ex_on_ethereum [of "''a''"]
    by (simp add: willing_def ex_payload_bytes maxRegistrationAttestationValidity_def)
qed

theorem self_registration_accepted_witness:
  "registerSelfOnComet (ex_bridge ''w'') ex_peers ''id'' 5 ''1'' = Inr (Some ex_reg_tx) \<and>
   isValidAttestation ex_reg_crypto ex_reg_config ex_reg_db ex_reg_tx 11 = None"
proof -
  have b: "bn_crypto (ex_bridge k) = ex_reg_crypto" "bn_config (ex_bridge k) = ex_reg_config"
    "bn_validators (ex_bridge k) = ex_reg_db" "bn_EthereumKey (ex_bridge k) = k"
    "bn_CometPubKey (ex_bridge k) = replicate 32 CHR ''W''" "bn_ProposerAddress (ex_bridge k) = ''W''" for k
    by (simp_all add: ex_bridge_def)
  have "recovery_inverts_signing ex_reg_crypto" "PrivKeyToAddress ex_reg_crypto ''w'' = vr_DelegateWallet ex_reg"
    "ed25519_Address ex_reg_crypto (replicate 32 CHR ''W'') = ''W''"
    by (auto simp: recovery_inverts_signing_def ex_reg_crypto_def PrivKeyToAddress_def ex_reg_def)
  moreover have "s \<noteq> []" if "ecdsa_Sign ex_reg_crypto h k = Some s" for h k s
    using that by (auto simp: ex_reg_crypto_def split: if_splits)
  moreover have "val_fault ex_reg_db = (\<lambda>_. None)" "cv_comet_address r \<noteq> ''W''" if "r \<in> set (core_validators ex_reg_db)" for r
    using that by (simp_all add: ex_reg_db_def)
  moreover have "val_fault ex_reg_db = (\<lambda>_. None)" by (simp add: ex_reg_db_def)
  moreover have "0 \<le> AttRegistrationMin ex_reg_config" "AttRegistrationMin ex_reg_config \<le> AttRegistrationRSize ex_reg_config"
    by (simp_all add: ex_reg_config_def)
  moreover have "\<exists>m. GetRegistrationAttestation (ex_bridge ''a'') = GetRegistrationAttestation m \<and>
      willing (ex_bridge ''w'') ex_reg 11 ''0xa'' m"
    using ex_willing by blast
  moreover have "11 \<le> vr_Deadline ex_reg" "vr_Deadline ex_reg \<le> 11 + maxRegistrationAttestationValidity"
    by (simp_all add: ex_reg_def maxRegistrationAttestationValidity_def)
  ultimately show ?thesis
    using self_registration_accepted [OF ex_registers ex_own_registration [symmetric], where height = 11 and payload = ex_payload]
      ex_registers ex_reg_valid ex_payload_bytes
    by (simp add: b ex_active ed25519_PubKeySize_def)
qed

theorem registered_only_from_ethereum_witness:
  "isValidAttestation ex_reg_crypto ex_reg_config ex_reg_db ex_reg_tx 11 = None \<and>
   saw_on_ethereum ex_reg_crypto [(ex_bridge ''a'', AttRegistration ex_reg, hex_encode (CHR ''A'' # ex_payload))]
     ''openaudio-devnet'' ex_reg \<noteq> {}"
proof -
  let ?replies = "[(ex_bridge ''a'', AttRegistration ex_reg, hex_encode (CHR ''A'' # ex_payload))]"
  have valid: "isValidAttestation ex_reg_crypto ex_reg_config ex_reg_db ex_reg_tx 11 = None" by code_simp
  have enc: "encodes_bodies ex_reg_crypto" "starts_with_tag ex_reg_crypto"
    by (auto simp: encodes_bodies_def starts_with_tag_def ex_reg_crypto_def split: if_splits)
  have b: "bn_crypto (ex_bridge ''a'') = ex_reg_crypto" "bn_config (ex_bridge ''a'') = ex_reg_config"
    "bn_currentHeight (ex_bridge ''a'') = 10" "PrivKeyToAddress ex_reg_crypto (bn_EthereumKey (ex_bridge ''a'')) = ''0xa''"
    by (simp_all add: ex_bridge_def PrivKeyToAddress_def ex_reg_crypto_def)
  have len: "int (length (cfg_ChainID ex_reg_config)) < 2 ^ 64" by (simp add: ex_reg_config_def)
  have replied: "is_reply_log ex_reg_crypto ?replies" using len by (simp add: is_reply_log_def b attest_def ex_attested)
  have unforged: "unforged ex_reg_crypto ?replies {''0xa''} (stx_Body ex_reg_tx) payload"
    if "validatorAttestationBytes ex_reg_crypto ex_reg_config (AttRegistration ex_reg) 11 = Inr payload" for payload
    using that ex_payload_bytes by (simp add: unforged_def reply_signed_def b)
  have "att_Body (stx_Body ex_reg_tx) = Some (AttRegistration ex_reg)" "AttestationDomainEnforced (rules_at ex_reg_config 11)"
    by (simp add: ex_reg_tx_def, code_simp)
  note r = registered_only_from_ethereum [OF valid this len enc replied unforged]
  have "AttRegistrationMin ex_reg_config = 5" "cfg_ChainID ex_reg_config = ''openaudio-devnet''"
    by (simp_all add: ex_reg_config_def)
  with r have "1 \<le> card ({''0xa''} \<inter> saw_on_ethereum ex_reg_crypto ?replies ''openaudio-devnet'' ex_reg)"
    by (simp add: ex_active)
  with valid show ?thesis by auto
qed

end
