(* ===== verification/Indexer.thy ===== *)
theory Indexer
  imports Auth_Projection
begin

text \<open>
  The indexer's entity manager, \<^verbatim>\<open>pkg/etl/processors/entity_manager\<close>: the parameters of a
  ManageEntity transaction, the dispatcher and the handlers that decide who may act for whom, those
  of users, developer apps and grants. A handler returns the new tables or an error; what a failing
  handler wrote before is not part of the result, since validation errors come before the first write
  and the caller rolls back after every other error.

  A validation error carries the format of its message. Which statements the Postgres server fails is
  the parameter \<open>idx_fault\<close> of the tables, by the function that runs them and its arguments; a value
  out of the range of its column is such a failure. Which of several rows a query with
  \<^verbatim>\<open>LIMIT 1\<close> and no order returns is the parameter \<open>idx_plan\<close>. The text \<^verbatim>\<open>null\<close> decodes to the
  empty metadata. Times are seconds.
\<close>

section \<open>Errors and metadata\<close>

datatype etl_error = ValidationError string | ErrNoHandler | NoRows | HardError pg_error

definition IsValidationError :: "etl_error \<Rightarrow> bool" where
  "IsValidationError e = (case e of ValidationError _ \<Rightarrow> True | _ \<Rightarrow> False)"

definition require :: "bool \<Rightarrow> string \<Rightarrow> etl_error + unit" where
  "require b msg = (if b then Inr () else Inl (ValidationError msg))"

record Params =
  p_UserID :: int
  p_EntityID :: int
  p_EntityType :: string
  p_Action :: string
  p_Signer :: string
  p_Metadata :: "meta option"
  p_BlockNumber :: int
  p_BlockTime :: int
  p_BlockHash :: string
  p_TxHash :: string

definition NewParams ::
  "(string \<Rightarrow> meta option) \<Rightarrow> ManageEntityLegacy \<Rightarrow> int \<Rightarrow> int \<Rightarrow> string \<Rightarrow> string \<Rightarrow> Params" where
  "NewParams unmarshal tx blockNumber blockTime blockHash txHash =
     \<lparr>p_UserID = me_UserId tx, p_EntityID = me_EntityId tx, p_EntityType = me_EntityType tx,
      p_Action = me_Action tx, p_Signer = me_Signer tx,
      p_Metadata = (if me_Metadata tx = [] then None else
        case unmarshal (me_Metadata tx) of
          None \<Rightarrow> None
        | Some m \<Rightarrow> (case map_of m ''data'' of Some (JObj d) \<Rightarrow> Some d | _ \<Rightarrow> Some m)),
      p_BlockNumber = blockNumber, p_BlockTime = blockTime, p_BlockHash = blockHash, p_TxHash = txHash\<rparr>"

definition MetadataJSON :: "Params \<Rightarrow> string \<Rightarrow> json option" where
  "MetadataJSON p key = (case p_Metadata p of None \<Rightarrow> None | Some m \<Rightarrow> map_of m key)"

definition MetadataString :: "Params \<Rightarrow> string \<Rightarrow> string" where
  "MetadataString p key = (case MetadataJSON p key of Some (JStr s) \<Rightarrow> s | _ \<Rightarrow> [])"

definition MetadataInt64 :: "Params \<Rightarrow> string \<Rightarrow> int option" where
  "MetadataInt64 p key = (case MetadataJSON p key of Some (JNum n) \<Rightarrow> Some (int64_of_float n) | _ \<Rightarrow> None)"

definition MetadataBool :: "Params \<Rightarrow> string \<Rightarrow> bool option" where
  "MetadataBool p key = (case MetadataJSON p key of Some (JBool b) \<Rightarrow> Some b | _ \<Rightarrow> None)"

definition MetadataBoolOr :: "Params \<Rightarrow> string \<Rightarrow> bool \<Rightarrow> bool" where
  "MetadataBoolOr p key def = (case MetadataBool p key of Some b \<Rightarrow> b | None \<Rightarrow> def)"

section \<open>Tables\<close>

text \<open>
  The nullable text columns of a user that the handlers copy from the metadata key of the same name
  are one function from column names.
\<close>

record idx_user =
  iu_user_id :: int
  iu_is_current :: bool
  iu_wallet :: "string option"
  iu_handle :: "string option"
  iu_handle_lc :: "string option"
  iu_text :: "string \<Rightarrow> string option"
  iu_profile_type :: "string option"
  iu_playlist_library :: "json option"
  iu_artist_pick_track_id :: "int option"
  iu_allow_ai_attribution :: bool
  iu_is_verified :: bool
  iu_verified_with :: "string \<Rightarrow> bool"
  iu_is_deactivated :: bool
  iu_is_available :: bool
  iu_created_at :: int
  iu_updated_at :: int
  iu_txhash :: string
  iu_blockhash :: string
  iu_blocknumber :: int

record idx_app =
  ia_address :: string
  ia_user_id :: int
  ia_name :: string
  ia_description :: "string option"
  ia_image_url :: "string option"
  ia_is_personal_access :: bool
  ia_is_current :: bool
  ia_is_delete :: bool
  ia_created_at :: int
  ia_updated_at :: int
  ia_txhash :: string
  ia_blocknumber :: int

record idx_grant =
  ig_grantee_address :: string
  ig_user_id :: int
  ig_is_revoked :: bool
  ig_is_current :: bool
  ig_is_approved :: "bool option"
  ig_created_at :: int
  ig_updated_at :: int
  ig_txhash :: string
  ig_blocknumber :: int

record idx_track =
  it_track_id :: int
  it_owner_id :: int
  it_is_current :: bool
  it_is_delete :: bool

text \<open>
  The rows of follows, subscriptions, saves and reposts have the same shape: who, what, the kind of
  the target, and for saves and reposts whether of a repost.
\<close>

record idx_social =
  is_user :: int
  is_item :: int
  is_kind :: string
  is_of_repost :: bool
  is_is_current :: bool
  is_is_delete :: bool
  is_created_at :: int
  is_txhash :: string
  is_blocknumber :: int

record idx_db =
  idx_users :: "idx_user list"
  idx_developer_apps :: "idx_app list"
  idx_oauth_redirect_uris :: "(string \<times> string) list"
  idx_grants :: "idx_grant list"
  idx_tracks :: "idx_track list"
  idx_playlists :: "int list"
  idx_events :: "(int \<times> bool) list"
  idx_follows :: "idx_social list"
  idx_subscriptions :: "idx_social list"
  idx_saves :: "idx_social list"
  idx_reposts :: "idx_social list"
  idx_fault :: "string \<Rightarrow> string \<Rightarrow> int \<Rightarrow> pg_error option"
  idx_plan :: "string \<Rightarrow> string \<Rightarrow> int \<Rightarrow> nat"

definition run_query :: "idx_db \<Rightarrow> string \<Rightarrow> string \<Rightarrow> int \<Rightarrow> 'a \<Rightarrow> etl_error + 'a" where
  "run_query q f s i x = (case idx_fault q f s i of Some e \<Rightarrow> Inl (HardError e) | None \<Rightarrow> Inr x)"

definition limit_one :: "idx_db \<Rightarrow> string \<Rightarrow> string \<Rightarrow> int \<Rightarrow> 'a list \<Rightarrow> 'a option" where
  "limit_one q f s i rows = (if rows = [] then None else Some (rows ! (idx_plan q f s i mod length rows)))"

section \<open>Lookups\<close>

definition current_users :: "idx_db \<Rightarrow> int \<Rightarrow> idx_user list" where
  "current_users q userID = filter (\<lambda>r. iu_user_id r = userID \<and> iu_is_current r) (idx_users q)"

text \<open>A failure of the query and a null wallet are reported as no wallet.\<close>

definition getUserWallet :: "idx_db \<Rightarrow> int \<Rightarrow> string" where
  "getUserWallet q userID = (case idx_fault q ''getUserWallet'' [] userID of
     Some _ \<Rightarrow> []
   | None \<Rightarrow> (case limit_one q ''getUserWallet'' [] userID (current_users q userID) of
       None \<Rightarrow> []
     | Some r \<Rightarrow> (case iu_wallet r of None \<Rightarrow> [] | Some w \<Rightarrow> w)))"

definition userExists :: "idx_db \<Rightarrow> int \<Rightarrow> etl_error + bool" where
  "userExists q userID = run_query q ''userExists'' [] userID (current_users q userID \<noteq> [])"

definition walletExists :: "idx_db \<Rightarrow> string \<Rightarrow> etl_error + bool" where
  "walletExists q wallet = run_query q ''walletExists'' wallet 0
     (list_ex (\<lambda>r. iu_wallet r = Some (ToLower wallet)) (idx_users q))"

definition active_wallet :: "string \<Rightarrow> idx_user \<Rightarrow> bool" where
  "active_wallet wallet r \<longleftrightarrow> iu_wallet r = Some (ToLower wallet) \<and> iu_is_current r \<and> \<not> iu_is_deactivated r"

definition activeUserWalletExists :: "idx_db \<Rightarrow> string \<Rightarrow> etl_error + bool" where
  "activeUserWalletExists q wallet = run_query q ''activeUserWalletExists'' wallet 0
     (list_ex (active_wallet wallet) (idx_users q))"

definition activeUserIDByWallet :: "idx_db \<Rightarrow> string \<Rightarrow> etl_error + int option" where
  "activeUserIDByWallet q wallet = run_query q ''activeUserIDByWallet'' wallet 0
     (map_option iu_user_id (limit_one q ''activeUserIDByWallet'' wallet 0
       (filter (active_wallet wallet) (idx_users q))))"

definition developerAppExists :: "idx_db \<Rightarrow> string \<Rightarrow> etl_error + bool" where
  "developerAppExists q address = run_query q ''developerAppExists'' address 0
     (list_ex (\<lambda>r. ia_address r = ToLower address \<and> \<not> ia_is_delete r) (idx_developer_apps q))"

definition handleExists :: "idx_db \<Rightarrow> string \<Rightarrow> etl_error + bool" where
  "handleExists q handleLC = run_query q ''handleExists'' handleLC 0
     (list_ex (\<lambda>r. iu_handle_lc r = Some handleLC \<and> iu_is_current r) (idx_users q))"

definition current_grants :: "idx_db \<Rightarrow> string \<Rightarrow> int \<Rightarrow> idx_grant list" where
  "current_grants q granteeAddress userID =
     filter (\<lambda>r. ig_grantee_address r = granteeAddress \<and> ig_user_id r = userID \<and> ig_is_current r) (idx_grants q)"

definition getActiveGrant :: "idx_db \<Rightarrow> string \<Rightarrow> int \<Rightarrow> etl_error + idx_grant" where
  "getActiveGrant q granteeAddress userID =
     and_then (run_query q ''getActiveGrant'' granteeAddress userID
       (limit_one q ''getActiveGrant'' granteeAddress userID (current_grants q granteeAddress userID)))
       (of_option NoRows)"

definition activeGrantExists :: "idx_db \<Rightarrow> string \<Rightarrow> int \<Rightarrow> etl_error + bool" where
  "activeGrantExists q granteeAddress userID = run_query q ''activeGrantExists'' granteeAddress userID
     (list_ex (\<lambda>r. \<not> ig_is_revoked r) (current_grants q granteeAddress userID))"

section \<open>The signer check\<close>

definition validateSignerForUser :: "Params \<Rightarrow> idx_db \<Rightarrow> int \<Rightarrow> etl_error + unit" where
  "validateSignerForUser p q userID =
     (let wallet = getUserWallet q userID; signer = ToLower (p_Signer p) in
      if wallet = [] then Inl (ValidationError ''user %d does not exist'')
      else if EqualFold wallet (p_Signer p) then Inr ()
      else (case getActiveGrant q signer userID of
          Inl NoRows \<Rightarrow> Inl (ValidationError ''signer %s is not authorized for user %d'')
        | Inl e \<Rightarrow> Inl e
        | Inr grant \<Rightarrow>
          if ig_is_revoked grant then Inl (ValidationError ''signer %s grant for user %d is revoked'')
          else and_then (developerAppExists q signer) (\<lambda>isApp.
            and_then (activeUserWalletExists q signer) (\<lambda>isUser.
            if \<not> isApp \<and> \<not> isUser
            then Inl (ValidationError ''signer %s is no longer a valid developer app or active user'')
            else require (isApp \<or> ig_is_approved grant = Some True) ''signer %s grant for user %d is not approved''))))"

definition ValidateSigner :: "Params \<Rightarrow> idx_db \<Rightarrow> etl_error + unit" where
  "ValidateSigner p q = validateSignerForUser p q (p_UserID p)"

section \<open>Limits\<close>

text \<open>\<^verbatim>\<open>utf8.RuneCountInString\<close>: the length of the encoding at the front, one for an invalid byte.\<close>

definition rune_width :: "string \<Rightarrow> nat" where
  "rune_width s =
     (let b = (\<lambda>i. if i < length s then of_char (s ! i) else 0 :: int);
          cont = (\<lambda>i lo hi. lo \<le> b i \<and> b i \<le> hi);
          tail2 = cont 2 0x80 0xBF; tail3 = cont 3 0x80 0xBF;
          b0 = b 0
      in if 0xC2 \<le> b0 \<and> b0 \<le> 0xDF then (if cont 1 0x80 0xBF then 2 else 1)
         else if 0xE0 \<le> b0 \<and> b0 \<le> 0xEF
         then (if cont 1 (if b0 = 0xE0 then 0xA0 else 0x80) (if b0 = 0xED then 0x9F else 0xBF) \<and> tail2 then 3 else 1)
         else if 0xF0 \<le> b0 \<and> b0 \<le> 0xF4
         then (if cont 1 (if b0 = 0xF0 then 0x90 else 0x80) (if b0 = 0xF4 then 0x8F else 0xBF) \<and> tail2 \<and> tail3 then 4 else 1)
         else 1)"

fun RuneCountInString :: "string \<Rightarrow> nat" where
  "RuneCountInString [] = 0"
| "RuneCountInString (c # s) = Suc (RuneCountInString (drop (rune_width (c # s) - 1) s))"

definition handle_char :: "char \<Rightarrow> bool" where
  "handle_char c \<longleftrightarrow> (let n = of_char c :: int in 97 \<le> n \<and> n \<le> 122 \<or> 48 \<le> n \<and> n \<le> 57) \<or> c = CHR ''_'' \<or> c = CHR ''.''"

definition reservedHandles :: "string list" where
  "reservedHandles = [''admin'', ''audius'', ''api'', ''app'', ''blog'', ''contact'', ''dashboard'', ''dev'',
     ''developer'', ''docs'', ''download'', ''explore'', ''faq'', ''feed'', ''help'', ''home'', ''jobs'', ''legal'',
     ''library'', ''login'', ''logout'', ''manage'', ''media'', ''music'', ''news'', ''notifications'', ''oauth'',
     ''playlist'', ''playlists'', ''premium'', ''press'', ''privacy'', ''profile'', ''register'', ''search'',
     ''settings'', ''signup'', ''status'', ''support'', ''terms'', ''track'', ''tracks'', ''trending'', ''upload'',
     ''user'', ''users'', ''verify'']"

definition ValidateHandle :: "string \<Rightarrow> etl_error + unit" where
  "ValidateHandle h =
     (if h = [] then Inl (ValidationError ''handle is missing'')
      else (let handle = ToLower h in
        if \<not> list_all handle_char handle then Inl (ValidationError ''handle %q contains illegal characters'')
        else if RuneCountInString handle > 30 then Inl (ValidationError ''handle %q exceeds %d character limit'')
        else require (handle \<notin> set reservedHandles) ''handle %q is reserved''))"

definition ValidateUserName :: "string \<Rightarrow> etl_error + unit" where
  "ValidateUserName name = require (RuneCountInString name \<le> 32) ''name exceeds %d character limit''"

definition ValidateBio :: "string \<Rightarrow> etl_error + unit" where
  "ValidateBio bio = require (RuneCountInString bio \<le> 256) ''bio exceeds %d character limit''"

section \<open>Users\<close>

definition UserIDOffset :: int where "UserIDOffset = 3000000"

definition nullString :: "string \<Rightarrow> string option" where
  "nullString s = (if s = [] then None else Some s)"

definition user_text_columns :: "string list" where
  "user_text_columns = [''name'', ''bio'', ''location'', ''profile_picture'', ''profile_picture_sizes'',
     ''cover_photo'', ''cover_photo_sizes'', ''twitter_handle'', ''instagram_handle'', ''tiktok_handle'',
     ''website'', ''donation'', ''spl_usdc_payout_wallet'', ''coin_flair_mint'']"

definition isKnownProfileType :: "string \<Rightarrow> bool" where
  "isKnownProfileType v \<longleftrightarrow> v = ''label''"

definition metadata_library :: "Params \<Rightarrow> json option" where
  "metadata_library p = (case MetadataJSON p ''playlist_library'' of Some JNull \<Rightarrow> None | v \<Rightarrow> v)"

text \<open>The stateless checks that creating and updating a user share.\<close>

definition profile_limits :: "Params \<Rightarrow> etl_error + unit" where
  "profile_limits p = and_then (ValidateBio (MetadataString p ''bio'')) (\<lambda>_.
     and_then (ValidateUserName (MetadataString p ''name'')) (\<lambda>_. Inr ()))"

definition handle_format :: "Params \<Rightarrow> etl_error + unit" where
  "handle_format p = (let handle = MetadataString p ''handle'' in
     if handle = [] then Inr () else ValidateHandle handle)"

definition validateUserCreate :: "Params \<Rightarrow> idx_db \<Rightarrow> etl_error + unit" where
  "validateUserCreate p q =
     and_then (require (p_EntityType p = ''User'') ''wrong entity type %s'') (\<lambda>_.
     and_then (require (UserIDOffset \<le> p_UserID p) ''user id %d below offset %d'') (\<lambda>_.
     and_then (ValidateBio (MetadataString p ''bio'')) (\<lambda>_.
     and_then (handle_format p) (\<lambda>_.
     and_then (ValidateUserName (MetadataString p ''name'')) (\<lambda>_.
     and_then (userExists q (p_UserID p)) (\<lambda>exists.
     and_then (require (\<not> exists) ''user %d already exists'') (\<lambda>_.
     and_then (walletExists q (p_Signer p)) (\<lambda>walletUsed.
     and_then (require (\<not> walletUsed) ''wallet %s already in use'') (\<lambda>_.
     and_then (developerAppExists q (p_Signer p)) (\<lambda>isDeveloperApp.
     and_then (require (\<not> isDeveloperApp) ''developer app %s cannot create user'') (\<lambda>_.
     if MetadataString p ''handle'' = [] then Inr ()
     else and_then (handleExists q (ToLower (MetadataString p ''handle''))) (\<lambda>handleTaken.
       require (\<not> handleTaken) ''handle %q already exists''))))))))))))"

text \<open>
  The row of a new user, active and unverified. The insert does nothing when the user has a current row
  or one of the same transaction.
\<close>

definition new_user_row :: "Params \<Rightarrow> idx_user" where
  "new_user_row p =
     (let handle = MetadataString p ''handle''; profile_type = MetadataString p ''profile_type'' in
      \<lparr>iu_user_id = p_UserID p, iu_is_current = True, iu_wallet = Some (ToLower (p_Signer p)),
       iu_handle = nullString handle, iu_handle_lc = map_option ToLower (nullString handle),
       iu_text = (\<lambda>c. if c \<in> set user_text_columns then nullString (MetadataString p c) else None),
       iu_profile_type = (if isKnownProfileType profile_type then Some profile_type else None),
       iu_playlist_library = metadata_library p, iu_artist_pick_track_id = None,
       iu_allow_ai_attribution = MetadataBoolOr p ''allow_ai_attribution'' False,
       iu_is_verified = False, iu_verified_with = (\<lambda>_. False), iu_is_deactivated = False, iu_is_available = True,
       iu_created_at = p_BlockTime p, iu_updated_at = p_BlockTime p, iu_txhash = p_TxHash p,
       iu_blockhash = p_BlockHash p, iu_blocknumber = p_BlockNumber p\<rparr>)"

definition insertUser :: "Params \<Rightarrow> idx_db \<Rightarrow> etl_error + idx_db" where
  "insertUser p q = run_query q ''insertUser'' (p_TxHash p) (p_UserID p)
     (if list_ex (\<lambda>r. iu_user_id r = p_UserID p \<and> (iu_is_current r \<or> iu_txhash r = p_TxHash p)) (idx_users q) then q
      else q\<lparr>idx_users := idx_users q @ [new_user_row p]\<rparr>)"

definition UserCreate :: "Params \<Rightarrow> idx_db \<Rightarrow> etl_error + idx_db" where
  "UserCreate p q = and_then (validateUserCreate p q) (\<lambda>_. insertUser p q)"

definition getUserHandle :: "idx_db \<Rightarrow> int \<Rightarrow> etl_error + string" where
  "getUserHandle q userID = run_query q ''getUserHandle'' [] userID
     (case limit_one q ''getUserHandle'' [] userID (current_users q userID) of
        None \<Rightarrow> []
      | Some r \<Rightarrow> (case iu_handle_lc r of None \<Rightarrow> [] | Some h \<Rightarrow> h))"

definition validateUserUpdate :: "Params \<Rightarrow> idx_db \<Rightarrow> etl_error + unit" where
  "validateUserUpdate p q =
     (let handle = MetadataString p ''handle''; newHandleLC = ToLower handle in
      and_then (require (p_EntityType p = ''User'') ''wrong entity type %s'') (\<lambda>_.
      and_then (require (p_Action p = ''Update'') ''wrong action %s'') (\<lambda>_.
      and_then (profile_limits p) (\<lambda>_.
      and_then (handle_format p) (\<lambda>_.
      and_then (ValidateSigner p q) (\<lambda>_.
      and_then (userExists q (p_UserID p)) (\<lambda>exists.
      and_then (require exists ''user %d does not exist'') (\<lambda>_.
      if handle = [] then Inr ()
      else and_then (getUserHandle q (p_UserID p)) (\<lambda>existingHandle.
        if existingHandle = newHandleLC then Inr ()
        else and_then (handleExists q newHandleLC) (\<lambda>handleTaken.
          require (\<not> handleTaken) ''handle %q already exists''))))))))))"

definition mergeNullStr :: "Params \<Rightarrow> string \<Rightarrow> string option \<Rightarrow> string option" where
  "mergeNullStr p key existing = (if MetadataJSON p key = None then existing
     else (let s = MetadataString p key in if s = [] then existing else Some s))"

definition trackExistsAndOwnedBy :: "idx_db \<Rightarrow> int \<Rightarrow> int \<Rightarrow> etl_error + bool" where
  "trackExistsAndOwnedBy q trackID ownerID = run_query q ''trackExistsAndOwnedBy'' (FormatInt trackID) ownerID
     (list_ex (\<lambda>t. it_track_id t = trackID \<and> it_owner_id t = ownerID \<and> it_is_current t \<and> \<not> it_is_delete t) (idx_tracks q))"

definition resolveArtistPick :: "Params \<Rightarrow> idx_db \<Rightarrow> int option \<Rightarrow> etl_error + int option" where
  "resolveArtistPick p q existing =
     (let pick = (case MetadataJSON p ''artist_pick_track_id'' of
            None \<Rightarrow> existing
          | Some JNull \<Rightarrow> None
          | Some _ \<Rightarrow> (case MetadataInt64 p ''artist_pick_track_id'' of
              None \<Rightarrow> existing
            | Some trackID \<Rightarrow> if trackID = 0 then None else Some trackID))
      in case pick of
           None \<Rightarrow> Inr None
         | Some trackID \<Rightarrow> and_then (trackExistsAndOwnedBy q trackID (p_UserID p)) (\<lambda>owned.
             Inr (if owned then Some trackID else None)))"

definition updated_user :: "Params \<Rightarrow> int option \<Rightarrow> idx_user \<Rightarrow> idx_user" where
  "updated_user p pick existing =
     (let handle = mergeNullStr p ''handle'' (iu_handle existing); profile_type = MetadataString p ''profile_type'' in
      existing\<lparr>iu_handle := handle,
        iu_handle_lc := (case handle of None \<Rightarrow> iu_handle_lc existing | Some h \<Rightarrow> Some (ToLower h)),
        iu_text := (\<lambda>c. if c \<in> set user_text_columns then mergeNullStr p c (iu_text existing c) else iu_text existing c),
        iu_profile_type := (if isKnownProfileType profile_type then Some profile_type else iu_profile_type existing),
        iu_artist_pick_track_id := pick,
        iu_allow_ai_attribution := MetadataBoolOr p ''allow_ai_attribution'' (iu_allow_ai_attribution existing),
        iu_is_deactivated := MetadataBoolOr p ''is_deactivated'' (iu_is_deactivated existing),
        iu_playlist_library := (case metadata_library p of None \<Rightarrow> iu_playlist_library existing | v \<Rightarrow> v),
        iu_updated_at := p_BlockTime p, iu_txhash := p_TxHash p, iu_blocknumber := p_BlockNumber p\<rparr>)"

text \<open>
  An update of the current row. It fails when another row of the user carries the hash of the transaction.
\<close>

definition write_user :: "Params \<Rightarrow> idx_db \<Rightarrow> idx_user \<Rightarrow> etl_error + idx_db" where
  "write_user p q row =
     (if list_ex (\<lambda>r. iu_user_id r = p_UserID p \<and> \<not> iu_is_current r \<and> iu_txhash r = p_TxHash p) (idx_users q)
      then Inl (HardError unique_violation)
      else run_query q ''updateUser'' (p_TxHash p) (p_UserID p)
        (q\<lparr>idx_users := map (\<lambda>r. if iu_user_id r = p_UserID p \<and> iu_is_current r then row else r) (idx_users q)\<rparr>))"

definition getCurrentUser :: "idx_db \<Rightarrow> int \<Rightarrow> etl_error + idx_user" where
  "getCurrentUser q userID = and_then (run_query q ''getCurrentUser'' [] userID
     (limit_one q ''getCurrentUser'' [] userID (current_users q userID))) (of_option NoRows)"

definition updateUser :: "Params \<Rightarrow> idx_db \<Rightarrow> etl_error + idx_db" where
  "updateUser p q = and_then (getCurrentUser q (p_UserID p)) (\<lambda>existing.
     and_then (resolveArtistPick p q (iu_artist_pick_track_id existing)) (\<lambda>pick.
     write_user p q (updated_user p pick existing)))"

definition UserUpdate :: "Params \<Rightarrow> idx_db \<Rightarrow> etl_error + idx_db" where
  "UserUpdate p q = and_then (validateUserUpdate p q) (\<lambda>_. updateUser p q)"

definition VerifiedAddress :: string where
  "VerifiedAddress = ''0xbeef8E42e8B5964fDD2b7ca8efA0d9aef38AA996''"

definition validateUserVerify :: "Params \<Rightarrow> idx_db \<Rightarrow> etl_error + unit" where
  "validateUserVerify p q =
     and_then (require (p_EntityType p = ''User'') ''wrong entity type %s'') (\<lambda>_.
     and_then (require (p_Action p = ''Verify'') ''wrong action %s'') (\<lambda>_.
     and_then (userExists q (p_UserID p)) (\<lambda>exists.
     and_then (require exists ''user %d does not exist'') (\<lambda>_.
     require (VerifiedAddress = [] \<or> EqualFold (p_Signer p) VerifiedAddress) ''signer %s does not match verified address''))))"

definition verified_user :: "Params \<Rightarrow> idx_user \<Rightarrow> idx_user" where
  "verified_user p existing =
     (let isVerified = (iu_is_verified existing \<or> MetadataBoolOr p ''is_verified'' False);
          cols = [''twitter_handle'', ''instagram_handle'', ''tiktok_handle''];
          texts = (\<lambda>c. if c \<in> set cols then mergeNullStr p c (iu_text existing c) else iu_text existing c)
      in existing\<lparr>iu_is_verified := isVerified, iu_text := texts,
           iu_verified_with := (\<lambda>c. iu_verified_with existing c \<or> (isVerified \<and> c \<in> set cols \<and> texts c \<noteq> None)),
           iu_updated_at := p_BlockTime p, iu_txhash := p_TxHash p, iu_blocknumber := p_BlockNumber p\<rparr>)"

definition UserVerify :: "Params \<Rightarrow> idx_db \<Rightarrow> etl_error + idx_db" where
  "UserVerify p q = and_then (validateUserVerify p q) (\<lambda>_.
     and_then (getCurrentUser q (p_UserID p)) (\<lambda>existing. write_user p q (verified_user p existing)))"

section \<open>Developer apps\<close>

text \<open>
  The regular expression of image URLs, as functions from a text to what is left after each way of
  matching a prefix of it.
\<close>

type_synonym pattern = "string \<Rightarrow> string list"

definition lit :: "string \<Rightarrow> pattern" where
  "lit l s = (if take (length l) s = l then [drop (length l) s] else [])"

definition seq :: "pattern \<Rightarrow> pattern \<Rightarrow> pattern" where
  "seq a b s = concat (map b (a s))"

definition alt :: "pattern list \<Rightarrow> pattern" where
  "alt ps s = concat (map (\<lambda>p. p s) ps)"

definition optional :: "pattern \<Rightarrow> pattern" where
  "optional a s = a s @ [s]"

definition one :: "(char \<Rightarrow> bool) \<Rightarrow> pattern" where
  "one P s = (case s of [] \<Rightarrow> [] | c # r \<Rightarrow> if P c then [r] else [])"

fun many :: "(char \<Rightarrow> bool) \<Rightarrow> pattern" where
  "many P [] = [[]]"
| "many P (c # s) = (if P c then many P s else []) @ [c # s]"

fun rep1 :: "nat \<Rightarrow> pattern \<Rightarrow> pattern" where
  "rep1 0 a s = []"
| "rep1 (Suc n) a s = concat (map (\<lambda>r. rep1 n a r @ [r]) (a s))"

definition some :: "(char \<Rightarrow> bool) \<Rightarrow> pattern" where
  "some P = seq (one P) (many P)"

definition word_char :: "char \<Rightarrow> bool" where
  "word_char c \<longleftrightarrow> (let n = of_char (lower_char c) :: int in 97 \<le> n \<and> n \<le> 122) \<or> is_digit c \<or> c = CHR ''_'' \<or> c = CHR ''-''"

definition space_char :: "char \<Rightarrow> bool" where
  "space_char c \<longleftrightarrow> of_char c \<in> {9, 10, 12, 13, 32 :: int}"

definition image_url_pattern :: pattern where
  "image_url_pattern =
     seq (optional (one (\<lambda>c. c = CHR '' '' \<or> of_char c = (9 :: int))))
     (seq (optional (seq (lit ''http'') (seq (optional (lit ''s'')) (lit ''://''))))
     (seq (alt [lit ''localhost'',
             seq (lit ''cn'') (seq (one is_digit) (seq (lit ''_creator-node_1:'') (some is_digit))),
             seq (lit ''audius-protocol-creator-node-'') (one is_digit),
             seq (lit ''audius-protocol-discovery-provider-'') (one is_digit),
             seq (some word_char) (\<lambda>s. rep1 (length s) (seq (lit ''.'') (some word_char)) s)])
     (seq (optional (seq (lit '':'') (some is_digit)))
          (optional (seq (lit ''/'') (many (\<lambda>c. \<not> space_char c)))))))"

definition validatedAppImageURL :: "Params \<Rightarrow> string" where
  "validatedAppImageURL p = (let img = MetadataString p ''image_url'' in
     if img \<noteq> [] \<and> [] \<in> set (image_url_pattern img) then img else [])"

definition redirect_uri :: "json \<Rightarrow> string option" where
  "redirect_uri v = (case v of JStr s \<Rightarrow> if RuneCountInString s > 2000 then None else Some s | _ \<Rightarrow> None)"

text \<open>The URIs where the field counts as present.\<close>

definition extractRedirectURIs :: "Params \<Rightarrow> string list option" where
  "extractRedirectURIs p = (case MetadataJSON p ''redirect_uris'' of
     Some JNull \<Rightarrow> Some []
   | Some (JArr vs) \<Rightarrow> if list_all (\<lambda>v. redirect_uri v \<noteq> None) vs
       then Some (take 50 (List.map_filter redirect_uri vs)) else None
   | _ \<Rightarrow> None)"

definition replaceRedirectURIs :: "string \<Rightarrow> string list \<Rightarrow> idx_db \<Rightarrow> etl_error + idx_db" where
  "replaceRedirectURIs clientID uris q =
     and_then (run_query q ''deleteRedirectURIs'' clientID 0
       (q\<lparr>idx_oauth_redirect_uris := filter (\<lambda>e. fst e \<noteq> clientID) (idx_oauth_redirect_uris q)\<rparr>))
     (for_each (\<lambda>uri q. run_query q ''insertRedirectURI'' (clientID @ '' '' @ uri) 0
       (q\<lparr>idx_oauth_redirect_uris := idx_oauth_redirect_uris q @ [(clientID, uri)]\<rparr>)) uris)"

definition getDeveloperAppOwner :: "idx_db \<Rightarrow> string \<Rightarrow> etl_error + int" where
  "getDeveloperAppOwner q address = and_then (run_query q ''getDeveloperAppOwner'' address 0
     (limit_one q ''getDeveloperAppOwner'' address 0
       (filter (\<lambda>r. ia_address r = address \<and> \<not> ia_is_delete r) (idx_developer_apps q))))
     (\<lambda>r. of_option NoRows (map_option ia_user_id r))"

text \<open>The oldest row of the address; of several as old the query plan decides.\<close>

definition getDeveloperAppDetails :: "idx_db \<Rightarrow> string \<Rightarrow> etl_error + bool \<times> int" where
  "getDeveloperAppDetails q address =
     (let rows = filter (\<lambda>r. ia_address r = address) (idx_developer_apps q);
          oldest = filter (\<lambda>r. list_all (\<lambda>r'. ia_created_at r \<le> ia_created_at r') rows) rows
      in and_then (run_query q ''getDeveloperAppDetails'' address 0 (limit_one q ''getDeveloperAppDetails'' address 0 oldest))
           (\<lambda>r. of_option NoRows (map_option (\<lambda>r. (ia_is_personal_access r, ia_created_at r)) r)))"

definition insert_app :: "idx_app \<Rightarrow> idx_db \<Rightarrow> etl_error + idx_db" where
  "insert_app row q =
     (if list_ex (\<lambda>r. ia_address r = ia_address row \<and> ia_txhash r = ia_txhash row) (idx_developer_apps q)
      then Inl (HardError unique_violation)
      else run_query q ''insertDeveloperApp'' (ia_address row) 0 (q\<lparr>idx_developer_apps := idx_developer_apps q @ [row]\<rparr>))"

definition demote_app :: "string \<Rightarrow> idx_db \<Rightarrow> etl_error + idx_db" where
  "demote_app address q = run_query q ''demoteDeveloperApp'' address 0
     (q\<lparr>idx_developer_apps := map (\<lambda>r. if ia_address r = address \<and> ia_is_current r then r\<lparr>ia_is_current := False\<rparr> else r)
         (idx_developer_apps q)\<rparr>)"

definition app_limits :: "Params \<Rightarrow> string \<Rightarrow> etl_error + unit" where
  "app_limits p missing = (let name = MetadataString p ''name'' in
     and_then (require (p_Metadata p \<noteq> None) missing) (\<lambda>_.
     and_then (require (name \<noteq> []) ''name is required for developer app'') (\<lambda>_.
     and_then (require (RuneCountInString name \<le> 50) ''name exceeds %d character limit'') (\<lambda>_.
     require (RuneCountInString (MetadataString p ''description'') \<le> 160) ''description exceeds %d character limit''))))"

definition validateDeveloperAppCreate :: "Params \<Rightarrow> idx_db \<Rightarrow> etl_error + unit" where
  "validateDeveloperAppCreate p q =
     (let address = ToLower (MetadataString p ''address'') in
      and_then (app_limits p ''metadata is required for developer app creation'') (\<lambda>_.
      and_then (ValidateSigner p q) (\<lambda>_.
      and_then (require (address \<noteq> []) ''address is required for developer app'') (\<lambda>_.
      and_then (developerAppExists q address) (\<lambda>exists.
      and_then (require (\<not> exists) ''developer app %s already exists'') (\<lambda>_.
      and_then (walletExists q address) (\<lambda>walletUsed.
      require (\<not> walletUsed) ''address %s is already a user wallet'')))))))"

definition insertDeveloperApp :: "Params \<Rightarrow> idx_db \<Rightarrow> etl_error + idx_db" where
  "insertDeveloperApp p q =
     (let address = ToLower (MetadataString p ''address'') in
      and_then (insert_app \<lparr>ia_address = address, ia_user_id = p_UserID p, ia_name = MetadataString p ''name'',
        ia_description = nullString (MetadataString p ''description''),
        ia_image_url = nullString (validatedAppImageURL p),
        ia_is_personal_access = MetadataBoolOr p ''is_personal_access'' False, ia_is_current = True, ia_is_delete = False,
        ia_created_at = p_BlockTime p, ia_updated_at = p_BlockTime p, ia_txhash = p_TxHash p,
        ia_blocknumber = p_BlockNumber p\<rparr> q) (\<lambda>q1.
      case extractRedirectURIs p of
        Some (uri # uris) \<Rightarrow> replaceRedirectURIs address (uri # uris) q1
      | _ \<Rightarrow> Inr q1))"

definition DeveloperAppCreate :: "Params \<Rightarrow> idx_db \<Rightarrow> etl_error + idx_db" where
  "DeveloperAppCreate p q = and_then (validateDeveloperAppCreate p q) (\<lambda>_. insertDeveloperApp p q)"

text \<open>The checks that updating and deleting an app share.\<close>

definition owned_app :: "Params \<Rightarrow> idx_db \<Rightarrow> string \<Rightarrow> etl_error + unit" where
  "owned_app p q missing = (let address = ToLower (MetadataString p ''address'') in
     and_then (ValidateSigner p q) (\<lambda>_.
     and_then (require (address \<noteq> []) missing) (\<lambda>_.
     and_then (developerAppExists q address) (\<lambda>exists.
     and_then (require exists ''developer app %s does not exist'') (\<lambda>_.
     and_then (getDeveloperAppOwner q address) (\<lambda>ownerID.
     require (ownerID = p_UserID p) ''developer app %s does not match user %d''))))))"

definition validateDeveloperAppUpdate :: "Params \<Rightarrow> idx_db \<Rightarrow> etl_error + unit" where
  "validateDeveloperAppUpdate p q =
     and_then (app_limits p ''metadata is required for developer app update'') (\<lambda>_.
     owned_app p q ''address is required for developer app update'')"

definition validateDeveloperAppDelete :: "Params \<Rightarrow> idx_db \<Rightarrow> etl_error + unit" where
  "validateDeveloperAppDelete p q = owned_app p q ''address is required for developer app delete''"

definition updateDeveloperApp :: "Params \<Rightarrow> idx_db \<Rightarrow> etl_error + idx_db" where
  "updateDeveloperApp p q =
     (let address = ToLower (MetadataString p ''address'') in
      and_then (demote_app address q) (\<lambda>q1.
      and_then (getDeveloperAppDetails q1 address) (\<lambda>(isPersonalAccess, createdAt).
      and_then (insert_app \<lparr>ia_address = address, ia_user_id = p_UserID p, ia_name = MetadataString p ''name'',
        ia_description = nullString (MetadataString p ''description''),
        ia_image_url = nullString (validatedAppImageURL p),
        ia_is_personal_access = isPersonalAccess, ia_is_current = True, ia_is_delete = False,
        ia_created_at = createdAt, ia_updated_at = p_BlockTime p, ia_txhash = p_TxHash p,
        ia_blocknumber = p_BlockNumber p\<rparr> q1) (\<lambda>q2.
      case extractRedirectURIs p of
        Some uris \<Rightarrow> replaceRedirectURIs address uris q2
      | None \<Rightarrow> Inr q2))))"

definition DeveloperAppUpdate :: "Params \<Rightarrow> idx_db \<Rightarrow> etl_error + idx_db" where
  "DeveloperAppUpdate p q = and_then (validateDeveloperAppUpdate p q) (\<lambda>_. updateDeveloperApp p q)"

definition deleteDeveloperApp :: "Params \<Rightarrow> idx_db \<Rightarrow> etl_error + idx_db" where
  "deleteDeveloperApp p q =
     (let address = ToLower (MetadataString p ''address'') in
      and_then (demote_app address q) (\<lambda>q1.
      and_then (getDeveloperAppDetails q1 address) (\<lambda>(isPersonalAccess, createdAt).
      insert_app \<lparr>ia_address = address, ia_user_id = p_UserID p, ia_name = [], ia_description = None,
        ia_image_url = None, ia_is_personal_access = isPersonalAccess, ia_is_current = True, ia_is_delete = True,
        ia_created_at = createdAt, ia_updated_at = p_BlockTime p, ia_txhash = p_TxHash p,
        ia_blocknumber = p_BlockNumber p\<rparr> q1)))"

definition DeveloperAppDelete :: "Params \<Rightarrow> idx_db \<Rightarrow> etl_error + idx_db" where
  "DeveloperAppDelete p q = and_then (validateDeveloperAppDelete p q) (\<lambda>_. deleteDeveloperApp p q)"

section \<open>Grants\<close>

definition grantee_of :: "Params \<Rightarrow> string" where
  "grantee_of p = ToLower (MetadataString p ''grantee_address'')"

definition validateGrantCreate :: "Params \<Rightarrow> idx_db \<Rightarrow> etl_error + unit" where
  "validateGrantCreate p q =
     and_then (ValidateSigner p q) (\<lambda>_.
     and_then (require (grantee_of p \<noteq> []) ''grantee_address is required for grant creation'') (\<lambda>_.
     and_then (developerAppExists q (grantee_of p)) (\<lambda>isApp.
     and_then (walletExists q (grantee_of p)) (\<lambda>isUser.
     and_then (require (isApp \<or> isUser) ''grantee %s is not a developer app or user wallet'') (\<lambda>_.
     and_then (activeGrantExists q (grantee_of p) (p_UserID p)) (\<lambda>active.
     require (\<not> active) ''active grant already exists for grantee %s from user %d''))))))"

definition insert_grant :: "idx_grant \<Rightarrow> idx_db \<Rightarrow> etl_error + idx_db" where
  "insert_grant row q =
     (if list_ex (\<lambda>r. ig_grantee_address r = ig_grantee_address row \<and> ig_user_id r = ig_user_id row \<and>
           ig_txhash r = ig_txhash row) (idx_grants q)
      then Inl (HardError unique_violation)
      else run_query q ''insertGrant'' (ig_grantee_address row) (ig_user_id row) (q\<lparr>idx_grants := idx_grants q @ [row]\<rparr>))"

text \<open>A failed look-up of the app counts as no app.\<close>

definition insertGrant :: "Params \<Rightarrow> idx_db \<Rightarrow> etl_error + idx_db" where
  "insertGrant p q =
     insert_grant \<lparr>ig_grantee_address = grantee_of p, ig_user_id = p_UserID p, ig_is_revoked = False, ig_is_current = True,
       ig_is_approved = (if developerAppExists q (grantee_of p) = Inr True then Some True else None),
       ig_created_at = p_BlockTime p, ig_updated_at = p_BlockTime p, ig_txhash = p_TxHash p,
       ig_blocknumber = p_BlockNumber p\<rparr> q"

definition GrantCreate :: "Params \<Rightarrow> idx_db \<Rightarrow> etl_error + idx_db" where
  "GrantCreate p q = and_then (validateGrantCreate p q) (\<lambda>_. insertGrant p q)"

definition setGrantRevoked :: "Params \<Rightarrow> string \<Rightarrow> int \<Rightarrow> bool option \<Rightarrow> bool \<Rightarrow> idx_db \<Rightarrow> etl_error + idx_db" where
  "setGrantRevoked p granteeAddress userID isApproved isRevoked q =
     and_then (getActiveGrant q granteeAddress userID) (\<lambda>grant.
     and_then (run_query q ''demoteGrant'' granteeAddress userID
       (q\<lparr>idx_grants := map (\<lambda>r. if ig_grantee_address r = granteeAddress \<and> ig_user_id r = userID \<and> ig_is_current r
           then r\<lparr>ig_is_current := False\<rparr> else r) (idx_grants q)\<rparr>)) (\<lambda>q1.
     insert_grant \<lparr>ig_grantee_address = granteeAddress, ig_user_id = userID, ig_is_revoked = isRevoked, ig_is_current = True,
       ig_is_approved = (case isApproved of None \<Rightarrow> ig_is_approved grant | Some b \<Rightarrow> Some b),
       ig_created_at = ig_created_at grant, ig_updated_at = p_BlockTime p, ig_txhash = p_TxHash p,
       ig_blocknumber = p_BlockNumber p\<rparr> q1))"

definition validateGrantDelete :: "Params \<Rightarrow> idx_db \<Rightarrow> etl_error + unit" where
  "validateGrantDelete p q =
     and_then (require (grantee_of p \<noteq> []) ''grantee_address is required for grant revoke'') (\<lambda>_.
     and_then (activeGrantExists q (grantee_of p) (p_UserID p)) (\<lambda>active.
     and_then (require active ''no active grant for grantee %s from user %d'') (\<lambda>_.
     if ValidateSigner p q = Inr () then Inr ()
     else and_then (activeUserIDByWallet q (grantee_of p)) (\<lambda>granteeUserID.
       require (\<exists>u\<in>set_option granteeUserID. validateSignerForUser p q u = Inr ())
         ''signer %s is not authorized to revoke the grant for grantee %s from user %d''))))"

definition GrantDelete :: "Params \<Rightarrow> idx_db \<Rightarrow> etl_error + idx_db" where
  "GrantDelete p q = and_then (validateGrantDelete p q) (\<lambda>_.
     setGrantRevoked p (grantee_of p) (p_UserID p) None True q)"

text \<open>Approving and rejecting differ in the message about a missing field only; the grantor is returned.\<close>

definition validateGrantApprove :: "string \<Rightarrow> Params \<Rightarrow> idx_db \<Rightarrow> etl_error + int" where
  "validateGrantApprove action p q =
     and_then (ValidateSigner p q) (\<lambda>_.
     and_then (require (grantee_of p \<noteq> []) (''grantee_address is required for grant '' @ action)) (\<lambda>_.
     and_then (of_option (ValidationError (''grantor_user_id is required for grant '' @ action)) (MetadataInt64 p ''grantor_user_id'')) (\<lambda>grantor.
     (case getActiveGrant q (grantee_of p) grantor of
        Inl _ \<Rightarrow> Inl (ValidationError ''grant not found for grantee %s from user %d'')
      | Inr grant \<Rightarrow>
        and_then (require (\<not> ig_is_revoked grant) ''grant is already revoked'') (\<lambda>_.
        and_then (require (ig_is_approved grant \<noteq> Some True) ''grant is already approved'') (\<lambda>_. Inr grantor))))))"

definition GrantApprove :: "Params \<Rightarrow> idx_db \<Rightarrow> etl_error + idx_db" where
  "GrantApprove p q = and_then (validateGrantApprove ''approve'' p q) (\<lambda>grantor.
     setGrantRevoked p (grantee_of p) grantor (Some True) False q)"

definition GrantReject :: "Params \<Rightarrow> idx_db \<Rightarrow> etl_error + idx_db" where
  "GrantReject p q = and_then (validateGrantApprove ''reject'' p q) (\<lambda>grantor.
     setGrantRevoked p (grantee_of p) grantor (Some False) True q)"

section \<open>Dispatching\<close>

type_synonym etl_handler = "Params \<Rightarrow> idx_db \<Rightarrow> etl_error + idx_db"

text \<open>A hook returns an error or not, and the tables as it left them.\<close>

type_synonym post_hook = "Params \<Rightarrow> idx_db \<Rightarrow> etl_error option \<times> idx_db"

record Dispatcher =
  dsp_handlers :: "(string, etl_handler) table"
  dsp_postHooks :: "(string, post_hook list) table"

definition handlerKey :: "string \<Rightarrow> string \<Rightarrow> string" where
  "handlerKey entityType action = entityType @ '':'' @ action"

definition Register :: "string \<Rightarrow> string \<Rightarrow> etl_handler \<Rightarrow> Dispatcher \<Rightarrow> Dispatcher" where
  "Register entityType action h d =
     d\<lparr>dsp_handlers := AList.update (handlerKey entityType action) h (dsp_handlers d)\<rparr>"

definition hooks_of :: "Dispatcher \<Rightarrow> string \<Rightarrow> post_hook list" where
  "hooks_of d key = (case map_of (dsp_postHooks d) key of None \<Rightarrow> [] | Some hs \<Rightarrow> hs)"

definition RegisterPostHook :: "string \<Rightarrow> string \<Rightarrow> post_hook \<Rightarrow> Dispatcher \<Rightarrow> Dispatcher" where
  "RegisterPostHook entityType action fn d = (let key = handlerKey entityType action in
     d\<lparr>dsp_postHooks := AList.update key (hooks_of d key @ [fn]) (dsp_postHooks d)\<rparr>)"

definition runPostHooks :: "Dispatcher \<Rightarrow> string \<Rightarrow> string \<Rightarrow> Params \<Rightarrow> idx_db \<Rightarrow> idx_db" where
  "runPostHooks d exactKey fallbackKey p q =
     fold (\<lambda>hook q. snd (hook p q))
       (hooks_of d exactKey @ (if exactKey \<noteq> fallbackKey then hooks_of d fallbackKey else [])) q"

definition Dispatch :: "Dispatcher \<Rightarrow> Params \<Rightarrow> idx_db \<Rightarrow> etl_error + idx_db" where
  "Dispatch d p q =
     (let key = handlerKey (p_EntityType p) (p_Action p); fallback = handlerKey ''*'' (p_Action p);
          run = (\<lambda>h hookKey. and_then (h p q) (\<lambda>q1. Inr (runPostHooks d key hookKey p q1)))
      in case map_of (dsp_handlers d) key of
           Some h \<Rightarrow> run h key
         | None \<Rightarrow> (case map_of (dsp_handlers d) fallback of
             Some h \<Rightarrow> run h fallback
           | None \<Rightarrow> Inl ErrNoHandler))"

definition HasHandler :: "Dispatcher \<Rightarrow> string \<Rightarrow> string \<Rightarrow> bool" where
  "HasHandler d entityType action \<longleftrightarrow>
     map_of (dsp_handlers d) (handlerKey entityType action) \<noteq> None \<or>
     map_of (dsp_handlers d) (handlerKey ''*'' action) \<noteq> None"

end
