(* ===== verification/Indexer_Social.thy ===== *)
theory Indexer_Social
  imports Indexer
begin

text \<open>
  The indexer's handlers of follows, subscriptions, saves and reposts
  (\<^verbatim>\<open>social_follow.go\<close>, \<^verbatim>\<open>social_subscription.go\<close>, \<^verbatim>\<open>social_save.go\<close>, \<^verbatim>\<open>social_repost.go\<close>), the
  registration of the handlers and the processing of the ManageEntity transactions of a block.
\<close>

section \<open>Rows\<close>

definition social_row :: "Params \<Rightarrow> string \<Rightarrow> bool \<Rightarrow> bool \<Rightarrow> idx_social" where
  "social_row p kind ofRepost isDelete = \<lparr>is_user = p_UserID p, is_item = p_EntityID p, is_kind = kind,
     is_of_repost = ofRepost, is_is_current = True, is_is_delete = isDelete, is_created_at = p_BlockTime p,
     is_txhash = p_TxHash p, is_blocknumber = p_BlockNumber p\<rparr>"

definition social_key :: "idx_social \<Rightarrow> int \<times> int \<times> string" where
  "social_key r = (is_user r, is_item r, is_kind r)"

text \<open>
  \<^verbatim>\<open>INSERT ... ON CONFLICT ... WHERE is_current DO UPDATE\<close>, where the update sets every column that
  is not part of the key. It fails when a row other than the one it updates has the same primary key;
  the primary key of subscriptions leaves out the kind.
\<close>

definition upsert_social :: "bool \<Rightarrow> idx_social \<Rightarrow> idx_social list \<Rightarrow> etl_error + idx_social list" where
  "upsert_social kinded row rows =
     (let target = (\<lambda>r. social_key r = social_key row \<and> is_is_current r);
          clash = (\<lambda>r. is_user r = is_user row \<and> is_item r = is_item row \<and> (kinded \<longrightarrow> is_kind r = is_kind row) \<and>
            is_txhash r = is_txhash row \<and> \<not> target r)
      in if list_ex clash rows then Inl (HardError unique_violation)
         else if list_ex target rows then Inr (map (\<lambda>r. if target r then row else r) rows)
         else Inr (rows @ [row]))"

definition is_active :: "idx_social list \<Rightarrow> int \<Rightarrow> int \<Rightarrow> string \<Rightarrow> bool" where
  "is_active rows user item kind \<longleftrightarrow>
     list_ex (\<lambda>r. social_key r = (user, item, kind) \<and> is_is_current r \<and> \<not> is_is_delete r) rows"

section \<open>Follows\<close>

definition followExists :: "idx_db \<Rightarrow> int \<Rightarrow> int \<Rightarrow> etl_error + bool" where
  "followExists q followerID followeeID = run_query q ''followExists'' (FormatInt followerID) followeeID
     (is_active (idx_follows q) followerID followeeID [])"

definition insertFollowRow :: "Params \<Rightarrow> bool \<Rightarrow> idx_db \<Rightarrow> etl_error + idx_db" where
  "insertFollowRow p isDelete q =
     and_then (upsert_social True (social_row p [] False isDelete) (idx_follows q)) (\<lambda>rows.
     run_query q ''insertFollowRow'' (FormatInt (p_UserID p)) (p_EntityID p) (q\<lparr>idx_follows := rows\<rparr>))"

definition insertImpliedSubscription :: "Params \<Rightarrow> bool \<Rightarrow> idx_db \<Rightarrow> etl_error + idx_db" where
  "insertImpliedSubscription p isDelete q =
     and_then (upsert_social False (social_row p ''User'' False isDelete) (idx_subscriptions q)) (\<lambda>rows.
     run_query q ''insertImpliedSubscription'' (FormatInt (p_UserID p)) (p_EntityID p) (q\<lparr>idx_subscriptions := rows\<rparr>))"

definition insertFollow :: "Params \<Rightarrow> bool \<Rightarrow> idx_db \<Rightarrow> etl_error + idx_db" where
  "insertFollow p isDelete q = and_then (insertFollowRow p isDelete q) (insertImpliedSubscription p isDelete)"

definition validateFollow :: "Params \<Rightarrow> idx_db \<Rightarrow> etl_error + unit" where
  "validateFollow p q =
     and_then (require (p_UserID p \<noteq> p_EntityID p) ''user cannot follow themselves'') (\<lambda>_.
     and_then (ValidateSigner p q) (\<lambda>_.
     and_then (userExists q (p_EntityID p)) (\<lambda>exists.
     and_then (require exists ''followee user %d does not exist'') (\<lambda>_.
     and_then (followExists q (p_UserID p) (p_EntityID p)) (\<lambda>dup.
     require (\<not> dup) ''follow already exists from %d to %d'')))))"

definition Follow :: "Params \<Rightarrow> idx_db \<Rightarrow> etl_error + idx_db" where
  "Follow p q = and_then (validateFollow p q) (\<lambda>_. insertFollow p False q)"

definition validateUnfollow :: "Params \<Rightarrow> idx_db \<Rightarrow> etl_error + unit" where
  "validateUnfollow p q =
     and_then (ValidateSigner p q) (\<lambda>_.
     and_then (followExists q (p_UserID p) (p_EntityID p)) (\<lambda>dup.
     require dup ''no active follow from %d to %d''))"

definition Unfollow :: "Params \<Rightarrow> idx_db \<Rightarrow> etl_error + idx_db" where
  "Unfollow p q = and_then (validateUnfollow p q) (\<lambda>_. insertFollow p True q)"

section \<open>Subscriptions\<close>

definition subscriptionEntityType :: "Params \<Rightarrow> string" where
  "subscriptionEntityType p = (if p_EntityType p = ''Event'' then ''Event'' else ''User'')"

definition eventExists :: "idx_db \<Rightarrow> int \<Rightarrow> etl_error + bool" where
  "eventExists q eventID = run_query q ''eventExists'' [] eventID ((eventID, False) \<in> set (idx_events q))"

definition subscriptionTargetExists :: "Params \<Rightarrow> idx_db \<Rightarrow> etl_error + bool" where
  "subscriptionTargetExists p q = (if subscriptionEntityType p = ''Event''
     then eventExists q (p_EntityID p) else userExists q (p_EntityID p))"

definition subscriptionExists :: "idx_db \<Rightarrow> int \<Rightarrow> int \<Rightarrow> string \<Rightarrow> etl_error + bool" where
  "subscriptionExists q subscriberID userID entityType =
     run_query q ''subscriptionExists'' (entityType @ FormatInt subscriberID) userID
       (is_active (idx_subscriptions q) subscriberID userID entityType)"

definition insertSubscription :: "Params \<Rightarrow> bool \<Rightarrow> idx_db \<Rightarrow> etl_error + idx_db" where
  "insertSubscription p isDelete q =
     and_then (upsert_social False (social_row p (subscriptionEntityType p) False isDelete) (idx_subscriptions q)) (\<lambda>rows.
     run_query q ''insertSubscription'' (FormatInt (p_UserID p)) (p_EntityID p) (q\<lparr>idx_subscriptions := rows\<rparr>))"

definition validateSubscribe :: "Params \<Rightarrow> idx_db \<Rightarrow> etl_error + unit" where
  "validateSubscribe p q =
     (let entityType = subscriptionEntityType p in
      and_then (require (\<not> (entityType = ''User'' \<and> p_UserID p = p_EntityID p)) ''user cannot subscribe to themselves'') (\<lambda>_.
      and_then (ValidateSigner p q) (\<lambda>_.
      and_then (subscriptionTargetExists p q) (\<lambda>exists.
      and_then (require exists ''subscription target %s %d does not exist'') (\<lambda>_.
      and_then (subscriptionExists q (p_UserID p) (p_EntityID p) entityType) (\<lambda>dup.
      require (\<not> dup) ''subscription already exists from %d to %d''))))))"

definition Subscribe :: "Params \<Rightarrow> idx_db \<Rightarrow> etl_error + idx_db" where
  "Subscribe p q = and_then (validateSubscribe p q) (\<lambda>_. insertSubscription p False q)"

definition validateUnsubscribe :: "Params \<Rightarrow> idx_db \<Rightarrow> etl_error + unit" where
  "validateUnsubscribe p q =
     and_then (ValidateSigner p q) (\<lambda>_.
     and_then (subscriptionExists q (p_UserID p) (p_EntityID p) (subscriptionEntityType p)) (\<lambda>dup.
     require dup ''no active subscription from %d to %d''))"

definition Unsubscribe :: "Params \<Rightarrow> idx_db \<Rightarrow> etl_error + idx_db" where
  "Unsubscribe p q = and_then (validateUnsubscribe p q) (\<lambda>_. insertSubscription p True q)"

section \<open>Saves and reposts\<close>

definition saveTypeFromEntityType :: "string \<Rightarrow> string" where
  "saveTypeFromEntityType entityType = (let t = ToLower entityType in
     if t = ''track'' then ''track'' else if t = ''playlist'' \<or> t = ''album'' then ''playlist'' else [])"

text \<open>
  The code of saves and of reposts differs in names only; the first argument is the name under which
  the queries run. A failing query counts as not found.
\<close>

definition infer_kind :: "string \<Rightarrow> idx_db \<Rightarrow> int \<Rightarrow> string" where
  "infer_kind f q entityID =
     (if run_query q f ''tracks'' entityID (list_ex (\<lambda>t. it_track_id t = entityID) (idx_tracks q)) = Inr True then ''track''
      else if run_query q f ''playlists'' entityID (entityID \<in> set (idx_playlists q)) = Inr True then ''playlist''
      else [])"

definition resolve_kind :: "string \<Rightarrow> Params \<Rightarrow> idx_db \<Rightarrow> string" where
  "resolve_kind f p q =
     (let t1 = saveTypeFromEntityType (MetadataString p ''type''); t2 = saveTypeFromEntityType (p_EntityType p) in
      if t1 \<noteq> [] then t1 else if t2 \<noteq> [] then t2 else infer_kind f q (p_EntityID p))"

definition resolveSaveType :: "Params \<Rightarrow> idx_db \<Rightarrow> string" where
  "resolveSaveType = resolve_kind ''inferSaveType''"

definition resolveRepostType :: "Params \<Rightarrow> idx_db \<Rightarrow> string" where
  "resolveRepostType = resolve_kind ''inferRepostType''"

definition trackExists :: "idx_db \<Rightarrow> int \<Rightarrow> etl_error + bool" where
  "trackExists q trackID = run_query q ''trackExists'' [] trackID
     (list_ex (\<lambda>t. it_track_id t = trackID \<and> it_is_current t) (idx_tracks q))"

definition playlistExists :: "idx_db \<Rightarrow> int \<Rightarrow> etl_error + bool" where
  "playlistExists q playlistID = run_query q ''playlistExists'' [] playlistID (playlistID \<in> set (idx_playlists q))"

definition validateSaveTarget :: "idx_db \<Rightarrow> int \<Rightarrow> string \<Rightarrow> etl_error + unit" where
  "validateSaveTarget q entityID saveType =
     and_then (if saveType = ''track'' then trackExists q entityID
       else if saveType = ''playlist'' \<or> saveType = ''album'' then playlistExists q entityID else Inr False) (\<lambda>exists.
     require exists ''%s %d does not exist'')"

definition saveExists :: "idx_db \<Rightarrow> int \<Rightarrow> int \<Rightarrow> string \<Rightarrow> etl_error + bool" where
  "saveExists q userID itemID saveType = run_query q ''saveExists'' (saveType @ FormatInt userID) itemID
     (is_active (idx_saves q) userID itemID saveType)"

definition insertSave :: "Params \<Rightarrow> bool \<Rightarrow> idx_db \<Rightarrow> etl_error + idx_db" where
  "insertSave p isDelete q =
     and_then (upsert_social True (social_row p (resolveSaveType p q) (MetadataBoolOr p ''is_save_of_repost'' False) isDelete)
       (idx_saves q)) (\<lambda>rows.
     run_query q ''insertSave'' (FormatInt (p_UserID p)) (p_EntityID p) (q\<lparr>idx_saves := rows\<rparr>))"

definition validateSave :: "Params \<Rightarrow> idx_db \<Rightarrow> etl_error + unit" where
  "validateSave p q =
     (let saveType = resolveSaveType p q in
      and_then (ValidateSigner p q) (\<lambda>_.
      and_then (require (saveType \<noteq> []) ''cannot determine save type for entity %d'') (\<lambda>_.
      and_then (validateSaveTarget q (p_EntityID p) saveType) (\<lambda>_.
      and_then (saveExists q (p_UserID p) (p_EntityID p) saveType) (\<lambda>dup.
      require (\<not> dup) ''save already exists for user %d item %d'')))))"

definition Save :: "Params \<Rightarrow> idx_db \<Rightarrow> etl_error + idx_db" where
  "Save p q = and_then (validateSave p q) (\<lambda>_. insertSave p False q)"

definition unsave_type :: "Params \<Rightarrow> idx_db \<Rightarrow> string" where
  "unsave_type p q =
     (let t1 = saveTypeFromEntityType (p_EntityType p); t2 = saveTypeFromEntityType (MetadataString p ''type'') in
      if t1 \<noteq> [] then t1 else if t2 \<noteq> [] then t2 else infer_kind ''inferSaveType'' q (p_EntityID p))"

definition validateUnsave :: "Params \<Rightarrow> idx_db \<Rightarrow> etl_error + unit" where
  "validateUnsave p q =
     (let saveType = unsave_type p q in
      and_then (ValidateSigner p q) (\<lambda>_.
      and_then (require (saveType \<noteq> []) ''cannot determine save type for entity %d'') (\<lambda>_.
      and_then (saveExists q (p_UserID p) (p_EntityID p) saveType) (\<lambda>dup.
      require dup ''no active save for user %d item %d''))))"

definition Unsave :: "Params \<Rightarrow> idx_db \<Rightarrow> etl_error + idx_db" where
  "Unsave p q = and_then (validateUnsave p q) (\<lambda>_. insertSave p True q)"

definition repostExists :: "idx_db \<Rightarrow> int \<Rightarrow> int \<Rightarrow> string \<Rightarrow> etl_error + bool" where
  "repostExists q userID itemID repostType = run_query q ''repostExists'' (repostType @ FormatInt userID) itemID
     (is_active (idx_reposts q) userID itemID repostType)"

definition insertRepost :: "Params \<Rightarrow> bool \<Rightarrow> idx_db \<Rightarrow> etl_error + idx_db" where
  "insertRepost p isDelete q =
     and_then (upsert_social True (social_row p (resolveRepostType p q) (MetadataBoolOr p ''is_repost_of_repost'' False) isDelete)
       (idx_reposts q)) (\<lambda>rows.
     run_query q ''insertRepost'' (FormatInt (p_UserID p)) (p_EntityID p) (q\<lparr>idx_reposts := rows\<rparr>))"

definition validateRepost :: "Params \<Rightarrow> idx_db \<Rightarrow> etl_error + unit" where
  "validateRepost p q =
     (let repostType = resolveRepostType p q in
      and_then (ValidateSigner p q) (\<lambda>_.
      and_then (require (repostType \<noteq> []) ''cannot determine repost type for entity %d'') (\<lambda>_.
      and_then (validateSaveTarget q (p_EntityID p) repostType) (\<lambda>_.
      and_then (repostExists q (p_UserID p) (p_EntityID p) repostType) (\<lambda>dup.
      require (\<not> dup) ''repost already exists for user %d item %d'')))))"

definition Repost :: "Params \<Rightarrow> idx_db \<Rightarrow> etl_error + idx_db" where
  "Repost p q = and_then (validateRepost p q) (\<lambda>_. insertRepost p False q)"

definition validateUnrepost :: "Params \<Rightarrow> idx_db \<Rightarrow> etl_error + unit" where
  "validateUnrepost p q =
     (let repostType = resolveRepostType p q in
      and_then (ValidateSigner p q) (\<lambda>_.
      and_then (require (repostType \<noteq> []) ''cannot determine repost type for entity %d'') (\<lambda>_.
      and_then (repostExists q (p_UserID p) (p_EntityID p) repostType) (\<lambda>dup.
      require dup ''no active repost for user %d item %d''))))"

definition Unrepost :: "Params \<Rightarrow> idx_db \<Rightarrow> etl_error + idx_db" where
  "Unrepost p q = and_then (validateUnrepost p q) (\<lambda>_. insertRepost p True q)"

section \<open>Registration and blocks\<close>

text \<open>
  The modelled handlers, registered on top of a dispatcher that stands for the others, under the data
  types the configuration enables.
\<close>

definition register_handlers :: "(string \<Rightarrow> bool) \<Rightarrow> Dispatcher \<Rightarrow> Dispatcher" where
  "register_handlers enabled d =
     fold (\<lambda>(t, a, h) d. if t = ''*'' \<or> enabled t then Register t a h d else d)
       [(''User'', ''Create'', UserCreate), (''User'', ''Update'', UserUpdate), (''User'', ''Verify'', UserVerify),
        (''*'', ''Follow'', Follow), (''*'', ''Unfollow'', Unfollow), (''*'', ''Save'', Save), (''*'', ''Unsave'', Unsave),
        (''*'', ''Repost'', Repost), (''*'', ''Unrepost'', Unrepost),
        (''*'', ''Subscribe'', Subscribe), (''*'', ''Unsubscribe'', Unsubscribe),
        (''DeveloperApp'', ''Create'', DeveloperAppCreate), (''DeveloperApp'', ''Update'', DeveloperAppUpdate),
        (''DeveloperApp'', ''Delete'', DeveloperAppDelete), (''Grant'', ''Create'', GrantCreate),
        (''Grant'', ''Delete'', GrantDelete), (''Grant'', ''Approve'', GrantApprove), (''Grant'', ''Reject'', GrantReject)] d"

record blockResult =
  emTxCount :: nat
  emRejectCount :: nat
  emUnroutedCount :: nat

text \<open>
  One ManageEntity transaction in its savepoint: the tables change when a handler succeeds, and the
  counters tell the outcomes apart. The rows of the audit log are not modelled.
\<close>

definition processOneTx :: "Dispatcher \<Rightarrow> Params \<Rightarrow> idx_db \<times> blockResult \<Rightarrow> idx_db \<times> blockResult" where
  "processOneTx d p s = (case s of (q, res) \<Rightarrow>
     (let res1 = res\<lparr>emTxCount := emTxCount res + 1\<rparr> in
      case Dispatch d p q of
        Inr q' \<Rightarrow> (q', res1)
      | Inl ErrNoHandler \<Rightarrow> (q, res1\<lparr>emUnroutedCount := emUnroutedCount res1 + 1\<rparr>)
      | Inl _ \<Rightarrow> (q, res1\<lparr>emRejectCount := emRejectCount res1 + 1\<rparr>)))"

definition processBlock :: "Dispatcher \<Rightarrow> Params list \<Rightarrow> idx_db \<Rightarrow> idx_db \<times> blockResult" where
  "processBlock d ps q = fold (processOneTx d) ps (q, \<lparr>emTxCount = 0, emRejectCount = 0, emUnroutedCount = 0\<rparr>)"

end
