(* ===== verification/Indexer_Laws.thy ===== *)
theory Indexer_Laws
  imports Indexer_Social Auth_Enforcement
begin

text \<open>
  The consensus state of who may act for whom is documented to mirror what the indexer indexes. Here
  the two are compared: on the transactions both know, with the content rules of the indexer met, they
  give the same verdict and stay equal; and where they part.
\<close>

section \<open>Reading\<close>

definition works :: "idx_db \<Rightarrow> bool" where
  "works q \<longleftrightarrow> (\<forall>f s i. idx_fault q f s i = None)"

lemma run_query_works [simp]: "works q \<Longrightarrow> run_query q f s i x = Inr x"
  by (simp add: works_def run_query_def)

lemma step_results [simp]:
  "and_then (Inr x) f = f x" "and_then (Inl e) f = Inl e"
  "require True m = Inr ()" "require False m = Inl (ValidationError m)"
  "of_option e (Some y) = Inr y" "of_option e None = Inl e"
  by (simp_all add: and_then_def require_def of_option_def)

lemma and_then_assoc: "and_then (and_then r f) g = and_then r (\<lambda>x. and_then (f x) g)"
  by (simp add: and_then_def split: sum.split)

lemma limit_one_simps [simp]:
  "limit_one q f s i [] = None" "limit_one q f s i [r] = Some r"
  by (simp_all add: limit_one_def)

lemma limit_one_in: "limit_one q f s i rows = Some r \<Longrightarrow> r \<in> set rows"
  by (auto simp: limit_one_def split: if_splits)

lemma limit_one_None [simp]: "limit_one q f s i rows = None \<longleftrightarrow> rows = []"
  by (simp add: limit_one_def)

lemma metadata_agrees:
  assumes "p = NewParams unmarshal em bn bt bh th" "tx = authTxFromManageEntity unmarshal em"
  shows "p_UserID p = UserID tx" "p_EntityID p = EntityID tx" "p_EntityType p = EntityType tx" "p_Action p = Action tx"
    "p_Signer p = Signer tx" "\<not> Migration tx" "p_TxHash p = th"
    "MetadataString p k = metaString tx k" "MetadataInt64 p k = metaInt64 tx k"
    "MetadataBool p k = metaBool tx k" "MetadataBoolOr p k b = metaBoolOr tx k b"
  unfolding assms
  by (simp_all add: NewParams_def authTxFromManageEntity_def parseAuthMetadata_def MetadataString_def MetadataInt64_def
      MetadataBool_def MetadataBoolOr_def MetadataJSON_def metaString_def metaInt64_def metaBool_def metaBoolOr_def
      split: option.split json.split)

section \<open>The correspondence\<close>

definition same_user :: "idx_user \<Rightarrow> authUserRow \<Rightarrow> bool" where
  "same_user r c \<longleftrightarrow> iu_wallet r = Some (Wallet c) \<and> iu_is_deactivated r = Deactivated c \<and>
     iu_handle r \<noteq> Some [] \<and> iu_handle_lc r = map_option ToLower (iu_handle r) \<and>
     iu_handle_lc r = (if HandleLC c = [] then None else Some (HandleLC c))"

definition same_grant :: "idx_grant \<Rightarrow> authGrantRow \<Rightarrow> bool" where
  "same_grant r c \<longleftrightarrow> ig_is_revoked r = Revoked c \<and> ig_is_approved r = Approved c"

definition live_rows :: "idx_db \<Rightarrow> string \<Rightarrow> idx_app list" where
  "live_rows q a = filter (\<lambda>r. ia_address r = a \<and> \<not> ia_is_delete r) (idx_developer_apps q)"

definition listed :: "'a option \<Rightarrow> 'a list" where
  "listed x = (case x of None \<Rightarrow> [] | Some y \<Rightarrow> [y])"

lemma listed_simps [simp]: "listed None = []" "listed (Some y) = [y]"
  by (simp_all add: listed_def)

text \<open>One current row per user and per grant, live rows for the live apps, with the same columns.\<close>

definition users_mirror :: "idx_db \<Rightarrow> auth_view \<Rightarrow> bool" where
  "users_mirror q v \<longleftrightarrow> (\<forall>r\<in>set (idx_users q). iu_is_current r) \<and>
     (\<forall>u. list_all2 same_user (current_users q u) (listed (v_users v u)))"

definition grants_mirror :: "idx_db \<Rightarrow> auth_view \<Rightarrow> bool" where
  "grants_mirror q v \<longleftrightarrow> (\<forall>g u. list_all2 same_grant (current_grants q g u) (listed (v_grants v (g, u))))"

definition apps_mirror :: "idx_db \<Rightarrow> auth_view \<Rightarrow> bool" where
  "apps_mirror q v \<longleftrightarrow> (\<forall>a. live_rows q a \<noteq> [] \<longleftrightarrow> live_app v a) \<and>
     (\<forall>a c. v_apps v a = Some c \<longrightarrow> (\<forall>r\<in>set (live_rows q a). ia_user_id r = AppOwnerID c))"

definition mirrors_auth :: "idx_db \<Rightarrow> auth_view \<Rightarrow> bool" where
  "mirrors_auth q v \<longleftrightarrow> users_mirror q v \<and> grants_mirror q v \<and> apps_mirror q v"

lemma mirrors_user:
  assumes "mirrors_auth q v"
  shows "v_users v u = None \<Longrightarrow> current_users q u = []"
    "v_users v u = Some c \<Longrightarrow> \<exists>r. current_users q u = [r] \<and> same_user r c"
proof -
  have "list_all2 same_user (current_users q u) (listed (v_users v u))"
    using assms by (simp add: mirrors_auth_def users_mirror_def)
  then show "v_users v u = None \<Longrightarrow> current_users q u = []"
    "v_users v u = Some c \<Longrightarrow> \<exists>r. current_users q u = [r] \<and> same_user r c" by (auto simp: list_all2_Cons2)
qed

lemma mirrors_grant:
  assumes "mirrors_auth q v"
  shows "v_grants v (g, u) = None \<Longrightarrow> current_grants q g u = []"
    "v_grants v (g, u) = Some c \<Longrightarrow> \<exists>r. current_grants q g u = [r] \<and> same_grant r c"
proof -
  have "list_all2 same_grant (current_grants q g u) (listed (v_grants v (g, u)))"
    using assms by (simp add: mirrors_auth_def grants_mirror_def)
  then show "v_grants v (g, u) = None \<Longrightarrow> current_grants q g u = []"
    "v_grants v (g, u) = Some c \<Longrightarrow> \<exists>r. current_grants q g u = [r] \<and> same_grant r c" by (auto simp: list_all2_Cons2)
qed

lemma mirrors_all_current: "mirrors_auth q v \<Longrightarrow> r \<in> set (idx_users q) \<Longrightarrow> iu_is_current r"
  by (simp add: mirrors_auth_def users_mirror_def)

lemma mirrors_row:
  assumes "mirrors_auth q v" "r \<in> set (idx_users q)"
  shows "\<exists>c. v_users v (iu_user_id r) = Some c \<and> same_user r c"
proof -
  from assms have "r \<in> set (current_users q (iu_user_id r))" by (simp add: current_users_def mirrors_all_current)
  with mirrors_user [OF assms(1), of "iu_user_id r"] show ?thesis by (cases "v_users v (iu_user_id r)") auto
qed

lemma mirrors_scan:
  assumes "mirrors_auth q v" "\<And>r c. same_user r c \<Longrightarrow> P r \<longleftrightarrow> Q c"
  shows "list_ex P (idx_users q) \<longleftrightarrow> (\<exists>u c. v_users v u = Some c \<and> Q c)"
proof
  assume "list_ex P (idx_users q)"
  then obtain r where "r \<in> set (idx_users q)" "P r" by (auto simp: list_ex_iff)
  with mirrors_row [OF assms(1)] assms(2) show "\<exists>u c. v_users v u = Some c \<and> Q c" by blast
next
  assume "\<exists>u c. v_users v u = Some c \<and> Q c"
  then obtain u c where "v_users v u = Some c" "Q c" by blast
  moreover from mirrors_user(2) [OF assms(1) this(1)] obtain r where "current_users q u = [r]" "same_user r c" by blast
  moreover from this(1) have "r \<in> set (current_users q u)" by simp
  then have "r \<in> set (idx_users q)" by (simp add: current_users_def)
  ultimately show "list_ex P (idx_users q)" using assms(2) by (auto simp: list_ex_iff)
qed

lemma scan_current:
  "mirrors_auth q v \<Longrightarrow> list_ex (\<lambda>r. P r \<and> iu_is_current r) (idx_users q) = list_ex P (idx_users q)"
  by (auto simp: list_ex_iff mirrors_all_current)

lemma mirrored_reads:
  assumes "works q" "mirrors_auth q v"
  shows "userExists q u = Inr (v_users v u \<noteq> None)"
    "walletExists q w = Inr (wallet_used v (ToLower w))"
    "activeUserWalletExists q w = Inr (wallet_active v (ToLower w))"
    "h \<noteq> [] \<Longrightarrow> handleExists q h = Inr (handle_used v h)"
    "developerAppExists q a = Inr (live_app v (ToLower a))"
    "activeGrantExists q g u = Inr (\<exists>c. v_grants v (g, u) = Some c \<and> \<not> Revoked c)"
proof -
  show "userExists q u = Inr (v_users v u \<noteq> None)"
    using mirrors_user [OF assms(2), of u] assms(1) by (cases "v_users v u") (auto simp: userExists_def)
  show "walletExists q w = Inr (wallet_used v (ToLower w))"
    using mirrors_scan [OF assms(2), of "\<lambda>r. iu_wallet r = Some (ToLower w)" "\<lambda>c. Wallet c = ToLower w"] assms(1)
    by (simp add: walletExists_def wallet_used_def same_user_def)
  have "list_ex (active_wallet w) (idx_users q) =
      list_ex (\<lambda>r. iu_wallet r = Some (ToLower w) \<and> \<not> iu_is_deactivated r) (idx_users q)"
    using mirrors_all_current [OF assms(2)] by (auto simp: list_ex_iff active_wallet_def)
  then show "activeUserWalletExists q w = Inr (wallet_active v (ToLower w))"
    using mirrors_scan [OF assms(2), of "\<lambda>r. iu_wallet r = Some (ToLower w) \<and> \<not> iu_is_deactivated r"
        "\<lambda>c. Wallet c = ToLower w \<and> \<not> Deactivated c"] assms(1)
    by (simp add: activeUserWalletExists_def wallet_active_def same_user_def)
  show "handleExists q h = Inr (handle_used v h)" if "h \<noteq> []"
  proof -
    have "iu_handle_lc r = Some h \<longleftrightarrow> HandleLC c = h" if "same_user r c" for r c
      using that \<open>h \<noteq> []\<close> unfolding same_user_def by (metis option.distinct(1) option.inject)
    from mirrors_scan [OF assms(2) this] show ?thesis
      using assms(1) by (simp add: handleExists_def handle_used_def scan_current [OF assms(2)])
  qed
  have "list_ex (\<lambda>r. ia_address r = ToLower a \<and> \<not> ia_is_delete r) (idx_developer_apps q) \<longleftrightarrow> live_rows q (ToLower a) \<noteq> []"
    by (simp add: live_rows_def filter_empty_conv list_ex_iff)
  then show "developerAppExists q a = Inr (live_app v (ToLower a))"
    using assms by (simp add: developerAppExists_def mirrors_auth_def apps_mirror_def)
  show "activeGrantExists q g u = Inr (\<exists>c. v_grants v (g, u) = Some c \<and> \<not> Revoked c)"
    using mirrors_grant [OF assms(2), of g u] assms(1)
    by (cases "v_grants v (g, u)") (auto simp: activeGrantExists_def same_grant_def)
qed

lemma mirrored_grant:
  assumes "works q" "mirrors_auth q v"
  shows "v_grants v (g, u) = None \<Longrightarrow> getActiveGrant q g u = Inl NoRows"
    "v_grants v (g, u) = Some c \<Longrightarrow> \<exists>r. getActiveGrant q g u = Inr r \<and> current_grants q g u = [r] \<and> same_grant r c"
  using mirrors_grant [OF assms(2), of g u] assms(1) by (auto simp: getActiveGrant_def)

lemma mirrored_wallet:
  assumes "works q" "mirrors_auth q v"
  shows "getUserWallet q u = (case v_users v u of None \<Rightarrow> [] | Some c \<Rightarrow> Wallet c)"
  using mirrors_user [OF assms(2), of u] assms(1)
  by (cases "v_users v u") (auto simp: getUserWallet_def works_def same_user_def)

lemma signer_mirrors:
  assumes "works q" "mirrors_auth q v" "p_Signer p \<noteq> []"
  shows "validateSignerForUser p q u = Inr () \<longleftrightarrow> authorized v u (p_Signer p)"
proof (cases "v_users v u")
  case None
  then show ?thesis by (simp add: validateSignerForUser_def mirrored_wallet [OF assms(1,2)] authorized_def)
next
  case user: (Some c)
  show ?thesis
  proof (cases "v_grants v (ToLower (p_Signer p), u)")
    case None
    with user mirrored_grant(1) [OF assms(1,2) None] show ?thesis
      by (simp add: validateSignerForUser_def mirrored_wallet [OF assms(1,2)] authorized_def Let_def)
  next
    case (Some g)
    from mirrored_grant(2) [OF assms(1,2) Some] obtain r where
      r: "getActiveGrant q (ToLower (p_Signer p)) u = Inr r" "same_grant r g" by blast
    with user Some assms(3) show ?thesis
      by (auto simp: validateSignerForUser_def mirrored_wallet [OF assms(1,2)] authorized_def Let_def same_grant_def
          mirrored_reads [OF assms(1,2)] require_def)
  qed
qed

section \<open>Frames\<close>

lemma mirror_frames:
  "idx_users q' = idx_users q \<Longrightarrow> v_users v' = v_users v \<Longrightarrow> users_mirror q' v' = users_mirror q v"
  "idx_grants q' = idx_grants q \<Longrightarrow> v_grants v' = v_grants v \<Longrightarrow> grants_mirror q' v' = grants_mirror q v"
  "idx_developer_apps q' = idx_developer_apps q \<Longrightarrow> v_apps v' = v_apps v \<Longrightarrow> apps_mirror q' v' = apps_mirror q v"
  by (simp_all add: users_mirror_def grants_mirror_def apps_mirror_def current_users_def current_grants_def
      live_rows_def live_app_def)

lemma users_mirror_put:
  assumes "users_mirror q v" "\<forall>r\<in>set (idx_users q'). iu_is_current r" "same_user r c"
    "\<And>i. current_users q' i = (if i = u then [r] else current_users q i)" "v_users v' = (v_users v)(u \<mapsto> c)"
  shows "users_mirror q' v'"
  using assms by (simp add: users_mirror_def)

lemma grants_mirror_put:
  assumes "grants_mirror q v" "same_grant r c"
    "\<And>h i. current_grants q' h i = (if h = g \<and> i = u then [r] else current_grants q h i)"
    "v_grants v' = (v_grants v)((g, u) \<mapsto> c)"
  shows "grants_mirror q' v'"
  using assms by (simp add: grants_mirror_def)

lemma apps_mirror_put:
  assumes "apps_mirror q v" "\<not> live_app v a" "idx_developer_apps q' = idx_developer_apps q @ [r]"
    "ia_address r = a" "\<not> ia_is_delete r" "ia_user_id r = u"
    "v_apps v' = (v_apps v)(a \<mapsto> \<lparr>AppOwnerID = u, AppDeleted = False\<rparr>)"
  shows "apps_mirror q' v'"
proof -
  have "live_rows q' b = live_rows q b @ (if b = a then [r] else [])" for b
    using assms(3-5) by (simp add: live_rows_def)
  moreover from assms(1,2) have "live_rows q a = []" unfolding apps_mirror_def by blast
  ultimately show ?thesis using assms by (auto simp: apps_mirror_def live_app_def)
qed

text \<open>The two verdicts agree, and after an accepted transaction the tables correspond again.\<close>

definition agrees :: "etl_error + idx_db \<Rightarrow> auth_view outcome \<Rightarrow> auth_view \<Rightarrow> bool" where
  "agrees r out v \<longleftrightarrow> (case fst out of
     None \<Rightarrow> \<exists>q'. r = Inr q' \<and> mirrors_auth q' (snd out) \<and> works q'
   | Some _ \<Rightarrow> snd out = v \<and> (\<exists>e. r = Inl e))"

lemma agrees_rejected [simp]: "agrees (Inl e) (reject v a) v" "agrees (Inl e) (Some e', v) v"
  by (simp_all add: agrees_def)

lemma works_frame: "works q \<Longrightarrow> idx_fault q' = idx_fault q \<Longrightarrow> works q'"
  by (simp add: works_def)

lemma core_signer:
  "validateAuthSigner viewAuthStore v u sg = (if authorized v u sg then None else validateAuthSigner viewAuthStore v u sg)"
  using validateAuthSigner_view [of v u sg] by auto

lemma agrees_signer:
  assumes "works q" "mirrors_auth q v" "p_Signer p \<noteq> []" "p_UserID p = u" "p_Signer p = sg"
    and "authorized v u sg \<Longrightarrow> agrees r out v"
  shows "agrees (and_then (ValidateSigner p q) (\<lambda>_. r)) (try_check (validateAuthSigner viewAuthStore v u sg) v out) v"
proof (cases "authorized v u sg")
  case True
  with assms signer_mirrors [OF assms(1-3), of u] validateAuthSigner_view [of v u sg] show ?thesis
    by (simp add: ValidateSigner_def)
next
  case False
  with validateAuthSigner_view [of v u sg] obtain e where "validateAuthSigner viewAuthStore v u sg = Some e" by auto
  moreover from False signer_mirrors [OF assms(1-3), of u] assms(4,5) obtain e' where "ValidateSigner p q = Inl e'"
    by (cases "ValidateSigner p q") (auto simp: ValidateSigner_def)
  ultimately show ?thesis by simp
qed

definition fresh_hash :: "string \<Rightarrow> idx_db \<Rightarrow> bool" where
  "fresh_hash th q \<longleftrightarrow> th \<notin> ig_txhash ` set (idx_grants q) \<and> th \<notin> ia_txhash ` set (idx_developer_apps q)"

text \<open>
  A transaction as both see it, over corresponding tables, with working statements and a hash no row
  carries yet.
\<close>

definition in_sync :: "Params \<Rightarrow> authTx \<Rightarrow> idx_db \<Rightarrow> auth_view \<Rightarrow> bool" where
  "in_sync p tx q v \<longleftrightarrow> works q \<and> mirrors_auth q v \<and> fresh_hash (p_TxHash p) q \<and> p_Signer p \<noteq> [] \<and>
     (\<exists>unmarshal em bn bt bh th. p = NewParams unmarshal em bn bt bh th \<and> tx = authTxFromManageEntity unmarshal em)"

lemma in_syncD:
  assumes "in_sync p tx q v"
  shows "works q" "mirrors_auth q v" "fresh_hash (p_TxHash p) q" "p_Signer p \<noteq> []" "Signer tx \<noteq> []"
    "p_UserID p = UserID tx" "p_EntityType p = EntityType tx" "p_Action p = Action tx" "p_Signer p = Signer tx" "\<not> Migration tx"
    "MetadataString p k = metaString tx k" "MetadataInt64 p k = metaInt64 tx k"
    "MetadataBool p k = metaBool tx k" "MetadataBoolOr p k b = metaBoolOr tx k b"
  using assms metadata_agrees unfolding in_sync_def by metis+

section \<open>Grants\<close>

lemma demoted_grants:
  "filter (\<lambda>r. ig_grantee_address r = h \<and> ig_user_id r = i \<and> ig_is_current r)
     (map (\<lambda>r. if ig_grantee_address r = g \<and> ig_user_id r = u \<and> ig_is_current r then r\<lparr>ig_is_current := False\<rparr> else r) rows) =
   (if h = g \<and> i = u then [] else filter (\<lambda>r. ig_grantee_address r = h \<and> ig_user_id r = i \<and> ig_is_current r) rows)"
  by (induction rows) auto

lemma demoted_hashes:
  "ig_txhash ` set (map (\<lambda>r. if P r then r\<lparr>ig_is_current := False\<rparr> else r) rows) = ig_txhash ` set rows"
  by (induction rows) auto

lemma setGrantRevoked_mirrors:
  assumes "works q" "mirrors_auth q v" "fresh_hash (p_TxHash p) q" "v_grants v (g, u) = Some c"
  shows "\<exists>q'. setGrantRevoked p g u approved revoked q = Inr q' \<and> works q' \<and>
    mirrors_auth q' (v\<lparr>v_grants := (v_grants v)((g, u) \<mapsto>
      \<lparr>Approved = (case approved of None \<Rightarrow> Approved c | Some b \<Rightarrow> Some b), Revoked = revoked\<rparr>)\<rparr>)"
proof -
  from mirrored_grant(2) [OF assms(1,2,4)] obtain r where
    r: "getActiveGrant q g u = Inr r" "current_grants q g u = [r]" "same_grant r c" by blast
  define q1 where "q1 = q\<lparr>idx_grants := map (\<lambda>r. if ig_grantee_address r = g \<and> ig_user_id r = u \<and> ig_is_current r
    then r\<lparr>ig_is_current := False\<rparr> else r) (idx_grants q)\<rparr>"
  define row where "row = \<lparr>ig_grantee_address = g, ig_user_id = u, ig_is_revoked = revoked, ig_is_current = True,
    ig_is_approved = (case approved of None \<Rightarrow> ig_is_approved r | Some b \<Rightarrow> Some b),
    ig_created_at = ig_created_at r, ig_updated_at = p_BlockTime p, ig_txhash = p_TxHash p, ig_blocknumber = p_BlockNumber p\<rparr>"
  have works1: "works q1" using assms(1) by (simp add: works_def q1_def)
  have "ig_txhash ` set (idx_grants q1) = ig_txhash ` set (idx_grants q)" 
  proof -
    have "idx_grants q1 = map (\<lambda>r. if ig_grantee_address r = g \<and> ig_user_id r = u \<and> ig_is_current r
      then r\<lparr>ig_is_current := False\<rparr> else r) (idx_grants q)" by (simp add: q1_def)
    then show ?thesis by (simp only: demoted_hashes)
  qed
  with assms(3) have "p_TxHash p \<notin> ig_txhash ` set (idx_grants q1)" by (simp add: fresh_hash_def)
  then have "\<not> list_ex (\<lambda>r. ig_grantee_address r = g \<and> ig_user_id r = u \<and> ig_txhash r = p_TxHash p) (idx_grants q1)"
    by (force simp: list_ex_iff)
  then have ins: "insert_grant row q1 = Inr (q1\<lparr>idx_grants := idx_grants q1 @ [row]\<rparr>)"
    using works1 by (simp add: insert_grant_def row_def)
  define q2 where "q2 = q1\<lparr>idx_grants := idx_grants q1 @ [row]\<rparr>"
  have "setGrantRevoked p g u approved revoked q = Inr q2"
    using ins r(1) assms(1) by (simp add: setGrantRevoked_def q1_def [symmetric] row_def [symmetric] q2_def [symmetric])
  moreover have "works q2" using works1 by (simp add: works_def q2_def)
  moreover have cg: "current_grants q2 h i = (if h = g \<and> i = u then [row] else current_grants q h i)" for h i
    by (simp add: current_grants_def q2_def q1_def demoted_grants) (auto simp: row_def)
  define v2 where "v2 = v\<lparr>v_grants := (v_grants v)((g, u) \<mapsto>
      \<lparr>Approved = (case approved of None \<Rightarrow> Approved c | Some b \<Rightarrow> Some b), Revoked = revoked\<rparr>)\<rparr>"
  have "grants_mirror q2 v2"
  proof (rule grants_mirror_put [OF _ _ cg])
    show "grants_mirror q v" using assms(2) by (simp add: mirrors_auth_def)
    show "same_grant row \<lparr>Approved = (case approved of None \<Rightarrow> Approved c | Some b \<Rightarrow> Some b), Revoked = revoked\<rparr>"
      using r(3) by (cases approved) (simp_all add: same_grant_def row_def)
  qed (simp add: v2_def)
  moreover have "users_mirror q2 v2" "apps_mirror q2 v2"
    using assms(2) mirror_frames(1,3) [of q2 q v2 v] by (simp_all add: mirrors_auth_def q1_def q2_def v2_def)
  ultimately show ?thesis unfolding v2_def [symmetric] mirrors_auth_def by blast
qed

lemma insertGrant_mirrors:
  assumes "in_sync p tx q v" "g = grantee_of p" "v_grants v (g, UserID tx) = None"
  shows "\<exists>q'. insertGrant p q = Inr q' \<and> works q' \<and> mirrors_auth q' (v\<lparr>v_grants := (v_grants v)((g, UserID tx) \<mapsto>
    \<lparr>Approved = if live_app v g then Some True else None, Revoked = False\<rparr>)\<rparr>)"
proof -
  note s = in_syncD [OF assms(1)]
  define row where "row = \<lparr>ig_grantee_address = g, ig_user_id = UserID tx, ig_is_revoked = False, ig_is_current = True,
    ig_is_approved = (if live_app v g then Some True else None), ig_created_at = p_BlockTime p,
    ig_updated_at = p_BlockTime p, ig_txhash = p_TxHash p, ig_blocknumber = p_BlockNumber p\<rparr>"
  define q' where "q' = q\<lparr>idx_grants := idx_grants q @ [row]\<rparr>"
  define v' where "v' = v\<lparr>v_grants := (v_grants v)((g, UserID tx) \<mapsto>
    \<lparr>Approved = if live_app v g then Some True else None, Revoked = False\<rparr>)\<rparr>"
  have "\<not> list_ex (\<lambda>r. ig_grantee_address r = g \<and> ig_user_id r = UserID tx \<and> ig_txhash r = p_TxHash p) (idx_grants q)"
    using s(3) by (force simp: fresh_hash_def list_ex_iff)
  then have ins: "insertGrant p q = Inr q'"
    using s(1) assms(2) by (simp add: insertGrant_def insert_grant_def s(6) mirrored_reads [OF s(1,2)] q'_def row_def grantee_of_def)
  have cg: "current_grants q' h i = (if h = g \<and> i = UserID tx then [row] else current_grants q h i)" for h i
    using mirrors_grant(1) [OF s(2) assms(3)] by (auto simp: current_grants_def q'_def row_def)
  have "grants_mirror q' v'"
    by (rule grants_mirror_put [OF _ _ cg]) (use s(2) in \<open>simp_all add: mirrors_auth_def same_grant_def row_def v'_def\<close>)
  moreover have "users_mirror q' v'" "apps_mirror q' v'"
    using s(2) mirror_frames(1,3) [of q' q v' v] by (simp_all add: mirrors_auth_def q'_def v'_def)
  moreover have "works q'" using s(1) by (simp add: works_def q'_def)
  ultimately show ?thesis by (simp add: ins mirrors_auth_def v'_def [symmetric])
qed

lemma grant_create_agrees:
  assumes "in_sync p tx q v" "v_grants v (grantee_of p, p_UserID p) = None"
  shows "agrees (GrantCreate p q) (projectGrantCreate viewAuthStore v tx) v"
proof (cases "grantee_of p = []")
  note s = in_syncD [OF assms(1)]
  case True
  then have "projectGrantCreate viewAuthStore v tx = reject v GranteeAddressRequired"
    by (simp add: projectGrantCreate_def grantee_of_def s)
  moreover have "\<exists>e. GrantCreate p q = Inl e"
    using True by (cases "ValidateSigner p q") (simp_all add: GrantCreate_def validateGrantCreate_def)
  ultimately show ?thesis by auto
next
  note s = in_syncD [OF assms(1)]
  case False
  define g where "g = grantee_of p"
  have g: "ToLower (metaString tx ''grantee_address'') = g" "g \<noteq> []" "ToLower g = g" "v_grants v (g, UserID tx) = None"
    using False assms(2) by (simp_all add: g_def grantee_of_def s)
  define rest where "rest = (if live_app v g \<or> wallet_used v g then insertGrant p q
    else Inl (ValidationError ''grantee %s is not a developer app or user wallet''))"
  have "GrantCreate p q = and_then (ValidateSigner p q) (\<lambda>_. rest)"
    using g by (simp add: GrantCreate_def validateGrantCreate_def and_then_assoc g_def [symmetric] s(6)
        mirrored_reads [OF s(1,2)] rest_def)
  moreover have "agrees rest (if live_app v g \<or> wallet_used v g then ret_write (UpsertGrant viewAuthStore v g (UserID tx)
      (if live_app v g then Some True else None) False) else reject v (GranteeUnknown g)) v"
    using insertGrant_mirrors [OF assms(1) g_def g(4)] by (auto simp: rest_def agrees_def)
  moreover have "projectGrantCreate viewAuthStore v tx = try_check (validateAuthSigner viewAuthStore v (UserID tx) (Signer tx)) v
      (if live_app v g \<or> wallet_used v g then ret_write (UpsertGrant viewAuthStore v g (UserID tx)
        (if live_app v g then Some True else None) False) else reject v (GranteeUnknown g))"
    using g s(10) unfolding projectGrantCreate_def
    by (cases "v_apps v g") (auto simp: Let_def live_app_def intro!: arg_cong [of _ _ "try_check _ _"])
  ultimately show ?thesis using agrees_signer [OF s(1,2,4,6,9)] by simp
qed

lemma grantee_id:
  assumes "works q" "mirrors_auth q v" "unique_wallets v"
  shows "activeUserIDByWallet q w =
    Inr (if active_ids v (ToLower w) = {} then None else Some (Min (active_ids v (ToLower w))))"
proof -
  define rows where "rows = filter (active_wallet w) (idx_users q)"
  have ids: "iu_user_id ` set rows = active_ids v (ToLower w)"
  proof (intro equalityI subsetI)
    fix u
    assume "u \<in> iu_user_id ` set rows"
    then obtain r where "r \<in> set (idx_users q)" "active_wallet w r" "u = iu_user_id r" by (auto simp: rows_def)
    with mirrors_row [OF assms(2)] show "u \<in> active_ids v (ToLower w)"
      by (fastforce simp: active_ids_def active_wallet_def same_user_def)
  next
    fix u
    assume "u \<in> active_ids v (ToLower w)"
    then obtain c where c: "v_users v u = Some c" "Wallet c = ToLower w" "\<not> Deactivated c" by (auto simp: active_ids_def)
    from mirrors_user(2) [OF assms(2) c(1)] obtain r where r: "current_users q u = [r]" "same_user r c" by blast
    from r(1) have "r \<in> set (current_users q u)" by simp
    then have "r \<in> set (idx_users q)" "iu_user_id r = u" "iu_is_current r" by (simp_all add: current_users_def)
    with c r(2) have "r \<in> set rows" by (simp add: rows_def active_wallet_def same_user_def)
    with \<open>iu_user_id r = u\<close> show "u \<in> iu_user_id ` set rows" by blast
  qed
  show ?thesis
  proof (cases "rows = []")
    case True
    with ids assms(1) show ?thesis by (simp add: activeUserIDByWallet_def rows_def [symmetric])
  next
    case False
    then obtain r where r: "limit_one q ''activeUserIDByWallet'' w 0 rows = Some r" "r \<in> set rows"
      using limit_one_in limit_one_None by (metis option.exhaust)
    then have "iu_user_id r \<in> active_ids v (ToLower w)" using ids by blast
    moreover have "u = u'" if "u \<in> active_ids v (ToLower w)" "u' \<in> active_ids v (ToLower w)" for u u'
      using that assms(3) unfolding active_ids_def unique_wallets_def by auto
    ultimately have "active_ids v (ToLower w) = {iu_user_id r}" by blast
    then show ?thesis using r(1) assms(1) by (simp add: activeUserIDByWallet_def rows_def [symmetric])
  qed
qed

lemma grant_delete_agrees:
  assumes "in_sync p tx q v" "unique_wallets v"
  shows "agrees (GrantDelete p q) (projectGrantDelete viewAuthStore v tx) v"
proof -
  note s = in_syncD [OF assms(1)]
  define g where "g = grantee_of p"
  have g: "ToLower (metaString tx ''grantee_address'') = g" "ToLower g = g" by (simp_all add: g_def grantee_of_def s)
  have may: "validateSignerForUser p q u = Inr () \<longleftrightarrow> validateAuthSigner viewAuthStore v u (Signer tx) = None" for u
    using signer_mirrors [OF s(1,2,4)] validateAuthSigner_view s(9) by simp
  consider "g = []" | "g \<noteq> []" "v_grants v (g, UserID tx) = None"
    | c where "g \<noteq> []" "v_grants v (g, UserID tx) = Some c" by (cases "v_grants v (g, UserID tx)") auto
  then show ?thesis
  proof cases
    case 1
    then show ?thesis by (simp add: GrantDelete_def validateGrantDelete_def g_def [symmetric] projectGrantDelete_def g)
  next
    case 2
    then show ?thesis by (simp add: GrantDelete_def validateGrantDelete_def g_def [symmetric] projectGrantDelete_def g s(6)
          mirrored_reads [OF s(1,2)])
  next
    case 3
    define ok where "ok \<longleftrightarrow> validateSignerForUser p q (UserID tx) = Inr () \<or>
      (active_ids v g \<noteq> {} \<and> validateSignerForUser p q (Min (active_ids v g)) = Inr ())"
    have "validateGrantDelete p q = Inr () \<longleftrightarrow> \<not> Revoked c \<and> ok"
      using 3 by (auto simp: validateGrantDelete_def g_def [symmetric] s(6) mirrored_reads [OF s(1,2)] ValidateSigner_def
          grantee_id [OF s(1,2) assms(2)] g(2) ok_def require_def)
    moreover have "projectGrantDelete viewAuthStore v tx = (if \<not> Revoked c \<and> ok
        then ret_write (UpsertGrant viewAuthStore v g (UserID tx) (Approved c) True)
        else if Revoked c then reject v (NoActiveGrant g (UserID tx)) else reject v (NotAuthorizedToRevoke (Signer tx) g (UserID tx)))"
      using 3 validateAuthSigner_view_error [of v _ "Signer tx"]
      by (auto simp: projectGrantDelete_def Let_def g ok_def may split: option.split)
    ultimately show ?thesis
      using setGrantRevoked_mirrors [OF s(1-3) 3(2), of None True]
      by (cases "validateGrantDelete p q") (auto simp: GrantDelete_def g_def [symmetric] s(6) agrees_def)
  qed
qed

text \<open>Approving and rejecting once the signer is checked.\<close>

lemma grant_decision_agrees:
  assumes "in_sync p tx q v"
  shows "agrees (case grantor of None \<Rightarrow> Inl e
      | Some i \<Rightarrow> (case getActiveGrant q g i of Inl _ \<Rightarrow> Inl e1
        | Inr r \<Rightarrow> if ig_is_revoked r then Inl e2 else if ig_is_approved r = Some True then Inl e3
            else setGrantRevoked p g i (Some b) (\<not> b) q))
    (case grantor of None \<Rightarrow> reject v GrantorRequired
      | Some i \<Rightarrow> (case v_grants v (g, i) of None \<Rightarrow> reject v (GrantNotFound g i)
        | Some existing \<Rightarrow> if Revoked existing then reject v GrantAlreadyRevoked
            else if Approved existing = Some True then reject v GrantAlreadyApproved
            else ret_write (UpsertGrant viewAuthStore v g i (Some b) (\<not> b)))) v"
proof (cases grantor)
  note s = in_syncD [OF assms(1)]
  case (Some i)
  show ?thesis
  proof (cases "v_grants v (g, i)")
    case None
    then show ?thesis using Some mirrored_grant(1) [OF s(1,2) None] by simp
  next
    case (Some c)
    from mirrored_grant(2) [OF s(1,2) Some] setGrantRevoked_mirrors [OF s(1-3) Some, of "Some b" "\<not> b"] \<open>grantor = Some i\<close> Some
    show ?thesis by (auto simp: same_grant_def agrees_def)
  qed
qed simp

lemma grant_approve_agrees:
  assumes "in_sync p tx q v"
  shows "agrees (GrantApprove p q) (projectGrantApproveReject viewAuthStore v tx True) v"
    "agrees (GrantReject p q) (projectGrantApproveReject viewAuthStore v tx False) v"
proof -
  note s = in_syncD [OF assms(1)]
  define g where "g = grantee_of p"
  have g: "ToLower (metaString tx ''grantee_address'') = g" by (simp add: g_def grantee_of_def s)
  have rest: "agrees (and_then (validateGrantApprove a p q) (\<lambda>grantor. setGrantRevoked p g grantor (Some b) (\<not> b) q))
      (projectGrantApproveReject viewAuthStore v tx b) v" for a b
  proof (cases "g = []")
    case True
    have "\<exists>e. validateGrantApprove a p q = Inl e"
      using True by (cases "ValidateSigner p q") (simp_all add: validateGrantApprove_def g_def [symmetric])
    with True show ?thesis by (auto simp: projectGrantApproveReject_def g)
  next
    case False
    define grantor where "grantor = metaInt64 tx ''grantor_user_id''"
    have "and_then (validateGrantApprove a p q) (\<lambda>grantor. setGrantRevoked p g grantor (Some b) (\<not> b) q) =
        and_then (ValidateSigner p q) (\<lambda>_. case grantor of
          None \<Rightarrow> Inl (ValidationError (''grantor_user_id is required for grant '' @ a))
        | Some i \<Rightarrow> (case getActiveGrant q g i of Inl _ \<Rightarrow> Inl (ValidationError ''grant not found for grantee %s from user %d'')
          | Inr r \<Rightarrow> if ig_is_revoked r then Inl (ValidationError ''grant is already revoked'')
            else if ig_is_approved r = Some True then Inl (ValidationError ''grant is already approved'')
            else setGrantRevoked p g i (Some b) (\<not> b) q))"
      using False by (simp add: validateGrantApprove_def g_def [symmetric] and_then_assoc s(12) grantor_def [symmetric]
          and_then_def of_option_def require_def split: option.split sum.split)
    moreover have "projectGrantApproveReject viewAuthStore v tx b =
        try_check (validateAuthSigner viewAuthStore v (UserID tx) (Signer tx)) v
          (case grantor of None \<Rightarrow> reject v GrantorRequired
           | Some i \<Rightarrow> (case v_grants v (g, i) of None \<Rightarrow> reject v (GrantNotFound g i)
             | Some existing \<Rightarrow> if Revoked existing then reject v GrantAlreadyRevoked
               else if Approved existing = Some True then reject v GrantAlreadyApproved
               else ret_write (UpsertGrant viewAuthStore v g i (Some b) (\<not> b))))"
      using False by (cases "metaInt64 tx ''grantor_user_id''") (simp_all add: projectGrantApproveReject_def g grantor_def)
    ultimately show ?thesis using agrees_signer [OF s(1,2,4,6,9) grant_decision_agrees [OF assms]] by simp
  qed
  show "agrees (GrantApprove p q) (projectGrantApproveReject viewAuthStore v tx True) v"
    "agrees (GrantReject p q) (projectGrantApproveReject viewAuthStore v tx False) v"
    using rest [of "''approve''" True] rest [of "''reject''" False] by (simp_all add: GrantApprove_def GrantReject_def g_def)
qed

section \<open>Developer apps\<close>

lemma redirect_uris_kept:
  assumes "works q"
  shows "\<exists>x. replaceRedirectURIs c uris q = Inr (q\<lparr>idx_oauth_redirect_uris := x\<rparr>)"
proof -
  have "\<exists>x. for_each (\<lambda>uri q. run_query q ''insertRedirectURI'' (c @ '' '' @ uri) 0
      (q\<lparr>idx_oauth_redirect_uris := idx_oauth_redirect_uris q @ [(c, uri)]\<rparr>)) us q1 = Inr (q1\<lparr>idx_oauth_redirect_uris := x\<rparr>)"
    if "works q1" for us q1
    using that
  proof (induction us arbitrary: q1)
    case Nil
    have "q1 = q1\<lparr>idx_oauth_redirect_uris := idx_oauth_redirect_uris q1\<rparr>" by simp
    then show ?case by (metis for_each.simps(1))
  next
    case (Cons u us)
    have "works (q1\<lparr>idx_oauth_redirect_uris := idx_oauth_redirect_uris q1 @ [(c, u)]\<rparr>)" using Cons.prems by (simp add: works_def)
    from Cons.IH [OF this] Cons.prems show ?case by simp
  qed
  note loop = this
  have "works (q\<lparr>idx_oauth_redirect_uris := filter (\<lambda>e. fst e \<noteq> c) (idx_oauth_redirect_uris q)\<rparr>)" using assms by (simp add: works_def)
  from loop [OF this, of uris] assms show ?thesis by (simp add: replaceRedirectURIs_def)
qed

lemma insertDeveloperApp_mirrors:
  assumes "in_sync p tx q v" "a = ToLower (MetadataString p ''address'')" "\<not> live_app v a"
  shows "\<exists>q'. insertDeveloperApp p q = Inr q' \<and> works q' \<and>
    mirrors_auth q' (v\<lparr>v_apps := (v_apps v)(a \<mapsto> \<lparr>AppOwnerID = UserID tx, AppDeleted = False\<rparr>)\<rparr>)"
proof -
  note s = in_syncD [OF assms(1)]
  define row where "row = \<lparr>ia_address = a, ia_user_id = UserID tx, ia_name = MetadataString p ''name'',
    ia_description = nullString (MetadataString p ''description''), ia_image_url = nullString (validatedAppImageURL p),
    ia_is_personal_access = MetadataBoolOr p ''is_personal_access'' False, ia_is_current = True, ia_is_delete = False,
    ia_created_at = p_BlockTime p, ia_updated_at = p_BlockTime p, ia_txhash = p_TxHash p, ia_blocknumber = p_BlockNumber p\<rparr>"
  define q1 where "q1 = q\<lparr>idx_developer_apps := idx_developer_apps q @ [row]\<rparr>"
  define v' where "v' = v\<lparr>v_apps := (v_apps v)(a \<mapsto> \<lparr>AppOwnerID = UserID tx, AppDeleted = False\<rparr>)\<rparr>"
  have "\<not> list_ex (\<lambda>r. ia_address r = a \<and> ia_txhash r = p_TxHash p) (idx_developer_apps q)"
    using s(3) by (force simp: fresh_hash_def list_ex_iff)
  then have "insert_app row q = Inr q1" using s(1) by (simp add: insert_app_def row_def q1_def)
  then have ins: "insertDeveloperApp p q = (case extractRedirectURIs p of
      Some (uri # uris) \<Rightarrow> replaceRedirectURIs a (uri # uris) q1 | _ \<Rightarrow> Inr q1)"
    by (simp add: insertDeveloperApp_def assms(2) [symmetric] s(6) row_def)
  have "works q1" using s(1) by (simp add: works_def q1_def)
  have "\<exists>x. insertDeveloperApp p q = Inr (q1\<lparr>idx_oauth_redirect_uris := x\<rparr>)"
  proof (cases "extractRedirectURIs p = None \<or> extractRedirectURIs p = Some []")
    case True
    with ins have "insertDeveloperApp p q = Inr (q1\<lparr>idx_oauth_redirect_uris := idx_oauth_redirect_uris q1\<rparr>)" by auto
    then show ?thesis by blast
  next
    case False
    then obtain uri uris where "extractRedirectURIs p = Some (uri # uris)" by (metis list.exhaust option.exhaust)
    with ins redirect_uris_kept [OF \<open>works q1\<close>] show ?thesis by simp
  qed
  then obtain x where x: "insertDeveloperApp p q = Inr (q1\<lparr>idx_oauth_redirect_uris := x\<rparr>)" by blast
  define q' where "q' = q1\<lparr>idx_oauth_redirect_uris := x\<rparr>"
  have "works q'" using \<open>works q1\<close> by (simp add: works_def q'_def)
  moreover have "apps_mirror q' v'"
    by (rule apps_mirror_put [where q = q and v = v and r = row, OF _ assms(3)])
      (use s(2) in \<open>simp_all add: mirrors_auth_def row_def v'_def q'_def q1_def\<close>)
  moreover have "users_mirror q' v'" "grants_mirror q' v'"
    using s(2) mirror_frames(1,2) [of q' q v' v] by (simp_all add: mirrors_auth_def q'_def q1_def v'_def)
  ultimately show ?thesis using x by (simp add: mirrors_auth_def v'_def [symmetric] q'_def [symmetric])
qed

lemma app_create_agrees:
  assumes "in_sync p tx q v" "app_limits p ''metadata is required for developer app creation'' = Inr ()"
  shows "agrees (DeveloperAppCreate p q) (projectAppCreate viewAuthStore v tx) v"
proof -
  note s = in_syncD [OF assms(1)]
  define a where "a = ToLower (MetadataString p ''address'')"
  have a: "ToLower (metaString tx ''address'') = a" "ToLower a = a" by (simp_all add: a_def s)
  define rest where "rest = (if a = [] then Inl (ValidationError ''address is required for developer app'')
    else if live_app v a then Inl (ValidationError ''developer app %s already exists'')
    else if wallet_used v a then Inl (ValidationError ''address %s is already a user wallet'') else insertDeveloperApp p q)"
  have "DeveloperAppCreate p q = and_then (ValidateSigner p q) (\<lambda>_. rest)"
    using assms(2) by (simp add: DeveloperAppCreate_def validateDeveloperAppCreate_def and_then_assoc Let_def a_def [symmetric]
        mirrored_reads [OF s(1,2)] a(2) rest_def require_def cong: if_cong)
  moreover have "projectAppCreate viewAuthStore v tx = try_check (validateAuthSigner viewAuthStore v (UserID tx) (Signer tx)) v
      (if a = [] then reject v AppAddressRequired else if live_app v a then reject v (AppAlreadyExists a)
       else if wallet_used v a then reject v (AddressIsUserWallet a) else ret_write (UpsertApp viewAuthStore v a (UserID tx)))"
    using s(10) unfolding projectAppCreate_def
    by (cases "v_apps v a") (simp_all add: a live_app_def)
  moreover have "agrees rest (if a = [] then reject v AppAddressRequired else if live_app v a then reject v (AppAlreadyExists a)
       else if wallet_used v a then reject v (AddressIsUserWallet a) else ret_write (UpsertApp viewAuthStore v a (UserID tx))) v"
    using insertDeveloperApp_mirrors [OF assms(1) a_def] by (auto simp: rest_def agrees_def)
  ultimately show ?thesis using agrees_signer [OF s(1,2,4,6,9)] by simp
qed

section \<open>Users\<close>

lemma insertUser_mirrors:
  assumes "in_sync p tx q v" "v_users v (UserID tx) = None"
  shows "\<exists>q'. insertUser p q = Inr q' \<and> works q' \<and> mirrors_auth q' (v\<lparr>v_users := (v_users v)(UserID tx \<mapsto>
    \<lparr>Wallet = ToLower (Signer tx), HandleLC = ToLower (metaString tx ''handle''), Deactivated = False\<rparr>)\<rparr>)"
proof -
  note s = in_syncD [OF assms(1)]
  define row where "row = new_user_row p"
  define q' where "q' = q\<lparr>idx_users := idx_users q @ [row]\<rparr>"
  define c where "c = \<lparr>Wallet = ToLower (Signer tx), HandleLC = ToLower (metaString tx ''handle''), Deactivated = False\<rparr>"
  define v' where "v' = v\<lparr>v_users := (v_users v)(UserID tx \<mapsto> c)\<rparr>"
  have row: "iu_user_id row = UserID tx" "iu_is_current row" "same_user row c"
    by (simp_all add: row_def new_user_row_def Let_def same_user_def c_def s nullString_def)
  have none: "current_users q (UserID tx) = []" by (rule mirrors_user(1) [OF s(2) assms(2)])
  then have "\<not> list_ex (\<lambda>r. iu_user_id r = UserID tx \<and> (iu_is_current r \<or> iu_txhash r = p_TxHash p)) (idx_users q)"
    using mirrors_all_current [OF s(2)] by (auto simp: current_users_def filter_empty_conv list_ex_iff)
  then have "insertUser p q = Inr q'" using s(1) by (simp add: insertUser_def s(6) q'_def row_def)
  moreover have "works q'" using s(1) by (simp add: works_def q'_def)
  moreover have "users_mirror q' v'"
  proof (rule users_mirror_put [where q = q and v = v and r = row and c = c and u = "UserID tx"])
    show "current_users q' i = (if i = UserID tx then [row] else current_users q i)" for i
      using none row by (auto simp: current_users_def q'_def)
    show "\<forall>r\<in>set (idx_users q'). iu_is_current r" using mirrors_all_current [OF s(2)] row by (simp add: q'_def)
  qed (use s(2) row in \<open>simp_all add: mirrors_auth_def v'_def\<close>)
  moreover have "grants_mirror q' v'" "apps_mirror q' v'"
    using s(2) mirror_frames(2,3) [of q' q v' v] by (simp_all add: mirrors_auth_def q'_def v'_def)
  ultimately show ?thesis by (simp add: mirrors_auth_def v'_def c_def)
qed

lemma user_create_agrees:
  assumes "in_sync p tx q v" "p_EntityType p = ''User''" "UserIDOffset \<le> p_UserID p" "profile_limits p = Inr ()"
    "handle_format p = Inr ()" "\<not> MetadataBoolOr p ''is_deactivated'' False"
  shows "agrees (UserCreate p q) (projectUserCreate viewAuthStore v tx) v"
proof -
  note s = in_syncD [OF assms(1)]
  define h where "h = ToLower (metaString tx ''handle'')"
  have h: "metaString tx ''handle'' = [] \<longleftrightarrow> h = []" by (simp add: h_def)
  from assms(4) have lim: "ValidateBio (MetadataString p ''bio'') = Inr ()" "ValidateUserName (MetadataString p ''name'') = Inr ()"
    by (auto simp: profile_limits_def and_then_Inr)
  have "UserCreate p q = (if v_users v (UserID tx) \<noteq> None then Inl (ValidationError ''user %d already exists'')
      else if wallet_used v (ToLower (Signer tx)) then Inl (ValidationError ''wallet %s already in use'')
      else if live_app v (ToLower (Signer tx)) then Inl (ValidationError ''developer app %s cannot create user'')
      else if h \<noteq> [] \<and> handle_used v h then Inl (ValidationError ''handle %q already exists'') else insertUser p q)"
    using assms(2,3,5) lim h
    by (cases "v_users v (UserID tx)")
      (simp_all add: UserCreate_def validateUserCreate_def s(6,9,11) mirrored_reads [OF s(1,2)] h_def [symmetric])
  moreover have "projectUserCreate viewAuthStore v tx = (if v_users v (UserID tx) \<noteq> None then reject v (UserAlreadyExists (UserID tx))
      else if wallet_used v (ToLower (Signer tx)) then reject v (WalletInUse (ToLower (Signer tx)))
      else if live_app v (ToLower (Signer tx)) then reject v (AppCannotCreateUser (ToLower (Signer tx)))
      else if h \<noteq> [] \<and> handle_used v h then reject v (HandleTaken h)
      else ret_write (InsertUser viewAuthStore v (UserID tx) (ToLower (Signer tx)) h False))"
    using s(5,10) assms(6) unfolding projectUserCreate_def
    by (cases "v_apps v (ToLower (Signer tx))") (simp_all add: Let_def h_def [symmetric] live_app_def s(14))
  ultimately show ?thesis
    using insertUser_mirrors [OF assms(1)] by (auto simp: agrees_def h_def)
qed

text \<open>The row an update writes, and the projection's row after it.\<close>

definition merged :: "authTx \<Rightarrow> authUserRow \<Rightarrow> authUserRow" where
  "merged tx c = (let h = metaString tx ''handle'' in
     c\<lparr>HandleLC := if h = [] then HandleLC c else ToLower h, Deactivated := metaBoolOr tx ''is_deactivated'' (Deactivated c)\<rparr>)"

lemma updated_same:
  assumes "in_sync p tx q v" "same_user r c"
  shows "same_user (updated_user p pick r) (merged tx c)"
proof -
  note s = in_syncD [OF assms(1)]
  have m: "mergeNullStr p k x = (if MetadataString p k = [] then x else Some (MetadataString p k))" for k x
    by (simp add: mergeNullStr_def MetadataString_def Let_def split: option.split)
  show ?thesis
    using assms(2)
    by (cases "metaString tx ''handle'' = []"; cases "iu_handle r")
      (simp_all add: updated_user_def Let_def m s same_user_def merged_def split: if_splits)
qed

lemma resolveArtistPick_total:
  assumes "works q"
  shows "\<exists>pick. resolveArtistPick p q existing = Inr pick"
proof -
  have "\<exists>y. (case x of None \<Rightarrow> Inr None
      | Some t \<Rightarrow> and_then (trackExistsAndOwnedBy q t (p_UserID p)) (\<lambda>owned. Inr (if owned then Some t else None))) = Inr y"
    for x :: "int option"
    using assms by (cases x) (simp_all add: trackExistsAndOwnedBy_def)
  then show ?thesis unfolding resolveArtistPick_def Let_def .
qed

lemma updateUser_mirrors:
  assumes "in_sync p tx q v" "v_users v (UserID tx) = Some c"
  shows "\<exists>q'. updateUser p q = Inr q' \<and> works q' \<and> mirrors_auth q' (v\<lparr>v_users := (v_users v)(UserID tx \<mapsto> merged tx c)\<rparr>)"
proof -
  note s = in_syncD [OF assms(1)]
  from mirrors_user(2) [OF s(2) assms(2)] obtain r where r: "current_users q (UserID tx) = [r]" "same_user r c" by blast
  from resolveArtistPick_total [OF s(1)] obtain pick where
    pick: "resolveArtistPick p q (iu_artist_pick_track_id r) = Inr pick" by blast
  define row where "row = updated_user p pick r"
  define q' where "q' = q\<lparr>idx_users := map (\<lambda>r. if iu_user_id r = UserID tx \<and> iu_is_current r then row else r) (idx_users q)\<rparr>"
  define v' where "v' = v\<lparr>v_users := (v_users v)(UserID tx \<mapsto> merged tx c)\<rparr>"
  have "r \<in> set (current_users q (UserID tx))" using r(1) by simp
  then have "iu_user_id r = UserID tx" "iu_is_current r" by (simp_all add: current_users_def)
  then have row: "iu_user_id row = UserID tx" "iu_is_current row" by (simp_all add: row_def updated_user_def Let_def)
  have "\<not> list_ex (\<lambda>r. iu_user_id r = p_UserID p \<and> \<not> iu_is_current r \<and> iu_txhash r = p_TxHash p) (idx_users q)"
    using mirrors_all_current [OF s(2)] by (auto simp: list_ex_iff)
  then have "updateUser p q = Inr q'"
    using s(1) r(1) pick by (simp add: updateUser_def getCurrentUser_def write_user_def s(6) q'_def row_def)
  moreover have "works q'" using s(1) by (simp add: works_def q'_def)
  moreover have "users_mirror q' v'"
  proof (rule users_mirror_put [where q = q and v = v and r = row and c = "merged tx c" and u = "UserID tx"])
    have "filter (\<lambda>r. iu_user_id r = i \<and> iu_is_current r)
        (map (\<lambda>r. if iu_user_id r = UserID tx \<and> iu_is_current r then row else r) rows) =
      (if i = UserID tx then map (\<lambda>_. row) (filter (\<lambda>r. iu_user_id r = i \<and> iu_is_current r) rows)
       else filter (\<lambda>r. iu_user_id r = i \<and> iu_is_current r) rows)" for i rows
      using row by (induction rows) auto
    then show "current_users q' i = (if i = UserID tx then [row] else current_users q i)" for i
      using r(1) by (simp add: current_users_def q'_def)
    show "\<forall>r\<in>set (idx_users q'). iu_is_current r" using mirrors_all_current [OF s(2)] row by (auto simp: q'_def)
    show "same_user row (merged tx c)" unfolding row_def by (rule updated_same [OF assms(1) r(2)])
  qed (use s(2) in \<open>simp_all add: mirrors_auth_def v'_def\<close>)
  moreover have "grants_mirror q' v'" "apps_mirror q' v'"
    using s(2) mirror_frames(2,3) [of q' q v' v] by (simp_all add: mirrors_auth_def q'_def v'_def)
  ultimately show ?thesis by (simp add: mirrors_auth_def v'_def)
qed

text \<open>The handle of an update must be free or the user's own.\<close>

definition handle_free :: "Params \<Rightarrow> auth_view \<Rightarrow> bool" where
  "handle_free p v \<longleftrightarrow> (let h = ToLower (MetadataString p ''handle'') in
     h = [] \<or> \<not> handle_used v h \<or> (\<exists>c. v_users v (p_UserID p) = Some c \<and> HandleLC c = h))"

lemma user_update_agrees:
  assumes "in_sync p tx q v" "p_EntityType p = ''User''" "p_Action p = ''Update''" "profile_limits p = Inr ()"
    "handle_format p = Inr ()" "handle_free p v"
  shows "agrees (UserUpdate p q) (projectUserUpdate viewAuthStore v tx) v"
proof -
  note s = in_syncD [OF assms(1)]
  define h where "h = metaString tx ''handle''"
  define rest where "rest = and_then (userExists q (p_UserID p)) (\<lambda>exists.
    and_then (and_then (require exists ''user %d does not exist'') (\<lambda>_. if h = [] then Inr ()
      else and_then (getUserHandle q (p_UserID p)) (\<lambda>existingHandle. if existingHandle = ToLower h then Inr ()
        else and_then (handleExists q (ToLower h)) (\<lambda>handleTaken. require (\<not> handleTaken) ''handle %q already exists''))))
    (\<lambda>_. updateUser p q))"
  have "UserUpdate p q = and_then (ValidateSigner p q) (\<lambda>_. rest)"
    using assms(2-5) by (simp add: UserUpdate_def validateUserUpdate_def Let_def and_then_assoc rest_def s(11) h_def [symmetric])
  moreover have "agrees rest (try_write (if h \<noteq> [] then SetUserHandle viewAuthStore v (UserID tx) (ToLower h) else (None, v))
      (\<lambda>st1. case map_of (tx_meta tx) ''is_deactivated'' of
        Some (JBool d) \<Rightarrow> ret_write (SetUserDeactivated viewAuthStore st1 (UserID tx) d) | _ \<Rightarrow> (None, st1))) v"
    if auth: "authorized v (UserID tx) (Signer tx)"
  proof -
    from auth obtain c where c: "v_users v (UserID tx) = Some c" by (auto simp: authorized_def)
    from mirrors_user(2) [OF s(2) c] obtain r where r: "current_users q (UserID tx) = [r]" "same_user r c" by blast
    have "getUserHandle q (UserID tx) = Inr (HandleLC c)"
    proof -
      from r(2) have "iu_handle_lc r = (if HandleLC c = [] then None else Some (HandleLC c))"
        unfolding same_user_def by blast
      then show ?thesis using r(1) s(1) by (simp add: getUserHandle_def)
    qed
    then have "rest = updateUser p q"
      using c assms(6) by (auto simp: rest_def s(6,11) mirrored_reads [OF s(1,2)] handle_free_def h_def Let_def)
    moreover have "try_write (if h \<noteq> [] then SetUserHandle viewAuthStore v (UserID tx) (ToLower h) else (None, v))
        (\<lambda>st1. case map_of (tx_meta tx) ''is_deactivated'' of
          Some (JBool d) \<Rightarrow> ret_write (SetUserDeactivated viewAuthStore st1 (UserID tx) d) | _ \<Rightarrow> (None, st1)) =
        (None, v\<lparr>v_users := (v_users v)(UserID tx \<mapsto> merged tx c)\<rparr>)"
      using c by (auto simp: merged_def h_def [symmetric] Let_def metaBoolOr_def metaBool_def fun_upd_idem
          split: option.split json.split)
    ultimately show ?thesis using updateUser_mirrors [OF assms(1) c] by (auto simp: agrees_def)
  qed
  moreover have "projectUserUpdate viewAuthStore v tx = try_check (validateAuthSigner viewAuthStore v (UserID tx) (Signer tx)) v
      (try_write (if h \<noteq> [] then SetUserHandle viewAuthStore v (UserID tx) (ToLower h) else (None, v))
      (\<lambda>st1. case map_of (tx_meta tx) ''is_deactivated'' of
        Some (JBool d) \<Rightarrow> ret_write (SetUserDeactivated viewAuthStore st1 (UserID tx) d) | _ \<Rightarrow> (None, st1)))"
    by (simp only: projectUserUpdate_def Let_def h_def)
  ultimately show ?thesis using agrees_signer [OF s(1,2,4,6,9)] by simp
qed

section \<open>Dispatch\<close>

lemma register_handlers_map:
  assumes "\<forall>t. enabled t"
  shows "map_of (dsp_handlers (register_handlers enabled d)) = (map_of (dsp_handlers d))
    (''User:Create'' \<mapsto> UserCreate, ''User:Update'' \<mapsto> UserUpdate, ''User:Verify'' \<mapsto> UserVerify,
     ''*:Follow'' \<mapsto> Follow, ''*:Unfollow'' \<mapsto> Unfollow, ''*:Save'' \<mapsto> Save, ''*:Unsave'' \<mapsto> Unsave,
     ''*:Repost'' \<mapsto> Repost, ''*:Unrepost'' \<mapsto> Unrepost, ''*:Subscribe'' \<mapsto> Subscribe, ''*:Unsubscribe'' \<mapsto> Unsubscribe,
     ''DeveloperApp:Create'' \<mapsto> DeveloperAppCreate, ''DeveloperApp:Update'' \<mapsto> DeveloperAppUpdate,
     ''DeveloperApp:Delete'' \<mapsto> DeveloperAppDelete, ''Grant:Create'' \<mapsto> GrantCreate, ''Grant:Delete'' \<mapsto> GrantDelete,
     ''Grant:Approve'' \<mapsto> GrantApprove, ''Grant:Reject'' \<mapsto> GrantReject)"
  using assms by (simp add: register_handlers_def Register_def handlerKey_def)

lemma register_handlers_hooks: "dsp_postHooks (register_handlers enabled d) = dsp_postHooks d"
  by (simp add: register_handlers_def Register_def)

lemma dispatch_exact:
  assumes "\<forall>t. enabled t" "dsp_postHooks d = []"
    "map_of (dsp_handlers (register_handlers enabled d)) (handlerKey (p_EntityType p) (p_Action p)) = Some h"
  shows "Dispatch (register_handlers enabled d) p q = h p q"
  using assms by (cases "h p q") (simp_all add: Dispatch_def runPostHooks_def hooks_of_def register_handlers_hooks)

text \<open>
  The rules of the indexer that the projection does not know: limits on text, the range of user ids, handles free
  for an update, and the two cases the tables cannot follow, a user created as deactivated and a grant made anew
  after its revocation.
\<close>

definition content_rules_met :: "Params \<Rightarrow> auth_view \<Rightarrow> bool" where
  "content_rules_met p v \<longleftrightarrow> (let t = p_EntityType p; a = p_Action p in
     (t = ''User'' \<and> a = ''Create'' \<and> UserIDOffset \<le> p_UserID p \<and> profile_limits p = Inr () \<and> handle_format p = Inr () \<and>
       \<not> MetadataBoolOr p ''is_deactivated'' False) \<or>
     (t = ''User'' \<and> a = ''Update'' \<and> profile_limits p = Inr () \<and> handle_format p = Inr () \<and> handle_free p v) \<or>
     (t = ''DeveloperApp'' \<and> a = ''Create'' \<and> app_limits p ''metadata is required for developer app creation'' = Inr ()) \<or>
     (t = ''Grant'' \<and> a = ''Create'' \<and> v_grants v (grantee_of p, p_UserID p) = None) \<or>
     (t = ''Grant'' \<and> (a = ''Delete'' \<or> a = ''Approve'' \<or> a = ''Reject'')))"

lemma canonical_names:
  "canonicalAuthEntityType ''User'' = Some ''User''" "canonicalAuthEntityType ''Grant'' = Some ''Grant''"
  "canonicalAuthEntityType ''DeveloperApp'' = Some ''DeveloperApp''" "canonicalAuthAction ''Create'' = Some ''Create''"
  "canonicalAuthAction ''Update'' = Some ''Update''" "canonicalAuthAction ''Delete'' = Some ''Delete''"
  "canonicalAuthAction ''Approve'' = Some ''Approve''" "canonicalAuthAction ''Reject'' = Some ''Reject''"
  by code_simp+

lemma dispatch_agrees:
  assumes "in_sync p tx q v" "unique_wallets v" "content_rules_met p v" "\<forall>t. enabled t" "dsp_postHooks d = []"
  shows "agrees (Dispatch (register_handlers enabled d) p q) (applyAuthProjection viewAuthStore v tx rules) v"
proof -
  note s = in_syncD [OF assms(1)]
  note dsp = dispatch_exact [OF assms(4,5), of p _ q, unfolded register_handlers_map [OF assms(4)] handlerKey_def]
  note prj = applyAuthProjection_def canonical_names s(7,8) [symmetric]
  from assms(3) consider
      "p_EntityType p = ''User''" "p_Action p = ''Create''" "UserIDOffset \<le> p_UserID p" "profile_limits p = Inr ()"
        "handle_format p = Inr ()" "\<not> MetadataBoolOr p ''is_deactivated'' False"
    | "p_EntityType p = ''User''" "p_Action p = ''Update''" "profile_limits p = Inr ()" "handle_format p = Inr ()" "handle_free p v"
    | "p_EntityType p = ''DeveloperApp''" "p_Action p = ''Create''"
        "app_limits p ''metadata is required for developer app creation'' = Inr ()"
    | "p_EntityType p = ''Grant''" "p_Action p = ''Create''" "v_grants v (grantee_of p, p_UserID p) = None"
    | "p_EntityType p = ''Grant''" "p_Action p = ''Delete''"
    | "p_EntityType p = ''Grant''" "p_Action p = ''Approve''"
    | "p_EntityType p = ''Grant''" "p_Action p = ''Reject''"
    unfolding content_rules_met_def Let_def by (elim disjE conjE; simp)
  then show ?thesis
  proof cases
    case 1
    with user_create_agrees [OF assms(1)] dsp [of UserCreate] show ?thesis by (simp add: prj)
  next
    case 2
    with user_update_agrees [OF assms(1)] dsp [of UserUpdate] show ?thesis by (simp add: prj)
  next
    case 3
    with app_create_agrees [OF assms(1)] dsp [of DeveloperAppCreate] show ?thesis by (simp add: prj)
  next
    case 4
    with grant_create_agrees [OF assms(1)] dsp [of GrantCreate] show ?thesis by (simp add: prj)
  next
    case 5
    with grant_delete_agrees [OF assms(1,2)] dsp [of GrantDelete] show ?thesis by (simp add: prj)
  next
    case 6
    with grant_approve_agrees(1) [OF assms(1)] dsp [of GrantApprove] show ?thesis by (simp add: prj)
  next
    case 7
    with grant_approve_agrees(2) [OF assms(1)] dsp [of GrantReject] show ?thesis by (simp add: prj)
  qed
qed


end
