(* ===== verification/Social_Laws.thy ===== *)
theory Social_Laws
  imports Indexer_Laws
begin

text \<open>
  The tables of follows, subscriptions, saves and reposts as sets. The locale is what a handler relies on: a write
  adds its key to the set of active rows or takes it out, and keeps one current row per key.
\<close>

section \<open>Active rows\<close>

definition one_current :: "idx_social list \<Rightarrow> bool" where
  "one_current rows \<longleftrightarrow> distinct (map social_key (filter is_is_current rows))"

definition active_keys :: "idx_social list \<Rightarrow> (int \<times> int \<times> string) set" where
  "active_keys rows = social_key ` {r \<in> set rows. is_is_current r \<and> \<not> is_is_delete r}"

lemma is_active_iff: "is_active rows u i k \<longleftrightarrow> (u, i, k) \<in> active_keys rows"
  by (force simp: is_active_def active_keys_def list_ex_iff image_iff)

lemma one_current_same:
  "one_current rows \<Longrightarrow> r \<in> set rows \<Longrightarrow> r' \<in> set rows \<Longrightarrow> is_is_current r \<Longrightarrow> is_is_current r' \<Longrightarrow>
    social_key r = social_key r' \<Longrightarrow> r = r'"
  by (auto simp: one_current_def distinct_map dest: inj_onD)

lemma upsert_law:
  assumes "one_current rows" "upsert_social kinded row rows = Inr rows'" "is_is_current row"
  shows "one_current rows' \<and> active_keys rows' =
    (if is_is_delete row then active_keys rows - {social_key row} else insert (social_key row) (active_keys rows))"
proof (cases "list_ex (\<lambda>r. social_key r = social_key row \<and> is_is_current r) rows")
  case True
  with assms(2) have rows': "rows' = map (\<lambda>r. if social_key r = social_key row \<and> is_is_current r then row else r) rows"
    by (simp add: upsert_social_def Let_def split: if_splits)
  have "map social_key (filter is_is_current rows') = map social_key (filter is_is_current rows)"
    unfolding rows' using assms(3) by (induction rows) auto
  then have "one_current rows'" using assms(1) by (simp add: one_current_def)
  moreover have "k \<in> active_keys rows' \<longleftrightarrow> (if k = social_key row then \<not> is_is_delete row else k \<in> active_keys rows)" for k
  proof -
    have "set rows' = {r \<in> set rows. \<not> (social_key r = social_key row \<and> is_is_current r)} \<union> {row}"
      using True by (auto simp: rows' list_ex_iff)
    then show ?thesis using assms(3) by (auto simp: active_keys_def)
  qed
  then have "active_keys rows' = (if is_is_delete row then active_keys rows - {social_key row}
      else insert (social_key row) (active_keys rows))" by (intro set_eqI) simp
  ultimately show ?thesis by blast
next
  case False
  with assms(2) have rows': "rows' = rows @ [row]" by (simp add: upsert_social_def Let_def split: if_splits)
  have "one_current rows'" using False assms(1,3) by (auto simp: one_current_def rows' list_ex_iff)
  moreover have "active_keys rows' = (if is_is_delete row then active_keys rows - {social_key row}
      else insert (social_key row) (active_keys rows))"
    using False assms(3) by (auto simp: rows' active_keys_def list_ex_iff image_iff)
  ultimately show ?thesis ..
qed

section \<open>The contract of a social table\<close>

locale social_table =
  fixes put :: "Params \<Rightarrow> bool \<Rightarrow> idx_db \<Rightarrow> etl_error + idx_db" and rows :: "idx_db \<Rightarrow> idx_social list"
    and key :: "Params \<Rightarrow> idx_db \<Rightarrow> int \<times> int \<times> string"
  assumes write_law: "one_current (rows q) \<Longrightarrow> put p del q = Inr q' \<Longrightarrow> one_current (rows q') \<and>
      active_keys (rows q') = (if del then active_keys (rows q) - {key p q} else insert (key p q) (active_keys (rows q)))"
    and key_stable: "put p del q = Inr q' \<Longrightarrow> key p2 q' = key p2 q"
begin

lemma written:
  assumes "one_current (rows q)" "put p del q = Inr q'"
  shows "one_current (rows q')" "key p q \<in> active_keys (rows q') \<longleftrightarrow> \<not> del"
    "k \<noteq> key p q \<Longrightarrow> k \<in> active_keys (rows q') \<longleftrightarrow> k \<in> active_keys (rows q)"
  using write_law [OF assms] by auto

text \<open>After a sequence of writes a key is active when its last write added it.\<close>

lemma last_write_decides:
  assumes "one_current (rows q)" "for_each (\<lambda>(p, del). put p del) ws q = Inr q'"
  shows "one_current (rows q') \<and> (k \<in> active_keys (rows q') \<longleftrightarrow>
    (case find (\<lambda>(p, _). key p q = k) (rev ws) of None \<Rightarrow> k \<in> active_keys (rows q) | Some (_, del) \<Rightarrow> \<not> del))"
  using assms
proof (induction ws arbitrary: q)
  case (Cons w ws)
  obtain p del where w: "w = (p, del)" by (cases w)
  from Cons.prems(2) obtain q1 where q1: "put p del q = Inr q1" "for_each (\<lambda>(p, del). put p del) ws q1 = Inr q'"
    by (auto simp: w and_then_Inr)
  have keys: "key p2 q1 = key p2 q" for p2 by (rule key_stable [OF q1(1)])
  have split: "find P (xs @ [x]) = (case find P xs of None \<Rightarrow> if P x then Some x else None | Some y \<Rightarrow> Some y)"
    for P and xs :: "(Params \<times> bool) list" and x by (induction xs) auto
  from Cons.IH [OF written(1) [OF Cons.prems(1) q1(1)] q1(2)] written [OF Cons.prems(1) q1(1)]
  show ?case by (auto simp: w keys split split: option.split)
qed simp

end

text \<open>A table whose writes go through when the database answers and the hash of the transaction is new to it.\<close>

definition hashes :: "idx_social list \<Rightarrow> string set" where
  "hashes rows = is_txhash ` set rows"

locale recorded_table = social_table +
  fixes store :: "idx_social list \<Rightarrow> idx_db \<Rightarrow> idx_db"
  assumes rows_store: "rows (store rs q) = rs"
    and recorded: "works q \<Longrightarrow> p_TxHash p \<notin> hashes (rows q) \<Longrightarrow>
      \<exists>rs. put p del q = Inr (store rs q) \<and> hashes rs \<subseteq> insert (p_TxHash p) (hashes (rows q))"
begin

lemma recorded_effect:
  assumes "works q" "one_current (rows q)" "p_TxHash p \<notin> hashes (rows q)"
  obtains rs where "put p del q = Inr (store rs q)" "one_current rs" "hashes rs \<subseteq> insert (p_TxHash p) (hashes (rows q))"
    "active_keys rs = (if del then active_keys (rows q) - {key p q} else insert (key p q) (active_keys (rows q)))"
proof -
  from recorded [OF assms(1,3)] obtain rs where
    rs: "put p del q = Inr (store rs q)" "hashes rs \<subseteq> insert (p_TxHash p) (hashes (rows q))" by blast
  from that [OF rs(1) _ rs(2)] write_law [OF assms(2) rs(1)] show thesis by (simp add: rows_store)
qed

end

lemma social_row_sels [simp]:
  "is_is_current (social_row p k b del)" "is_is_delete (social_row p k b del) = del"
  "social_key (social_row p k b del) = (p_UserID p, p_EntityID p, k)" "is_txhash (social_row p k b del) = p_TxHash p"
  by (simp_all add: social_row_def social_key_def)

lemma resolve_frame:
  "idx_fault q' = idx_fault q \<Longrightarrow> idx_tracks q' = idx_tracks q \<Longrightarrow> idx_playlists q' = idx_playlists q \<Longrightarrow>
    resolve_kind f p q' = resolve_kind f p q"
  by (simp add: resolve_kind_def infer_kind_def run_query_def Let_def)

lemma upsert_fresh:
  assumes "is_txhash row \<notin> hashes rows"
  shows "\<exists>rs. upsert_social kinded row rows = Inr rs \<and> hashes rs \<subseteq> insert (is_txhash row) (hashes rows)"
proof -
  have "\<not> list_ex (\<lambda>r. is_user r = is_user row \<and> is_item r = is_item row \<and> (kinded \<longrightarrow> is_kind r = is_kind row) \<and>
      is_txhash r = is_txhash row \<and> \<not> (social_key r = social_key row \<and> is_is_current r)) rows"
    using assms unfolding list_ex_iff hashes_def by (metis imageI)
  then show ?thesis by (auto simp: upsert_social_def hashes_def Let_def)
qed

text \<open>Every such write is an upsert of a row of the transaction and a statement that stores the rows.\<close>

lemma recorded_tableI:
  assumes put: "\<And>p del q. put p del q = and_then (upsert_social kinded (social_row p (kind p q) (rep p) del) (rows q))
      (\<lambda>rs. run_query q f (t p) (i p) (store rs q))"
    and store: "\<And>rs q. rows (store rs q) = rs" "\<And>p rs q. kind p (store rs q) = kind p q"
  shows "recorded_table put rows (\<lambda>p q. (p_UserID p, p_EntityID p, kind p q)) store"
proof
  fix p del q q'
  assume "put p del q = Inr q'"
  then obtain rs where rs: "upsert_social kinded (social_row p (kind p q) (rep p) del) (rows q) = Inr rs" "q' = store rs q"
    by (auto simp: put and_then_Inr run_query_def split: option.splits)
  show "(p_UserID p2, p_EntityID p2, kind p2 q') = (p_UserID p2, p_EntityID p2, kind p2 q)" for p2
    by (simp add: rs(2) store(2))
  assume "one_current (rows q)"
  from upsert_law [OF this rs(1)] show "one_current (rows q') \<and> active_keys (rows q') =
      (if del then active_keys (rows q) - {(p_UserID p, p_EntityID p, kind p q)}
       else insert (p_UserID p, p_EntityID p, kind p q) (active_keys (rows q)))"
    by (simp add: rs(2) store(1))
next
  show "rows (store rs q) = rs" for rs q by (rule store(1))
next
  fix p :: Params and del q
  assume "works q" "p_TxHash p \<notin> hashes (rows q)"
  with upsert_fresh [of "social_row p (kind p q) (rep p) del" "rows q" kinded]
  show "\<exists>rs. put p del q = Inr (store rs q) \<and> hashes rs \<subseteq> insert (p_TxHash p) (hashes (rows q))"
    by (auto simp: put)
qed

interpretation follow_table: recorded_table insertFollowRow idx_follows
  "\<lambda>p _. (p_UserID p, p_EntityID p, [])" "\<lambda>rs q. q\<lparr>idx_follows := rs\<rparr>"
  by (rule recorded_tableI [where put = insertFollowRow and rows = idx_follows and
      store = "\<lambda>rs q. q\<lparr>idx_follows := rs\<rparr>" and kinded = True and kind = "\<lambda>_ _. []"
      and rep = "\<lambda>_. False" and f = "''insertFollowRow''" and t = "\<lambda>p. FormatInt (p_UserID p)" and i = p_EntityID],
      rule insertFollowRow_def, simp_all)

interpretation implied_table: recorded_table insertImpliedSubscription idx_subscriptions
  "\<lambda>p _. (p_UserID p, p_EntityID p, ''User'')" "\<lambda>rs q. q\<lparr>idx_subscriptions := rs\<rparr>"
  by (rule recorded_tableI [where put = insertImpliedSubscription and rows = idx_subscriptions and
      store = "\<lambda>rs q. q\<lparr>idx_subscriptions := rs\<rparr>" and kinded = False and kind = "\<lambda>_ _. ''User''"
      and rep = "\<lambda>_. False" and f = "''insertImpliedSubscription''" and t = "\<lambda>p. FormatInt (p_UserID p)" and i = p_EntityID],
      rule insertImpliedSubscription_def, simp_all)

interpretation subscription_table: recorded_table insertSubscription idx_subscriptions
  "\<lambda>p _. (p_UserID p, p_EntityID p, subscriptionEntityType p)" "\<lambda>rs q. q\<lparr>idx_subscriptions := rs\<rparr>"
  by (rule recorded_tableI [where put = insertSubscription and rows = idx_subscriptions and
      store = "\<lambda>rs q. q\<lparr>idx_subscriptions := rs\<rparr>" and kinded = False and kind = "\<lambda>p _. subscriptionEntityType p"
      and rep = "\<lambda>_. False" and f = "''insertSubscription''" and t = "\<lambda>p. FormatInt (p_UserID p)" and i = p_EntityID],
      rule insertSubscription_def, simp_all)

interpretation save_table: recorded_table insertSave idx_saves
  "\<lambda>p q. (p_UserID p, p_EntityID p, resolveSaveType p q)" "\<lambda>rs q. q\<lparr>idx_saves := rs\<rparr>"
  by (rule recorded_tableI [where put = insertSave and rows = idx_saves and
      store = "\<lambda>rs q. q\<lparr>idx_saves := rs\<rparr>" and kinded = True and kind = "resolveSaveType"
      and rep = "\<lambda>p. MetadataBoolOr p ''is_save_of_repost'' False" and f = "''insertSave''" and t = "\<lambda>p. FormatInt (p_UserID p)" and i = p_EntityID],
      rule insertSave_def, simp, unfold resolveSaveType_def, rule resolve_frame, simp_all)

interpretation repost_table: recorded_table insertRepost idx_reposts
  "\<lambda>p q. (p_UserID p, p_EntityID p, resolveRepostType p q)" "\<lambda>rs q. q\<lparr>idx_reposts := rs\<rparr>"
  by (rule recorded_tableI [where put = insertRepost and rows = idx_reposts and
      store = "\<lambda>rs q. q\<lparr>idx_reposts := rs\<rparr>" and kinded = True and kind = "resolveRepostType"
      and rep = "\<lambda>p. MetadataBoolOr p ''is_repost_of_repost'' False" and f = "''insertRepost''" and t = "\<lambda>p. FormatInt (p_UserID p)" and i = p_EntityID],
      rule insertRepost_def, simp, unfold resolveRepostType_def, rule resolve_frame, simp_all)

end
