(* ===== verification/Social_Refinement.thy ===== *)
theory Social_Refinement
  imports Social_Laws
begin

text \<open>
  The social graph as the indexer keeps it, against an abstract machine on four sets: who follows whom, who is
  subscribed to what, and what each user has saved and reposted. A block of social transactions moves the tables
  exactly as the machine moves its sets, the rejected transactions included.
\<close>

section \<open>The abstract machine\<close>

record social_sets =
  ss_follows :: "(int \<times> int \<times> string) set"
  ss_subscriptions :: "(int \<times> int \<times> string) set"
  ss_saves :: "(int \<times> int \<times> string) set"
  ss_reposts :: "(int \<times> int \<times> string) set"

definition social_view :: "idx_db \<Rightarrow> social_sets" where
  "social_view q = \<lparr>ss_follows = active_keys (idx_follows q), ss_subscriptions = active_keys (idx_subscriptions q),
     ss_saves = active_keys (idx_saves q), ss_reposts = active_keys (idx_reposts q)\<rparr>"

text \<open>
  One transaction, with the users, tracks, playlists, events and grants of the database \<^term>\<open>q\<close>. An addition needs
  a target that exists and is not yet in the set, a removal needs its key in the set; the signer must have the
  authority of the user. What a removal of a save looks up is not what it takes out.
\<close>

definition social_step :: "idx_db \<Rightarrow> Params \<Rightarrow> social_sets \<Rightarrow> social_sets" where
  "social_step q p s =
     (let a = p_Action p; edge = (\<lambda>k. (p_UserID p, p_EntityID p, k)); sub = subscriptionEntityType p;
          sv = resolveSaveType p q; rp = resolveRepostType p q
      in if ValidateSigner p q \<noteq> Inr () then s
         else if a = ''Follow'' \<and> p_UserID p \<noteq> p_EntityID p \<and> userExists q (p_EntityID p) = Inr True \<and> edge [] \<notin> ss_follows s
           then s\<lparr>ss_follows := insert (edge []) (ss_follows s), ss_subscriptions := insert (edge ''User'') (ss_subscriptions s)\<rparr>
         else if a = ''Unfollow'' \<and> edge [] \<in> ss_follows s
           then s\<lparr>ss_follows := ss_follows s - {edge []}, ss_subscriptions := ss_subscriptions s - {edge ''User''}\<rparr>
         else if a = ''Subscribe'' \<and> (sub = ''Event'' \<or> p_UserID p \<noteq> p_EntityID p) \<and>
             subscriptionTargetExists p q = Inr True \<and> edge sub \<notin> ss_subscriptions s
           then s\<lparr>ss_subscriptions := insert (edge sub) (ss_subscriptions s)\<rparr>
         else if a = ''Unsubscribe'' \<and> edge sub \<in> ss_subscriptions s
           then s\<lparr>ss_subscriptions := ss_subscriptions s - {edge sub}\<rparr>
         else if a = ''Save'' \<and> sv \<noteq> [] \<and> validateSaveTarget q (p_EntityID p) sv = Inr () \<and> edge sv \<notin> ss_saves s
           then s\<lparr>ss_saves := insert (edge sv) (ss_saves s)\<rparr>
         else if a = ''Unsave'' \<and> unsave_type p q \<noteq> [] \<and> edge (unsave_type p q) \<in> ss_saves s
           then s\<lparr>ss_saves := ss_saves s - {edge sv}\<rparr>
         else if a = ''Repost'' \<and> rp \<noteq> [] \<and> validateSaveTarget q (p_EntityID p) rp = Inr () \<and> edge rp \<notin> ss_reposts s
           then s\<lparr>ss_reposts := insert (edge rp) (ss_reposts s)\<rparr>
         else if a = ''Unrepost'' \<and> rp \<noteq> [] \<and> edge rp \<in> ss_reposts s
           then s\<lparr>ss_reposts := ss_reposts s - {edge rp}\<rparr>
         else s)"

section \<open>The invariant of the tables\<close>

definition social_tables_ok :: "idx_db \<Rightarrow> bool" where
  "social_tables_ok q \<longleftrightarrow> one_current (idx_follows q) \<and> one_current (idx_subscriptions q) \<and>
     one_current (idx_saves q) \<and> one_current (idx_reposts q)"

definition social_hashes :: "idx_db \<Rightarrow> string set" where
  "social_hashes q = hashes (idx_follows q) \<union> hashes (idx_subscriptions q) \<union> hashes (idx_saves q) \<union> hashes (idx_reposts q)"

text \<open>What the social handlers only read.\<close>

definition social_rest :: "idx_db \<Rightarrow> idx_db" where
  "social_rest q = q\<lparr>idx_follows := [], idx_subscriptions := [], idx_saves := [], idx_reposts := []\<rparr>"

lemma social_rest_puts [simp]:
  "social_rest (q\<lparr>idx_follows := f\<rparr>) = social_rest q" "social_rest (q\<lparr>idx_subscriptions := b\<rparr>) = social_rest q"
  "social_rest (q\<lparr>idx_saves := s\<rparr>) = social_rest q" "social_rest (q\<lparr>idx_reposts := r\<rparr>) = social_rest q"
  by (simp_all add: social_rest_def)

lemma social_rest_sels:
  "idx_users (social_rest q) = idx_users q" "idx_developer_apps (social_rest q) = idx_developer_apps q" "idx_grants (social_rest q) = idx_grants q"
  "idx_tracks (social_rest q) = idx_tracks q" "idx_playlists (social_rest q) = idx_playlists q"
  "idx_events (social_rest q) = idx_events q" "idx_fault (social_rest q) = idx_fault q" "idx_plan (social_rest q) = idx_plan q"
  by (simp_all add: social_rest_def)

lemma social_rest_lookups:
  "run_query (social_rest q) = run_query q" "getUserWallet (social_rest q) = getUserWallet q"
  "getActiveGrant (social_rest q) = getActiveGrant q" "developerAppExists (social_rest q) = developerAppExists q"
  "activeUserWalletExists (social_rest q) = activeUserWalletExists q" "userExists (social_rest q) = userExists q"
  "eventExists (social_rest q) = eventExists q" "trackExists (social_rest q) = trackExists q"
  "playlistExists (social_rest q) = playlistExists q" "infer_kind f (social_rest q) = infer_kind f q"
  by (unfold social_rest_sels run_query_def getUserWallet_def getActiveGrant_def developerAppExists_def
      activeUserWalletExists_def active_wallet_def userExists_def eventExists_def trackExists_def playlistExists_def
      infer_kind_def current_users_def current_grants_def limit_one_def) (rule refl)+

lemma social_rest_reads:
  "works (social_rest q) = works q" "ValidateSigner p (social_rest q) = ValidateSigner p q"
  "userExists (social_rest q) u = userExists q u" "subscriptionTargetExists p (social_rest q) = subscriptionTargetExists p q"
  "validateSaveTarget (social_rest q) u k = validateSaveTarget q u k"
  "resolveSaveType p (social_rest q) = resolveSaveType p q" "resolveRepostType p (social_rest q) = resolveRepostType p q"
  "unsave_type p (social_rest q) = unsave_type p q"
  by (simp add: works_def social_rest_def,
      simp_all only: ValidateSigner_def validateSignerForUser_def subscriptionTargetExists_def validateSaveTarget_def
        resolveSaveType_def resolveRepostType_def unsave_type_def resolve_kind_def social_rest_lookups)

lemma social_step_rest: "social_step (social_rest q) = social_step q"
  by (intro ext) (simp only: social_step_def social_rest_reads)

section \<open>The handlers\<close>

text \<open>Each handler writes when its guard holds, and rejects the transaction otherwise.\<close>

definition guarded :: "etl_error + idx_db \<Rightarrow> bool \<Rightarrow> etl_error + idx_db \<Rightarrow> bool" where
  "guarded r g w \<longleftrightarrow> (if g then r = w else \<exists>e. r = Inl e)"

lemma follow_guards:
  assumes "works q"
  shows "guarded (Follow p q) (ValidateSigner p q = Inr () \<and> p_UserID p \<noteq> p_EntityID p \<and>
      userExists q (p_EntityID p) = Inr True \<and> (p_UserID p, p_EntityID p, []) \<notin> active_keys (idx_follows q))
      (insertFollow p False q)"
    "guarded (Unfollow p q) (ValidateSigner p q = Inr () \<and> (p_UserID p, p_EntityID p, []) \<in> active_keys (idx_follows q))
      (insertFollow p True q)"
  using assms by (cases "ValidateSigner p q"; auto simp: guarded_def Follow_def validateFollow_def Unfollow_def
    validateUnfollow_def followExists_def userExists_def is_active_iff require_def)+

lemma target_answers:
  assumes "works q"
  shows "\<exists>b. subscriptionTargetExists p q = Inr b" "\<exists>e. validateSaveTarget q i k = Inl e \<or> validateSaveTarget q i k = Inr ()"
  using assms by (auto simp: subscriptionTargetExists_def eventExists_def userExists_def validateSaveTarget_def require_def
    trackExists_def playlistExists_def)

lemma subscription_guards:
  assumes "works q"
  shows "guarded (Subscribe p q) (ValidateSigner p q = Inr () \<and>
      (subscriptionEntityType p = ''Event'' \<or> p_UserID p \<noteq> p_EntityID p) \<and> subscriptionTargetExists p q = Inr True \<and>
      (p_UserID p, p_EntityID p, subscriptionEntityType p) \<notin> active_keys (idx_subscriptions q)) (insertSubscription p False q)"
    "guarded (Unsubscribe p q) (ValidateSigner p q = Inr () \<and>
      (p_UserID p, p_EntityID p, subscriptionEntityType p) \<in> active_keys (idx_subscriptions q)) (insertSubscription p True q)"
proof -
  have kind: "subscriptionEntityType p = ''Event'' \<longleftrightarrow> subscriptionEntityType p \<noteq> ''User''"
    by (simp add: subscriptionEntityType_def)
  from target_answers(1) [OF assms, of p] obtain b where b: "subscriptionTargetExists p q = Inr b" ..
  show "guarded (Subscribe p q) (ValidateSigner p q = Inr () \<and>
      (subscriptionEntityType p = ''Event'' \<or> p_UserID p \<noteq> p_EntityID p) \<and> subscriptionTargetExists p q = Inr True \<and>
      (p_UserID p, p_EntityID p, subscriptionEntityType p) \<notin> active_keys (idx_subscriptions q)) (insertSubscription p False q)"
    using assms b unfolding kind by (cases "ValidateSigner p q"; auto simp: guarded_def Subscribe_def validateSubscribe_def
      subscriptionExists_def is_active_iff require_def Let_def)
  show "guarded (Unsubscribe p q) (ValidateSigner p q = Inr () \<and>
      (p_UserID p, p_EntityID p, subscriptionEntityType p) \<in> active_keys (idx_subscriptions q)) (insertSubscription p True q)"
    using assms by (cases "ValidateSigner p q"; auto simp: guarded_def Unsubscribe_def validateUnsubscribe_def
      subscriptionExists_def is_active_iff require_def)
qed

lemma save_guards:
  assumes "works q"
  shows "guarded (Save p q) (ValidateSigner p q = Inr () \<and> resolveSaveType p q \<noteq> [] \<and>
      validateSaveTarget q (p_EntityID p) (resolveSaveType p q) = Inr () \<and>
      (p_UserID p, p_EntityID p, resolveSaveType p q) \<notin> active_keys (idx_saves q)) (insertSave p False q)"
    "guarded (Unsave p q) (ValidateSigner p q = Inr () \<and> unsave_type p q \<noteq> [] \<and>
      (p_UserID p, p_EntityID p, unsave_type p q) \<in> active_keys (idx_saves q)) (insertSave p True q)"
  using assms by (cases "ValidateSigner p q"; cases "validateSaveTarget q (p_EntityID p) (resolveSaveType p q)";
    auto simp: guarded_def Save_def validateSave_def Unsave_def validateUnsave_def saveExists_def is_active_iff require_def Let_def)+

lemma repost_guards:
  assumes "works q"
  shows "guarded (Repost p q) (ValidateSigner p q = Inr () \<and> resolveRepostType p q \<noteq> [] \<and>
      validateSaveTarget q (p_EntityID p) (resolveRepostType p q) = Inr () \<and>
      (p_UserID p, p_EntityID p, resolveRepostType p q) \<notin> active_keys (idx_reposts q)) (insertRepost p False q)"
    "guarded (Unrepost p q) (ValidateSigner p q = Inr () \<and> resolveRepostType p q \<noteq> [] \<and>
      (p_UserID p, p_EntityID p, resolveRepostType p q) \<in> active_keys (idx_reposts q)) (insertRepost p True q)"
  using assms by (cases "ValidateSigner p q"; cases "validateSaveTarget q (p_EntityID p) (resolveRepostType p q)";
    auto simp: guarded_def Repost_def validateRepost_def Unrepost_def validateUnrepost_def repostExists_def is_active_iff
      require_def Let_def)+

section \<open>One transaction\<close>

definition settled :: "idx_db \<Rightarrow> etl_error + idx_db \<Rightarrow> idx_db" where
  "settled q r = (case r of Inr q' \<Rightarrow> q' | Inl _ \<Rightarrow> q)"

definition social_moves :: "idx_db \<Rightarrow> Params \<Rightarrow> (social_sets \<Rightarrow> social_sets) \<Rightarrow> idx_db \<Rightarrow> bool" where
  "social_moves q p g q' \<longleftrightarrow> social_view q' = g (social_view q) \<and> social_tables_ok q' \<and> social_rest q' = social_rest q \<and>
     social_hashes q' \<subseteq> insert (p_TxHash p) (social_hashes q)"

lemma social_moves_stay: "social_tables_ok q \<Longrightarrow> g (social_view q) = social_view q \<Longrightarrow> social_moves q p g q"
  by (auto simp: social_moves_def)

lemma social_moves_then: "social_moves q p g q1 \<Longrightarrow> social_moves q1 p g' q2 \<Longrightarrow> social_moves q p (\<lambda>s. g' (g s)) q2"
  unfolding social_moves_def by (elim conjE, intro conjI) (simp_all, blast)

lemma social_moves_table:
  assumes "social_tables_ok q" "one_current rs"
  shows "hashes rs \<subseteq> insert (p_TxHash p) (hashes (idx_follows q)) \<Longrightarrow> active_keys rs = f (active_keys (idx_follows q)) \<Longrightarrow>
      social_moves q p (\<lambda>s. s\<lparr>ss_follows := f (ss_follows s)\<rparr>) (q\<lparr>idx_follows := rs\<rparr>)"
    "hashes rs \<subseteq> insert (p_TxHash p) (hashes (idx_subscriptions q)) \<Longrightarrow> active_keys rs = f (active_keys (idx_subscriptions q)) \<Longrightarrow>
      social_moves q p (\<lambda>s. s\<lparr>ss_subscriptions := f (ss_subscriptions s)\<rparr>) (q\<lparr>idx_subscriptions := rs\<rparr>)"
    "hashes rs \<subseteq> insert (p_TxHash p) (hashes (idx_saves q)) \<Longrightarrow> active_keys rs = f (active_keys (idx_saves q)) \<Longrightarrow>
      social_moves q p (\<lambda>s. s\<lparr>ss_saves := f (ss_saves s)\<rparr>) (q\<lparr>idx_saves := rs\<rparr>)"
    "hashes rs \<subseteq> insert (p_TxHash p) (hashes (idx_reposts q)) \<Longrightarrow> active_keys rs = f (active_keys (idx_reposts q)) \<Longrightarrow>
      social_moves q p (\<lambda>s. s\<lparr>ss_reposts := f (ss_reposts s)\<rparr>) (q\<lparr>idx_reposts := rs\<rparr>)"
  using assms unfolding social_moves_def social_view_def social_tables_ok_def social_hashes_def by (simp, blast)+

text \<open>What a write does to the set of its table.\<close>

definition flip :: "bool \<Rightarrow> 'a \<Rightarrow> 'a set \<Rightarrow> 'a set" where
  "flip del k s = (if del then s - {k} else insert k s)"

lemma social_writes:
  assumes "works q" "social_tables_ok q" "p_TxHash p \<notin> social_hashes q"
  defines "edge \<equiv> \<lambda>k. (p_UserID p, p_EntityID p, k)"
  shows "\<exists>q'. insertSave p del q = Inr q' \<and>
      social_moves q p (\<lambda>s. s\<lparr>ss_saves := flip del (edge (resolveSaveType p q)) (ss_saves s)\<rparr>) q'"
    "\<exists>q'. insertRepost p del q = Inr q' \<and>
      social_moves q p (\<lambda>s. s\<lparr>ss_reposts := flip del (edge (resolveRepostType p q)) (ss_reposts s)\<rparr>) q'"
    "\<exists>q'. insertSubscription p del q = Inr q' \<and>
      social_moves q p (\<lambda>s. s\<lparr>ss_subscriptions := flip del (edge (subscriptionEntityType p)) (ss_subscriptions s)\<rparr>) q'"
    "\<exists>q'. insertFollow p del q = Inr q' \<and> social_moves q p (\<lambda>s. s\<lparr>ss_follows := flip del (edge []) (ss_follows s),
      ss_subscriptions := flip del (edge ''User'') (ss_subscriptions s)\<rparr>) q'"
proof -
  have ok: "one_current (idx_follows q)" "one_current (idx_subscriptions q)" "one_current (idx_saves q)" "one_current (idx_reposts q)"
    using assms(2) by (simp_all add: social_tables_ok_def)
  have new: "p_TxHash p \<notin> hashes (idx_follows q)" "p_TxHash p \<notin> hashes (idx_subscriptions q)"
    "p_TxHash p \<notin> hashes (idx_saves q)" "p_TxHash p \<notin> hashes (idx_reposts q)"
    using assms(3) by (simp_all add: social_hashes_def)
  note table = social_moves_table [OF assms(2)]
  obtain sv where sv: "insertSave p del q = Inr (q\<lparr>idx_saves := sv\<rparr>)" "one_current sv"
    "hashes sv \<subseteq> insert (p_TxHash p) (hashes (idx_saves q))"
    "active_keys sv = flip del (edge (resolveSaveType p q)) (active_keys (idx_saves q))"
    by (rule save_table.recorded_effect [OF assms(1) ok(3) new(3), of del]) (simp only: flip_def edge_def)
  from table(3) [where f = "flip del (edge (resolveSaveType p q))", OF sv(2-4)] sv(1) show "\<exists>q'. insertSave p del q = Inr q' \<and>
      social_moves q p (\<lambda>s. s\<lparr>ss_saves := flip del (edge (resolveSaveType p q)) (ss_saves s)\<rparr>) q'" by blast
  obtain rp where rp: "insertRepost p del q = Inr (q\<lparr>idx_reposts := rp\<rparr>)" "one_current rp"
    "hashes rp \<subseteq> insert (p_TxHash p) (hashes (idx_reposts q))"
    "active_keys rp = flip del (edge (resolveRepostType p q)) (active_keys (idx_reposts q))"
    by (rule repost_table.recorded_effect [OF assms(1) ok(4) new(4), of del]) (simp only: flip_def edge_def)
  from table(4) [where f = "flip del (edge (resolveRepostType p q))", OF rp(2-4)] rp(1) show "\<exists>q'. insertRepost p del q = Inr q' \<and>
      social_moves q p (\<lambda>s. s\<lparr>ss_reposts := flip del (edge (resolveRepostType p q)) (ss_reposts s)\<rparr>) q'" by blast
  obtain sb where sb: "insertSubscription p del q = Inr (q\<lparr>idx_subscriptions := sb\<rparr>)" "one_current sb"
    "hashes sb \<subseteq> insert (p_TxHash p) (hashes (idx_subscriptions q))"
    "active_keys sb = flip del (edge (subscriptionEntityType p)) (active_keys (idx_subscriptions q))"
    by (rule subscription_table.recorded_effect [OF assms(1) ok(2) new(2), of del]) (simp only: flip_def edge_def)
  from table(2) [where f = "flip del (edge (subscriptionEntityType p))", OF sb(2-4)] sb(1) show "\<exists>q'. insertSubscription p del q = Inr q' \<and>
      social_moves q p (\<lambda>s. s\<lparr>ss_subscriptions := flip del (edge (subscriptionEntityType p)) (ss_subscriptions s)\<rparr>) q'" by blast
  obtain fs where fs: "insertFollowRow p del q = Inr (q\<lparr>idx_follows := fs\<rparr>)" "one_current fs"
    "hashes fs \<subseteq> insert (p_TxHash p) (hashes (idx_follows q))"
    "active_keys fs = flip del (edge []) (active_keys (idx_follows q))"
    by (rule follow_table.recorded_effect [OF assms(1) ok(1) new(1), of del]) (simp only: flip_def edge_def)
  define q1 where "q1 = q\<lparr>idx_follows := fs\<rparr>"
  have q1: "works q1" "idx_subscriptions q1 = idx_subscriptions q" using assms(1) by (simp_all add: q1_def works_def)
  note m1 = table(1) [where f = "flip del (edge [])", OF fs(2-4), folded q1_def]
  obtain bs where bs: "insertImpliedSubscription p del q1 = Inr (q1\<lparr>idx_subscriptions := bs\<rparr>)" "one_current bs"
    "hashes bs \<subseteq> insert (p_TxHash p) (hashes (idx_subscriptions q1))"
    "active_keys bs = flip del (edge ''User'') (active_keys (idx_subscriptions q1))"
    by (rule implied_table.recorded_effect [OF q1(1), unfolded q1(2), OF ok(2) new(2), of del])
      (simp only: flip_def edge_def q1(2))
  have "social_tables_ok q1" using m1 by (simp add: social_moves_def)
  from social_moves_then [OF m1 social_moves_table(2) [OF this bs(2), where f = "flip del (edge ''User'')", OF bs(3,4)]] bs(1) fs(1)
  show "\<exists>q'. insertFollow p del q = Inr q' \<and> social_moves q p (\<lambda>s. s\<lparr>ss_follows := flip del (edge []) (ss_follows s),
      ss_subscriptions := flip del (edge ''User'') (ss_subscriptions s)\<rparr>) q'"
    by (simp add: insertFollow_def q1_def)
qed

lemma guarded_moves:
  assumes "guarded r g w" "\<exists>q'. w = Inr q' \<and> social_moves q p f q'" "social_tables_ok q"
    "social_step q p (social_view q) = (if g then f (social_view q) else social_view q)"
  shows "social_moves q p (social_step q p) (settled q r)"
proof (cases g)
  case True
  with assms show ?thesis by (auto simp: guarded_def settled_def social_moves_def)
next
  case False
  with assms(1) obtain e where "r = Inl e" by (auto simp: guarded_def)
  with False assms(3,4) show ?thesis by (simp add: settled_def social_moves_stay)
qed

definition social_handlers :: "(string \<times> etl_handler) list" where
  "social_handlers = [(''Follow'', Follow), (''Unfollow'', Unfollow), (''Subscribe'', Subscribe), (''Unsubscribe'', Unsubscribe),
     (''Save'', Save), (''Unsave'', Unsave), (''Repost'', Repost), (''Unrepost'', Unrepost)]"

lemma social_handlers_cases:
  assumes "map_of social_handlers a = Some h"
  obtains "a = ''Follow''" "h = Follow" | "a = ''Unfollow''" "h = Unfollow"
    | "a = ''Subscribe''" "h = Subscribe" | "a = ''Unsubscribe''" "h = Unsubscribe"
    | "a = ''Save''" "h = Save" | "a = ''Unsave''" "h = Unsave"
    | "a = ''Repost''" "h = Repost" | "a = ''Unrepost''" "h = Unrepost"
  using assms unfolding social_handlers_def by (simp split: if_splits)

lemma social_tx_moves:
  assumes "works q" "social_tables_ok q" "p_TxHash p \<notin> social_hashes q" "map_of social_handlers (p_Action p) = Some h"
  shows "social_moves q p (social_step q p) (settled q (h p q))"
proof -
  note write_rules = social_writes [OF assms(1-3)]
  note step = social_step_def social_view_def flip_def Let_def
  from assms(4) show ?thesis
  proof (cases rule: social_handlers_cases)
    case 1
    show ?thesis unfolding 1 by (rule guarded_moves [OF follow_guards(1) [OF assms(1)] write_rules(4) [of False] assms(2)])
        (auto simp: 1 step)
  next
    case 2
    show ?thesis unfolding 2 by (rule guarded_moves [OF follow_guards(2) [OF assms(1)] write_rules(4) [of True] assms(2)])
        (auto simp: 2 step)
  next
    case 3
    show ?thesis unfolding 3 by (rule guarded_moves [OF subscription_guards(1) [OF assms(1)] write_rules(3) [of False] assms(2)])
        (auto simp: 3 step)
  next
    case 4
    show ?thesis unfolding 4 by (rule guarded_moves [OF subscription_guards(2) [OF assms(1)] write_rules(3) [of True] assms(2)])
        (auto simp: 4 step)
  next
    case 5
    show ?thesis unfolding 5 by (rule guarded_moves [OF save_guards(1) [OF assms(1)] write_rules(1) [of False] assms(2)])
        (auto simp: 5 step)
  next
    case 6
    show ?thesis unfolding 6 by (rule guarded_moves [OF save_guards(2) [OF assms(1)] write_rules(1) [of True] assms(2)])
        (auto simp: 6 step)
  next
    case 7
    show ?thesis unfolding 7 by (rule guarded_moves [OF repost_guards(1) [OF assms(1)] write_rules(2) [of False] assms(2)])
        (auto simp: 7 step)
  next
    case 8
    show ?thesis unfolding 8 by (rule guarded_moves [OF repost_guards(2) [OF assms(1)] write_rules(2) [of True] assms(2)])
        (auto simp: 8 step)
  qed
qed

section \<open>Blocks\<close>

lemma handlerKey_eq:
  assumes "CHR '':'' \<notin> set a" "CHR '':'' \<notin> set a'"
  shows "handlerKey t a = handlerKey t' a' \<longleftrightarrow> t = t' \<and> a = a'"
proof
  assume "handlerKey t a = handlerKey t' a'"
  then have "rev (handlerKey t a) = rev (handlerKey t' a')" by simp
  then have eq: "rev a @ CHR '':'' # rev t = rev a' @ CHR '':'' # rev t'" by (simp add: handlerKey_def)
  have front: "takeWhile ((\<noteq>) CHR '':'') (rev b @ CHR '':'' # s) = rev b" if "CHR '':'' \<notin> set b" for b s
    using that by (subst takeWhile_append2) auto
  from front [OF assms(1), of "rev t"] front [OF assms(2), of "rev t'"] eq have "rev a = rev a'" by simp
  with eq have "rev a = rev a' \<and> rev t = rev t'" by simp
  then show "t = t' \<and> a = a'" by simp
qed simp

lemma dispatch_social:
  assumes "\<forall>t. enabled t" "dsp_postHooks d = []" "map_of social_handlers (p_Action p) = Some h"
    "map_of (dsp_handlers d) (handlerKey (p_EntityType p) (p_Action p)) = None"
  shows "Dispatch (register_handlers enabled d) p q = h p q"
proof -
  have keys: "map_of (dsp_handlers (register_handlers enabled d)) (handlerKey (p_EntityType p) (p_Action p)) =
      (if p_EntityType p = ''*'' then Some h else None)"
    "map_of (dsp_handlers (register_handlers enabled d)) (handlerKey ''*'' (p_Action p)) = Some h"
    using assms(1,4) by (use assms(3) in \<open>cases rule: social_handlers_cases\<close>;
      simp add: register_handlers_def Register_def handlerKey_eq)+
  show ?thesis
  proof (cases "p_EntityType p = ''*''")
    case True
    with keys(1) show ?thesis by (intro dispatch_exact [OF assms(1,2)]) simp
  next
    case False
    with keys assms(2) show ?thesis
      by (cases "h p q") (simp_all add: Dispatch_def runPostHooks_def hooks_of_def register_handlers_hooks Let_def)
  qed
qed

text \<open>A transaction that the handlers of the social graph get: none of the other handlers is registered for it.\<close>

definition social_tx :: "Dispatcher \<Rightarrow> Params \<Rightarrow> bool" where
  "social_tx d p \<longleftrightarrow> p_Action p \<in> fst ` set social_handlers \<and>
     map_of (dsp_handlers d) (handlerKey (p_EntityType p) (p_Action p)) = None"

lemma processOneTx_settled: "\<exists>res'. processOneTx d p (q, res) = (settled q (Dispatch d p q), res')"
  by (auto simp: processOneTx_def settled_def Let_def split: sum.split etl_error.split)

lemma social_one_tx:
  assumes "\<forall>t. enabled t" "dsp_postHooks d = []" "social_tx d p" "works q" "social_tables_ok q" "p_TxHash p \<notin> social_hashes q"
  obtains q' res' where "processOneTx (register_handlers enabled d) p (q, res) = (q', res')" "social_moves q p (social_step q p) q'"
proof -
  from assms(3) obtain h where h: "map_of social_handlers (p_Action p) = Some h"
    "map_of (dsp_handlers d) (handlerKey (p_EntityType p) (p_Action p)) = None"
    unfolding social_tx_def by (metis map_of_eq_None_iff option.exhaust)
  from processOneTx_settled [of "register_handlers enabled d" p q res] social_tx_moves [OF assms(4-6) h(1)] that show thesis
    unfolding dispatch_social [OF assms(1,2) h] by blast
qed

lemma social_moves_frame:
  assumes "social_moves q p g q'" "works q"
  shows "works q'" "social_step q' = social_step q"
proof -
  from assms(1) have "social_rest q' = social_rest q" by (simp add: social_moves_def)
  with assms(2) social_rest_reads(1) show "works q'" by metis
  from \<open>social_rest q' = social_rest q\<close> show "social_step q' = social_step q" by (metis social_step_rest)
qed

lemma subset_disjoint: "A \<subseteq> B \<Longrightarrow> B \<inter> C = {} \<Longrightarrow> A \<inter> C = {}"
  by blast

lemma social_block_moves:
  assumes "\<forall>t. enabled t" "dsp_postHooks d = []"
  shows "list_all (social_tx d) ps \<Longrightarrow> works q \<Longrightarrow> social_tables_ok q \<Longrightarrow> distinct (map p_TxHash ps) \<Longrightarrow>
    social_hashes q \<inter> p_TxHash ` set ps = {} \<Longrightarrow>
    (let q' = fst (fold (processOneTx (register_handlers enabled d)) ps (q, res)) in
      social_view q' = fold (social_step q) ps (social_view q) \<and> social_tables_ok q' \<and> social_rest q' = social_rest q)"
proof (induction ps arbitrary: q res)
  case (Cons p ps)
  obtain q1 res1 where q1: "processOneTx (register_handlers enabled d) p (q, res) = (q1, res1)"
    "social_moves q p (social_step q p) q1"
    using social_one_tx [OF assms, of p q res] Cons.prems by auto
  note fr = social_moves_frame [OF q1(2) Cons.prems(2)]
  have ok: "social_tables_ok q1" and sub: "social_hashes q1 \<subseteq> insert (p_TxHash p) (social_hashes q)"
    using q1(2) by (simp_all add: social_moves_def)
  have "p_TxHash p \<notin> p_TxHash ` set ps" "social_hashes q \<inter> p_TxHash ` set ps = {}"
    using Cons.prems(4,5) by auto
  then have "insert (p_TxHash p) (social_hashes q) \<inter> p_TxHash ` set ps = {}" by simp
  from subset_disjoint [OF sub this] have "social_hashes q1 \<inter> p_TxHash ` set ps = {}" .
  with ok show ?case
    using Cons.IH [OF _ fr(1), of res1] Cons.prems(1,4) q1(2) by (simp add: q1(1) fr(2) social_moves_def Let_def)
qed simp

text \<open>
  C5: a block of social transactions moves the four tables exactly as the abstract machine
  moves its sets, transaction by transaction, and touches nothing else.
\<close>

theorem social_block_refines:
  assumes "\<forall>t. enabled t" "dsp_postHooks d = []" "list_all (social_tx d) ps" "works q" "social_tables_ok q"
    "distinct (map p_TxHash ps)" "social_hashes q \<inter> p_TxHash ` set ps = {}"
  shows "social_view (fst (processBlock (register_handlers enabled d) ps q)) = fold (social_step q) ps (social_view q) \<and>
    social_tables_ok (fst (processBlock (register_handlers enabled d) ps q)) \<and>
    social_rest (fst (processBlock (register_handlers enabled d) ps q)) = social_rest q"
  using social_block_moves [OF assms(1,2) assms(3-7)] by (simp add: processBlock_def Let_def)

section \<open>A removal that removes nothing\<close>

text \<open>
  An unsave whose metadata names another type than its entity type is accepted, because the
  save of the entity type is active, and leaves that save active.
\<close>

theorem unsave_leaves_save:
  assumes "Unsave p q = Inr q'" "one_current (idx_saves q)" "unsave_type p q \<noteq> resolveSaveType p q"
  shows "saveExists q (p_UserID p) (p_EntityID p) (unsave_type p q) = Inr True \<and>
    is_active (idx_saves q') (p_UserID p) (p_EntityID p) (unsave_type p q)"
proof -
  from assms(1) have *: "saveExists q (p_UserID p) (p_EntityID p) (unsave_type p q) = Inr True" "insertSave p True q = Inr q'"
    by (auto simp: Unsave_def validateUnsave_def and_then_Inr require_def Let_def split: if_splits)
  then have "(p_UserID p, p_EntityID p, unsave_type p q) \<in> active_keys (idx_saves q)"
    by (auto simp: saveExists_def run_query_def is_active_iff split: option.splits)
  with save_table.written(3) [OF assms(2) *(2)] assms(3) * show ?thesis by (simp add: is_active_iff)
qed

end
