(* ===== verification/Indexer_Gaps.thy ===== *)
theory Indexer_Gaps
  imports Social_Refinement
begin

text \<open>
  Where the tables of the indexer cannot follow the consensus projection: an app that was deleted and a grant that
  was revoked and given again.
\<close>

section \<open>What a look-up reads\<close>

lemma user_reads:
  assumes "idx_users q' = idx_users q" "idx_fault q' = idx_fault q" "idx_plan q' = idx_plan q"
  shows "getUserWallet q' = getUserWallet q" "activeUserWalletExists q' = activeUserWalletExists q"
  unfolding getUserWallet_def activeUserWalletExists_def current_users_def limit_one_def run_query_def active_wallet_def assms
  by (rule refl)+

lemma grant_reads:
  assumes "idx_grants q' = idx_grants q" "idx_fault q' = idx_fault q" "idx_plan q' = idx_plan q"
  shows "getActiveGrant q' = getActiveGrant q"
  unfolding getActiveGrant_def current_grants_def limit_one_def run_query_def assms by (rule refl)

section \<open>Deleted apps\<close>

lemma deleteDeveloperApp_effect:
  assumes "deleteDeveloperApp p q = Inr q'"
  shows "\<exists>row. ia_is_delete row \<and> q' = q\<lparr>idx_developer_apps := map (\<lambda>r. if ia_address r = ToLower (MetadataString p ''address'') \<and>
    ia_is_current r then r\<lparr>ia_is_current := False\<rparr> else r) (idx_developer_apps q) @ [row]\<rparr>"
  using assms unfolding deleteDeveloperApp_def demote_app_def insert_app_def Let_def
  by (auto simp: and_then_Inr run_query_def split: option.splits if_splits)
    (rule exI, rule conjI [rotated], rule refl, simp)

lemma deleted_app_exists:
  assumes "deleteDeveloperApp p q = Inr q'"
  shows "developerAppExists q' = developerAppExists q"
proof -
  from deleteDeveloperApp_effect [OF assms] obtain row where row: "ia_is_delete row"
    "q' = q\<lparr>idx_developer_apps := map (\<lambda>r. if ia_address r = ToLower (MetadataString p ''address'') \<and> ia_is_current r
       then r\<lparr>ia_is_current := False\<rparr> else r) (idx_developer_apps q) @ [row]\<rparr>" by blast
  have "list_ex (\<lambda>r. ia_address r = a \<and> \<not> ia_is_delete r) (map (\<lambda>r. if c r then r\<lparr>ia_is_current := False\<rparr> else r) rs) =
      list_ex (\<lambda>r. ia_address r = a \<and> \<not> ia_is_delete r) rs" for a c and rs :: "idx_app list"
    by (induction rs) auto
  with row show ?thesis by (intro ext) (simp add: developerAppExists_def run_query_def split: option.split)
qed

text \<open>
  C38: deleting a developer app takes no authority from its key. Every signer is accepted
  or refused for every user as before, and the app still exists for the handlers.
\<close>

theorem app_deletion_keeps_authority:
  assumes "DeveloperAppDelete p q = Inr q'"
  shows "validateSignerForUser p2 q' u = validateSignerForUser p2 q u \<and> developerAppExists q' = developerAppExists q"
proof -
  from assms have del: "deleteDeveloperApp p q = Inr q'" by (auto simp: DeveloperAppDelete_def and_then_Inr)
  then obtain apps where q': "q' = q\<lparr>idx_developer_apps := apps\<rparr>" using deleteDeveloperApp_effect by blast
  have "idx_users q' = idx_users q" "idx_grants q' = idx_grants q" "idx_fault q' = idx_fault q" "idx_plan q' = idx_plan q"
    by (simp_all add: q')
  note user_reads [OF this(1,3,4)] grant_reads [OF this(2-4)]
  then show ?thesis by (simp only: validateSignerForUser_def deleted_app_exists [OF del])
qed

section \<open>Grants given again\<close>

text \<open>
  A grant given again after its revocation leaves the revoked row current beside the new
  one. The signer check reads one of the two, whichever the database returns first, so the grantee may be refused
  with a grant that the consensus state counts as active.
\<close>

theorem regrant_may_stay_revoked:
  assumes "GrantCreate p q = Inr q'" "current_grants q (grantee_of p) (p_UserID p) = [old]" "ig_is_revoked old" "works q"
    "ToLower (p_Signer p2) = grantee_of p" "\<not> EqualFold (getUserWallet q (p_UserID p)) (p_Signer p2)"
    "idx_plan q ''getActiveGrant'' (grantee_of p) (p_UserID p) mod 2 = 0"
  shows "activeGrantExists q' (grantee_of p) (p_UserID p) = Inr True \<and> (\<exists>e. validateSignerForUser p2 q' (p_UserID p) = Inl e)"
proof -
  from assms(1) have "insertGrant p q = Inr q'" by (auto simp: GrantCreate_def and_then_Inr)
  then obtain row where row: "q' = q\<lparr>idx_grants := idx_grants q @ [row]\<rparr>" "ig_grantee_address row = grantee_of p"
      "ig_user_id row = p_UserID p" "ig_is_current row" "\<not> ig_is_revoked row"
    unfolding insertGrant_def insert_grant_def by (auto simp: run_query_def split: option.splits if_splits)
  then have cur: "current_grants q' (grantee_of p) (p_UserID p) = [old, row]"
    using assms(2) by (simp add: current_grants_def)
  have wk: "works q'" using assms(4) row(1) by (simp add: works_def)
  have "getUserWallet q' = getUserWallet q" by (rule user_reads) (simp_all add: row(1))
  moreover have "getActiveGrant q' (grantee_of p) (p_UserID p) = Inr old"
    using wk cur assms(7) by (simp add: getActiveGrant_def limit_one_def row(1) numeral_2_eq_2)
  ultimately have "\<exists>e. validateSignerForUser p2 q' (p_UserID p) = Inl e"
    using assms(3,5,6) by (simp add: validateSignerForUser_def Let_def)
  then show ?thesis using wk cur row(5) by (simp add: activeGrantExists_def)
qed

end
