(* ===== verification/Indexer_Example.thy ===== *)
theory Indexer_Example
  imports Indexer_Gaps
begin

text \<open>
  The properties of the indexer on concrete tables: two users, the second with a grant of the first, one track and
  one playlist of the same number.
\<close>

definition ex_user :: "int \<Rightarrow> string \<Rightarrow> idx_user" where
  "ex_user u w = \<lparr>iu_user_id = u, iu_is_current = True, iu_wallet = Some w, iu_handle = None, iu_handle_lc = None,
     iu_text = (\<lambda>_. None), iu_profile_type = None, iu_playlist_library = None, iu_artist_pick_track_id = None,
     iu_allow_ai_attribution = False, iu_is_verified = False, iu_verified_with = (\<lambda>_. False), iu_is_deactivated = False,
     iu_is_available = True, iu_created_at = 1, iu_updated_at = 1, iu_txhash = ''t0'', iu_blockhash = ''b0'', iu_blocknumber = 1\<rparr>"

definition ex_grant_row :: "bool \<Rightarrow> idx_grant" where
  "ex_grant_row revoked = \<lparr>ig_grantee_address = ''0xb'', ig_user_id = 1, ig_is_revoked = revoked, ig_is_current = True,
     ig_is_approved = Some True, ig_created_at = 1, ig_updated_at = 1, ig_txhash = ''t0'', ig_blocknumber = 1\<rparr>"

definition ex_idx :: idx_db where
  "ex_idx = \<lparr>idx_users = [ex_user 1 ''0xa'', ex_user 2 ''0xb''], idx_developer_apps = [], idx_oauth_redirect_uris = [],
     idx_grants = [ex_grant_row False],
     idx_tracks = [\<lparr>it_track_id = 7, it_owner_id = 2, it_is_current = True, it_is_delete = False\<rparr>],
     idx_playlists = [7], idx_events = [], idx_follows = [], idx_subscriptions = [], idx_saves = [], idx_reposts = [],
     idx_fault = (\<lambda>_ _ _. None), idx_plan = (\<lambda>_ _ _. 0)\<rparr>"

definition ex_params :: "int \<Rightarrow> string \<Rightarrow> int \<Rightarrow> string \<Rightarrow> string \<Rightarrow> meta \<Rightarrow> string \<Rightarrow> Params" where
  "ex_params u t i a s m th = \<lparr>p_UserID = u, p_EntityID = i, p_EntityType = t, p_Action = a, p_Signer = s,
     p_Metadata = Some m, p_BlockNumber = 5, p_BlockTime = 100, p_BlockHash = ''b1'', p_TxHash = th\<rparr>"

definition ex_dispatcher :: Dispatcher where
  "ex_dispatcher = \<lparr>dsp_handlers = [], dsp_postHooks = []\<rparr>"

lemma ex_idx_works: "works ex_idx"
  by (simp add: works_def ex_idx_def)

lemma ex_mirrors: "mirrors_auth ex_idx (db_view ex_db)"
  by (auto simp: mirrors_auth_def users_mirror_def grants_mirror_def apps_mirror_def live_app_def live_rows_def
    current_users_def current_grants_def same_user_def same_grant_def ex_idx_def ex_user_def ex_grant_row_def ex_db_def
    empty_auth_db_def row_defs)

definition ex_revocation :: ManageEntityLegacy where
  "ex_revocation = \<lparr>me_UserId = 1, me_EntityType = ''Grant'', me_EntityId = 0, me_Action = ''Delete'', me_Metadata = ''m'',
     me_Signature = [], me_Signer = ''0xa'', me_Nonce = []\<rparr>"

definition ex_unmarshal :: "string \<Rightarrow> meta option" where
  "ex_unmarshal raw = Some [(''grantee_address'', JStr ''0xb'')]"


section \<open>The social graph\<close>

definition ex_block :: "Params list" where
  "ex_block = [ex_params 1 ''User'' 2 ''Follow'' ''0xa'' [] ''t1'', ex_params 1 ''User'' 2 ''Follow'' ''0xa'' [] ''t2'',
     ex_params 1 ''Track'' 7 ''Save'' ''0xb'' [] ''t3'', ex_params 2 ''User'' 1 ''Follow'' ''0xa'' [] ''t4'']"

lemma ex_params_sels [simp]:
  "p_UserID (ex_params u t i a s m th) = u" "p_EntityType (ex_params u t i a s m th) = t" "p_EntityID (ex_params u t i a s m th) = i"
  "p_Action (ex_params u t i a s m th) = a" "p_TxHash (ex_params u t i a s m th) = th" "p_Signer (ex_params u t i a s m th) = s"
  by (simp_all add: ex_params_def)

lemma ex_block_step:
  "fold (social_step ex_idx) ex_block (social_view ex_idx) =
    \<lparr>ss_follows = {(1, 2, [])}, ss_subscriptions = {(1, 2, ''User'')}, ss_saves = {(1, 7, ''track'')}, ss_reposts = {}\<rparr>"
proof -
  have signers: "ValidateSigner (ex_params 1 ''User'' 2 ''Follow'' ''0xa'' [] h) ex_idx = Inr ()"
    "ValidateSigner (ex_params 1 ''Track'' 7 ''Save'' ''0xb'' [] ''t3'') ex_idx = Inr ()"
    "ValidateSigner (ex_params 2 ''User'' 1 ''Follow'' ''0xa'' [] ''t4'') ex_idx \<noteq> Inr ()" for h
    by (unfold ex_params_def) code_simp+
  have targets: "userExists ex_idx 2 = Inr True"
    "resolveSaveType (ex_params 1 ''Track'' 7 ''Save'' ''0xb'' [] ''t3'') ex_idx = ''track''"
    "validateSaveTarget ex_idx 7 ''track'' = Inr ()" by code_simp+
  have view: "social_view ex_idx = \<lparr>ss_follows = {}, ss_subscriptions = {}, ss_saves = {}, ss_reposts = {}\<rparr>"
    by (simp add: social_view_def ex_idx_def active_keys_def)
  note step = social_step_def ex_params_sels signers targets Let_def
  have "social_step ex_idx (ex_params 1 ''User'' 2 ''Follow'' ''0xa'' [] ''t1'') (social_view ex_idx) =
      \<lparr>ss_follows = {(1, 2, [])}, ss_subscriptions = {(1, 2, ''User'')}, ss_saves = {}, ss_reposts = {}\<rparr>"
    by (simp add: step view)
  moreover have "social_step ex_idx (ex_params 1 ''User'' 2 ''Follow'' ''0xa'' [] ''t2'')
      \<lparr>ss_follows = {(1, 2, [])}, ss_subscriptions = {(1, 2, ''User'')}, ss_saves = {}, ss_reposts = {}\<rparr> =
      \<lparr>ss_follows = {(1, 2, [])}, ss_subscriptions = {(1, 2, ''User'')}, ss_saves = {}, ss_reposts = {}\<rparr>"
    by (simp add: step)
  moreover have "social_step ex_idx (ex_params 1 ''Track'' 7 ''Save'' ''0xb'' [] ''t3'')
      \<lparr>ss_follows = {(1, 2, [])}, ss_subscriptions = {(1, 2, ''User'')}, ss_saves = {}, ss_reposts = {}\<rparr> =
      \<lparr>ss_follows = {(1, 2, [])}, ss_subscriptions = {(1, 2, ''User'')}, ss_saves = {(1, 7, ''track'')}, ss_reposts = {}\<rparr>"
    by (simp add: step)
  moreover have "social_step ex_idx (ex_params 2 ''User'' 1 ''Follow'' ''0xa'' [] ''t4'') s = s" for s
    by (simp add: social_step_def signers Let_def)
  ultimately show ?thesis by (simp add: ex_block_def)
qed

theorem social_block_refines_witness:
  "social_view (fst (processBlock (register_handlers (\<lambda>_. True) ex_dispatcher) ex_block ex_idx)) =
    \<lparr>ss_follows = {(1, 2, [])}, ss_subscriptions = {(1, 2, ''User'')}, ss_saves = {(1, 7, ''track'')}, ss_reposts = {}\<rparr>"
proof -
  have *: "dsp_postHooks ex_dispatcher = []" "list_all (social_tx ex_dispatcher) ex_block" "social_tables_ok ex_idx"
    "distinct (map p_TxHash ex_block)" "social_hashes ex_idx \<inter> p_TxHash ` set ex_block = {}"
    by (simp_all add: ex_dispatcher_def social_tx_def social_handlers_def ex_block_def social_tables_ok_def one_current_def
        social_hashes_def hashes_def ex_idx_def)
  from social_block_refines [OF _ *(1,2) ex_idx_works *(3-5), of "\<lambda>_. True"] show ?thesis
    unfolding ex_block_step by blast
qed

definition ex_unsave :: Params where
  "ex_unsave = ex_params 1 ''Track'' 7 ''Unsave'' ''0xa'' [(''type'', JStr ''playlist'')] ''t2''"

definition ex_saved :: idx_db where
  "ex_saved = ex_idx\<lparr>idx_saves := [social_row (ex_params 1 ''Track'' 7 ''Save'' ''0xa'' [] ''t1'') ''track'' False False]\<rparr>"

theorem unsave_leaves_save_witness:
  "\<exists>q'. Unsave ex_unsave ex_saved = Inr q' \<and> is_active (idx_saves q') 1 7 ''track''"
proof -
  have types: "unsave_type ex_unsave ex_saved = ''track''" "resolveSaveType ex_unsave ex_saved = ''playlist''" by code_simp+
  have "ValidateSigner ex_unsave ex_saved = Inr ()" by code_simp
  moreover have wk: "works ex_saved" using ex_idx_works by (simp add: works_def ex_saved_def)
  moreover have "is_active (idx_saves ex_saved) 1 7 ''track''" by code_simp
  then have "(1, 7, ''track'') \<in> active_keys (idx_saves ex_saved)" by (simp only: is_active_iff)
  moreover have oc: "one_current (idx_saves ex_saved)" "p_TxHash ex_unsave \<notin> hashes (idx_saves ex_saved)"
    by (simp_all add: ex_saved_def one_current_def hashes_def ex_unsave_def)
  ultimately have "guarded (Unsave ex_unsave ex_saved) True (insertSave ex_unsave True ex_saved)"
    using save_guards(2) [OF wk, of ex_unsave] types by (simp add: ex_unsave_def)
  then obtain q' where q': "Unsave ex_unsave ex_saved = Inr q'"
    using save_table.recorded [OF wk oc(2), of True] by (auto simp: guarded_def)
  from unsave_leaves_save [OF this oc(1)] types q' show ?thesis by (auto simp: ex_unsave_def)
qed

section \<open>Deleted apps and grants given again\<close>

definition ex_with_app :: idx_db where
  "ex_with_app = ex_idx\<lparr>idx_developer_apps := [\<lparr>ia_address = ''0xc'', ia_user_id = 1, ia_name = ''app'', ia_description = None,
     ia_image_url = None, ia_is_personal_access = False, ia_is_current = True, ia_is_delete = False, ia_created_at = 1,
     ia_updated_at = 1, ia_txhash = ''t0'', ia_blocknumber = 1\<rparr>],
     idx_grants := [(ex_grant_row False)\<lparr>ig_grantee_address := ''0xc'', ig_user_id := 2\<rparr>]\<rparr>"

definition ex_app_delete :: Params where
  "ex_app_delete = ex_params 1 ''DeveloperApp'' 0 ''Delete'' ''0xa'' [(''address'', JStr ''0xc'')] ''t1''"

theorem app_deletion_keeps_authority_witness:
  "\<exists>q'. DeveloperAppDelete ex_app_delete ex_with_app = Inr q' \<and>
    validateSignerForUser (ex_params 2 ''Track'' 7 ''Update'' ''0xc'' [] ''t2'') q' 2 = Inr ()"
proof -
  obtain q' where q': "DeveloperAppDelete ex_app_delete ex_with_app = Inr q'"
  proof (cases "DeveloperAppDelete ex_app_delete ex_with_app")
    case (Inl e)
    moreover have "\<not> isl (DeveloperAppDelete ex_app_delete ex_with_app)" by code_simp
    ultimately show ?thesis by simp
  qed
  have "validateSignerForUser (ex_params 2 ''Track'' 7 ''Update'' ''0xc'' [] ''t2'') ex_with_app 2 = Inr ()" by code_simp
  with app_deletion_keeps_authority [OF q'] q' show ?thesis by auto
qed

definition ex_revoked :: idx_db where
  "ex_revoked = ex_idx\<lparr>idx_grants := [ex_grant_row True]\<rparr>"

definition ex_regrant :: Params where
  "ex_regrant = ex_params 1 ''Grant'' 0 ''Create'' ''0xa'' [(''grantee_address'', JStr ''0xb'')] ''t1''"

theorem regrant_may_stay_revoked_witness:
  "\<exists>q' e. GrantCreate ex_regrant ex_revoked = Inr q' \<and>
    validateSignerForUser (ex_params 1 ''Track'' 7 ''Update'' ''0xb'' [] ''t2'') q' 1 = Inl e"
proof -
  obtain q' where q': "GrantCreate ex_regrant ex_revoked = Inr q'"
  proof (cases "GrantCreate ex_regrant ex_revoked")
    case (Inl e)
    moreover have "\<not> isl (GrantCreate ex_regrant ex_revoked)" by code_simp
    ultimately show ?thesis by simp
  qed
  have g: "grantee_of ex_regrant = ''0xb''" "p_UserID ex_regrant = 1" by code_simp+
  have *: "current_grants ex_revoked (grantee_of ex_regrant) (p_UserID ex_regrant) = [ex_grant_row True]"
    "ig_is_revoked (ex_grant_row True)" "works ex_revoked"
    "idx_plan ex_revoked ''getActiveGrant'' (grantee_of ex_regrant) (p_UserID ex_regrant) mod 2 = 0"
    using ex_idx_works unfolding g by (simp_all add: ex_revoked_def ex_idx_def current_grants_def ex_grant_row_def works_def)
  have "ToLower (p_Signer (ex_params 1 ''Track'' 7 ''Update'' ''0xb'' [] ''t2'')) = grantee_of ex_regrant"
    "\<not> EqualFold (getUserWallet ex_revoked (p_UserID ex_regrant)) (p_Signer (ex_params 1 ''Track'' 7 ''Update'' ''0xb'' [] ''t2''))"
    by code_simp+
  from regrant_may_stay_revoked [OF q' *(1-3) this *(4)] q' show ?thesis unfolding g by blast
qed

end
