(* ===== verification/Spec2Isabelle.thy ===== *)
theory Spec2Isabelle
  imports Auth_Enforcement Storage_Laws Sender_Laws Track_Laws Sla_Laws Release_Laws Eip712 Run_Example Bridge_Example Indexer_Example
begin

text \<open>
  A verification development of the Open Audio node (\<^verbatim>\<open>go-openaudio\<close>): the rules by which its chain
  accepts and executes transactions, the mirror of the Ethereum registry its validator set follows, what a node signs
  on request, who may stream a gated track, and the indexer that builds the public tables from the chain.

  \<^bold>\<open>Parts and how they interact.\<close>
  A client or a peer submits a signed transaction; the node checks it and keeps it in the mempool. A proposer collects
  transactions from the mempool, adds a rollup of the validators' work and the deregistration of misbehaving
  validators, and every node checks the proposal against a copy-on-write overlay of its tables. A decided block is
  executed on the durable tables and committed. Transactions about users, grants, apps and content go through a
  projection of who may act for whom; others register validators, prove storage, manage rewards or publish releases.
  The indexer reads the same blocks and keeps its own tables; the projection is documented to mirror them.

  \<^bold>\<open>Theories and sources\<close> (paths under \<^verbatim>\<open>src/pkg\<close>).
  \<^item> \<open>Prelude\<close>, \<open>Encodings\<close>, \<open>Signing\<close>: the part of Go's standard library the code uses, hexadecimal and base64,
    \<^verbatim>\<open>common/crypto.go\<close>, \<^verbatim>\<open>common/proto.go\<close> and \<^verbatim>\<open>common/address.go\<close>. Signing and recovering give back the signer.
  \<^item> \<open>Upgrades\<close>: the rules in force at a height, \<^verbatim>\<open>core/config/upgrades.go\<close>.
  \<^item> \<open>Auth_Queries\<close>, \<open>Auth_Store\<close>, \<open>Auth_Projection\<close>, \<open>Auth_Enforcement\<close>: the tables \<^verbatim>\<open>core_auth_*\<close>, the
    durable store and the overlay, the projection (\<^verbatim>\<open>core/server/auth_state.go\<close>, \<^verbatim>\<open>content_auth_state.go\<close>) and
    its enforcement by height. \<open>Auth_Contract\<close> is the contract of a store as locales over an abstract view;
    \<open>Auth_Overlay\<close> shows that the overlay meets it, \<open>Auth_Simulation\<close> that the projection of a store is the projection
    of its view, \<open>Auth_Safety\<close> who can change the view, \<open>Auth_Reliability\<close> that verdicts depend on nothing else.
  \<^item> \<open>Validator_Set\<close>, \<open>Attestations\<close>, \<open>Validator_Laws\<close>, \<open>Rendezvous\<close>: validators, the attestations that register and
    deregister them with their quorum (\<^verbatim>\<open>attestation.go\<close>, \<^verbatim>\<open>registration.go\<close>) and the choice of attestors.
  \<^item> \<open>Eth_Registry\<close>, \<open>Eth_Laws\<close>, \<open>Registry_Bridge\<close>, \<open>Registry_Laws\<close>, \<open>Bridge_Example\<close>: the mirror of the contracts
    (\<^verbatim>\<open>eth/eth.go\<close>) and the endpoints and jobs by which the validator set follows it (\<^verbatim>\<open>registry_bridge.go\<close>).
  \<^item> \<open>Storage_Proofs\<close>, \<open>Storage_Laws\<close>: proof of storage (\<^verbatim>\<open>pos.go\<close>). \<open>Sla_Rollups\<close>, \<open>Sla_Laws\<close>: rollups of proposed
    blocks (\<^verbatim>\<open>auditor.go\<close>), shown to count exactly the blocks of consecutive intervals.
  \<^item> \<open>Reward_Claims\<close>, \<open>Reward_State\<close>, \<open>Reward_Laws\<close>, \<open>Reward_Service\<close>, \<open>Sender_Laws\<close>: rewards and pools on chain, their
    projection by the genesis writer, which agrees up to the index of a reward, and what a node signs for them
    (\<^verbatim>\<open>rewards\<close>, \<^verbatim>\<open>core/server/rewards.go\<close>, \<^verbatim>\<open>reward_pools.go\<close>).
  \<^item> \<open>Stream_Signatures\<close>, \<open>Track_Access\<close>, \<open>Track_Laws\<close>: from the transactions that write recordings and access
    authorities to the decision on a stream request (\<^verbatim>\<open>manage_entity.go\<close>, \<^verbatim>\<open>mediorum/server/serve_blob.go\<close>).
  \<^item> \<open>Uploads\<close>, \<open>Releases\<close>, \<open>Release_Laws\<close>, \<open>Eip712\<close>: plays, uploads and storage operations, transactions with DDEX
    messages, and the typed-data signatures of ManageEntity transactions.
  \<^item> \<open>Transactions\<close>, \<open>Mempool\<close>, \<open>Proposals\<close>, \<open>Proposal_Laws\<close>, \<open>Blocks\<close>, \<open>Block_Laws\<close>, \<open>Submission\<close>,
    \<open>Submission_Laws\<close>, \<open>Node_Runs\<close>: the node (\<^verbatim>\<open>mempool.go\<close>, \<^verbatim>\<open>abci.go\<close>, \<^verbatim>\<open>connect.go\<close>). The mempool refines a
    bounded queue, an honest proposal is accepted, and in any interleaving of submissions and blocks a committed
    transaction is not proposed again until it is admitted anew. \<open>Node_Example\<close> and \<open>Run_Example\<close> run a concrete node.
  \<^item> \<open>Indexer\<close>, \<open>Indexer_Social\<close>: the entity manager of the indexer (\<^verbatim>\<open>etl/processors/entity_manager\<close>,
    \<^verbatim>\<open>etl/indexer.go\<close>): dispatcher, signer check, users, developer apps, grants and the social graph.
    \<open>Indexer_Laws\<close> compares it with the consensus projection, transaction by transaction. \<open>Social_Laws\<close> is the contract
    of a social table as a locale, interpreted for each of the five writes; \<open>Social_Refinement\<close> shows that a block moves
    the tables as an abstract machine moves four sets. \<open>Indexer_Gaps\<close> shows where the indexer cannot follow the
    projection, and \<open>Indexer_Example\<close> applies all of it to concrete tables.

  \<^bold>\<open>State and operations.\<close>
  A table is a list of rows or an association list over its primary key, a component's state a record of tables, a
  Go interface a record of its methods. Every operation is a function with the name it has in the code that takes the
  state and returns an error or the new state; a loop is a recursive function over what it iterates. A statement of
  the database may fail: a function that is part of the state says which, and
  a theorem that needs the database to answer has that as a hypothesis. Where a query
  without an order takes one of several rows, the choice is a parameter as well. Integers that the code compares or
  encodes at a width keep it.

  \<^bold>\<open>Bounds.\<close>
  All functions terminate but one: the loop of \<^verbatim>\<open>GetAll\<close> in the mempool does not advance its cursor, so it is a
  partial function without a result when it would not end, and \<open>reading_all_terminates_iff\<close> says when that is. No fuel
  is used.

  \<^bold>\<open>What is a parameter.\<close>
  Hash functions, signature recovery and signing, the parser of JSON, the Ethereum node and its contracts, the
  consensus engine, replies of peers, clocks. The theorems that need more than their types state it: recovering a
  signature gives its signer, the encodings of distinct messages are distinct, or the signatures that a given
  transaction carries for honest keys stem from the replies logged for them.

  \<^bold>\<open>Not modelled.\<close>
  The storage service apart from stream access and its chain operations, transcoding, the replicated log between
  storage nodes, state sync and snapshots, the genesis writer apart from its projection of rewards, the indexer's
  handlers of tracks, playlists, comments, events, wallets and notifications, the read endpoints, timers and retries,
  configuration, logging and metrics, web pages, client libraries, test tools and generated code.
\<close>

end
